(* ===== verification/Prelude.thy ===== *)
theory Prelude
  imports Main
begin

text \<open>
  Shared vocabulary of the lake-go development.

  \<^item> \<open>'a go\<close>: the outcome of a Go call that may return an error or panic.  The
    source returns \<open>(value, error)\<close> pairs; every \<open>return ..., err\<close> is an
    \<open>Err\<close>, every index out of range, nil dereference or explicit \<open>panic\<close> is a
    \<open>Panic\<close>, so that no failure of the program hides in an unspecified HOL value.
  \<^item> \<open>substr\<close>: Go's slice expression \<open>s[a:b]\<close> on strings.
  \<^item> the collection \<open>go_simps\<close> gathers the evaluation rules that the component
    proofs share.
\<close>

named_theorems go_simps \<open>evaluation rules shared by the component proofs\<close>

subsection \<open>Outcomes of Go calls\<close>

datatype ('e, 'a) outcome = Ok 'a | Err 'e | Panic string

definition go_bind :: "('e, 'a) outcome \<Rightarrow> ('a \<Rightarrow> ('e, 'b) outcome) \<Rightarrow> ('e, 'b) outcome" where
  "go_bind m f = (case m of Ok x \<Rightarrow> f x | Err e \<Rightarrow> Err e | Panic p \<Rightarrow> Panic p)"

definition map_err :: "('e \<Rightarrow> 'f) \<Rightarrow> ('e, 'a) outcome \<Rightarrow> ('f, 'a) outcome" where
  "map_err g m = (case m of Ok x \<Rightarrow> Ok x | Err e \<Rightarrow> Err (g e) | Panic p \<Rightarrow> Panic p)"

definition is_ok :: "('e, 'a) outcome \<Rightarrow> bool" where
  "is_ok m \<longleftrightarrow> (case m of Ok _ \<Rightarrow> True | _ \<Rightarrow> False)"

definition is_err :: "('e, 'a) outcome \<Rightarrow> bool" where
  "is_err m \<longleftrightarrow> (case m of Err _ \<Rightarrow> True | _ \<Rightarrow> False)"

definition is_panic :: "('e, 'a) outcome \<Rightarrow> bool" where
  "is_panic m \<longleftrightarrow> (case m of Panic _ \<Rightarrow> True | _ \<Rightarrow> False)"

lemma go_bind_simps [simp, go_simps]:
  "go_bind (Ok x) f = f x" "go_bind (Err e) f = Err e" "go_bind (Panic p) f = Panic p"
  by (simp_all add: go_bind_def)

lemma map_err_simps [simp, go_simps]:
  "map_err g (Ok x) = Ok x" "map_err g (Err e) = Err (g e)" "map_err g (Panic p) = Panic p"
  by (simp_all add: map_err_def)

lemma outcome_tests [simp, go_simps]:
  "is_ok (Ok x)" "\<not> is_ok (Err e)" "\<not> is_ok (Panic p)"
  "\<not> is_err (Ok x)" "is_err (Err e)" "\<not> is_err (Panic p)"
  "\<not> is_panic (Ok x)" "\<not> is_panic (Err e)" "is_panic (Panic p)"
  by (simp_all add: is_ok_def is_err_def is_panic_def)

lemma go_bind_cong [fundef_cong]:
  "m = m' \<Longrightarrow> (\<And>x. m' = Ok x \<Longrightarrow> f x = f' x) \<Longrightarrow> go_bind m f = go_bind m' f'"
  by (cases m') auto

lemma go_bind_eq_Ok:
  "go_bind m f = Ok y \<longleftrightarrow> (\<exists>x. m = Ok x \<and> f x = Ok y)"
  by (cases m) auto

lemma go_bind_eq_OkE:
  assumes "go_bind m f = Ok y"
  obtains x where "m = Ok x" "f x = Ok y"
  using assms by (cases m) auto

lemma map_err_eq_Ok [simp]: "map_err g m = Ok y \<longleftrightarrow> m = Ok y"
  by (cases m) auto

lemma is_ok_iff: "is_ok m \<longleftrightarrow> (\<exists>x. m = Ok x)"
  by (cases m) auto

lemma is_panic_bind [simp]:
  "is_panic (go_bind m f) \<longleftrightarrow> is_panic m \<or> (\<exists>x. m = Ok x \<and> is_panic (f x))"
  by (cases m) auto

subsection \<open>Mapping a fallible function over a list\<close>

fun go_mapM :: "('a \<Rightarrow> ('e, 'b) outcome) \<Rightarrow> 'a list \<Rightarrow> ('e, 'b list) outcome" where
  "go_mapM f [] = Ok []"
| "go_mapM f (x # xs) = go_bind (f x) (\<lambda>y. go_bind (go_mapM f xs) (\<lambda>ys. Ok (y # ys)))"

lemma go_mapM_cong [fundef_cong]:
  "xs = ys \<Longrightarrow> (\<And>x. x \<in> set ys \<Longrightarrow> f x = g x) \<Longrightarrow> go_mapM f xs = go_mapM g ys"
  by (induction ys arbitrary: xs) (auto cong: go_bind_cong)

lemma go_mapM_Ok_length: "go_mapM f xs = Ok ys \<Longrightarrow> length ys = length xs"
  by (induction xs arbitrary: ys) (auto simp: go_bind_eq_Ok)

lemma go_mapM_Ok_nth:
  "go_mapM f xs = Ok ys \<Longrightarrow> i < length xs \<Longrightarrow> f (xs ! i) = Ok (ys ! i)"
  by (induction xs arbitrary: ys i) (auto simp: go_bind_eq_Ok nth_Cons split: nat.splits)

lemma go_mapM_all_Ok:
  "(\<And>x. x \<in> set xs \<Longrightarrow> f x = Ok (g x)) \<Longrightarrow> go_mapM f xs = Ok (map g xs)"
  by (induction xs) auto

lemma go_mapM_no_panic:
  "(\<And>x. x \<in> set xs \<Longrightarrow> \<not> is_panic (f x)) \<Longrightarrow> \<not> is_panic (go_mapM f xs)"
  by (induction xs) auto

subsection \<open>Slices of byte strings\<close>

definition substr :: "'a list \<Rightarrow> nat \<Rightarrow> nat \<Rightarrow> 'a list" where
  "substr s a b = take (b - a) (drop a s)"

lemma length_substr: "length (substr s a b) \<le> b - a"
  by (simp add: substr_def)

lemma substr_empty [simp]: "substr s a a = []"
  by (simp add: substr_def)

lemma substr_snoc:
  "a \<le> i \<Longrightarrow> i < length s \<Longrightarrow> substr s a (Suc i) = substr s a i @ [s ! i]"
  by (simp add: substr_def Suc_diff_le take_Suc_conv_app_nth)

lemma substr_to_end: "a \<le> length s \<Longrightarrow> substr s a (length s) = drop a s"
  by (simp add: substr_def)

subsection \<open>Joining strings\<close>

fun join :: "'a list \<Rightarrow> 'a list list \<Rightarrow> 'a list" where
  "join sep [] = []"
| "join sep [x] = x"
| "join sep (x # y # zs) = x @ sep @ join sep (y # zs)"

lemma join_Cons: "xs \<noteq> [] \<Longrightarrow> join sep (x # xs) = x @ sep @ join sep xs"
  by (cases xs) auto

end
