(* ===== verification/Go_Strings.thy ===== *)
theory Go_Strings
  imports Prelude
begin

text \<open>
  The parts of Go's \<open>strings\<close> and \<open>strconv\<close> packages that the driver uses.

  A Go string is a sequence of bytes, so it is a \<open>string\<close> here (a \<open>char\<close> is one byte).
  Case mapping and white space are Unicode aware in Go; \<open>to_lower\<close>, \<open>to_upper\<close>,
  \<open>equal_fold\<close> and \<open>trim_space\<close> treat every code point whose UTF-8 form can
  influence a comparison with ASCII text: the Kelvin sign, the long s and the dotted and
  dotless i.  Other non-ASCII bytes are compared as they are, so that a comparison of two
  host names is exact for ASCII hosts and stricter than Go's for others.
\<close>

subsection \<open>Byte classes\<close>

definition is_digit :: "char \<Rightarrow> bool" where
  "is_digit c \<longleftrightarrow> 48 \<le> (of_char c :: nat) \<and> (of_char c :: nat) \<le> 57"

definition is_upper :: "char \<Rightarrow> bool" where
  "is_upper c \<longleftrightarrow> 65 \<le> (of_char c :: nat) \<and> (of_char c :: nat) \<le> 90"

definition is_lower :: "char \<Rightarrow> bool" where
  "is_lower c \<longleftrightarrow> 97 \<le> (of_char c :: nat) \<and> (of_char c :: nat) \<le> 122"

definition is_alpha :: "char \<Rightarrow> bool" where
  "is_alpha c \<longleftrightarrow> is_lower c \<or> is_upper c"

definition lower_byte :: "char \<Rightarrow> char" where
  "lower_byte c = (if is_upper c then char_of ((of_char c :: nat) + 32) else c)"

definition upper_byte :: "char \<Rightarrow> char" where
  "upper_byte c = (if is_lower c then char_of ((of_char c :: nat) - 32) else c)"

subsection \<open>Searching and cutting\<close>

fun has_prefix :: "string \<Rightarrow> string \<Rightarrow> bool" where
  "has_prefix s [] = True"
| "has_prefix [] (p # ps) = False"
| "has_prefix (c # cs) (p # ps) = (c = p \<and> has_prefix cs ps)"

text \<open>\<open>strings.Index\<close>: \<open>None\<close> is Go's \<open>-1\<close>.\<close>

fun str_index :: "string \<Rightarrow> string \<Rightarrow> nat option" where
  "str_index [] sub = (if sub = [] then Some 0 else None)"
| "str_index (c # cs) sub =
     (if has_prefix (c # cs) sub then Some 0 else map_option Suc (str_index cs sub))"

definition str_contains :: "string \<Rightarrow> string \<Rightarrow> bool" where
  "str_contains s sub \<longleftrightarrow> str_index s sub \<noteq> None"

text \<open>\<open>strings.IndexAny\<close> and \<open>strings.IndexByte\<close> over ASCII sets.\<close>

fun index_any :: "string \<Rightarrow> char list \<Rightarrow> nat option" where
  "index_any [] cs = None"
| "index_any (c # s) cs = (if c \<in> set cs then Some 0 else map_option Suc (index_any s cs))"

text \<open>\<open>strings.LastIndex\<close> of a one-byte string.\<close>

fun last_index :: "string \<Rightarrow> char \<Rightarrow> nat option" where
  "last_index [] c = None"
| "last_index (x # s) c =
     (case last_index s c of
        Some i \<Rightarrow> Some (Suc i)
      | None \<Rightarrow> (if x = c then Some 0 else None))"

definition trim_suffix :: "string \<Rightarrow> string \<Rightarrow> string" where
  "trim_suffix s suf =
     (if has_prefix (rev s) (rev suf) then take (length s - length suf) s else s)"

text \<open>\<open>strings.Split\<close> with a one-byte separator.\<close>

fun split_on :: "char \<Rightarrow> string \<Rightarrow> string list" where
  "split_on c [] = [[]]"
| "split_on c (x # s) =
     (if x = c then [] # split_on c s
      else (case split_on c s of [] \<Rightarrow> [[x]] | w # ws \<Rightarrow> (x # w) # ws))"

lemma has_prefix_iff: "has_prefix s p \<longleftrightarrow> (\<exists>r. s = p @ r)"
  by (induction s p rule: has_prefix.induct) auto

lemma has_prefix_append [simp]: "has_prefix (p @ r) p"
  by (auto simp: has_prefix_iff)

lemma has_prefix_length: "has_prefix s p \<Longrightarrow> length p \<le> length s"
  by (auto simp: has_prefix_iff)

lemma str_index_bound: "str_index s sub = Some i \<Longrightarrow> i + length sub \<le> length s"
  by (induction s arbitrary: i) (auto split: if_splits dest: has_prefix_length)

lemma str_index_prefix: "str_index s sub = Some i \<Longrightarrow> has_prefix (drop i s) sub"
  by (induction s arbitrary: i) (auto split: if_splits)

lemma index_any_bound: "index_any s cs = Some i \<Longrightarrow> i < length s"
  by (induction s arbitrary: i) (auto split: if_splits)

lemma index_any_before:
  "index_any s cs = Some i \<Longrightarrow> j < i \<Longrightarrow> s ! j \<notin> set cs"
  by (induction s arbitrary: i j) (auto simp: nth_Cons split: if_splits nat.splits)

lemma index_any_None: "index_any s cs = None \<longleftrightarrow> set s \<inter> set cs = {}"
  by (induction s) auto

lemma last_index_bound: "last_index s c = Some i \<Longrightarrow> i < length s \<and> s ! i = c"
  by (induction s arbitrary: i) (auto split: option.splits if_splits)

lemma last_index_after: "last_index s c = Some i \<Longrightarrow> c \<notin> set (drop (Suc i) s)"
proof (induction s arbitrary: i)
  case Nil
  then show ?case by simp
next
  case (Cons x s)
  have none: "last_index t c = None \<longleftrightarrow> c \<notin> set t" for t
    by (induction t) (auto split: option.splits)
  show ?case
    using Cons by (auto split: option.splits if_splits simp: none)
qed

lemma last_index_None: "last_index s c = None \<longleftrightarrow> c \<notin> set s"
  by (induction s) (auto split: option.splits)

subsection \<open>Case mapping\<close>

definition kelvin :: string where
  "kelvin = [CHR 0xE2, CHR 0x84, CHR 0xAA]"

definition dotted_I :: string where
  "dotted_I = [CHR 0xC4, CHR 0xB0]"

definition dotless_i :: string where
  "dotless_i = [CHR 0xC4, CHR 0xB1]"

definition long_s :: string where
  "long_s = [CHR 0xC5, CHR 0xBF]"

function to_lower :: "string \<Rightarrow> string" where
  "to_lower s =
     (case s of [] \<Rightarrow> []
      | c # cs \<Rightarrow>
          if has_prefix s kelvin then CHR ''k'' # to_lower (drop 3 s)
          else if has_prefix s dotted_I then CHR ''i'' # to_lower (drop 2 s)
          else lower_byte c # to_lower cs)"
  by pat_completeness auto
termination
  by (relation "measure length") auto

function to_upper :: "string \<Rightarrow> string" where
  "to_upper s =
     (case s of [] \<Rightarrow> []
      | c # cs \<Rightarrow>
          if has_prefix s long_s then CHR ''S'' # to_upper (drop 2 s)
          else if has_prefix s dotless_i then CHR ''I'' # to_upper (drop 2 s)
          else upper_byte c # to_upper cs)"
  by pat_completeness auto
termination
  by (relation "measure length") auto

text \<open>Simple folding, as \<open>strings.EqualFold\<close> uses it.\<close>

function fold_case :: "string \<Rightarrow> string" where
  "fold_case s =
     (case s of [] \<Rightarrow> []
      | c # cs \<Rightarrow>
          if has_prefix s kelvin then CHR ''k'' # fold_case (drop 3 s)
          else if has_prefix s long_s then CHR ''s'' # fold_case (drop 2 s)
          else lower_byte c # fold_case cs)"
  by pat_completeness auto
termination
  by (relation "measure length") auto

definition equal_fold :: "string \<Rightarrow> string \<Rightarrow> bool" where
  "equal_fold s t \<longleftrightarrow> fold_case s = fold_case t"

declare to_lower.simps [simp del] to_upper.simps [simp del] fold_case.simps [simp del]

lemma equal_fold_refl [simp]: "equal_fold s s"
  by (simp add: equal_fold_def)

lemma equal_fold_sym: "equal_fold s t \<Longrightarrow> equal_fold t s"
  by (simp add: equal_fold_def)

lemma equal_fold_trans: "equal_fold s t \<Longrightarrow> equal_fold t u \<Longrightarrow> equal_fold s u"
  by (simp add: equal_fold_def)

subsection \<open>White space\<close>

definition ascii_space :: "char \<Rightarrow> bool" where
  "ascii_space c \<longleftrightarrow> c \<in> {CHR 0x09, CHR 0x0A, CHR 0x0B, CHR 0x0C, CHR 0x0D, CHR '' ''}"

text \<open>The UTF-8 encodings of the non-ASCII code points with \<open>unicode.IsSpace\<close>.\<close>

definition wide_spaces :: "string list" where
  "wide_spaces =
     [[CHR 0xC2, CHR 0x85], [CHR 0xC2, CHR 0xA0], [CHR 0xE1, CHR 0x9A, CHR 0x80],
      [CHR 0xE2, CHR 0x80, CHR 0x80], [CHR 0xE2, CHR 0x80, CHR 0x81], [CHR 0xE2, CHR 0x80, CHR 0x82],
      [CHR 0xE2, CHR 0x80, CHR 0x83], [CHR 0xE2, CHR 0x80, CHR 0x84], [CHR 0xE2, CHR 0x80, CHR 0x85],
      [CHR 0xE2, CHR 0x80, CHR 0x86], [CHR 0xE2, CHR 0x80, CHR 0x87], [CHR 0xE2, CHR 0x80, CHR 0x88],
      [CHR 0xE2, CHR 0x80, CHR 0x89], [CHR 0xE2, CHR 0x80, CHR 0x8A], [CHR 0xE2, CHR 0x80, CHR 0xA8],
      [CHR 0xE2, CHR 0x80, CHR 0xA9], [CHR 0xE2, CHR 0x80, CHR 0xAF], [CHR 0xE2, CHR 0x81, CHR 0x9F],
      [CHR 0xE3, CHR 0x80, CHR 0x80]]"

definition space_len :: "string list \<Rightarrow> string \<Rightarrow> nat" where
  "space_len ws s =
     (case s of [] \<Rightarrow> 0
      | c # cs \<Rightarrow>
          if ascii_space c then 1
          else (case find (has_prefix s) ws of None \<Rightarrow> 0 | Some w \<Rightarrow> length w))"

function trim_left_with :: "string list \<Rightarrow> string \<Rightarrow> string" where
  "trim_left_with ws s =
     (let n = space_len ws s in if n = 0 \<or> s = [] then s else trim_left_with ws (drop n s))"
  by pat_completeness auto
termination
  by (relation "measure (\<lambda>(ws, s). length s)") auto

declare trim_left_with.simps [simp del]

definition trim_space :: "string \<Rightarrow> string" where
  "trim_space s =
     rev (trim_left_with (map rev wide_spaces) (rev (trim_left_with wide_spaces s)))"

subsection \<open>Printing and parsing integers\<close>

definition digit_char :: "nat \<Rightarrow> char" where
  "digit_char d = char_of (48 + d)"

definition digit_val :: "char \<Rightarrow> nat" where
  "digit_val c = of_char c - 48"

text \<open>\<open>strconv.FormatUint(n, 10)\<close> and \<open>strconv.FormatInt(i, 10)\<close>.\<close>

fun format_uint :: "nat \<Rightarrow> string" where
  "format_uint n = (if n < 10 then [digit_char n] else format_uint (n div 10) @ [digit_char (n mod 10)])"

declare format_uint.simps [simp del]

definition format_int :: "int \<Rightarrow> string" where
  "format_int i = (if i < 0 then CHR ''-'' # format_uint (nat (- i)) else format_uint (nat i))"

definition digits_val :: "string \<Rightarrow> nat" where
  "digits_val s = foldl (\<lambda>n c. n * 10 + digit_val c) 0 s"

datatype num_error = ErrSyntax | ErrRange

text \<open>\<open>strconv.ParseInt(s, 10, 64)\<close>; \<open>strconv.Atoi\<close> agrees with it on 64-bit platforms.  Digits
  that overflow 64 bits are a range error whatever follows them.\<close>

definition int64_min :: int where "int64_min = - 9223372036854775808"
definition int64_max :: int where "int64_max = 9223372036854775807"

definition parse_int64 :: "string \<Rightarrow> (num_error, int) outcome" where
  "parse_int64 s =
     (let neg = has_prefix s ''-'';
          ds = (if has_prefix s ''-'' \<or> has_prefix s ''+'' then tl s else s);
          pre = takeWhile is_digit ds
      in if ds = [] \<or> (pre \<noteq> ds \<and> digits_val pre < 2 ^ 64) then Err ErrSyntax
         else let v = (if neg then - int (digits_val pre) else int (digits_val pre))
              in if v < int64_min \<or> int64_max < v then Err ErrRange else Ok v)"

text \<open>\<open>strconv.ParseBool\<close>.\<close>

definition parse_bool :: "string \<Rightarrow> (num_error, bool) outcome" where
  "parse_bool s =
     (if s \<in> {''1'', ''t'', ''T'', ''true'', ''TRUE'', ''True''} then Ok True
      else if s \<in> {''0'', ''f'', ''F'', ''false'', ''FALSE'', ''False''} then Ok False
      else Err ErrSyntax)"

lemma of_char_digit_char: "d < 10 \<Longrightarrow> of_char (digit_char d) = (48 + d :: nat)"
  by (simp add: digit_char_def of_char_of)

lemma is_digit_digit_char [simp]: "d < 10 \<Longrightarrow> is_digit (digit_char d)"
  by (simp add: is_digit_def of_char_digit_char)

lemma digit_val_digit_char [simp]: "d < 10 \<Longrightarrow> digit_val (digit_char d) = d"
  by (simp add: digit_val_def of_char_digit_char)

lemma format_uint_not_Nil [simp]: "format_uint n \<noteq> []"
  by (subst format_uint.simps) simp

lemma format_uint_digits: "list_all is_digit (format_uint n)"
proof (induction n rule: format_uint.induct)
  case (1 n)
  then show ?case by (subst format_uint.simps) auto
qed

lemma digits_val_snoc: "digits_val (s @ [c]) = digits_val s * 10 + digit_val c"
  by (simp add: digits_val_def)

lemma digits_val_format_uint [simp]: "digits_val (format_uint n) = n"
proof (induction n rule: format_uint.induct)
  case (1 n)
  show ?case
  proof (cases "n < 10")
    case True
    then show ?thesis by (subst format_uint.simps) (simp add: digits_val_def)
  next
    case False
    with "1" show ?thesis by (subst format_uint.simps) (simp add: digits_val_snoc)
  qed
qed

lemma is_digit_neq:
  "is_digit c \<Longrightarrow> c \<noteq> CHR ''-''" "is_digit c \<Longrightarrow> c \<noteq> CHR ''+''"
  "is_digit c \<Longrightarrow> c \<noteq> CHR '' ''" "is_digit c \<Longrightarrow> c \<noteq> CHR '',''"
  "is_digit c \<Longrightarrow> c \<noteq> CHR ''(''" "is_digit c \<Longrightarrow> c \<noteq> CHR '')''"
  "is_digit c \<Longrightarrow> c \<noteq> CHR 0x27" "is_digit c \<Longrightarrow> c \<noteq> CHR 0x5C"
  by (auto simp: is_digit_def)

lemma format_uint_hd: "\<exists>c cs. format_uint n = c # cs \<and> is_digit c"
  using format_uint_digits [of n] by (cases "format_uint n") auto

lemma takeWhile_digits: "list_all is_digit ds \<Longrightarrow> takeWhile is_digit ds = ds"
  by (simp add: list_all_iff takeWhile_eq_all_conv)

lemma parse_int64_format_int:
  assumes "int64_min \<le> i" "i \<le> int64_max"
  shows "parse_int64 (format_int i) = Ok i"
proof (cases "i < 0")
  case True
  then show ?thesis
    using assms format_uint_digits [of "nat (- i)"]
    by (simp add: format_int_def parse_int64_def Let_def takeWhile_digits list_all_iff)
next
  case False
  obtain c cs where c: "format_uint (nat i) = c # cs" "is_digit c"
    using format_uint_hd by blast
  have "\<not> has_prefix (format_uint (nat i)) ''-''" "\<not> has_prefix (format_uint (nat i)) ''+''"
    using c by (auto dest: is_digit_neq)
  then show ?thesis
    using False assms format_uint_digits [of "nat i"]
    by (simp add: format_int_def parse_int64_def Let_def takeWhile_digits list_all_iff)
qed

lemma parse_int64_range: "parse_int64 s = Ok v \<Longrightarrow> int64_min \<le> v \<and> v \<le> int64_max"
  by (auto simp: parse_int64_def Let_def split: if_splits)

lemma parse_int64_no_panic [simp]: "\<not> is_panic (parse_int64 s)"
  by (simp add: parse_int64_def Let_def)

lemma parse_bool_no_panic [simp]: "\<not> is_panic (parse_bool s)"
  by (simp add: parse_bool_def)

subsection \<open>The last element of a path\<close>

text \<open>\<open>path.Base\<close>, and \<open>filepath.Base\<close> where the separator is a slash.\<close>

definition path_Base :: "string \<Rightarrow> string" where
  "path_Base p =
     (if p = [] then ''.''
      else
        let q = rev (dropWhile (\<lambda>c. c = CHR ''/'') (rev p)) in
        if q = [] then ''/'' else rev (takeWhile (\<lambda>c. c \<noteq> CHR ''/'') (rev q)))"

lemma path_Base_file: "CHR ''/'' \<notin> set f \<Longrightarrow> f \<noteq> [] \<Longrightarrow> path_Base (dir @ ''/'' @ f) = f"
  by (cases f rule: rev_cases) (auto simp: path_Base_def takeWhile_append)

end
