(* ===== verification/Errors.thy ===== *)
theory Errors
  imports Go_Strings
begin

text \<open>
  \<open>errors.go\<close>, \<open>apierrors.go\<close>, the error type of \<open>query.go\<close> and the
  \<open>rejectedURIError\<close> of \<open>client.go\<close>, with the error chains they form.

  An error is a tree: a leaf, or a message around a cause (\<open>errors.Wrap\<close>,
  \<open>fmt.Errorf\<close> with \<open>%w\<close>).  \<open>errors_is\<close> and \<open>errors_as_api\<close> walk that chain
  as \<open>errors.Is\<close> and \<open>errors.As\<close> do.  JSON documents are values of \<open>json\<close>; the
  text scanner of \<open>encoding/json\<close> is an argument (\<open>json_parse\<close>) wherever bytes are read.
\<close>

subsection \<open>JSON documents\<close>

datatype json =
    JNull
  | JBool bool
  | JNum string
  | JStr string
  | JArr "json list"
  | JObj "(string \<times> json) list"

type_synonym json_parser = "string \<Rightarrow> json option"

text \<open>Decoding a JSON string into a Go string field: \<open>null\<close> leaves the field as it is,
  a value of another kind is an error that leaves it as it is.\<close>

definition dec_string :: "json \<Rightarrow> string \<Rightarrow> string \<times> bool" where
  "dec_string j old = (case j of JStr s \<Rightarrow> (s, True) | JNull \<Rightarrow> (old, True) | _ \<Rightarrow> (old, False))"

definition dec_bool :: "json \<Rightarrow> bool \<Rightarrow> bool \<times> bool" where
  "dec_bool j old = (case j of JBool b \<Rightarrow> (b, True) | JNull \<Rightarrow> (old, True) | _ \<Rightarrow> (old, False))"

text \<open>Decoding an object into a struct: the members are stored one after the other
  (a later duplicate wins), an unknown key is skipped, and a member of the wrong kind is
  reported after the rest has been decoded, as \<open>encoding/json\<close> does.\<close>

definition dec_struct ::
  "(string \<Rightarrow> json \<Rightarrow> 'a \<Rightarrow> 'a \<times> bool) \<Rightarrow> json \<Rightarrow> 'a \<Rightarrow> 'a \<times> bool" where
  "dec_struct member j old =
     (case j of
        JObj kvs \<Rightarrow>
          foldl (\<lambda>(x, ok) (k, v). let (y, ok') = member k v x in (y, ok \<and> ok')) (old, True) kvs
      | JNull \<Rightarrow> (old, True)
      | _ \<Rightarrow> (old, False))"

subsection \<open>Error values\<close>

record api_error_body =
  body_error :: string
  body_message :: string

record api_error =
  RespBody :: api_error_body
  RespText :: string
  StatusCode :: int
  Hint :: string

record query_error =
  qe_code :: int
  qe_message :: string
  qe_kind :: string
  qe_detail :: string

text \<open>The package-level error values that the driver compares by identity.\<close>

datatype sentinel =
    ErrPlaceholderCount
  | ErrNoLastInsertID
  | ErrNoRowsAffected
  | ErrDoRequest
  | ErrReadResponse
  | ErrStmtClosed
  | ErrBadConn
  | IoEOF
  | CtxCanceled
  | CtxDeadlineExceeded

datatype go_error =
    ESentinel sentinel
  | EMsg string
  | EWrap string go_error
  | EApi api_error
  | EQuery query_error
  | ERejectedURI string

type_synonym 'a go = "(go_error, 'a) outcome"

fun sentinel_text :: "sentinel \<Rightarrow> string" where
  "sentinel_text ErrPlaceholderCount = ''lake: wrong placeholder count''"
| "sentinel_text ErrNoLastInsertID = ''no LastInsertId available''"
| "sentinel_text ErrNoRowsAffected = ''no RowsAffected available''"
| "sentinel_text ErrDoRequest = ''DoRequestFailed''"
| "sentinel_text ErrReadResponse = ''ReadResponseFailed''"
| "sentinel_text ErrStmtClosed = ''stmt is already closed''"
| "sentinel_text ErrBadConn = ''driver: bad connection''"
| "sentinel_text IoEOF = ''EOF''"
| "sentinel_text CtxCanceled = ''context canceled''"
| "sentinel_text CtxDeadlineExceeded = ''context deadline exceeded''"

text \<open>\<open>QueryError.Error\<close>, with the spelling of the source.\<close>

definition query_error_text :: "query_error \<Rightarrow> string" where
  "query_error_text e =
     ''code: '' @ format_int (qe_code e)
     @ (if qe_message e \<noteq> '''' then '', message: '' @ qe_message e else '''')
     @ (if qe_detail e \<noteq> '''' then '', datail: '' @ qe_detail e else '''')
     @ (if qe_kind e \<noteq> '''' then '', kind: '' @ qe_kind e else '''')"

text \<open>\<open>APIError.Error\<close>.\<close>

definition api_error_text :: "api_error \<Rightarrow> string" where
  "api_error_text e =
     ''HTTP '' @ format_int (StatusCode e) @ (if Hint e \<noteq> '''' then '': '' @ Hint e else '''')"

text \<open>\<open>APIError.LogValue\<close>: the attributes handed to the structured logger.\<close>

datatype log_value = LogInt int | LogString string

definition api_error_log_value :: "api_error \<Rightarrow> (string \<times> log_value) list" where
  "api_error_log_value e =
     [(''status_code'', LogInt (StatusCode e)), (''hint'', LogString (Hint e))]"

fun error_text :: "go_error \<Rightarrow> string" where
  "error_text (ESentinel s) = sentinel_text s"
| "error_text (EMsg m) = m"
| "error_text (EWrap m e) = m @ '': '' @ error_text e"
| "error_text (EApi e) = api_error_text e"
| "error_text (EQuery e) = query_error_text e"
| "error_text (ERejectedURI m) = m"

subsection \<open>Chains\<close>

text \<open>\<open>rejectedURIError.Unwrap\<close> answers \<open>ErrDoRequest\<close>.\<close>

fun unwrap :: "go_error \<Rightarrow> go_error option" where
  "unwrap (EWrap m e) = Some e"
| "unwrap (ERejectedURI m) = Some (ESentinel ErrDoRequest)"
| "unwrap _ = None"

fun errors_is :: "go_error \<Rightarrow> sentinel \<Rightarrow> bool" where
  "errors_is (ESentinel s) t = (s = t)"
| "errors_is (EWrap m e) t = errors_is e t"
| "errors_is (ERejectedURI m) t = (t = ErrDoRequest)"
| "errors_is (EMsg m) t = False"
| "errors_is (EApi e) t = False"
| "errors_is (EQuery e) t = False"

fun errors_as_api :: "go_error \<Rightarrow> api_error option" where
  "errors_as_api (EApi e) = Some e"
| "errors_as_api (EWrap m e) = errors_as_api e"
| "errors_as_api (ERejectedURI m) = None"
| "errors_as_api (ESentinel s) = None"
| "errors_as_api (EMsg m) = None"
| "errors_as_api (EQuery e) = None"

lemma errors_is_unwrap:
  "errors_is e t \<longleftrightarrow> e = ESentinel t \<or> (\<exists>e'. unwrap e = Some e' \<and> errors_is e' t)"
  by (cases e) auto

lemma errors_as_api_not_is: "errors_as_api e = Some a \<Longrightarrow> \<not> errors_is e t"
  by (induction e) auto

subsection \<open>Classifying API errors\<close>

definition ProvisionWarehouseTimeout :: string where
  "ProvisionWarehouseTimeout = ''ProvisionWarehouseTimeout''"

definition isProvisionWarehouseTimeout :: "go_error \<Rightarrow> bool" where
  "isProvisionWarehouseTimeout err =
     (case errors_as_api err of
        Some apiErr \<Rightarrow>
          let message = (if body_message (RespBody apiErr) = '''' then RespText apiErr
                         else body_message (RespBody apiErr))
          in str_contains message ProvisionWarehouseTimeout
             \<or> str_contains (Hint apiErr) ProvisionWarehouseTimeout
      | None \<Rightarrow> str_contains (error_text err) ProvisionWarehouseTimeout)"

definition api_body_member :: "string \<Rightarrow> json \<Rightarrow> api_error_body \<Rightarrow> api_error_body \<times> bool" where
  "api_body_member k v b =
     (if equal_fold k ''error'' then
        let (s, ok) = dec_string v (body_error b) in (b\<lparr>body_error := s\<rparr>, ok)
      else if equal_fold k ''message'' then
        let (s, ok) = dec_string v (body_message b) in (b\<lparr>body_message := s\<rparr>, ok)
      else (b, True))"

definition empty_api_body :: api_error_body where
  "empty_api_body = \<lparr>body_error = '''', body_message = ''''\<rparr>"

text \<open>\<open>NewAPIError\<close>: a body that is not JSON leaves the struct empty.\<close>

definition NewAPIError :: "json_parser \<Rightarrow> string \<Rightarrow> int \<Rightarrow> string \<Rightarrow> go_error" where
  "NewAPIError json_parse hint status respBuf =
     (let respBody = (case json_parse respBuf of
                        None \<Rightarrow> empty_api_body
                      | Some j \<Rightarrow> fst (dec_struct api_body_member j empty_api_body))
      in EApi \<lparr>RespBody = respBody, RespText = respBuf, StatusCode = status, Hint = hint\<rparr>)"

definition has_api_status :: "go_error \<Rightarrow> int \<Rightarrow> bool" where
  "has_api_status err code \<longleftrightarrow>
     (case errors_as_api err of Some apiErr \<Rightarrow> StatusCode apiErr = code | None \<Rightarrow> False)"

definition IsNotFound :: "go_error \<Rightarrow> bool" where "IsNotFound err = has_api_status err 404"
definition IsProxyErr :: "go_error \<Rightarrow> bool" where "IsProxyErr err = has_api_status err 520"
definition IsAuthFailed :: "go_error \<Rightarrow> bool" where "IsAuthFailed err = has_api_status err 401"
definition isBadGateway :: "go_error \<Rightarrow> bool" where "isBadGateway err = has_api_status err 502"

text \<open>\<open>RespBody(err)\<close>: the accessor for the raw response of an error chain.\<close>

definition resp_body_of :: "go_error \<Rightarrow> api_error_body" where
  "resp_body_of err =
     (case errors_as_api err of None \<Rightarrow> empty_api_body | Some apiErr \<Rightarrow> RespBody apiErr)"

lemmas api_class_defs =
  IsNotFound_def IsProxyErr_def IsAuthFailed_def isBadGateway_def has_api_status_def

lemma NewAPIError_as [simp]:
  "\<exists>b. NewAPIError jp hint status buf =
     EApi \<lparr>RespBody = b, RespText = buf, StatusCode = status, Hint = hint\<rparr>"
  by (auto simp: NewAPIError_def Let_def)

lemma NewAPIError_status [simp]: "has_api_status (NewAPIError jp hint status buf) c \<longleftrightarrow> status = c"
  by (simp add: has_api_status_def NewAPIError_def Let_def)

lemma NewAPIError_not_is [simp]: "\<not> errors_is (NewAPIError jp hint status buf) t"
  by (simp add: NewAPIError_def Let_def)

lemma NewAPIError_not_wrapped [simp]:
  "NewAPIError jp hint status buf \<noteq> ESentinel s"
  "NewAPIError jp hint status buf \<noteq> EWrap m e"
  "NewAPIError jp hint status buf \<noteq> ERejectedURI m"
  by (simp_all add: NewAPIError_def Let_def)

text \<open>
  The diagnostic text of an API error is determined by the status and the hint alone:
  nothing of the server's response can appear in it.
\<close>

lemma api_error_text_noninterference:
  "StatusCode a = StatusCode b \<Longrightarrow> Hint a = Hint b \<Longrightarrow> api_error_text a = api_error_text b"
  by (simp add: api_error_text_def)

subsection \<open>Errors of \<open>strconv\<close>\<close>

definition num_error_text :: "(string \<Rightarrow> string) \<Rightarrow> string \<Rightarrow> string \<Rightarrow> num_error \<Rightarrow> go_error" where
  "num_error_text quoted fn v e =
     EMsg (''strconv.'' @ fn @ '': parsing '' @ quoted v @ '': ''
       @ (case e of ErrSyntax \<Rightarrow> ''invalid syntax'' | ErrRange \<Rightarrow> ''value out of range''))"

end
