(* ===== verification/Go_Time.thy ===== *)
theory Go_Time
  imports Errors
begin

text \<open>
  The part of Go's \<open>time\<close> package the driver uses: instants with a location, civil dates,
  and \<open>Parse\<close>, \<open>ParseInLocation\<close> and \<open>Format\<close> for the layouts of the source.  A
  layout is the list of chunks that \<open>nextStdChunk\<close> cuts it into; the layout strings of
  the source are the constants at the end.  The time zone database is an argument:
  \<open>tz name sec\<close> is the zone in force in the location \<open>name\<close> at the Unix second
  \<open>sec\<close>.  The texts of \<open>*time.ParseError\<close> are abbreviated.
\<close>

subsection \<open>Instants and locations\<close>

datatype location = UTC | Local | FixedZone string int | NamedZone string

record zone_info =
  z_offset :: int
  z_start :: int
  z_end :: int

type_synonym tzdb = "string \<Rightarrow> (int \<Rightarrow> zone_info) option"

record gtime =
  t_ns :: int          \<comment> \<open>nanoseconds since the Unix epoch\<close>
  t_loc :: location

definition fixed_info :: "int \<Rightarrow> zone_info" where
  "fixed_info off = \<lparr>z_offset = off, z_start = - (2 ^ 63), z_end = 2 ^ 63 - 1\<rparr>"

definition zone_lookup :: "tzdb \<Rightarrow> location \<Rightarrow> int \<Rightarrow> zone_info" where
  "zone_lookup tz loc sec =
     (case loc of
        UTC \<Rightarrow> fixed_info 0
      | FixedZone _ off \<Rightarrow> fixed_info off
      | Local \<Rightarrow> (case tz ''Local'' of None \<Rightarrow> fixed_info 0 | Some f \<Rightarrow> f sec)
      | NamedZone n \<Rightarrow> (case tz n of None \<Rightarrow> fixed_info 0 | Some f \<Rightarrow> f sec))"

text \<open>\<open>time.LoadLocation\<close>.\<close>

definition LoadLocation :: "tzdb \<Rightarrow> string \<Rightarrow> location go" where
  "LoadLocation tz name =
     (if name = '''' \<or> name = ''UTC'' then Ok UTC
      else if name = ''Local'' then Ok Local
      else if str_contains name ''..'' \<or> hd name = CHR ''/'' \<or> hd name = CHR 0x5C then
        Err (EMsg ''time: invalid location name'')
      else if tz name = None then Err (EMsg (''unknown time zone '' @ name))
      else Ok (NamedZone name))"

lemma LoadLocation_no_panic [simp]: "\<not> is_panic (LoadLocation tz name)"
  by (simp add: LoadLocation_def)

subsection \<open>Civil dates\<close>

definition is_leap :: "int \<Rightarrow> bool" where
  "is_leap y \<longleftrightarrow> y mod 4 = 0 \<and> (y mod 100 \<noteq> 0 \<or> y mod 400 = 0)"

definition days_in :: "int \<Rightarrow> int \<Rightarrow> int" where
  "days_in m y =
     (if m = 2 then (if is_leap y then 29 else 28)
      else if m \<in> {4, 6, 9, 11} then 30 else 31)"

text \<open>Days from 0001-01-01 to the first of January of year \<open>y\<close>.\<close>

definition days_before_year :: "int \<Rightarrow> int" where
  "days_before_year y = 365 * (y - 1) + (y - 1) div 4 - (y - 1) div 100 + (y - 1) div 400"

fun days_before_month :: "nat \<Rightarrow> int \<Rightarrow> int" where
  "days_before_month 0 y = 0"
| "days_before_month (Suc 0) y = 0"
| "days_before_month (Suc (Suc n)) y = days_before_month (Suc n) y + days_in (int (Suc n)) y"

text \<open>Days since the Unix epoch of a civil date.\<close>

definition days_of_civil :: "int \<Rightarrow> int \<Rightarrow> int \<Rightarrow> int" where
  "days_of_civil y m d = days_before_year y + days_before_month (nat m) y + (d - 1) - 719162"

definition year_of_day :: "int \<Rightarrow> int" where
  "year_of_day n =
     (let y = n * 400 div 146097 + 1
      in if n < days_before_year y then y - 1
         else if days_before_year (y + 1) \<le> n then y + 1 else y)"

fun month_from :: "nat \<Rightarrow> int \<Rightarrow> int \<Rightarrow> int \<times> int" where
  "month_from 0 y r = (12, r + 1)"
| "month_from (Suc k) y r =
     (let m = 12 - int k - 1
      in if r < days_in m y then (m, r + 1) else month_from k y (r - days_in m y))"

definition civil_of_days :: "int \<Rightarrow> int \<times> int \<times> int" where
  "civil_of_days days =
     (let n = days + 719162; y = year_of_day n;
          (m, d) = month_from 11 y (n - days_before_year y)
      in (y, m, d))"

text \<open>\<open>time.Date\<close> for fields that are in range.\<close>

definition go_date ::
  "tzdb \<Rightarrow> int \<Rightarrow> int \<Rightarrow> int \<Rightarrow> int \<Rightarrow> int \<Rightarrow> int \<Rightarrow> int \<Rightarrow> location \<Rightarrow> gtime" where
  "go_date tz y m d hh mm ss ns loc =
     (let unix = days_of_civil y m d * 86400 + hh * 3600 + mm * 60 + ss;
          z = zone_lookup tz loc unix;
          utc = unix - z_offset z;
          z' = (if utc < z_start z \<or> z_end z \<le> utc then zone_lookup tz loc utc else z);
          unix' = (if z_offset z \<noteq> 0 then unix - z_offset z' else unix)
      in \<lparr>t_ns = unix' * 1000000000 + ns, t_loc = loc\<rparr>)"

text \<open>The zero \<open>time.Time{}\<close>.\<close>

definition zero_time :: gtime where
  "zero_time = \<lparr>t_ns = - 62135596800 * 1000000000, t_loc = UTC\<rparr>"

subsection \<open>Layouts\<close>

datatype chunk =
    Lit char
  | LongYear | ZeroMonth | ZeroDay | Hour | ZeroMinute | ZeroSecond
  | FracSecond9 | FracSecond0 nat
  | NumTZ | NumColonTZ | ISO8601TZ | ISO8601ColonTZ

definition layout_date :: "chunk list" where
  "layout_date = [LongYear, Lit CHR ''-'', ZeroMonth, Lit CHR ''-'', ZeroDay]"

definition layout_clock :: "chunk list" where
  "layout_clock = [Hour, Lit CHR '':'', ZeroMinute, Lit CHR '':'', ZeroSecond]"

definition layout_datetime :: "chunk list" where
  "layout_datetime = layout_date @ [Lit CHR '' ''] @ layout_clock"

subsection \<open>Parsing\<close>

record fields =
  f_year :: int
  f_month :: "int option"
  f_day :: "int option"
  f_hour :: int
  f_min :: int
  f_sec :: int
  f_nsec :: int
  f_offset :: "int option"
  f_utc :: bool

definition no_fields :: fields where
  "no_fields = \<lparr>f_year = 0, f_month = None, f_day = None, f_hour = 0, f_min = 0, f_sec = 0,
     f_nsec = 0, f_offset = None, f_utc = False\<rparr>"

definition cutspace :: "string \<Rightarrow> string" where
  "cutspace s = dropWhile (\<lambda>c. c = CHR '' '') s"

definition get_num :: "string \<Rightarrow> bool \<Rightarrow> (int \<times> string) option" where
  "get_num s fixed =
     (case s of
        [] \<Rightarrow> None
      | a # s1 \<Rightarrow>
          if \<not> is_digit a then None
          else (case s1 of
             b # s2 \<Rightarrow>
               if is_digit b then Some (int (digit_val a * 10 + digit_val b), s2)
               else if fixed then None else Some (int (digit_val a), s1)
           | [] \<Rightarrow> if fixed then None else Some (int (digit_val a), s1)))"

definition frac_start :: "string \<Rightarrow> bool" where
  "frac_start s =
     (case s of
        c # d # _ \<Rightarrow> (c = CHR ''.'' \<or> c = CHR '','') \<and> is_digit d
      | _ \<Rightarrow> False)"

text \<open>The value of a run of fractional digits: nine digits count, more are dropped.\<close>

definition frac_value :: "string \<Rightarrow> int" where
  "frac_value ds = (let k = take 9 ds in int (digits_val k) * 10 ^ (9 - length k))"

definition take_frac :: "string \<Rightarrow> int \<times> string" where
  "take_frac s = (frac_value (takeWhile is_digit (tl s)), dropWhile is_digit (tl s))"

definition frac_next :: "chunk list \<Rightarrow> bool" where
  "frac_next cs = (case cs of FracSecond9 # _ \<Rightarrow> True | FracSecond0 _ # _ \<Rightarrow> True | _ \<Rightarrow> False)"

text \<open>A numeric zone: sign, two digits, an optional colon, two digits.\<close>

definition zone_value :: "char \<Rightarrow> string \<Rightarrow> string \<Rightarrow> int option" where
  "zone_value sg hh mm =
     (case (get_num hh True, get_num mm True) of
        (Some (h, _), Some (m, _)) \<Rightarrow>
          if 24 < h \<or> 60 < m then None
          else if sg = CHR ''+'' then Some ((h * 60 + m) * 60)
          else if sg = CHR ''-'' then Some (- ((h * 60 + m) * 60))
          else None
      | _ \<Rightarrow> None)"

definition take_zone :: "bool \<Rightarrow> string \<Rightarrow> (int \<times> string) option" where
  "take_zone colon v =
     (if colon then
        if length v < 6 \<or> v ! 3 \<noteq> CHR '':'' then None
        else map_option (\<lambda>z. (z, drop 6 v)) (zone_value (v ! 0) (substr v 1 3) (substr v 4 6))
      else
        if length v < 5 then None
        else map_option (\<lambda>z. (z, drop 5 v)) (zone_value (v ! 0) (substr v 1 3) (substr v 3 5)))"

definition parse_chunk ::
  "chunk \<Rightarrow> chunk list \<Rightarrow> string \<Rightarrow> fields \<Rightarrow> (string \<times> fields) option" where
  "parse_chunk c rest v f =
     (case c of
        Lit x \<Rightarrow>
          if x = CHR '' '' then
            (if v \<noteq> [] \<and> hd v \<noteq> CHR '' '' then None else Some (cutspace v, f))
          else (if v = [] \<or> hd v \<noteq> x then None else Some (tl v, f))
      | LongYear \<Rightarrow>
          if length v < 4 \<or> \<not> list_all is_digit (take 4 v) then None
          else Some (drop 4 v, f\<lparr>f_year := int (digits_val (take 4 v))\<rparr>)
      | ZeroMonth \<Rightarrow>
          (case get_num v True of None \<Rightarrow> None
           | Some (m, v') \<Rightarrow> if m \<le> 0 \<or> 12 < m then None else Some (v', f\<lparr>f_month := Some m\<rparr>))
      | ZeroDay \<Rightarrow>
          (case get_num v True of None \<Rightarrow> None | Some (d, v') \<Rightarrow> Some (v', f\<lparr>f_day := Some d\<rparr>))
      | Hour \<Rightarrow>
          (case get_num v False of None \<Rightarrow> None
           | Some (h, v') \<Rightarrow> if 24 \<le> h then None else Some (v', f\<lparr>f_hour := h\<rparr>))
      | ZeroMinute \<Rightarrow>
          (case get_num v True of None \<Rightarrow> None
           | Some (m, v') \<Rightarrow> if 60 \<le> m then None else Some (v', f\<lparr>f_min := m\<rparr>))
      | ZeroSecond \<Rightarrow>
          (case get_num v True of None \<Rightarrow> None
           | Some (s, v') \<Rightarrow>
               if 60 \<le> s then None
               else if frac_start v' \<and> \<not> frac_next rest then
                 (case take_frac v' of (n, v'') \<Rightarrow> Some (v'', f\<lparr>f_sec := s, f_nsec := n\<rparr>))
               else Some (v', f\<lparr>f_sec := s\<rparr>))
      | FracSecond9 \<Rightarrow>
          if \<not> frac_start v then Some (v, f)
          else (case take_frac v of (n, v') \<Rightarrow> Some (v', f\<lparr>f_nsec := n\<rparr>))
      | FracSecond0 k \<Rightarrow>
          if length v < k + 1 \<or> \<not> (hd v = CHR ''.'' \<or> hd v = CHR '','')
             \<or> \<not> list_all is_digit (take k (tl v)) then None
          else Some (drop (k + 1) v, f\<lparr>f_nsec := frac_value (take k (tl v))\<rparr>)
      | NumTZ \<Rightarrow>
          map_option (\<lambda>(z, v'). (v', f\<lparr>f_offset := Some z\<rparr>)) (take_zone False v)
      | NumColonTZ \<Rightarrow>
          map_option (\<lambda>(z, v'). (v', f\<lparr>f_offset := Some z\<rparr>)) (take_zone True v)
      | ISO8601TZ \<Rightarrow>
          if v \<noteq> [] \<and> hd v = CHR ''Z'' then Some (tl v, f\<lparr>f_utc := True\<rparr>)
          else map_option (\<lambda>(z, v'). (v', f\<lparr>f_offset := Some z\<rparr>)) (take_zone False v)
      | ISO8601ColonTZ \<Rightarrow>
          if v \<noteq> [] \<and> hd v = CHR ''Z'' then Some (tl v, f\<lparr>f_utc := True\<rparr>)
          else map_option (\<lambda>(z, v'). (v', f\<lparr>f_offset := Some z\<rparr>)) (take_zone True v))"

fun parse_chunks :: "chunk list \<Rightarrow> string \<Rightarrow> fields \<Rightarrow> fields option" where
  "parse_chunks [] v f = (if v = [] then Some f else None)"
| "parse_chunks (c # cs) v f =
     (case parse_chunk c cs v f of None \<Rightarrow> None | Some (v', f') \<Rightarrow> parse_chunks cs v' f')"

definition time_parse :: "tzdb \<Rightarrow> chunk list \<Rightarrow> string \<Rightarrow> location \<Rightarrow> location \<Rightarrow> gtime go" where
  "time_parse tz layout value dflt local =
     (case parse_chunks layout value no_fields of
        None \<Rightarrow> Err (EMsg (''parsing time '' @ value))
      | Some f \<Rightarrow>
          let m = (case f_month f of None \<Rightarrow> 1 | Some m \<Rightarrow> m);
              d = (case f_day f of None \<Rightarrow> 1 | Some d \<Rightarrow> d);
              at = go_date tz (f_year f) m d (f_hour f) (f_min f) (f_sec f) (f_nsec f)
          in if d < 1 \<or> days_in m (f_year f) < d then
               Err (EMsg (''parsing time '' @ value @ '': day out of range''))
             else if f_utc f then Ok (at UTC)
             else (case f_offset f of
                 Some off \<Rightarrow>
                   let ns = t_ns (at UTC) - off * 1000000000
                   in if z_offset (zone_lookup tz local (ns div 1000000000)) = off
                      then Ok \<lparr>t_ns = ns, t_loc = local\<rparr>
                      else Ok \<lparr>t_ns = ns, t_loc = FixedZone '''' off\<rparr>
               | None \<Rightarrow> Ok (at dflt)))"

text \<open>\<open>time.ParseInLocation\<close> and \<open>time.Parse\<close>.\<close>

definition ParseInLocation :: "tzdb \<Rightarrow> chunk list \<Rightarrow> string \<Rightarrow> location \<Rightarrow> gtime go" where
  "ParseInLocation tz layout value loc = time_parse tz layout value loc loc"

definition TimeParse :: "tzdb \<Rightarrow> chunk list \<Rightarrow> string \<Rightarrow> gtime go" where
  "TimeParse tz layout value = time_parse tz layout value UTC Local"

lemma time_parse_no_panic [simp]: "\<not> is_panic (time_parse tz layout value d l)"
  by (auto simp: time_parse_def Let_def split: option.splits)

lemma ParseInLocation_no_panic [simp]: "\<not> is_panic (ParseInLocation tz layout value loc)"
  by (simp add: ParseInLocation_def)

lemma TimeParse_no_panic [simp]: "\<not> is_panic (TimeParse tz layout value)"
  by (simp add: TimeParse_def)

subsection \<open>Formatting\<close>

definition pad_left :: "nat \<Rightarrow> string \<Rightarrow> string" where
  "pad_left w s = replicate (w - length s) (CHR ''0'') @ s"

definition append_int :: "int \<Rightarrow> nat \<Rightarrow> string" where
  "append_int x w =
     (if x < 0 then CHR ''-'' # pad_left w (format_uint (nat (- x))) else pad_left w (format_uint (nat x)))"

definition format_zone :: "bool \<Rightarrow> int \<Rightarrow> string" where
  "format_zone colon off =
     (let q = (if off < 0 then - ((- off) div 60) else off div 60);
          z = \<bar>q\<bar>
      in (if q < 0 then ''-'' else ''+'') @ append_int (z div 60) 2
         @ (if colon then '':'' else '''') @ append_int (z mod 60) 2)"

definition format_chunk :: "int \<Rightarrow> int \<Rightarrow> int \<Rightarrow> int \<Rightarrow> int \<Rightarrow> int \<Rightarrow> chunk \<Rightarrow> string" where
  "format_chunk y m d sod ns off c =
     (case c of
        Lit x \<Rightarrow> [x]
      | LongYear \<Rightarrow> append_int y 4
      | ZeroMonth \<Rightarrow> append_int m 2
      | ZeroDay \<Rightarrow> append_int d 2
      | Hour \<Rightarrow> append_int (sod div 3600) 2
      | ZeroMinute \<Rightarrow> append_int (sod mod 3600 div 60) 2
      | ZeroSecond \<Rightarrow> append_int (sod mod 60) 2
      | FracSecond0 k \<Rightarrow> ''.'' @ take k (append_int ns 9)
      | FracSecond9 \<Rightarrow>
          (if ns = 0 then ''''
           else ''.'' @ rev (dropWhile (\<lambda>c. c = CHR ''0'') (rev (append_int ns 9))))
      | NumTZ \<Rightarrow> format_zone False off
      | NumColonTZ \<Rightarrow> format_zone True off
      | ISO8601TZ \<Rightarrow> (if off = 0 then ''Z'' else format_zone False off)
      | ISO8601ColonTZ \<Rightarrow> (if off = 0 then ''Z'' else format_zone True off))"

definition time_format :: "tzdb \<Rightarrow> chunk list \<Rightarrow> gtime \<Rightarrow> string" where
  "time_format tz layout t =
     (let sec = t_ns t div 1000000000; ns = t_ns t mod 1000000000;
          off = z_offset (zone_lookup tz (t_loc t) sec);
          ls = sec + off;
          (y, m, d) = civil_of_days (ls div 86400)
      in concat (map (format_chunk y m d (ls mod 86400) ns off) layout))"

end
