(* ===== verification/Encoding.thy ===== *)
theory Encoding
  imports Go_Strings
begin

text \<open>
  Go's \<open>encoding/hex\<close> and \<open>encoding/base64\<close> (\<open>StdEncoding\<close>), which decode \<open>Binary\<close>
  cells (\<open>binary.go\<close>) and encode the Basic credentials (\<open>encode\<close> of \<open>client.go\<close>),
  with the round trips of both.
\<close>

definition byte_of :: "char \<Rightarrow> nat" where
  "byte_of c = of_char c"

lemma byte_of_less [simp]: "byte_of c < 256"
  by (simp add: byte_of_def)

lemma char_of_byte_of [simp]: "char_of (byte_of c) = c"
  by (simp add: byte_of_def)

subsection \<open>Hexadecimal\<close>

definition hex_char :: "nat \<Rightarrow> char" where
  "hex_char n = (if n < 10 then char_of (48 + n) else char_of (87 + n))"

definition hex_val :: "char \<Rightarrow> nat option" where
  "hex_val c =
     (let b = byte_of c in
      if 48 \<le> b \<and> b \<le> 57 then Some (b - 48)
      else if 97 \<le> b \<and> b \<le> 102 then Some (b - 87)
      else if 65 \<le> b \<and> b \<le> 70 then Some (b - 55)
      else None)"

fun hex_encode :: "string \<Rightarrow> string" where
  "hex_encode [] = []"
| "hex_encode (c # cs) = hex_char (byte_of c div 16) # hex_char (byte_of c mod 16) # hex_encode cs"

text \<open>\<open>hex.DecodeString\<close>: \<open>None\<close> for an odd length or a byte that is no hex digit.\<close>

fun hex_decode :: "string \<Rightarrow> string option" where
  "hex_decode [] = Some []"
| "hex_decode [c] = None"
| "hex_decode (a # b # cs) =
     (case (hex_val a, hex_val b) of
        (Some x, Some y) \<Rightarrow> map_option ((#) (char_of (x * 16 + y))) (hex_decode cs)
      | _ \<Rightarrow> None)"

lemma byte_of_char_of [simp]: "n < 256 \<Longrightarrow> byte_of (char_of n) = n"
  by (simp add: byte_of_def of_char_of)

lemma hex_val_hex_char [simp]: "n < 16 \<Longrightarrow> hex_val (hex_char n) = Some n"
  by (auto simp: hex_val_def hex_char_def Let_def)

lemma hex_decode_encode [simp]: "hex_decode (hex_encode s) = Some s"
proof (induction s)
  case (Cons c s)
  have "byte_of c div 16 < 16" using byte_of_less [of c] by (simp add: div_less_iff_less_mult)
  then show ?case using Cons by simp
qed simp

lemma hex_val_less: "hex_val c = Some n \<Longrightarrow> n < 16"
  by (auto simp: hex_val_def Let_def split: if_splits)

lemma hex_decode_length: "hex_decode s = Some t \<Longrightarrow> length s = 2 * length t"
  by (induction s arbitrary: t rule: hex_decode.induct) (auto split: option.splits)

subsection \<open>Base64\<close>

definition b64_char :: "nat \<Rightarrow> char" where
  "b64_char n =
     (if n < 26 then char_of (65 + n) else if n < 52 then char_of (71 + n)
      else if n < 62 then char_of (n - 4) else if n = 62 then CHR ''+'' else CHR ''/'')"

definition b64_val :: "char \<Rightarrow> nat option" where
  "b64_val c =
     (let b = byte_of c in
      if 65 \<le> b \<and> b \<le> 90 then Some (b - 65)
      else if 97 \<le> b \<and> b \<le> 122 then Some (b - 71)
      else if 48 \<le> b \<and> b \<le> 57 then Some (b + 4)
      else if b = 43 then Some 62
      else if b = 47 then Some 63
      else None)"

fun b64_encode :: "string \<Rightarrow> string" where
  "b64_encode [] = []"
| "b64_encode [a] =
     [b64_char (byte_of a div 4), b64_char (byte_of a mod 4 * 16), CHR ''='', CHR ''='']"
| "b64_encode [a, b] =
     [b64_char (byte_of a div 4), b64_char (byte_of a mod 4 * 16 + byte_of b div 16),
      b64_char (byte_of b mod 16 * 4), CHR ''='']"
| "b64_encode (a # b # c # cs) =
     b64_char (byte_of a div 4) # b64_char (byte_of a mod 4 * 16 + byte_of b div 16)
     # b64_char (byte_of b mod 16 * 4 + byte_of c div 64) # b64_char (byte_of c mod 64)
     # b64_encode cs"

definition b64_byte1 :: "nat \<Rightarrow> nat \<Rightarrow> char" where
  "b64_byte1 w x = char_of (w * 4 + x div 16)"

definition b64_byte2 :: "nat \<Rightarrow> nat \<Rightarrow> char" where
  "b64_byte2 x y = char_of (x mod 16 * 16 + y div 4)"

definition b64_byte3 :: "nat \<Rightarrow> nat \<Rightarrow> char" where
  "b64_byte3 y z = char_of (y mod 4 * 64 + z)"

fun b64_groups :: "string \<Rightarrow> string option" where
  "b64_groups [] = Some []"
| "b64_groups (a # b # c # d # cs) =
     (case (b64_val a, b64_val b) of
        (Some w, Some x) \<Rightarrow>
          if c = CHR ''='' then
            (if d = CHR ''='' \<and> cs = [] then Some [b64_byte1 w x] else None)
          else (case b64_val c of
             None \<Rightarrow> None
           | Some y \<Rightarrow>
               if d = CHR ''='' then
                 (if cs = [] then Some [b64_byte1 w x, b64_byte2 x y] else None)
               else (case b64_val d of
                  None \<Rightarrow> None
                | Some z \<Rightarrow>
                    map_option (\<lambda>r. b64_byte1 w x # b64_byte2 x y # b64_byte3 y z # r) (b64_groups cs)))
      | _ \<Rightarrow> None)"
| "b64_groups _ = None"

text \<open>\<open>base64.StdEncoding.DecodeString\<close>: carriage returns and line feeds are skipped.\<close>

definition b64_decode :: "string \<Rightarrow> string option" where
  "b64_decode s = b64_groups (filter (\<lambda>c. c \<noteq> CHR 0x0D \<and> c \<noteq> CHR 0x0A) s)"

lemma b64_val_char [simp]: "n < 64 \<Longrightarrow> b64_val (b64_char n) = Some n"
  by (auto simp: b64_char_def b64_val_def Let_def byte_of_def)

lemma b64_char_neq:
  assumes "n < 64"
  shows "b64_char n \<noteq> CHR ''=''" "b64_char n \<noteq> CHR 0x0D" "b64_char n \<noteq> CHR 0x0A"
proof -
  have "b64_val (b64_char n) \<noteq> None" using assms by simp
  moreover have "b64_val (CHR ''='') = None" "b64_val (CHR 0x0D) = None" "b64_val (CHR 0x0A) = None"
    by (simp_all add: b64_val_def byte_of_def)
  ultimately show "b64_char n \<noteq> CHR ''=''" "b64_char n \<noteq> CHR 0x0D" "b64_char n \<noteq> CHR 0x0A"
    by metis+
qed

text \<open>The four sextets of three bytes are in range and give the bytes back.\<close>

lemma b64_sextets:
  assumes "a < 256" "b < 256" "c < (256::nat)"
  shows "a div 4 < 64" "a mod 4 * 16 < 64" "a mod 4 * 16 + b div 16 < 64"
    "b mod 16 * 4 < 64" "b mod 16 * 4 + c div 64 < 64" "c mod 64 < 64"
proof -
  have *: "a mod 4 < 4" "b mod 16 < 16" "b div 16 < 16" "c div 64 < 4" "a div 4 < 64"
    using assms by (simp_all add: div_less_iff_less_mult)
  then show "a div 4 < 64" "a mod 4 * 16 < 64" "a mod 4 * 16 + b div 16 < 64"
    "b mod 16 * 4 < 64" "b mod 16 * 4 + c div 64 < 64" "c mod 64 < 64"
    by linarith+
qed

lemma shift_add_div_mod:
  "q < k \<Longrightarrow> (p * k + q) div k = p" "q < k \<Longrightarrow> (p * k + q) mod k = (q::nat)"
  by (simp_all add: div_add1_eq)

lemma b64_bytes:
  assumes "a < 256" "b < 256" "c < (256::nat)"
  shows "a div 4 * 4 + a mod 4 * 16 div 16 = a"
    "a div 4 * 4 + (a mod 4 * 16 + b div 16) div 16 = a"
    "(a mod 4 * 16 + b div 16) mod 16 * 16 + b mod 16 * 4 div 4 = b"
    "(a mod 4 * 16 + b div 16) mod 16 * 16 + (b mod 16 * 4 + c div 64) div 4 = b"
    "(b mod 16 * 4 + c div 64) mod 4 * 64 + c mod 64 = c"
proof -
  have "b div 16 < 16" "c div 64 < 4"
    using assms by (simp_all add: div_less_iff_less_mult)
  then show "a div 4 * 4 + a mod 4 * 16 div 16 = a"
    "a div 4 * 4 + (a mod 4 * 16 + b div 16) div 16 = a"
    "(a mod 4 * 16 + b div 16) mod 16 * 16 + b mod 16 * 4 div 4 = b"
    "(a mod 4 * 16 + b div 16) mod 16 * 16 + (b mod 16 * 4 + c div 64) div 4 = b"
    "(b mod 16 * 4 + c div 64) mod 4 * 64 + c mod 64 = c"
    by (simp_all only: shift_add_div_mod nonzero_mult_div_cancel_right div_mult_mod_eq
          zero_neq_numeral not_False_eq_True)
qed

lemma b64_groups_encode: "b64_groups (b64_encode s) = Some s"
proof (induction s rule: b64_encode.induct)
  case (2 a)
  note n = b64_sextets [OF byte_of_less [of a] byte_of_less [of a] byte_of_less [of a]]
    and m = b64_bytes [OF byte_of_less [of a] byte_of_less [of a] byte_of_less [of a]]
  from n m show ?case by (simp add: b64_byte1_def)
next
  case (3 a b)
  note n = b64_sextets [OF byte_of_less [of a] byte_of_less [of b] byte_of_less [of b]]
    and m = b64_bytes [OF byte_of_less [of a] byte_of_less [of b] byte_of_less [of b]]
  from n m show ?case by (simp add: b64_byte1_def b64_byte2_def b64_char_neq)
next
  case (4 a b c cs)
  note n = b64_sextets [OF byte_of_less [of a] byte_of_less [of b] byte_of_less [of c]]
    and m = b64_bytes [OF byte_of_less [of a] byte_of_less [of b] byte_of_less [of c]]
  from n m 4 show ?case by (simp add: b64_byte1_def b64_byte2_def b64_byte3_def b64_char_neq)
qed simp

lemma b64_encode_no_newline:
  "filter (\<lambda>c. c \<noteq> CHR 0x0D \<and> c \<noteq> CHR 0x0A) (b64_encode s) = b64_encode s"
proof (induction s rule: b64_encode.induct)
  case (2 a)
  then show ?case
    using b64_sextets [OF byte_of_less [of a] byte_of_less [of a] byte_of_less [of a]]
    by (simp add: b64_char_neq)
next
  case (3 a b)
  then show ?case
    using b64_sextets [OF byte_of_less [of a] byte_of_less [of b] byte_of_less [of b]]
    by (simp add: b64_char_neq)
next
  case (4 a b c cs)
  then show ?case
    using b64_sextets [OF byte_of_less [of a] byte_of_less [of b] byte_of_less [of c]]
    by (simp add: b64_char_neq)
qed simp

lemma b64_decode_encode [simp]: "b64_decode (b64_encode s) = Some s"
  by (simp add: b64_decode_def b64_encode_no_newline b64_groups_encode)

end
