(* ===== verification/Type_Parser.thy ===== *)
theory Type_Parser
  imports Errors
begin

text \<open>
  \<open>typeparser.go\<close>: the textual type descriptors of the server, parsed into
  \<open>TypeDesc\<close> trees, and \<open>Normalize\<close>.  \<open>parse_from\<close> is the loop over the bytes
  of \<open>s\<close> with the source's variables (\<open>name\<close>, \<open>args\<close>, \<open>depth\<close>, \<open>start\<close>);
  \<open>tok_from\<close> is the same loop with the pending slice \<open>s[start:i]\<close> carried as a value,
  which is what the round-trip proof works on.
\<close>

datatype type_desc = TypeDesc (Name: string) (Nullable: bool) (Args: "type_desc list")

subsection \<open>The parser\<close>

text \<open>The part after the loop.\<close>

definition parse_finish ::
  "string \<Rightarrow> string \<Rightarrow> type_desc list \<Rightarrow> int \<Rightarrow> nat \<Rightarrow> type_desc go" where
  "parse_finish s name args depth start =
     (if depth \<noteq> 0 then Err (EMsg (''invalid type desc: '' @ s))
      else if start < length s then
        let t = drop start s in
        if name = '''' then Ok (TypeDesc t False args)
        else if t = ''NULL'' then Ok (TypeDesc name True args)
        else Err (EMsg (''invalid type arg for '' @ name @ '': '' @ t))
      else Ok (TypeDesc name False args))"

function ParseTypeDesc :: "string \<Rightarrow> type_desc go"
  and parse_from ::
    "string \<Rightarrow> nat \<Rightarrow> string \<Rightarrow> type_desc list \<Rightarrow> int \<Rightarrow> nat \<Rightarrow> type_desc go"
where
  "ParseTypeDesc s = parse_from s 0 '''' [] 0 0"
| "parse_from s i name args depth start =
     (if i < length s then
        let c = s ! i in
        if c = CHR ''('' then
          if depth = 0 then parse_from s (i + 1) (substr s start i) args (depth + 1) (i + 1)
          else parse_from s (i + 1) name args (depth + 1) start
        else if c = CHR '')'' then
          if depth - 1 = 0 then
            if substr s start i \<noteq> '''' then
              go_bind (ParseTypeDesc (substr s start i))
                (\<lambda>desc. parse_from s (i + 1) name (args @ [desc]) (depth - 1) (i + 1))
            else parse_from s (i + 1) name args (depth - 1) (i + 1)
          else parse_from s (i + 1) name args (depth - 1) start
        else if c = CHR '','' then
          if depth = 1 then
            if substr s start i \<noteq> '''' then
              go_bind (ParseTypeDesc (substr s start i))
                (\<lambda>desc. parse_from s (i + 1) name (args @ [desc]) depth (i + 1))
            else parse_from s (i + 1) name args depth (i + 1)
          else parse_from s (i + 1) name args depth start
        else if c = CHR '' '' then
          if depth = 0 then
            parse_from s (i + 1) (if substr s start i \<noteq> '''' then substr s start i else name)
              args depth (i + 1)
          else parse_from s (i + 1) name args depth start
        else parse_from s (i + 1) name args depth start
      else parse_finish s name args depth start)"
  by pat_completeness auto
termination
proof (relation "measures [\<lambda>x. case x of Inl s \<Rightarrow> length s | Inr (s, i, _) \<Rightarrow> length s,
                           \<lambda>x. case x of Inl s \<Rightarrow> length s + 1 | Inr (s, i, _) \<Rightarrow> length s - i]",
       goal_cases)
qed (auto simp: substr_def)

declare ParseTypeDesc.simps [simp del] parse_from.simps [simp del]

subsection \<open>Normalization\<close>

text \<open>\<open>Normalize\<close> indexes \<open>Args[0]\<close> without a check: a bare \<open>Nullable\<close> panics.\<close>

fun Normalize :: "type_desc \<Rightarrow> type_desc go" where
  "Normalize (TypeDesc name nullable args) =
     (if name = ''Nullable'' then
        (case args of
           [] \<Rightarrow> Panic ''index out of range [0] with length 0''
         | a # as \<Rightarrow> go_bind (Normalize a) (\<lambda>sub. Ok (TypeDesc (Name sub) True (Args sub))))
      else if name = ''DateTime'' then Ok (TypeDesc ''Timestamp'' nullable args)
      else Ok (TypeDesc name nullable args))"

subsection \<open>The loop over the remaining bytes\<close>

fun tok_from ::
  "string \<Rightarrow> string \<Rightarrow> string \<Rightarrow> type_desc list \<Rightarrow> int \<Rightarrow> string \<Rightarrow> type_desc go"
where
  "tok_from s [] name args depth tok =
     (if depth \<noteq> 0 then Err (EMsg (''invalid type desc: '' @ s))
      else if tok \<noteq> '''' then
        if name = '''' then Ok (TypeDesc tok False args)
        else if tok = ''NULL'' then Ok (TypeDesc name True args)
        else Err (EMsg (''invalid type arg for '' @ name @ '': '' @ tok))
      else Ok (TypeDesc name False args))"
| "tok_from s (c # cs) name args depth tok =
     (if c = CHR ''('' then
        if depth = 0 then tok_from s cs tok args (depth + 1) ''''
        else tok_from s cs name args (depth + 1) (tok @ [c])
      else if c = CHR '')'' then
        if depth = 1 then
          if tok \<noteq> '''' then
            go_bind (ParseTypeDesc tok) (\<lambda>desc. tok_from s cs name (args @ [desc]) 0 '''')
          else tok_from s cs name args 0 ''''
        else tok_from s cs name args (depth - 1) (tok @ [c])
      else if c = CHR '','' then
        if depth = 1 then
          if tok \<noteq> '''' then
            go_bind (ParseTypeDesc tok) (\<lambda>desc. tok_from s cs name (args @ [desc]) depth '''')
          else tok_from s cs name args depth ''''
        else tok_from s cs name args depth (tok @ [c])
      else if c = CHR '' '' then
        if depth = 0 then tok_from s cs (if tok \<noteq> '''' then tok else name) args depth ''''
        else tok_from s cs name args depth (tok @ [c])
      else tok_from s cs name args depth (tok @ [c]))"

lemma parse_from_tok:
  "i \<le> length s \<Longrightarrow> start \<le> i \<Longrightarrow>
   parse_from s i name args depth start
     = tok_from s (drop i s) name args depth (substr s start i)"
proof (induction "length s - i" arbitrary: i name args depth start)
  case 0
  then have "i = length s" by simp
  then show ?case
    using 0 by (subst parse_from.simps) (auto simp: parse_finish_def Let_def substr_to_end)
next
  case (Suc n)
  then have i: "i < length s" by simp
  then have d: "drop i s = s ! i # drop (Suc i) s" by (simp add: Cons_nth_drop_Suc)
  have IH: "parse_from s (Suc i) nm ar de st
      = tok_from s (drop (Suc i) s) nm ar de (substr s st (Suc i))" if "st \<le> Suc i" for nm ar de st
    using Suc.hyps(1) [of "Suc i"] Suc.hyps(2) i that by simp
  have sn: "substr s start (Suc i) = substr s start i @ [s ! i]"
    using Suc.prems i by (intro substr_snoc) auto
  show ?case
    unfolding d
    by (subst parse_from.simps)
       (use i Suc.prems in \<open>simp add: IH sn Let_def cong: go_bind_cong\<close>)
qed

lemma ParseTypeDesc_tok: "ParseTypeDesc s = tok_from s s '''' [] 0 ''''"
  by (simp add: ParseTypeDesc.simps parse_from_tok)

lemma tok_from_no_panic:
  "(\<And>t. length t < length s \<Longrightarrow> \<not> is_panic (ParseTypeDesc t)) \<Longrightarrow>
   length tok + length cs \<le> length s \<Longrightarrow> \<not> is_panic (tok_from s cs name args depth tok)"
proof (induction cs arbitrary: name args depth tok)
  case Nil
  then show ?case by simp
next
  case (Cons c cs)
  then have "\<not> is_panic (ParseTypeDesc tok)" by simp
  then show ?case using Cons by simp
qed

lemma ParseTypeDesc_no_panic: "\<not> is_panic (ParseTypeDesc s)"
proof (induction s rule: length_induct)
  case (1 s)
  have "\<not> is_panic (tok_from s s [] [] 0 [])"
    by (rule tok_from_no_panic) (use 1 in auto)
  then show ?case
    by (simp only: ParseTypeDesc_tok not_False_eq_True)
qed

subsection \<open>Unbalanced descriptors are rejected\<close>

text \<open>The counter \<open>depth\<close> of the loop tracks the parentheses read so far.\<close>

definition paren_depth :: "string \<Rightarrow> int" where
  "paren_depth s = int (count_list s (CHR ''('')) - int (count_list s (CHR '')''))"

lemma paren_depth_simps [simp]:
  "paren_depth [] = 0"
  "paren_depth (c # cs) =
     (if c = CHR ''('' then 1 else if c = CHR '')'' then - 1 else 0) + paren_depth cs"
  by (simp_all add: paren_depth_def)

lemma tok_from_Ok_balanced:
  "tok_from s cs name args depth tok = Ok d \<Longrightarrow> depth + paren_depth cs = 0"
proof (induction cs arbitrary: name args depth tok)
  case Nil
  then show ?case by (auto split: if_splits)
next
  case (Cons c cs)
  from Cons.prems show ?case
    by (auto simp: go_bind_eq_Ok split: if_splits dest: Cons.IH)
qed

lemma ParseTypeDesc_Ok_balanced: "ParseTypeDesc s = Ok d \<Longrightarrow> paren_depth s = 0"
  unfolding ParseTypeDesc_tok by (drule tok_from_Ok_balanced) simp

subsection \<open>Printing, and the round trip\<close>

text \<open>
  The textual form the server and \<open>dataTypeStringFromArrowField\<close> use: the name, the
  arguments in parentheses separated by a comma and a space, and a \<open>NULL\<close> suffix.
\<close>

fun show_desc :: "type_desc \<Rightarrow> string" where
  "show_desc (TypeDesc name nullable args) =
     name @ (if args = [] then '''' else ''('' @ join '', '' (map show_desc args) @ '')'')
     @ (if nullable then '' NULL'' else '''')"

definition plain_char :: "char \<Rightarrow> bool" where
  "plain_char c \<longleftrightarrow> c \<noteq> CHR ''('' \<and> c \<noteq> CHR '')'' \<and> c \<noteq> CHR '','' \<and> c \<noteq> CHR '' ''"

definition plain_name :: "string \<Rightarrow> bool" where
  "plain_name s \<longleftrightarrow> s \<noteq> '''' \<and> list_all plain_char s"

fun wf_desc :: "type_desc \<Rightarrow> bool" where
  "wf_desc (TypeDesc name nullable args) = (plain_name name \<and> list_all wf_desc args)"

text \<open>A string that the loop, at depth at least \<open>k\<close>, only adds to the pending slice.\<close>

definition neutral :: "int \<Rightarrow> string \<Rightarrow> bool" where
  "neutral k u \<longleftrightarrow>
     (\<forall>s rest nm ar d t. k \<le> d \<longrightarrow>
        tok_from s (u @ rest) nm ar d t = tok_from s rest nm ar d (t @ u))"

lemma neutral_Nil [simp]: "neutral k ''''"
  by (simp add: neutral_def)

lemma neutral_append: "neutral k u \<Longrightarrow> neutral k v \<Longrightarrow> neutral k (u @ v)"
  by (simp add: neutral_def)

lemma neutral_mono: "neutral k u \<Longrightarrow> k \<le> l \<Longrightarrow> neutral l u"
  by (auto simp: neutral_def)

lemma neutral_plain: "list_all plain_char u \<Longrightarrow> neutral 0 u"
  by (induction u) (auto simp: neutral_def plain_char_def)

lemma neutral_space: "neutral 1 '' ''"
  by (auto simp: neutral_def)

lemma neutral_null: "neutral 1 '' NULL''"
  by (auto simp: neutral_def)

lemma neutral_comma: "neutral 2 '', ''"
  by (auto simp: neutral_def)

lemma neutral_parens: "neutral 2 u \<Longrightarrow> neutral 1 (''('' @ u @ '')'')"
  by (auto simp: neutral_def)

lemma neutral_join: "(\<And>u. u \<in> set us \<Longrightarrow> neutral 2 u) \<Longrightarrow> neutral 2 (join '', '' us)"
proof (induction us)
  case (Cons u us)
  then show ?case
    using neutral_append [OF _ neutral_append [OF neutral_comma], of u "join '', '' us"]
    by (cases "us = []") (auto simp: join_Cons)
qed simp

lemma neutral_show_desc: "wf_desc d \<Longrightarrow> neutral 1 (show_desc d)"
proof (induction d)
  case (TypeDesc name nullable args)
  have n: "neutral 1 name"
    using TypeDesc.prems by (auto simp: plain_name_def intro: neutral_mono [OF neutral_plain])
  have "neutral 2 (join '', '' (map show_desc args))"
    using TypeDesc
    by (intro neutral_join) (auto simp: list_all_iff intro!: neutral_mono [of 1 _ 2])
  from neutral_parens [OF this]
  have a: "neutral 1 (if args = [] then '''' else ''('' @ join '', '' (map show_desc args) @ '')'')"
    by simp
  show ?case
    unfolding show_desc.simps by (intro neutral_append n a) (simp_all add: neutral_null)
qed

lemma tok_from_orig: "tok_from s cs nm ar d t = Ok r \<Longrightarrow> tok_from s' cs nm ar d t = Ok r"
  by (induction cs arbitrary: nm ar d t) (auto simp: go_bind_eq_Ok split: if_splits)

lemma ParseTypeDesc_space: "ParseTypeDesc u = Ok d \<Longrightarrow> ParseTypeDesc (CHR '' '' # u) = Ok d"
  by (auto simp: ParseTypeDesc_tok intro: tok_from_orig)

lemma show_desc_not_Nil: "wf_desc d \<Longrightarrow> show_desc d \<noteq> ''''"
  by (cases d) (auto simp: plain_name_def)

text \<open>The argument list of a descriptor, read at depth one up to its closing parenthesis.\<close>

lemma tok_from_args:
  assumes "ds \<noteq> []" "\<And>d. d \<in> set ds \<Longrightarrow> wf_desc d \<and> ParseTypeDesc (show_desc d) = Ok d"
    and "t = '''' \<or> t = '' ''"
  shows "tok_from s (join '', '' (map show_desc ds) @ CHR '')'' # rest) nm ar 1 t
           = tok_from s rest nm (ar @ ds) 0 ''''"
  using assms
proof (induction ds arbitrary: ar t)
  case Nil
  then show ?case by simp
next
  case (Cons d ds)
  have nd: "neutral 1 (show_desc d)" and ne: "t @ show_desc d \<noteq> ''''"
    and p: "ParseTypeDesc (t @ show_desc d) = Ok d"
    using Cons.prems neutral_show_desc show_desc_not_Nil ParseTypeDesc_space by fastforce+
  have skip: "tok_from s (show_desc d @ r) nm ar 1 t = tok_from s r nm ar 1 (t @ show_desc d)" for r
    using nd by (simp add: neutral_def)
  show ?case
  proof (cases "ds = []")
    case True
    then show ?thesis using ne p by (simp add: skip)
  next
    case False
    then have "tok_from s (join '', '' (map show_desc ds) @ CHR '')'' # rest) nm (ar @ [d]) 1 '' ''
        = tok_from s rest nm ((ar @ [d]) @ ds) 0 ''''"
      using Cons.prems by (intro Cons.IH) auto
    then show ?thesis using False ne p by (simp add: skip join_Cons)
  qed
qed

text \<open>C29: (type texts) \<open>ParseTypeDesc\<close> reads back every descriptor from its text: the name, the arguments in
  parentheses separated by a comma and a space, nested to any depth, and the \<open>NULL\<close> suffix of a nullable
  type.  Names are not empty and hold no parenthesis, comma or space.\<close>

theorem ParseTypeDesc_show_desc: "wf_desc d \<Longrightarrow> ParseTypeDesc (show_desc d) = Ok d"
proof (induction d)
  case (TypeDesc name nullable args)
  have name: "name \<noteq> []" "list_all plain_char name"
    using TypeDesc.prems by (auto simp: plain_name_def)
  have start: "tok_from s (name @ r) [] [] 0 [] = tok_from s r [] [] 0 name" for s r
    using neutral_plain [OF name(2)] by (simp add: neutral_def)
  have args: "tok_from s (join '', '' (map show_desc args) @ CHR '')'' # r) name [] 1 []
      = tok_from s r name args 0 []" if "args \<noteq> []" for s r
    using TypeDesc tok_from_args [OF that, of "[]" s r name "[]"] by (auto simp: list_all_iff)
  have "tok_from s (show_desc (TypeDesc name nullable args)) [] [] 0 []
      = Ok (TypeDesc name nullable args)" for s
    using name start [of s "[]"] by (auto simp: start args)
  then show ?case
    by (simp only: ParseTypeDesc_tok)
qed

lemma ParseTypeDesc_show_desc_witness:
  "ParseTypeDesc (show_desc (TypeDesc ''Map'' False [TypeDesc ''String'' False [],
       TypeDesc ''Array'' False [TypeDesc ''Int32'' True []]]))
     = Ok (TypeDesc ''Map'' False [TypeDesc ''String'' False [], TypeDesc ''Array'' False [TypeDesc ''Int32'' True []]])"
  by (rule ParseTypeDesc_show_desc) (simp add: plain_name_def plain_char_def)

end
