(* ===== verification/Column_Types.thy ===== *)
theory Column_Types
  imports Go_Time Encoding Type_Parser
begin

text \<open>
  \<open>columntype.go\<close>, \<open>binary.go\<close> and the option builder of \<open>result_rows.go\<close>: the column
  types a result schema names, how each parses the text of a cell, and how it reports its
  database type name.  Every \<open>ColumnType\<close> implementation of the source is a constructor
  of \<open>column_type\<close>; the interface's methods are functions over them.

  \<open>dvalue\<close> is the dynamic \<open>driver.Value\<close> of a cell.
\<close>

subsection \<open>Driver values\<close>

datatype dvalue =
    DNil
  | DBool bool
  | DInt int
  | DFloat string
  | DString string
  | DBytes string
  | DTime gtime

subsection \<open>Binary cells\<close>

datatype binaryOutputFormat = FormatHex | FormatBase64 | FormatUTF8 | FormatUTF8Lossy

datatype httpJSONResultMode = ModeDriver | ModeDisplay

definition parseBinaryOutputFormat :: "string \<Rightarrow> binaryOutputFormat" where
  "parseBinaryOutputFormat s =
     (let u = to_upper (trim_space s) in
      if u = ''BASE64'' then FormatBase64
      else if u = ''UTF-8'' \<or> u = ''UTF8'' then FormatUTF8
      else if u = ''UTF-8-LOSSY'' \<or> u = ''UTF8-LOSSY'' then FormatUTF8Lossy
      else FormatHex)"

definition parseHTTPJSONResultMode :: "string \<Rightarrow> httpJSONResultMode" where
  "parseHTTPJSONResultMode s =
     (if to_lower (trim_space s) = ''display'' then ModeDisplay else ModeDriver)"

definition materializeBinaryFromString ::
  "string \<Rightarrow> binaryOutputFormat \<Rightarrow> httpJSONResultMode \<Rightarrow> dvalue go" where
  "materializeBinaryFromString value format mode =
     (let hex = (case hex_decode value of
                   None \<Rightarrow> Err (EMsg ''failed to decode binary hex value'')
                 | Some raw \<Rightarrow> Ok (DBytes raw))
      in if mode \<noteq> ModeDisplay then hex
         else (case format of
             FormatBase64 \<Rightarrow>
               (case b64_decode value of
                  None \<Rightarrow> Err (EMsg ''failed to decode binary base64 value'')
                | Some raw \<Rightarrow> Ok (DBytes raw))
           | FormatUTF8 \<Rightarrow> Ok (DBytes value)
           | FormatUTF8Lossy \<Rightarrow> Ok (DBytes value)
           | FormatHex \<Rightarrow> hex))"

text \<open>\<open>append([]byte(nil), value...)\<close>: a copy.\<close>

definition materializeBinaryFromBinary :: "string \<Rightarrow> dvalue" where
  "materializeBinaryFromBinary value = DBytes ([] @ value)"

subsection \<open>Options\<close>

record ColumnTypeOptions =
  formatNullAsStr :: bool
  timezone :: location
  opt_binaryOutputFormat :: binaryOutputFormat
  opt_httpJSONResultMode :: httpJSONResultMode

definition defaultColumnTypeOptions :: ColumnTypeOptions where
  "defaultColumnTypeOptions =
     \<lparr>formatNullAsStr = False, timezone = UTC, opt_binaryOutputFormat = FormatHex,
      opt_httpJSONResultMode = ModeDriver\<rparr>"

definition SetFormatNullAsStr :: "bool \<Rightarrow> ColumnTypeOptions \<Rightarrow> ColumnTypeOptions" where
  "SetFormatNullAsStr v opt = opt\<lparr>formatNullAsStr := v\<rparr>"

definition SetTimezone :: "location \<Rightarrow> ColumnTypeOptions \<Rightarrow> ColumnTypeOptions" where
  "SetTimezone v opt = opt\<lparr>timezone := v\<rparr>"

definition SetBinaryOutputFormat :: "string \<Rightarrow> ColumnTypeOptions \<Rightarrow> ColumnTypeOptions" where
  "SetBinaryOutputFormat v opt = opt\<lparr>opt_binaryOutputFormat := parseBinaryOutputFormat v\<rparr>"

definition SetHTTPJSONResultMode :: "string \<Rightarrow> ColumnTypeOptions \<Rightarrow> ColumnTypeOptions" where
  "SetHTTPJSONResultMode v opt = opt\<lparr>opt_httpJSONResultMode := parseHTTPJSONResultMode v\<rparr>"

subsection \<open>Column types\<close>

text \<open>The Go types that \<open>ScanType\<close> answers with.\<close>

datatype scan_type =
    ScanString | ScanBool | ScanTime | ScanBytes
  | ScanInt8 | ScanInt16 | ScanInt32 | ScanInt64
  | ScanUInt8 | ScanUInt16 | ScanUInt32 | ScanUInt64
  | ScanFloat32 | ScanFloat64

datatype column_type =
    UnknownColumn string type_desc                      \<comment> \<open>dbType, desc\<close>
  | SimpleColumn string scan_type bool bool             \<comment> \<open>dbType, scanType, nullable, parseNull\<close>
  | TimestampColumn bool location
  | TimestampTzColumn bool
  | DateColumn bool
  | DecimalColumn bool int int                          \<comment> \<open>nullable, precision, scale\<close>
  | BinaryColumn bool binaryOutputFormat httpJSONResultMode

definition wrapName :: "bool \<Rightarrow> string \<Rightarrow> string" where
  "wrapName b s = (if b then s @ '' NULL'' else s)"

definition checkNull :: "bool \<Rightarrow> string \<Rightarrow> bool" where
  "checkNull b s \<longleftrightarrow> b \<and> s = ''NULL''"

definition layout_timestamp :: "chunk list" where
  "layout_timestamp = layout_datetime @ [FracSecond9]"

definition layout_timestamp_tz :: "chunk list" where
  "layout_timestamp_tz = layout_timestamp @ [Lit CHR '' '', NumTZ]"

text \<open>\<open>ColumnType.Parse\<close>.\<close>

fun ct_Parse :: "tzdb \<Rightarrow> column_type \<Rightarrow> string \<Rightarrow> dvalue go" where
  "ct_Parse tz (UnknownColumn dbType desc) s = Ok (DString s)"
| "ct_Parse tz (SimpleColumn dbType scanType nullable parseNull) s =
     (if nullable \<and> parseNull \<and> s = ''NULL'' then Ok DNil else Ok (DString s))"
| "ct_Parse tz (TimestampColumn n loc) s =
     (if checkNull n s then Ok DNil
      else go_bind (ParseInLocation tz layout_timestamp s loc) (\<lambda>t. Ok (DTime t)))"
| "ct_Parse tz (TimestampTzColumn n) s =
     (if checkNull n s then Ok DNil
      else go_bind (TimeParse tz layout_timestamp_tz s) (\<lambda>t. Ok (DTime t)))"
| "ct_Parse tz (DateColumn n) s =
     (if checkNull n s then Ok DNil
      else go_bind (TimeParse tz layout_date s) (\<lambda>t. Ok (DTime t)))"
| "ct_Parse tz (DecimalColumn n p sc) s = Ok (DString s)"
| "ct_Parse tz (BinaryColumn n format mode) s =
     (if checkNull n s then Ok DNil else materializeBinaryFromString s format mode)"

text \<open>\<open>ColumnType.DatabaseTypeName\<close>.\<close>

fun DatabaseTypeName :: "column_type \<Rightarrow> string" where
  "DatabaseTypeName (UnknownColumn dbType desc) = dbType"
| "DatabaseTypeName (SimpleColumn dbType scanType nullable parseNull) = dbType"
| "DatabaseTypeName (TimestampColumn n loc) = wrapName n ''Timestamp''"
| "DatabaseTypeName (TimestampTzColumn n) = wrapName n ''Timestamp_Tz''"
| "DatabaseTypeName (DateColumn n) = wrapName n ''Date''"
| "DatabaseTypeName (DecimalColumn n p sc) =
     wrapName n (''Decimal('' @ format_int p @ '', '' @ format_int sc @ '')'')"
| "DatabaseTypeName (BinaryColumn n format mode) = wrapName n ''Binary''"

text \<open>\<open>ColumnType.Nullable\<close>: the flag and whether it is known.\<close>

fun ct_Nullable :: "column_type \<Rightarrow> bool \<times> bool" where
  "ct_Nullable (UnknownColumn dbType desc) = (False, False)"
| "ct_Nullable (SimpleColumn dbType scanType nullable parseNull) = (nullable, True)"
| "ct_Nullable (TimestampColumn n loc) = (n, True)"
| "ct_Nullable (TimestampTzColumn n) = (n, True)"
| "ct_Nullable (DateColumn n) = (n, True)"
| "ct_Nullable (DecimalColumn n p sc) = (n, True)"
| "ct_Nullable (BinaryColumn n format mode) = (n, True)"

fun ScanType :: "column_type \<Rightarrow> scan_type" where
  "ScanType (UnknownColumn dbType desc) = ScanString"
| "ScanType (SimpleColumn dbType scanType nullable parseNull) = scanType"
| "ScanType (TimestampColumn n loc) = ScanTime"
| "ScanType (TimestampTzColumn n) = ScanTime"
| "ScanType (DateColumn n) = ScanTime"
| "ScanType (DecimalColumn n p sc) = ScanString"
| "ScanType (BinaryColumn n format mode) = ScanBytes"

text \<open>\<open>ColumnType.Desc\<close>.  The simple column keeps the wrapped name in its descriptor.\<close>

fun ct_Desc :: "column_type \<Rightarrow> type_desc" where
  "ct_Desc (UnknownColumn dbType desc) = desc"
| "ct_Desc (SimpleColumn dbType scanType nullable parseNull) = TypeDesc dbType nullable []"
| "ct_Desc (TimestampColumn n loc) = TypeDesc ''Timestamp'' n []"
| "ct_Desc (TimestampTzColumn n) = TypeDesc ''Timestamp_Tz'' n []"
| "ct_Desc (DateColumn n) = TypeDesc ''Date'' n []"
| "ct_Desc (DecimalColumn n p sc) =
     TypeDesc ''Decimal'' n [TypeDesc (format_int p) False [], TypeDesc (format_int sc) False []]"
| "ct_Desc (BinaryColumn n format mode) = TypeDesc ''Binary'' n []"

definition ct_Length :: "column_type \<Rightarrow> int \<times> bool" where
  "ct_Length c = (0, False)"

fun PrecisionScale :: "column_type \<Rightarrow> int \<times> int \<times> bool" where
  "PrecisionScale (DecimalColumn n p sc) = (p, sc, True)"
| "PrecisionScale _ = (0, 0, False)"

text \<open>The scan type of the simple columns, by type name.\<close>

definition simple_scan_type :: "string \<rightharpoonup> scan_type" where
  "simple_scan_type =
     [''String'' \<mapsto> ScanString, ''Boolean'' \<mapsto> ScanBool, ''Int8'' \<mapsto> ScanInt8,
      ''Int16'' \<mapsto> ScanInt16, ''Int32'' \<mapsto> ScanInt32, ''Int64'' \<mapsto> ScanInt64,
      ''UInt8'' \<mapsto> ScanUInt8, ''UInt16'' \<mapsto> ScanUInt16, ''UInt32'' \<mapsto> ScanUInt32,
      ''UInt64'' \<mapsto> ScanUInt64, ''Float32'' \<mapsto> ScanFloat32, ''Float64'' \<mapsto> ScanFloat64]"

text \<open>The switch of \<open>NewColumnType\<close> on a normalized descriptor.  \<open>desc.Args\<close> is
  indexed without a check in the \<open>Decimal\<close> case.\<close>

definition column_of_desc :: "string \<Rightarrow> ColumnTypeOptions \<Rightarrow> type_desc \<Rightarrow> column_type go" where
  "column_of_desc dbType opts desc =
     (let nullable = Nullable desc; parseNull = formatNullAsStr opts; name = Name desc in
      case simple_scan_type name of
        Some sc \<Rightarrow>
          Ok (SimpleColumn (wrapName nullable name) sc nullable
                (if name = ''String'' then False else parseNull))
      | None \<Rightarrow>
          if name = ''Timestamp'' then Ok (TimestampColumn nullable (timezone opts))
          else if name = ''Timestamp_Tz'' then Ok (TimestampTzColumn nullable)
          else if name = ''Date'' then Ok (DateColumn nullable)
          else if name = ''Binary'' then
            Ok (BinaryColumn nullable (opt_binaryOutputFormat opts) (opt_httpJSONResultMode opts))
          else if name = ''Decimal'' then
            (case Args desc of
               [] \<Rightarrow> Panic ''index out of range [0] with length 0''
             | a # as \<Rightarrow>
                 (case parse_int64 (Name a) of
                    Ok p \<Rightarrow>
                      (case as of
                         [] \<Rightarrow> Panic ''index out of range [1] with length 1''
                       | b # _ \<Rightarrow>
                           (case parse_int64 (Name b) of
                              Ok sc \<Rightarrow> Ok (DecimalColumn nullable p sc)
                            | _ \<Rightarrow> Err (EMsg ''malformed scale specified for Decimal'')))
                  | _ \<Rightarrow> Err (EMsg ''malformed precision specified for Decimal'')))
          else Ok (UnknownColumn dbType desc))"

definition NewColumnType :: "string \<Rightarrow> ColumnTypeOptions option \<Rightarrow> column_type go" where
  "NewColumnType dbType opts0 =
     (let opts = (case opts0 of None \<Rightarrow> defaultColumnTypeOptions | Some o1 \<Rightarrow> o1) in
      go_bind (ParseTypeDesc dbType) (\<lambda>d.
      go_bind (Normalize d) (\<lambda>desc. column_of_desc dbType opts desc)))"

subsection \<open>Facts about normalization\<close>

lemma Normalize_names:
  "Normalize d = Ok e \<Longrightarrow> Name e \<noteq> ''Nullable'' \<and> Name e \<noteq> ''DateTime''"
proof (induction d arbitrary: e rule: Normalize.induct)
  case (1 name nullable args)
  then show ?case by (auto simp: go_bind_eq_Ok split: if_splits list.splits)
qed

lemma Normalize_fixed:
  "Name d \<noteq> ''Nullable'' \<Longrightarrow> Name d \<noteq> ''DateTime'' \<Longrightarrow> Normalize d = Ok d"
  by (cases d) simp

lemma Normalize_idem: "Normalize d = Ok e \<Longrightarrow> Normalize e = Ok e"
  by (drule Normalize_names) (simp add: Normalize_fixed)

text \<open>The descriptors on which \<open>Normalize\<close> reaches a \<open>Nullable\<close> without an argument.\<close>

fun bare_nullable :: "type_desc \<Rightarrow> bool" where
  "bare_nullable (TypeDesc name nullable args) =
     (name = ''Nullable'' \<and> (case args of [] \<Rightarrow> True | a # as \<Rightarrow> bare_nullable a))"

lemma Normalize_panic_iff: "is_panic (Normalize d) \<longleftrightarrow> bare_nullable d"
proof (induction d rule: Normalize.induct)
  case (1 name nullable args)
  then show ?case by (auto split: list.splits)
qed

lemma Normalize_no_err: "\<not> is_err (Normalize d)"
proof (induction d rule: Normalize.induct)
  case (1 name nullable args)
  then show ?case by (auto simp: go_bind_def is_err_def split: list.splits outcome.splits)
qed

lemma format_int_plain: "list_all plain_char (format_int i)"
proof -
  have "list_all plain_char (format_uint n)" for n
    using format_uint_digits [of n]
    by (auto simp: list_all_iff plain_char_def dest: is_digit_neq)
  then show ?thesis by (simp add: format_int_def plain_char_def)
qed

lemma format_int_plain_name: "plain_name (format_int i)"
  using format_int_plain [of i] by (auto simp: plain_name_def format_int_def)

subsection \<open>The type name of a column identifies the column\<close>

lemma simple_scan_type_plain:
  "simple_scan_type name = Some sc \<Longrightarrow>
     plain_name name \<and> name \<noteq> ''Nullable'' \<and> name \<noteq> ''DateTime''"
  by (auto simp: simple_scan_type_def plain_name_def plain_char_def split: if_splits)

lemma wrapName_show: "wrapName b (show_desc (TypeDesc n False as)) = show_desc (TypeDesc n b as)"
  by (simp add: wrapName_def)

text \<open>A normalized descriptor that prints to the type name gives the same column again.\<close>

lemma NewColumnType_show_desc:
  assumes "wf_desc d" "Name d \<noteq> ''Nullable''" "Name d \<noteq> ''DateTime''"
  shows "NewColumnType (show_desc d) opts =
    column_of_desc (show_desc d) (case opts of None \<Rightarrow> defaultColumnTypeOptions | Some o1 \<Rightarrow> o1) d"
  using assms by (simp add: NewColumnType_def ParseTypeDesc_show_desc Normalize_fixed)

text \<open>C19: (column types) The database type name of a column identifies it: whatever type text a schema gave,
  the name that the column reports makes the same column again, with its nullability, precision and scale.\<close>

theorem NewColumnType_name_roundtrip:
  assumes "NewColumnType s opts = Ok ct"
  shows "NewColumnType (DatabaseTypeName ct) opts = Ok ct"
proof -
  let ?o = "case opts of None \<Rightarrow> defaultColumnTypeOptions | Some o1 \<Rightarrow> o1"
  obtain d desc where d: "ParseTypeDesc s = Ok d" "Normalize d = Ok desc"
    and c: "column_of_desc s ?o desc = Ok ct"
    using assms by (auto simp: NewColumnType_def Let_def go_bind_eq_Ok)
  have again: "NewColumnType (show_desc (TypeDesc n b as)) opts
      = column_of_desc (show_desc (TypeDesc n b as)) ?o (TypeDesc n b as)"
    if "plain_name n" "list_all wf_desc as" "n \<noteq> ''Nullable''" "n \<noteq> ''DateTime''" for n b as
    using that by (intro NewColumnType_show_desc) auto
  show ?thesis
  proof (cases "simple_scan_type (Name desc)")
    case (Some sc)
    with c simple_scan_type_plain [OF Some] again [of "Name desc" "[]" "Nullable desc"] show ?thesis
      by (auto simp: column_of_desc_def Let_def wrapName_def)
  next
    case None
    note simps = column_of_desc_def Let_def wrapName_def plain_name_def plain_char_def
      simple_scan_type_def
    show ?thesis
    proof (cases ct)
      case (DecimalColumn n p q)
      have pq: "parse_int64 (format_int p) = Ok p" "parse_int64 (format_int q) = Ok q"
        and nd: "Name desc = ''Decimal''" "Nullable desc = n"
        using c None DecimalColumn
        by (auto simp: column_of_desc_def Let_def split: if_splits list.splits outcome.splits
            dest!: parse_int64_range intro!: parse_int64_format_int)
      have dn: "plain_name ''Decimal''"
        by (simp add: plain_name_def plain_char_def)
      have name: "DatabaseTypeName ct = show_desc (TypeDesc ''Decimal'' n
          [TypeDesc (format_int p) False [], TypeDesc (format_int q) False []])"
        using DecimalColumn by (simp add: wrapName_def)
      show ?thesis
        unfolding name
        using pq DecimalColumn
        by (subst again) (simp_all add: dn format_int_plain_name column_of_desc_def simple_scan_type_def)
    next
      case (UnknownColumn t e)
      then show ?thesis
        using c None assms
        by (auto simp: column_of_desc_def Let_def split: if_splits list.splits outcome.splits)
    next
      case (SimpleColumn x1 x2 x3 x4)
      then show ?thesis
        using c None
        by (auto simp: column_of_desc_def Let_def split: if_splits list.splits outcome.splits)
    qed (use c None again [of "Name desc" "[]" "Nullable desc"] in
         \<open>auto simp: simps split: if_splits list.splits outcome.splits\<close>)
  qed
qed

lemma NewColumnType_name_roundtrip_witness:
  "NewColumnType (DatabaseTypeName (DecimalColumn True 10 2)) None = Ok (DecimalColumn True 10 2)"
  by (rule NewColumnType_name_roundtrip [of "''Nullable(Decimal(10, 2))''"]) code_simp

end
