(* ===== verification/Go_Url.thy ===== *)
theory Go_Url
  imports Encoding
begin

text \<open>
  The parts of Go's \<open>net/url\<close> and \<open>net\<close> packages that the driver uses: \<open>url.Parse\<close>,
  \<open>URL.String\<close>, \<open>Values.Encode\<close>, \<open>ParseQuery\<close>, the escaping functions, \<open>SplitHostPort\<close> and
  \<open>JoinHostPort\<close>, with the facts about authorities that the request and DSN code relies on.
\<close>

subsection \<open>Cutting at a separator\<close>

text \<open>\<open>strings.Cut\<close> at one byte: the text before it, and the text after it if it occurs.\<close>

fun cut_at :: "char \<Rightarrow> string \<Rightarrow> string \<times> string option" where
  "cut_at c [] = ([], None)"
| "cut_at c (x # s) = (if x = c then ([], Some s) else (let (a, b) = cut_at c s in (x # a, b)))"

definition after :: "string option \<Rightarrow> string" where
  "after b = (case b of None \<Rightarrow> [] | Some s \<Rightarrow> s)"

lemma cut_at_None [simp]: "c \<notin> set s \<Longrightarrow> cut_at c s = (s, None)"
  by (induction s) auto

lemma cut_at_append [simp]: "c \<notin> set a \<Longrightarrow> cut_at c (a @ c # b) = (a, Some b)"
  by (induction a) auto

lemma cut_at_free: "c \<notin> set (fst (cut_at c s))"
  by (induction s) (auto simp: Let_def case_prod_beta)

lemma cut_at_split:
  "s = fst (cut_at c s) @ (case snd (cut_at c s) of None \<Rightarrow> [] | Some t \<Rightarrow> c # t)"
  by (induction s) (auto simp: Let_def case_prod_beta)

lemma cut_at_fst_append:
  "c \<notin> set a \<Longrightarrow> cut_at c (a @ s) = (a @ fst (cut_at c s), snd (cut_at c s))"
  by (induction a) (auto simp: Let_def case_prod_beta)

subsection \<open>Escaping\<close>

datatype encoding =
    encodePath | encodePathSegment | encodeHost | encodeZone
  | encodeUserPassword | encodeQueryComponent | encodeFragment

text \<open>Why a URL does not parse.\<close>

datatype url_error =
    UrlControlByte | UrlMissingScheme | UrlColonInFirstSegment | UrlBadPort string
  | UrlMissingBracket | UrlEscapeError string | UrlHostError string | UrlBadUserinfo

text \<open>The text of an error; \<open>quoted\<close> is Go's \<open>%q\<close>.\<close>

definition url_error_text :: "(string \<Rightarrow> string) \<Rightarrow> url_error \<Rightarrow> string" where
  "url_error_text quoted e =
     (case e of
        UrlControlByte \<Rightarrow> ''net/url: invalid control character in URL''
      | UrlMissingScheme \<Rightarrow> ''missing protocol scheme''
      | UrlColonInFirstSegment \<Rightarrow> ''first path segment in URL cannot contain colon''
      | UrlBadPort p \<Rightarrow> ''invalid port '' @ quoted p @ '' after host''
      | UrlMissingBracket \<Rightarrow> ''missing '' @ [CHR 0x27] @ '']'' @ [CHR 0x27] @ '' in host''
      | UrlEscapeError t \<Rightarrow> ''invalid URL escape '' @ quoted t
      | UrlHostError t \<Rightarrow> ''invalid character '' @ quoted t @ '' in host name''
      | UrlBadUserinfo \<Rightarrow> ''net/url: invalid userinfo'')"

definition parse_error_text :: "(string \<Rightarrow> string) \<Rightarrow> string \<Rightarrow> url_error \<Rightarrow> string" where
  "parse_error_text quoted raw e = ''parse '' @ quoted raw @ '': '' @ url_error_text quoted e"

definition is_alnum :: "char \<Rightarrow> bool" where
  "is_alnum c \<longleftrightarrow> is_alpha c \<or> is_digit c"

definition host_punct :: string where
  "host_punct = ''!$&'' @ [CHR 0x27] @ ''()*+,;=:[]<>'' @ [CHR 0x22]"

definition shouldEscape :: "char \<Rightarrow> encoding \<Rightarrow> bool" where
  "shouldEscape c mode =
     (if is_alnum c then False
      else if (mode = encodeHost \<or> mode = encodeZone) \<and> c \<in> set host_punct then False
      else if c \<in> set ''-_.~'' then False
      else if c \<in> set ''$&+,/:;=?@'' \<and> mode = encodePath then c = CHR ''?''
      else if c \<in> set ''$&+,/:;=?@'' \<and> mode = encodePathSegment then c \<in> set ''/;,?''
      else if c \<in> set ''$&+,/:;=?@'' \<and> mode = encodeUserPassword then c \<in> set ''@/?:''
      else if c \<in> set ''$&+,/:;=?@'' \<and> mode = encodeQueryComponent then True
      else if c \<in> set ''$&+,/:;=?@'' \<and> mode = encodeFragment then False
      else if mode = encodeFragment \<and> c \<in> set ''!()*'' then False
      else True)"

definition upper_hex :: "nat \<Rightarrow> char" where
  "upper_hex n = (if n < 10 then char_of (48 + n) else char_of (55 + n))"

definition pct :: "char \<Rightarrow> string" where
  "pct c = [CHR ''%'', upper_hex (byte_of c div 16), upper_hex (byte_of c mod 16)]"

definition url_escape :: "encoding \<Rightarrow> string \<Rightarrow> string" where
  "url_escape mode s =
     concat (map (\<lambda>c. if \<not> shouldEscape c mode then [c]
                      else if c = CHR '' '' \<and> mode = encodeQueryComponent then ''+''
                      else pct c) s)"

text \<open>\<open>unescape\<close>: the checks of the first pass are made where the second one decodes; the first
  offending byte decides the error in both.\<close>

fun url_unescape :: "encoding \<Rightarrow> string \<Rightarrow> (url_error, string) outcome" where
  "url_unescape mode [] = Ok []"
| "url_unescape mode (c # s) =
     (if c = CHR ''%'' then
        (case s of
           h # l # rest \<Rightarrow>
             (case (hex_val h, hex_val l) of
                (Some a, Some b) \<Rightarrow>
                  if mode = encodeHost \<and> a < 8 \<and> [h, l] \<noteq> ''25'' then
                    Err (UrlEscapeError [c, h, l])
                  else if mode = encodeZone \<and> [h, l] \<noteq> ''25'' \<and> char_of (a * 16 + b) \<noteq> CHR '' ''
                          \<and> shouldEscape (char_of (a * 16 + b)) encodeHost then
                    Err (UrlEscapeError [c, h, l])
                  else go_bind (url_unescape mode rest) (\<lambda>r. Ok (char_of (a * 16 + b) # r))
              | _ \<Rightarrow> Err (UrlEscapeError [c, h, l]))
         | _ \<Rightarrow> Err (UrlEscapeError (c # s)))
      else if (mode = encodeHost \<or> mode = encodeZone) \<and> byte_of c < 128 \<and> shouldEscape c mode then
        Err (UrlHostError [c])
      else if c = CHR ''+'' \<and> mode = encodeQueryComponent then
        go_bind (url_unescape mode s) (\<lambda>r. Ok (CHR '' '' # r))
      else go_bind (url_unescape mode s) (\<lambda>r. Ok (c # r)))"

subsection \<open>URLs\<close>

type_synonym userinfo = "string \<times> string option"

record url =
  Scheme :: string
  Opaque :: string
  User :: "userinfo option"
  Host :: string
  Path :: string
  RawPath :: string
  OmitHost :: bool
  ForceQuery :: bool
  RawQuery :: string
  Fragment :: string

definition empty_url :: url where
  "empty_url = \<lparr>Scheme = [], Opaque = [], User = None, Host = [], Path = [], RawPath = [],
     OmitHost = False, ForceQuery = False, RawQuery = [], Fragment = []\<rparr>"

text \<open>\<open>getScheme\<close>, with the bytes already passed in \<open>acc\<close>.\<close>

fun get_scheme :: "string \<Rightarrow> string \<Rightarrow> (url_error, string \<times> string) outcome" where
  "get_scheme acc [] = Ok ([], acc)"
| "get_scheme acc (c # s) =
     (if is_alpha c then get_scheme (acc @ [c]) s
      else if is_digit c \<or> c \<in> set ''+-.'' then
        (if acc = [] then Ok ([], c # s) else get_scheme (acc @ [c]) s)
      else if c = CHR '':'' then
        (if acc = [] then Err UrlMissingScheme else Ok (acc, s))
      else Ok ([], acc @ c # s))"

text \<open>\<open>validOptionalPort\<close>.\<close>

definition valid_optional_port :: "string \<Rightarrow> bool" where
  "valid_optional_port p \<longleftrightarrow> p = [] \<or> (hd p = CHR '':'' \<and> list_all is_digit (tl p))"

definition valid_userinfo :: "string \<Rightarrow> bool" where
  "valid_userinfo s \<longleftrightarrow>
     list_all (\<lambda>c. is_alnum c \<or> c \<in> set (''-._:~!$&'' @ [CHR 0x27] @ ''()*+,;=%@'')) s"

definition parse_host :: "string \<Rightarrow> (url_error, string) outcome" where
  "parse_host host =
     (if has_prefix host ''['' then
        (case last_index host CHR '']'' of
           None \<Rightarrow> Err UrlMissingBracket
         | Some i \<Rightarrow>
             let colonPort = drop (i + 1) host in
             if \<not> valid_optional_port colonPort then Err (UrlBadPort colonPort)
             else
               (case str_index (take i host) ''%25'' of
                  Some zone \<Rightarrow>
                    go_bind (url_unescape encodeHost (take zone host)) (\<lambda>host1.
                    go_bind (url_unescape encodeZone (substr host zone i)) (\<lambda>host2.
                    go_bind (url_unescape encodeHost (drop i host)) (\<lambda>host3.
                    Ok (host1 @ host2 @ host3))))
                | None \<Rightarrow> url_unescape encodeHost host))
      else
        (case last_index host CHR '':'' of
           Some i \<Rightarrow>
             if \<not> valid_optional_port (drop i host) then Err (UrlBadPort (drop i host))
             else url_unescape encodeHost host
         | None \<Rightarrow> url_unescape encodeHost host))"

definition parse_authority :: "string \<Rightarrow> (url_error, userinfo option \<times> string) outcome" where
  "parse_authority authority =
     (case last_index authority CHR ''@'' of
        None \<Rightarrow> go_bind (parse_host authority) (\<lambda>host. Ok (None, host))
      | Some i \<Rightarrow>
          go_bind (parse_host (drop (i + 1) authority)) (\<lambda>host.
          let info = take i authority in
          if \<not> valid_userinfo info then Err UrlBadUserinfo
          else
            (case cut_at CHR '':'' info of
               (u, None) \<Rightarrow>
                 go_bind (url_unescape encodeUserPassword info) (\<lambda>u. Ok (Some (u, None), host))
             | (u, Some p) \<Rightarrow>
                 go_bind (url_unescape encodeUserPassword u) (\<lambda>user.
                 go_bind (url_unescape encodeUserPassword p) (\<lambda>password.
                 Ok (Some (user, Some password), host))))))"

text \<open>\<open>URL.setPath\<close>.\<close>

definition set_path :: "url \<Rightarrow> string \<Rightarrow> (url_error, url) outcome" where
  "set_path u p =
     go_bind (url_unescape encodePath p) (\<lambda>path.
     Ok (u\<lparr>Path := path, RawPath := (if p = url_escape encodePath path then [] else p)\<rparr>))"

text \<open>The query is cut off at the first question mark; a single one at the very end only sets
  \<open>ForceQuery\<close>.\<close>

definition cut_query :: "string \<Rightarrow> string \<times> bool \<times> string" where
  "cut_query rest =
     (case cut_at CHR ''?'' rest of
        (r, None) \<Rightarrow> (r, False, [])
      | (r, Some []) \<Rightarrow> (r, True, [])
      | (r, Some q) \<Rightarrow> (r, False, q))"

text \<open>The text behind the authority marker is split at its first slash.\<close>

definition split_authority :: "string \<Rightarrow> string \<times> string" where
  "split_authority s = (takeWhile (\<lambda>c. c \<noteq> CHR ''/'') s, dropWhile (\<lambda>c. c \<noteq> CHR ''/'') s)"

text \<open>\<open>parse\<close> behind the fragment, with \<open>viaRequest\<close> false.\<close>

definition parse_hier :: "url \<Rightarrow> string \<Rightarrow> (url_error, url) outcome" where
  "parse_hier u rest =
     (if has_prefix rest ''//'' \<and> (Scheme u \<noteq> [] \<or> \<not> has_prefix rest ''///'') then
        (let (authority, p) = split_authority (drop 2 rest) in
         go_bind (parse_authority authority) (\<lambda>(user, host).
         set_path (u\<lparr>User := user, Host := host\<rparr>) p))
      else if Scheme u \<noteq> [] \<and> has_prefix rest ''/'' then set_path (u\<lparr>OmitHost := True\<rparr>) rest
      else set_path u rest)"

definition parse_after_scheme :: "string \<times> string \<Rightarrow> (url_error, url) outcome" where
  "parse_after_scheme sr =
     (let (scheme, rest0) = sr;
          (rest, force, query) = cut_query rest0;
          u = empty_url\<lparr>Scheme := to_lower scheme, ForceQuery := force, RawQuery := query\<rparr>
      in if \<not> has_prefix rest ''/'' \<and> scheme \<noteq> [] then Ok (u\<lparr>Opaque := rest\<rparr>)
         else if \<not> has_prefix rest ''/'' \<and> CHR '':'' \<in> set (fst (cut_at CHR ''/'' rest)) then
           Err UrlColonInFirstSegment
         else parse_hier u rest)"

definition parse_no_frag :: "string \<Rightarrow> (url_error, url) outcome" where
  "parse_no_frag rawURL =
     (if list_ex (\<lambda>c. byte_of c < 32 \<or> byte_of c = 127) rawURL then Err UrlControlByte
      else if rawURL = ''*'' then Ok (empty_url\<lparr>Path := ''*''\<rparr>)
      else go_bind (get_scheme [] rawURL) parse_after_scheme)"

definition url_parse :: "string \<Rightarrow> (url_error, url) outcome" where
  "url_parse rawURL =
     (case cut_at CHR ''#'' rawURL of
        (s, None) \<Rightarrow> parse_no_frag s
      | (s, Some frag) \<Rightarrow>
          go_bind (parse_no_frag s) (\<lambda>u.
          if frag = [] then Ok u
          else go_bind (url_unescape encodeFragment frag) (\<lambda>f. Ok (u\<lparr>Fragment := f\<rparr>))))"

subsection \<open>Printing URLs\<close>

definition userinfo_string :: "userinfo \<Rightarrow> string" where
  "userinfo_string ui =
     url_escape encodeUserPassword (fst ui)
     @ (case snd ui of None \<Rightarrow> [] | Some p \<Rightarrow> '':'' @ url_escape encodeUserPassword p)"

text \<open>\<open>URL.EscapedPath\<close> and \<open>URL.EscapedFragment\<close> of a URL whose raw forms are consistent: the
  raw path is what \<open>setPath\<close> stored.\<close>

definition escaped_path :: "url \<Rightarrow> string" where
  "escaped_path u =
     (if RawPath u \<noteq> [] \<and> url_unescape encodePath (RawPath u) = Ok (Path u) then RawPath u
      else if Path u = ''*'' then ''*''
      else url_escape encodePath (Path u))"

definition url_string :: "url \<Rightarrow> string" where
  "url_string u =
     (let scheme = (if Scheme u \<noteq> [] then Scheme u @ '':'' else []);
          auth = (if Scheme u \<noteq> [] \<or> Host u \<noteq> [] \<or> User u \<noteq> None then
                    if OmitHost u \<and> Host u = [] \<and> User u = None then []
                    else
                      (if Host u \<noteq> [] \<or> Path u \<noteq> [] \<or> User u \<noteq> None then ''//'' else [])
                      @ (case User u of None \<Rightarrow> [] | Some ui \<Rightarrow> userinfo_string ui @ ''@'')
                      @ url_escape encodeHost (Host u)
                  else []);
          path = escaped_path u;
          slash = (if path \<noteq> [] \<and> hd path \<noteq> CHR ''/'' \<and> Host u \<noteq> [] then ''/'' else []);
          dot = (if scheme @ auth @ slash = [] \<and> CHR '':'' \<in> set (fst (cut_at CHR ''/'' path))
                 then ''./'' else []);
          hier = (if Opaque u \<noteq> [] then Opaque u else auth @ slash @ dot @ path)
      in scheme @ hier
         @ (if ForceQuery u \<or> RawQuery u \<noteq> [] then ''?'' @ RawQuery u else [])
         @ (if Fragment u \<noteq> [] then ''#'' @ url_escape encodeFragment (Fragment u) else []))"

subsection \<open>Query strings\<close>

text \<open>\<open>Values.Encode\<close> of single-valued entries: sorted by key.\<close>

fun bytes_le :: "string \<Rightarrow> string \<Rightarrow> bool" where
  "bytes_le [] t = True"
| "bytes_le (c # s) [] = False"
| "bytes_le (c # s) (d # t) = (byte_of c < byte_of d \<or> c = d \<and> bytes_le s t)"

fun insert_sorted :: "string \<times> 'v \<Rightarrow> (string \<times> 'v) list \<Rightarrow> (string \<times> 'v) list" where
  "insert_sorted kv [] = [kv]"
| "insert_sorted kv (e # es) =
     (if bytes_le (fst kv) (fst e) then kv # e # es else e # insert_sorted kv es)"

definition sort_entries :: "(string \<times> 'v) list \<Rightarrow> (string \<times> 'v) list" where
  "sort_entries kvs = foldr insert_sorted kvs []"

definition encode_entry :: "string \<times> string \<Rightarrow> string" where
  "encode_entry kv =
     url_escape encodeQueryComponent (fst kv) @ ''='' @ url_escape encodeQueryComponent (snd kv)"

definition values_encode :: "(string \<times> string) list \<Rightarrow> string" where
  "values_encode kvs = join ''&'' (map encode_entry (sort_entries kvs))"

text \<open>\<open>ParseQuery\<close> as \<open>URL.Query\<close> uses it: malformed pairs are dropped.\<close>

definition parse_pair :: "string \<Rightarrow> (string \<times> string) option" where
  "parse_pair s =
     (if CHR '';'' \<in> set s \<or> s = [] then None
      else
        let (k, v) = cut_at CHR ''='' s in
        (case (url_unescape encodeQueryComponent k, url_unescape encodeQueryComponent (after v)) of
           (Ok a, Ok b) \<Rightarrow> Some (a, b)
         | _ \<Rightarrow> None))"

definition parse_query :: "string \<Rightarrow> (string \<times> string) list" where
  "parse_query q = List.map_filter parse_pair (split_on CHR ''&'' q)"

text \<open>The first value of every key, in the order of first occurrence.\<close>

fun first_values :: "(string \<times> 'v) list \<Rightarrow> (string \<times> 'v) list" where
  "first_values [] = []"
| "first_values ((k, v) # kvs) = (k, v) # filter (\<lambda>e. fst e \<noteq> k) (first_values kvs)"

subsection \<open>Host and port\<close>

text \<open>\<open>net.SplitHostPort\<close>: host and port, or \<open>None\<close> for an address error.\<close>

definition SplitHostPort :: "string \<Rightarrow> (string \<times> string) option" where
  "SplitHostPort hostport =
     (case last_index hostport CHR '':'' of
        None \<Rightarrow> None
      | Some i \<Rightarrow>
          let port = drop (i + 1) hostport in
          if has_prefix hostport ''['' then
            (case index_any hostport '']'' of
               None \<Rightarrow> None
             | Some e \<Rightarrow>
                 if e + 1 \<noteq> i then None
                 else if CHR ''['' \<in> set (tl hostport) \<or> CHR '']'' \<in> set (drop (e + 1) hostport)
                   then None
                 else Some (substr hostport 1 e, port))
          else if CHR '':'' \<in> set (take i hostport) then None
          else if CHR ''['' \<in> set hostport \<or> CHR '']'' \<in> set hostport then None
          else Some (take i hostport, port))"

definition JoinHostPort :: "string \<Rightarrow> string \<Rightarrow> string" where
  "JoinHostPort host port =
     (if CHR '':'' \<in> set host then ''['' @ host @ '']:'' @ port else host @ '':'' @ port)"

text \<open>\<open>URL.Hostname\<close>: the host without its port and brackets.\<close>

definition hostname :: "string \<Rightarrow> string" where
  "hostname hostport =
     (let host = (case last_index hostport CHR '':'' of
                    Some i \<Rightarrow> if valid_optional_port (drop i hostport) then take i hostport else hostport
                  | None \<Rightarrow> hostport)
      in if has_prefix host ''['' \<and> host \<noteq> [] \<and> last host = CHR '']''
         then butlast (tl host) else host)"

subsection \<open>The authority of a URL\<close>

text \<open>The text behind \<open>://\<close> up to the first slash, question mark or hash.\<close>

definition auth_of :: "string \<Rightarrow> string" where
  "auth_of s = takeWhile (\<lambda>c. c \<notin> set ''/?#'') s"

lemma cut_at_takeWhile: "fst (cut_at c s) = takeWhile (\<lambda>x. x \<noteq> c) s"
  by (induction s) (auto simp: Let_def case_prod_beta)

lemma cut_query_takeWhile: "fst (cut_query s) = takeWhile (\<lambda>x. x \<noteq> CHR ''?'') s"
  unfolding cut_query_def cut_at_takeWhile [symmetric]
  by (auto split: prod.splits option.splits list.splits)

lemma takeWhile_twice: "takeWhile P (takeWhile Q s) = takeWhile (\<lambda>x. P x \<and> Q x) s"
  by (induction s) auto

lemma set_path_keeps: "set_path u p = Ok v \<Longrightarrow> Scheme v = Scheme u \<and> Host v = Host u \<and> User v = User u"
  by (auto simp: set_path_def go_bind_eq_Ok)

text \<open>Schemes that parsing leaves as they are.\<close>

definition good_scheme :: "string \<Rightarrow> bool" where
  "good_scheme sch \<longleftrightarrow> sch \<noteq> [] \<and> is_lower (hd sch) \<and> list_all (\<lambda>c. is_lower c \<or> c = CHR ''+'') sch"

definition web_scheme :: "string \<Rightarrow> bool" where
  "web_scheme sch \<longleftrightarrow> sch = ''http'' \<or> sch = ''https''"

lemma web_good: "web_scheme sch \<Longrightarrow> good_scheme sch"
  by (auto simp: web_scheme_def good_scheme_def is_lower_def)

lemma to_lower_lower:
  "list_all (\<lambda>c. is_lower c \<or> c = CHR ''+'') sch \<Longrightarrow> to_lower sch = sch"
proof (induction sch)
  case (Cons c s)
  then have "lower_byte c = c" "c \<noteq> CHR 0xE2" "c \<noteq> CHR 0xC4"
    by (auto simp: lower_byte_def is_upper_def is_lower_def)
  with Cons show ?case by (subst to_lower.simps) (auto simp: kelvin_def dotted_I_def)
qed (simp add: to_lower.simps)

lemma get_scheme_from:
  assumes "list_all (\<lambda>c. is_lower c \<or> c = CHR ''+'') sch" "acc = [] \<Longrightarrow> sch \<noteq> [] \<and> is_lower (hd sch)"
  shows "get_scheme acc (sch @ CHR '':'' # s) = Ok (acc @ sch, s)"
  using assms
proof (induction sch arbitrary: acc)
  case Nil
  then show ?case by (auto simp: is_alpha_def is_lower_def is_upper_def is_digit_def)
next
  case (Cons c sch)
  show ?case
  proof (cases "is_lower c")
    case True
    with Cons.prems Cons.IH [of "acc @ [c]"] show ?thesis by (simp add: is_alpha_def)
  next
    case False
    with Cons.prems have "c = CHR ''+''" "acc \<noteq> []" by auto
    with Cons.prems Cons.IH [of "acc @ [c]"] show ?thesis by (simp add: is_alpha_def is_lower_def is_upper_def is_digit_def)
  qed
qed

lemma get_scheme_good:
  "good_scheme sch \<Longrightarrow> get_scheme [] (sch @ ''://'' @ s) = Ok (sch, ''//'' @ s)"
  using get_scheme_from [of sch "[]" "''//'' @ s"] by (simp add: good_scheme_def)

lemma good_scheme_bytes: "good_scheme sch \<Longrightarrow> c \<in> set sch \<Longrightarrow> is_lower c \<or> c = CHR ''+''"
  by (auto simp: good_scheme_def list_all_iff)

lemma good_scheme_free: "good_scheme sch \<Longrightarrow> is_digit c \<or> c \<in> set '':/?#@*'' \<Longrightarrow> c \<notin> set sch"
  by (auto dest!: good_scheme_bytes simp: is_lower_def is_digit_def)

lemma parse_no_frag_authority:
  assumes "parse_no_frag (sch @ ''://'' @ s) = Ok u" "good_scheme sch"
  shows "Scheme u = sch
    \<and> parse_authority (takeWhile (\<lambda>c. c \<noteq> CHR ''/'' \<and> c \<noteq> CHR ''?'') s) = Ok (User u, Host u)"
proof -
  obtain r f q where c: "cut_query (''//'' @ s) = (r, f, q)" by (cases "cut_query (''//'' @ s)") auto
  then have r: "r = ''//'' @ takeWhile (\<lambda>x. x \<noteq> CHR ''?'') s"
    using cut_query_takeWhile [of "''//'' @ s"] by simp
  have g: "get_scheme [] (sch @ ''://'' @ s) = Ok (sch, ''//'' @ s)" "to_lower sch = sch" "sch \<noteq> []"
    using assms(2) get_scheme_good to_lower_lower by (auto simp: good_scheme_def)
  have "sch @ ''://'' @ s \<noteq> ''*''" by (cases sch) auto
  with assms(1) g c r show ?thesis
    by (auto simp: parse_no_frag_def parse_after_scheme_def parse_hier_def split_authority_def takeWhile_twice go_bind_eq_Ok
        dest!: set_path_keeps split: if_splits)
qed

lemma url_parse_authority:
  assumes "url_parse (sch @ ''://'' @ s) = Ok u" "good_scheme sch"
  shows "Scheme u = sch \<and> parse_authority (auth_of s) = Ok (User u, Host u)"
proof -
  let ?s = "takeWhile (\<lambda>x. x \<noteq> CHR ''#'') s"
  have no: "CHR ''#'' \<notin> set (sch @ ''://'')" using assms(2) by (auto dest: good_scheme_free)
  have f: "fst (cut_at CHR ''#'' (sch @ ''://'' @ s)) = sch @ ''://'' @ ?s"
    using cut_at_fst_append [OF no, of s] by (simp add: cut_at_takeWhile)
  obtain v where v: "parse_no_frag (sch @ ''://'' @ ?s) = Ok v"
    "Scheme u = Scheme v" "User u = User v" "Host u = Host v"
    using assms(1) f
    by (auto simp: url_parse_def go_bind_eq_Ok split: prod.splits option.splits if_splits)
  have "takeWhile (\<lambda>c. c \<noteq> CHR ''/'' \<and> c \<noteq> CHR ''?'') ?s = auth_of s"
    unfolding takeWhile_twice auth_of_def by (rule takeWhile_cong) auto
  with parse_no_frag_authority [OF v(1) assms(2)] v show ?thesis by simp
qed

text \<open>Text that starts with a slash, a question mark or a hash leaves the authority alone.\<close>

lemma auth_of_append:
  assumes "p = [] \<or> hd p \<in> set ''/?#''"
  shows "auth_of (h @ p) = auth_of h"
proof -
  have "takeWhile P (h @ p) = takeWhile P h" if "p = [] \<or> \<not> P (hd p)" for P
    using that by (induction h) (cases p; auto)+
  from this [of "\<lambda>c. c \<notin> set ''/?#''"] assms show ?thesis
    by (simp only: auth_of_def) blast
qed

lemma url_parse_append:
  assumes "url_parse (sch @ ''://'' @ h) = Ok base" "web_scheme sch" "p = [] \<or> hd p \<in> set ''/?#''"
    and "url_parse (sch @ ''://'' @ h @ p) = Ok u"
  shows "Scheme u = Scheme base \<and> Host u = Host base \<and> User u = User base"
  using url_parse_authority [OF assms(1) web_good [OF assms(2)]]
    url_parse_authority [OF assms(4) web_good [OF assms(2)]]
    auth_of_append [OF assms(3), of h] by simp

end
