(* ===== verification/Query_Types.thy ===== *)
theory Query_Types
  imports Column_Types Go_Url "HOL-Library.AList"
begin

text \<open>
  \<open>query.go\<close>, \<open>result_rows.go\<close> and the schema half of \<open>rows.go\<close>: the messages of the query
  protocol, how JSON documents become them (and back), the accessors of a response, and the
  materialisation of its text rows.

  JSON documents are trees (\<open>json\<close>).  Decoding follows \<open>encoding/json\<close>: members are stored into
  the existing struct one after the other, keys match without regard to case, unknown keys are
  skipped, \<open>null\<close> clears pointers, slices and maps and leaves other fields alone, and a member of
  the wrong kind is reported after the rest has been decoded.  A Go map is an association list
  with distinct keys.
\<close>

subsection \<open>Decoding JSON members\<close>

definition dec_int64 :: "json \<Rightarrow> int \<Rightarrow> int \<times> bool" where
  "dec_int64 j old =
     (case j of
        JNum t \<Rightarrow> (case parse_int64 t of Ok i \<Rightarrow> (i, True) | _ \<Rightarrow> (old, False))
      | JNull \<Rightarrow> (old, True)
      | _ \<Rightarrow> (old, False))"

definition dec_uint64 :: "json \<Rightarrow> nat \<Rightarrow> nat \<times> bool" where
  "dec_uint64 j old =
     (case j of
        JNum t \<Rightarrow> if list_all is_digit t \<and> digits_val t < 2 ^ 64 then (digits_val t, True) else (old, False)
      | JNull \<Rightarrow> (old, True)
      | _ \<Rightarrow> (old, False))"

text \<open>A floating-point member is kept as the text of its number.\<close>

definition dec_float :: "json \<Rightarrow> string \<Rightarrow> string \<times> bool" where
  "dec_float j old = (case j of JNum t \<Rightarrow> (t, True) | JNull \<Rightarrow> (old, True) | _ \<Rightarrow> (old, False))"

definition dec_ptr :: "(json \<Rightarrow> 'a \<Rightarrow> 'a \<times> bool) \<Rightarrow> 'a \<Rightarrow> json \<Rightarrow> 'a option \<Rightarrow> 'a option \<times> bool" where
  "dec_ptr dec zero j old =
     (if j = JNull then (None, True)
      else (let (x, ok) = dec j (case old of None \<Rightarrow> zero | Some o1 \<Rightarrow> o1) in (Some x, ok)))"

definition dec_list :: "(json \<Rightarrow> 'a \<Rightarrow> 'a \<times> bool) \<Rightarrow> 'a \<Rightarrow> json \<Rightarrow> 'a list \<Rightarrow> 'a list \<times> bool" where
  "dec_list dec zero j old =
     (case j of
        JArr js \<Rightarrow> (map (\<lambda>x. fst (dec x zero)) js, list_all (\<lambda>x. snd (dec x zero)) js)
      | JNull \<Rightarrow> ([], True)
      | _ \<Rightarrow> (old, False))"

type_synonym strmap = "(string \<times> string) list"

definition dec_map :: "json \<Rightarrow> strmap option \<Rightarrow> strmap option \<times> bool" where
  "dec_map j old =
     (case j of
        JObj kvs \<Rightarrow>
          (Some (foldl (\<lambda>m (k, v). AList.update k (fst (dec_string v [])) m)
                   (case old of None \<Rightarrow> [] | Some m \<Rightarrow> m) kvs),
           list_all (\<lambda>(k, v). snd (dec_string v [])) kvs)
      | JNull \<Rightarrow> (None, True)
      | _ \<Rightarrow> (old, False))"

text \<open>Reading a document from text: \<open>json.Unmarshal\<close> into an existing value.\<close>

definition json_error :: go_error where "json_error = EMsg ''json: cannot unmarshal''"

definition unmarshal :: "json_parser \<Rightarrow> (json \<Rightarrow> 'a \<Rightarrow> 'a \<times> bool) \<Rightarrow> string \<Rightarrow> 'a \<Rightarrow> 'a \<times> go_error option" where
  "unmarshal json_parse dec text old =
     (case json_parse text of
        None \<Rightarrow> (old, Some json_error)
      | Some j \<Rightarrow> (let (x, ok) = dec j old in (x, if ok then None else Some json_error)))"

subsection \<open>The response\<close>

record data_field =
  df_Name :: string
  df_Type :: string

record settings =
  TimeZone :: string
  GeometryOutputFormat :: string
  BinaryOutputFormat :: string
  HTTPJSONResultMode :: string

record query_progress =
  qp_Bytes :: nat
  qp_Rows :: nat

record query_stats =
  RunningTimeMS :: string
  ScanProgress :: query_progress
  WriteProgress :: query_progress
  ResultProgress :: query_progress

record query_response =
  qr_ID :: string
  qr_NodeID :: string
  qr_Session :: "json option"
  qr_Settings :: "settings option"
  qr_Schema :: "data_field list option"
  qr_Data :: "string option list list"
  qr_typedRows :: "dvalue list list option"
  qr_State :: string
  qr_Error :: "query_error option"
  qr_Stats :: "query_stats option"
  qr_StatsURI :: string
  qr_FinalURI :: string
  qr_NextURI :: string
  qr_KillURI :: string

definition empty_response :: query_response where
  "empty_response =
     \<lparr>qr_ID = [], qr_NodeID = [], qr_Session = None, qr_Settings = None, qr_Schema = None,
      qr_Data = [], qr_typedRows = None, qr_State = [], qr_Error = None, qr_Stats = None,
      qr_StatsURI = [], qr_FinalURI = [], qr_NextURI = [], qr_KillURI = []\<rparr>"

text \<open>Storing one decoded member: \<open>upd\<close> gets the decoded value.\<close>

definition member :: "('f \<times> bool) \<Rightarrow> ('f \<Rightarrow> 'r) \<Rightarrow> 'r \<times> bool" where
  "member d upd = (upd (fst d), snd d)"

definition query_error_member :: "string \<Rightarrow> json \<Rightarrow> query_error \<Rightarrow> query_error \<times> bool" where
  "query_error_member k v e =
     (if equal_fold k ''code'' then member (dec_int64 v (qe_code e)) (\<lambda>x. e\<lparr>qe_code := x\<rparr>)
      else if equal_fold k ''message'' then member (dec_string v (qe_message e)) (\<lambda>x. e\<lparr>qe_message := x\<rparr>)
      else if equal_fold k ''kind'' then member (dec_string v (qe_kind e)) (\<lambda>x. e\<lparr>qe_kind := x\<rparr>)
      else if equal_fold k ''detail'' then member (dec_string v (qe_detail e)) (\<lambda>x. e\<lparr>qe_detail := x\<rparr>)
      else (e, True))"

definition data_field_member :: "string \<Rightarrow> json \<Rightarrow> data_field \<Rightarrow> data_field \<times> bool" where
  "data_field_member k v f =
     (if equal_fold k ''name'' then member (dec_string v (df_Name f)) (\<lambda>x. f\<lparr>df_Name := x\<rparr>)
      else if equal_fold k ''type'' then member (dec_string v (df_Type f)) (\<lambda>x. f\<lparr>df_Type := x\<rparr>)
      else (f, True))"

definition settings_member :: "string \<Rightarrow> json \<Rightarrow> settings \<Rightarrow> settings \<times> bool" where
  "settings_member k v s =
     (if equal_fold k ''timezone'' then member (dec_string v (TimeZone s)) (\<lambda>x. s\<lparr>TimeZone := x\<rparr>)
      else if equal_fold k ''geometry_output_format'' then
        member (dec_string v (GeometryOutputFormat s)) (\<lambda>x. s\<lparr>GeometryOutputFormat := x\<rparr>)
      else if equal_fold k ''binary_output_format'' then
        member (dec_string v (BinaryOutputFormat s)) (\<lambda>x. s\<lparr>BinaryOutputFormat := x\<rparr>)
      else if equal_fold k ''http_json_result_mode'' then
        member (dec_string v (HTTPJSONResultMode s)) (\<lambda>x. s\<lparr>HTTPJSONResultMode := x\<rparr>)
      else (s, True))"

definition progress_member :: "string \<Rightarrow> json \<Rightarrow> query_progress \<Rightarrow> query_progress \<times> bool" where
  "progress_member k v p =
     (if equal_fold k ''bytes'' then member (dec_uint64 v (qp_Bytes p)) (\<lambda>x. p\<lparr>qp_Bytes := x\<rparr>)
      else if equal_fold k ''rows'' then member (dec_uint64 v (qp_Rows p)) (\<lambda>x. p\<lparr>qp_Rows := x\<rparr>)
      else (p, True))"

definition stats_member :: "string \<Rightarrow> json \<Rightarrow> query_stats \<Rightarrow> query_stats \<times> bool" where
  "stats_member k v s =
     (if equal_fold k ''running_time_ms'' then
        member (dec_float v (RunningTimeMS s)) (\<lambda>x. s\<lparr>RunningTimeMS := x\<rparr>)
      else if equal_fold k ''scan_progress'' then
        member (dec_struct progress_member v (ScanProgress s)) (\<lambda>x. s\<lparr>ScanProgress := x\<rparr>)
      else if equal_fold k ''write_progress'' then
        member (dec_struct progress_member v (WriteProgress s)) (\<lambda>x. s\<lparr>WriteProgress := x\<rparr>)
      else if equal_fold k ''result_progress'' then
        member (dec_struct progress_member v (ResultProgress s)) (\<lambda>x. s\<lparr>ResultProgress := x\<rparr>)
      else (s, True))"

definition no_query_error :: query_error where
  "no_query_error = \<lparr>qe_code = 0, qe_message = [], qe_kind = [], qe_detail = []\<rparr>"

definition no_settings :: settings where
  "no_settings = \<lparr>TimeZone = [], GeometryOutputFormat = [], BinaryOutputFormat = [], HTTPJSONResultMode = []\<rparr>"

definition no_stats :: query_stats where
  "no_stats =
     (let p = \<lparr>qp_Bytes = 0, qp_Rows = 0\<rparr> in
      \<lparr>RunningTimeMS = ''0'', ScanProgress = p, WriteProgress = p, ResultProgress = p\<rparr>)"

definition dec_fields :: "json \<Rightarrow> data_field list \<Rightarrow> data_field list \<times> bool" where
  "dec_fields = dec_list (dec_struct data_field_member) \<lparr>df_Name = [], df_Type = []\<rparr>"

definition dec_data :: "json \<Rightarrow> string option list list \<Rightarrow> string option list list \<times> bool" where
  "dec_data = dec_list (dec_list (dec_ptr dec_string []) None) []"

definition response_member :: "string \<Rightarrow> json \<Rightarrow> query_response \<Rightarrow> query_response \<times> bool" where
  "response_member k v r =
     (if equal_fold k ''id'' then member (dec_string v (qr_ID r)) (\<lambda>x. r\<lparr>qr_ID := x\<rparr>)
      else if equal_fold k ''node_id'' then member (dec_string v (qr_NodeID r)) (\<lambda>x. r\<lparr>qr_NodeID := x\<rparr>)
      else if equal_fold k ''session'' then
        (r\<lparr>qr_Session := (if v = JNull then None else Some v)\<rparr>, True)
      else if equal_fold k ''settings'' then
        member (dec_ptr (dec_struct settings_member) no_settings v (qr_Settings r)) (\<lambda>x. r\<lparr>qr_Settings := x\<rparr>)
      else if equal_fold k ''schema'' then
        member (dec_ptr dec_fields [] v (qr_Schema r)) (\<lambda>x. r\<lparr>qr_Schema := x\<rparr>)
      else if equal_fold k ''data'' then member (dec_data v (qr_Data r)) (\<lambda>x. r\<lparr>qr_Data := x\<rparr>)
      else if equal_fold k ''state'' then member (dec_string v (qr_State r)) (\<lambda>x. r\<lparr>qr_State := x\<rparr>)
      else if equal_fold k ''error'' then
        member (dec_ptr (dec_struct query_error_member) no_query_error v (qr_Error r)) (\<lambda>x. r\<lparr>qr_Error := x\<rparr>)
      else if equal_fold k ''stats'' then
        member (dec_ptr (dec_struct stats_member) no_stats v (qr_Stats r)) (\<lambda>x. r\<lparr>qr_Stats := x\<rparr>)
      else if equal_fold k ''stats_uri'' then member (dec_string v (qr_StatsURI r)) (\<lambda>x. r\<lparr>qr_StatsURI := x\<rparr>)
      else if equal_fold k ''final_uri'' then member (dec_string v (qr_FinalURI r)) (\<lambda>x. r\<lparr>qr_FinalURI := x\<rparr>)
      else if equal_fold k ''next_uri'' then member (dec_string v (qr_NextURI r)) (\<lambda>x. r\<lparr>qr_NextURI := x\<rparr>)
      else if equal_fold k ''kill_uri'' then member (dec_string v (qr_KillURI r)) (\<lambda>x. r\<lparr>qr_KillURI := x\<rparr>)
      else (r, True))"

definition dec_response :: "json \<Rightarrow> query_response \<Rightarrow> query_response \<times> bool" where
  "dec_response = dec_struct response_member"

subsection \<open>Accessors\<close>

definition ReadFinished :: "query_response \<Rightarrow> bool" where
  "ReadFinished r \<longleftrightarrow> qr_NextURI r = [] \<or> str_contains (qr_NextURI r) ''/final''"

definition bufferedRowCount :: "query_response \<Rightarrow> nat" where
  "bufferedRowCount r =
     (case qr_typedRows r of Some rows \<Rightarrow> length rows | None \<Rightarrow> length (qr_Data r))"

definition rows_of :: "query_response \<Rightarrow> dvalue list list" where
  "rows_of r = (case qr_typedRows r of Some rows \<Rightarrow> rows | None \<Rightarrow> [])"

definition cellValue :: "query_response \<Rightarrow> nat \<Rightarrow> nat \<Rightarrow> dvalue option" where
  "cellValue r i j =
     (if i < length (rows_of r) \<and> j < length (rows_of r ! i) then Some (rows_of r ! i ! j)
      else if i < length (qr_Data r) \<and> j < length (qr_Data r ! i) then
        map_option DString (qr_Data r ! i ! j)
      else None)"

definition cellString :: "query_response \<Rightarrow> nat \<Rightarrow> nat \<Rightarrow> string option" where
  "cellString r i j = (case cellValue r i j of Some (DString t) \<Rightarrow> Some t | _ \<Rightarrow> None)"

definition parseAffectedRows :: "json_parser \<Rightarrow> query_response \<Rightarrow> int go" where
  "parseAffectedRows json_parse r =
     (case qr_Schema r of
        Some (f # fs) \<Rightarrow>
          if str_contains (df_Name f) ''number of rows'' then
            (case cellString r 0 0 of
               Some value \<Rightarrow>
                 (case unmarshal json_parse dec_int64 value 0 of
                    (n, None) \<Rightarrow> Ok n
                  | (n, Some e) \<Rightarrow> Err (EWrap ''failed to parse affected rows'' e))
             | None \<Rightarrow> Ok 0)
          else Ok 0
      | _ \<Rightarrow> Ok 0)"

subsection \<open>The session\<close>

record session_state =
  ss_Database :: string
  ss_Role :: string
  ss_SecondaryRoles :: "string list option"
  ss_Settings :: "strmap option"
  ss_TxnState :: string
  ss_NeedSticky :: bool
  ss_NeedKeepAlive :: bool

definition TxnStateActive :: string where "TxnStateActive = ''Active''"
definition TxnStateAutoCommit :: string where "TxnStateAutoCommit = ''AutoCommit''"

definition empty_session :: session_state where
  "empty_session =
     \<lparr>ss_Database = [], ss_Role = [], ss_SecondaryRoles = None, ss_Settings = None,
      ss_TxnState = [], ss_NeedSticky = False, ss_NeedKeepAlive = False\<rparr>"

definition session_member :: "string \<Rightarrow> json \<Rightarrow> session_state \<Rightarrow> session_state \<times> bool" where
  "session_member k v s =
     (if equal_fold k ''database'' then member (dec_string v (ss_Database s)) (\<lambda>x. s\<lparr>ss_Database := x\<rparr>)
      else if equal_fold k ''role'' then member (dec_string v (ss_Role s)) (\<lambda>x. s\<lparr>ss_Role := x\<rparr>)
      else if equal_fold k ''secondary_roles'' then
        member (dec_ptr (dec_list dec_string []) [] v (ss_SecondaryRoles s))
          (\<lambda>x. s\<lparr>ss_SecondaryRoles := x\<rparr>)
      else if equal_fold k ''settings'' then member (dec_map v (ss_Settings s)) (\<lambda>x. s\<lparr>ss_Settings := x\<rparr>)
      else if equal_fold k ''txn_state'' then member (dec_string v (ss_TxnState s)) (\<lambda>x. s\<lparr>ss_TxnState := x\<rparr>)
      else if equal_fold k ''need_sticky'' then
        member (dec_bool v (ss_NeedSticky s)) (\<lambda>x. s\<lparr>ss_NeedSticky := x\<rparr>)
      else if equal_fold k ''need_keep_alive'' then
        member (dec_bool v (ss_NeedKeepAlive s)) (\<lambda>x. s\<lparr>ss_NeedKeepAlive := x\<rparr>)
      else (s, True))"

definition dec_session :: "json \<Rightarrow> session_state \<Rightarrow> session_state \<times> bool" where
  "dec_session = dec_struct session_member"

subsection \<open>Encoding requests\<close>

text \<open>Members that \<open>omitempty\<close> keeps or drops.\<close>

definition opt_string :: "string \<Rightarrow> string \<Rightarrow> (string \<times> json) list" where
  "opt_string k s = (if s = [] then [] else [(k, JStr s)])"

definition opt_int :: "string \<Rightarrow> int \<Rightarrow> (string \<times> json) list" where
  "opt_int k i = (if i = 0 then [] else [(k, JNum (format_int i))])"

definition opt_bool :: "string \<Rightarrow> bool \<Rightarrow> (string \<times> json) list" where
  "opt_bool k b = (if b then [(k, JBool True)] else [])"

definition map_json :: "strmap \<Rightarrow> json" where
  "map_json m = JObj (map (\<lambda>(k, v). (k, JStr v)) (sort_entries m))"

definition opt_map :: "string \<Rightarrow> strmap option \<Rightarrow> (string \<times> json) list" where
  "opt_map k m = (case m of Some (e # es) \<Rightarrow> [(k, map_json (e # es))] | _ \<Rightarrow> [])"

definition opt_json :: "string \<Rightarrow> json option \<Rightarrow> (string \<times> json) list" where
  "opt_json k j = (case j of None \<Rightarrow> [] | Some x \<Rightarrow> [(k, x)])"

definition session_json :: "session_state \<Rightarrow> json" where
  "session_json s =
     JObj (opt_string ''database'' (ss_Database s) @ opt_string ''role'' (ss_Role s)
       @ opt_json ''secondary_roles'' (map_option (\<lambda>rs. JArr (map JStr rs)) (ss_SecondaryRoles s))
       @ opt_map ''settings'' (ss_Settings s) @ opt_string ''txn_state'' (ss_TxnState s)
       @ opt_bool ''need_sticky'' (ss_NeedSticky s) @ opt_bool ''need_keep_alive'' (ss_NeedKeepAlive s))"

record pagination_config =
  pg_WaitTime :: int
  pg_MaxRowsInBuffer :: int
  pg_MaxRowsPerPage :: int

definition pagination_json :: "pagination_config \<Rightarrow> json" where
  "pagination_json p =
     JObj (opt_int ''wait_time_secs'' (pg_WaitTime p)
       @ opt_int ''max_rows_in_buffer'' (pg_MaxRowsInBuffer p)
       @ opt_int ''max_rows_per_page'' (pg_MaxRowsPerPage p))"

record stage_attachment =
  sa_Location :: string
  sa_FileFormatOptions :: "strmap option"
  sa_CopyOptions :: "strmap option"

definition stage_attachment_json :: "stage_attachment \<Rightarrow> json" where
  "stage_attachment_json a =
     JObj ((''location'', JStr (sa_Location a)) # opt_map ''file_format_options'' (sa_FileFormatOptions a)
       @ opt_map ''copy_options'' (sa_CopyOptions a))"

record query_request =
  rq_Session :: "json option"
  rq_SQL :: string
  rq_Pagination :: "pagination_config option"
  rq_ArrowResultVersionMax :: "int option"
  rq_StageAttachment :: "stage_attachment option"

definition query_request_json :: "query_request \<Rightarrow> json" where
  "query_request_json r =
     JObj (opt_json ''session'' (rq_Session r) @ [(''sql'', JStr (rq_SQL r))]
       @ opt_json ''pagination'' (map_option pagination_json (rq_Pagination r))
       @ opt_json ''arrow_result_version_max''
           (map_option (\<lambda>i. JNum (format_int i)) (rq_ArrowResultVersionMax r))
       @ opt_json ''stage_attachment'' (map_option stage_attachment_json (rq_StageAttachment r)))"

record login_request =
  lq_Database :: string
  lq_Role :: string
  lq_Settings :: "strmap option"

definition loginRequestFromSession :: "session_state option \<Rightarrow> login_request" where
  "loginRequestFromSession state =
     (case state of
        None \<Rightarrow> \<lparr>lq_Database = [], lq_Role = [], lq_Settings = None\<rparr>
      | Some s \<Rightarrow> \<lparr>lq_Database = ss_Database s, lq_Role = ss_Role s, lq_Settings = ss_Settings s\<rparr>)"

definition login_request_json :: "login_request \<Rightarrow> json" where
  "login_request_json r =
     JObj (opt_string ''database'' (lq_Database r) @ opt_string ''role'' (lq_Role r)
       @ opt_map ''settings'' (lq_Settings r))"

record login_response =
  lr_Version :: string
  lr_ServerMaxArrowResultVersion :: "int option"

definition login_response_member :: "string \<Rightarrow> json \<Rightarrow> login_response \<Rightarrow> login_response \<times> bool" where
  "login_response_member k v r =
     (if equal_fold k ''version'' then member (dec_string v (lr_Version r)) (\<lambda>x. r\<lparr>lr_Version := x\<rparr>)
      else if equal_fold k ''server_max_arrow_result_version'' then
        member (dec_ptr dec_int64 0 v (lr_ServerMaxArrowResultVersion r))
          (\<lambda>x. r\<lparr>lr_ServerMaxArrowResultVersion := x\<rparr>)
      else (r, True))"

record verify_response =
  vr_Tenant :: string
  vr_User :: string
  vr_Roles :: "string list"

definition verify_response_member :: "string \<Rightarrow> json \<Rightarrow> verify_response \<Rightarrow> verify_response \<times> bool" where
  "verify_response_member k v r =
     (if equal_fold k ''tenant'' then member (dec_string v (vr_Tenant r)) (\<lambda>x. r\<lparr>vr_Tenant := x\<rparr>)
      else if equal_fold k ''user'' then member (dec_string v (vr_User r)) (\<lambda>x. r\<lparr>vr_User := x\<rparr>)
      else if equal_fold k ''roles'' then
        member (dec_list dec_string [] v (vr_Roles r)) (\<lambda>x. r\<lparr>vr_Roles := x\<rparr>)
      else (r, True))"

subsection \<open>Materialising text rows\<close>

definition queryResponseColumnTypeOptions :: "tzdb \<Rightarrow> settings option \<Rightarrow> ColumnTypeOptions go" where
  "queryResponseColumnTypeOptions tz st =
     (case st of
        None \<Rightarrow> Ok defaultColumnTypeOptions
      | Some s \<Rightarrow>
          let opts = SetHTTPJSONResultMode (HTTPJSONResultMode s)
                (SetBinaryOutputFormat (BinaryOutputFormat s) defaultColumnTypeOptions)
          in if TimeZone s = [] then Ok opts
             else go_bind (LoadLocation tz (TimeZone s)) (\<lambda>location. Ok (SetTimezone location opts)))"

record result_schema =
  columns :: "string list"
  types :: "column_type list"

definition column_parser :: "ColumnTypeOptions \<Rightarrow> data_field \<Rightarrow> column_type go" where
  "column_parser opts field =
     map_err (EWrap (''newTextRows: failed to create a data parser for the type '' @ [CHR 0x27]
                @ df_Type field @ [CHR 0x27])) (NewColumnType (df_Type field) (Some opts))"

definition parse_schema :: "data_field list option \<Rightarrow> ColumnTypeOptions \<Rightarrow> result_schema go" where
  "parse_schema schema opts =
     (case schema of
        None \<Rightarrow> Ok \<lparr>columns = [], types = []\<rparr>
      | Some fs \<Rightarrow>
          go_bind (go_mapM (column_parser opts) fs) (\<lambda>ts. Ok \<lparr>columns = map df_Name fs, types = ts\<rparr>))"

text \<open>One row: cell \<open>i\<close> is parsed by column type \<open>i\<close>; a row that is longer than the schema
  indexes past the end of \<open>schema.types\<close>.\<close>

fun materialize_row :: "tzdb \<Rightarrow> column_type list \<Rightarrow> string option list \<Rightarrow> dvalue list go" where
  "materialize_row tz ts [] = Ok []"
| "materialize_row tz ts (None # cells) =
     go_bind (materialize_row tz (tl ts) cells) (\<lambda>vs. Ok (DNil # vs))"
| "materialize_row tz [] (Some v # cells) = Panic ''index out of range''"
| "materialize_row tz (t # ts) (Some v # cells) =
     go_bind (ct_Parse tz t v) (\<lambda>x.
     go_bind (materialize_row tz ts cells) (\<lambda>vs. Ok (x # vs)))"

definition materializeJSONQueryRows :: "tzdb \<Rightarrow> query_response \<Rightarrow> query_response go" where
  "materializeJSONQueryRows tz r =
     (if rows_of r \<noteq> [] \<or> qr_Data r = [] then Ok r
      else
        case qr_Schema r of
          None \<Rightarrow> Err (EMsg ''query rows and schema do not match'')
        | Some fs \<Rightarrow>
            if length fs \<noteq> length (hd (qr_Data r)) then
              Err (EMsg ''query rows and schema do not match'')
            else
              go_bind (queryResponseColumnTypeOptions tz (qr_Settings r)) (\<lambda>opts.
              go_bind (parse_schema (qr_Schema r) opts) (\<lambda>schema.
              go_bind (go_mapM (materialize_row tz (types schema)) (qr_Data r)) (\<lambda>rows.
              Ok (r\<lparr>qr_typedRows := Some rows, qr_Data := []\<rparr>)))))"

definition prependQueryRows :: "query_response \<Rightarrow> dvalue list list \<Rightarrow> query_response" where
  "prependQueryRows r prefix =
     (if prefix = [] then r else r\<lparr>qr_typedRows := Some (prefix @ rows_of r)\<rparr>)"

end
