(* ===== verification/Http.thy ===== *)
theory Http
  imports Go_Url Errors
begin

text \<open>
  The parts of \<open>net/http\<close> that the client uses: header maps with canonical keys, requests, and the
  client's \<open>Do\<close> with its redirect policy, over a network that answers one sent request at a time.
  \<open>const.go\<close> and the constants of \<open>connection.go\<close> give the header names; \<open>cookie_jar.go\<close> the jar.
\<close>

subsection \<open>Header names (\<open>const.go\<close>, \<open>connection.go\<close>)\<close>

definition LakeTenantHeader :: string where "LakeTenantHeader = ''X-DATABEND-TENANT''"
definition LakeWarehouseHeader :: string where "LakeWarehouseHeader = ''X-DATABEND-WAREHOUSE''"
definition LakeQueryIDHeader :: string where "LakeQueryIDHeader = ''X-DATABEND-QUERY-ID''"
definition LakeRouteHintHeader :: string where "LakeRouteHintHeader = ''X-DATABEND-ROUTE-HINT''"
definition LakeSessionIDHeader :: string where "LakeSessionIDHeader = ''X-DATABEND-SESSION-ID''"
definition LakeQueryIDNode :: string where "LakeQueryIDNode = ''X-DATABEND-NODE-ID''"
definition LakeQueryStickyNode :: string where "LakeQueryStickyNode = ''X-DATABEND-STICKY-NODE''"
definition Authorization :: string where "Authorization = ''Authorization''"
definition WarehouseRoute :: string where "WarehouseRoute = ''X-DATABEND-ROUTE''"
definition UserAgent :: string where "UserAgent = ''User-Agent''"
definition accept :: string where "accept = ''Accept''"
definition contentType :: string where "contentType = ''Content-Type''"
definition jsonContentType :: string where "jsonContentType = ''application/json; charset=utf-8''"
definition jsonMediaType :: string where "jsonMediaType = ''application/json''"
definition arrowStreamContentType :: string where
  "arrowStreamContentType = ''application/vnd.apache.arrow.stream''"

lemmas header_names =
  LakeTenantHeader_def LakeWarehouseHeader_def LakeQueryIDHeader_def LakeRouteHintHeader_def
  LakeSessionIDHeader_def LakeQueryIDNode_def LakeQueryStickyNode_def Authorization_def
  WarehouseRoute_def UserAgent_def accept_def contentType_def

subsection \<open>Headers\<close>

text \<open>\<open>textproto.CanonicalMIMEHeaderKey\<close> of a valid header name.\<close>

fun canon_from :: "bool \<Rightarrow> string \<Rightarrow> string" where
  "canon_from up [] = []"
| "canon_from up (c # s) =
     (if up then upper_byte c else lower_byte c) # canon_from (c = CHR ''-'') s"

definition canonical_key :: "string \<Rightarrow> string" where
  "canonical_key s = canon_from True s"

type_synonym header = "(string \<times> string) list"

definition header_set :: "string \<Rightarrow> string \<Rightarrow> header \<Rightarrow> header" where
  "header_set k v h = (canonical_key k, v) # filter (\<lambda>e. fst e \<noteq> canonical_key k) h"

definition header_lookup :: "header \<Rightarrow> string \<Rightarrow> string option" where
  "header_lookup h k = map_of h (canonical_key k)"

definition header_get :: "header \<Rightarrow> string \<Rightarrow> string" where
  "header_get h k = (case header_lookup h k of None \<Rightarrow> [] | Some v \<Rightarrow> v)"

lemma header_lookup_Nil [simp]: "header_lookup [] k = None"
  by (simp add: header_lookup_def)

lemma map_of_filter_key: "k \<noteq> j \<Longrightarrow> map_of (filter (\<lambda>e. fst e \<noteq> j) h) k = map_of h k"
  by (induction h) auto

lemma header_lookup_set [simp]:
  "header_lookup (header_set k v h) j =
     (if canonical_key j = canonical_key k then Some v else header_lookup h j)"
  by (auto simp: header_lookup_def header_set_def map_of_filter_key)

text \<open>The names of the source are pairwise different as canonical keys.\<close>

lemma canonical_names [simp]:
  "canonical_key LakeTenantHeader = ''X-Databend-Tenant''"
  "canonical_key LakeWarehouseHeader = ''X-Databend-Warehouse''"
  "canonical_key LakeQueryIDHeader = ''X-Databend-Query-Id''"
  "canonical_key LakeRouteHintHeader = ''X-Databend-Route-Hint''"
  "canonical_key LakeSessionIDHeader = ''X-Databend-Session-Id''"
  "canonical_key LakeQueryIDNode = ''X-Databend-Node-Id''"
  "canonical_key LakeQueryStickyNode = ''X-Databend-Sticky-Node''"
  "canonical_key Authorization = ''Authorization''"
  "canonical_key WarehouseRoute = ''X-Databend-Route''"
  "canonical_key UserAgent = ''User-Agent''"
  "canonical_key accept = ''Accept''"
  "canonical_key contentType = ''Content-Type''"
  by code_simp+

subsection \<open>The cookie jar (\<open>cookie_jar.go\<close>)\<close>

text \<open>A jar that ignores domains: a map from cookie names to values.\<close>

type_synonym jar = "(string \<times> string) list"

definition SetCookies :: "jar \<Rightarrow> (string \<times> string) list \<Rightarrow> jar" where
  "SetCookies jar cookies = foldl (\<lambda>j (name, v). (name, v) # filter (\<lambda>e. fst e \<noteq> name) j) jar cookies"

definition Cookies :: "jar \<Rightarrow> (string \<times> string) list" where
  "Cookies jar = jar"

lemma map_of_SetCookies: "map_of (SetCookies jar cookies) = map_of jar ++ map_of (rev cookies)"
proof (induction cookies arbitrary: jar)
  case (Cons c cookies)
  obtain n v where c: "c = (n, v)" by (cases c)
  have "map_of ((n, v) # filter (\<lambda>e. fst e \<noteq> n) jar) = (map_of jar)(n \<mapsto> v)"
    by (rule ext) (simp add: map_of_filter_key)
  with Cons.IH [of "(n, v) # filter (\<lambda>e. fst e \<noteq> n) jar"] c show ?case
    by (auto simp: SetCookies_def map_add_def fun_eq_iff map_of_filter_key split: option.splits)
qed (simp add: SetCookies_def)

lemma distinct_SetCookies: "distinct (map fst jar) \<Longrightarrow> distinct (map fst (SetCookies jar cookies))"
proof (induction cookies arbitrary: jar)
  case (Cons c cookies)
  have "distinct (map fst ((fst c, snd c) # filter (\<lambda>e. fst e \<noteq> fst c) jar))"
    using Cons.prems by (auto simp: distinct_map_filter)
  from Cons.IH [OF this] show ?case by (simp add: SetCookies_def case_prod_beta)
qed (simp add: SetCookies_def)

subsection \<open>Requests, replies, and the network\<close>

text \<open>A request as it goes over the wire: the URL it is dialled to, the \<open>Host\<close> header, the body
  (a JSON document, or an upload), and the cookies the jar adds.\<close>

datatype body = NoBody | JsonBody json | UploadBody string

record request =
  rq_Method :: string
  rq_URL :: url
  rq_Host :: string
  rq_Header :: header
  rq_Cookies :: "(string \<times> string) list"
  rq_Body :: body

text \<open>
  What the network answers to one sent request: a transport failure, a redirect (its status and
  \<open>Location\<close>, already resolved against the URL of the request, and whether it was relative), or
  a final response whose body may fail to read; the last two may set cookies.  The network sees
  everything sent so far, so that it may be any server or attacker.
\<close>

datatype reply =
    NetFail go_error
  | NetRedirect int url bool "(string \<times> string) list"
  | NetReply int header "(string \<times> string) list" "(string, string) outcome"

type_synonym network = "request list \<Rightarrow> reply"

record response =
  rs_StatusCode :: int
  rs_Header :: header
  rs_Body :: "(string, string) outcome"

record net_state =
  ns_Jar :: jar
  ns_Sent :: "request list"

text \<open>The request that follows a redirect: 301, 302 and 303 turn it into a \<open>GET\<close> without a body,
  and a custom host is kept only for a relative location.\<close>

definition redirect_request :: "request \<Rightarrow> int \<Rightarrow> url \<Rightarrow> bool \<Rightarrow> request" where
  "redirect_request req status loc relative =
     (let keep = (status = 307 \<or> status = 308) in
      req\<lparr>rq_URL := loc,
          rq_Host := (if relative \<and> rq_Host req \<noteq> [] \<and> rq_Host req \<noteq> Host (rq_URL req)
                      then rq_Host req else []),
          rq_Method := (if keep \<or> rq_Method req = ''GET'' \<or> rq_Method req = ''HEAD''
                        then rq_Method req else ''GET''),
          rq_Body := (if keep then rq_Body req else NoBody)\<rparr>)"

text \<open>The \<open>*url.Error\<close> around a failure of \<open>Do\<close>; \<open>quoted\<close> is the \<open>%q\<close> format.\<close>

definition url_failure :: "(string \<Rightarrow> string) \<Rightarrow> request \<Rightarrow> go_error \<Rightarrow> go_error" where
  "url_failure quoted req e =
     EWrap (take 1 (rq_Method req) @ to_lower (drop 1 (rq_Method req)) @ '' ''
            @ quoted (url_string (rq_URL req))) e"

text \<open>
  \<open>http.Client.Do\<close>.  \<open>policy\<close> is \<open>CheckRedirect\<close>: it sees the next URL and those already
  requested, first one first.  \<open>usejar\<close> says whether the client has a cookie jar.  The fuel bounds
  the number of requests.
\<close>

type_synonym redirect_policy = "url \<Rightarrow> url list \<Rightarrow> go_error option"

fun http_do ::
  "(string \<Rightarrow> string) \<Rightarrow> network \<Rightarrow> redirect_policy \<Rightarrow> bool \<Rightarrow> nat \<Rightarrow> url list \<Rightarrow> request \<Rightarrow> net_state
    \<Rightarrow> response go \<times> net_state"
where
  "http_do quoted net policy usejar 0 via req ns = (Panic ''out of fuel'', ns)"
| "http_do quoted net policy usejar (Suc n) via req ns =
     (let r = req\<lparr>rq_Cookies := (if usejar then Cookies (ns_Jar ns) else [])\<rparr>;
          sent = ns_Sent ns @ [r];
          jar = (\<lambda>cs. if usejar then SetCookies (ns_Jar ns) cs else ns_Jar ns)
      in case net sent of
           NetFail e \<Rightarrow> (Err (url_failure quoted req e), ns\<lparr>ns_Sent := sent\<rparr>)
         | NetReply status h cs b \<Rightarrow>
             (Ok \<lparr>rs_StatusCode = status, rs_Header = h, rs_Body = b\<rparr>,
              \<lparr>ns_Jar = jar cs, ns_Sent = sent\<rparr>)
         | NetRedirect status loc relative cs \<Rightarrow>
             let ns' = \<lparr>ns_Jar = jar cs, ns_Sent = sent\<rparr>; via' = via @ [rq_URL req] in
             (case policy loc via' of
                Some e \<Rightarrow> (Err (url_failure quoted req e), ns')
              | None \<Rightarrow>
                  http_do quoted net policy usejar n via' (redirect_request req status loc relative) ns'))"

text \<open>A policy that stops after \<open>k\<close> requests makes a little more fuel than that enough.\<close>

lemma http_do_no_panic:
  assumes "\<And>u vs. k \<le> length vs \<Longrightarrow> policy u vs \<noteq> None" "k < n + length via" "0 < n"
  shows "\<not> is_panic (fst (http_do quoted net policy usejar n via req ns))"
  using assms(2,3)
proof (induction n arbitrary: via req ns)
  case (Suc n)
  show ?case
  proof (cases "k \<le> Suc (length via)")
    case True
    then have "policy u (via @ [rq_URL req]) = None \<Longrightarrow> False" for u
      using assms(1) [of "via @ [rq_URL req]" u] by simp
    then show ?thesis by (cases usejar) (auto simp: Let_def split: reply.splits option.splits)
  next
    case False
    then have "\<not> is_panic (fst (http_do quoted net policy usejar n (via @ [rq_URL req]) r ns'))" for r ns'
      using Suc.prems by (intro Suc.IH) auto
    then show ?thesis by (cases usejar) (auto simp: Let_def split: reply.splits option.splits)
  qed
qed simp

text \<open>What holds of every request that \<open>Do\<close> sends, when it holds of the first and the policy
  keeps it.\<close>

lemma http_do_sent:
  assumes "\<And>r cs. P r \<Longrightarrow> P (r\<lparr>rq_Cookies := cs\<rparr>)"
    and "\<And>r status loc relative vs.
      P r \<Longrightarrow> policy loc vs = None \<Longrightarrow> vs \<noteq> [] \<Longrightarrow> Q (hd vs) \<Longrightarrow> P (redirect_request r status loc relative)"
    and "P req" "if via = [] then Q (rq_URL req) else Q (hd via)" "list_all P (ns_Sent ns)"
  shows "list_all P (ns_Sent (snd (http_do quoted net policy usejar n via req ns)))"
  using assms(3-5)
proof (induction n arbitrary: via req ns)
  case (Suc n)
  have q: "Q (hd (via @ [rq_URL req]))" using Suc.prems(2) by (cases via) auto
  have p: "P (req\<lparr>rq_Cookies := cs\<rparr>)" for cs using assms(1) Suc.prems(1) by blast
  have IH: "list_all P (ns_Sent (snd (http_do quoted net policy usejar n (via @ [rq_URL req])
      (redirect_request req status loc relative) ns')))"
    if "policy loc (via @ [rq_URL req]) = None" "list_all P (ns_Sent ns')" for status loc relative ns'
    using that q assms(2) [OF Suc.prems(1)] by (intro Suc.IH) (auto split: if_splits)
  show ?case
    using p Suc.prems(3) IH
    by (cases usejar) (auto simp: Let_def split: reply.splits option.splits)
qed simp

end
