(* ===== verification/Arrow.thy ===== *)
theory Arrow
  imports Query_Types Http "HOL-Library.Word"
begin

text \<open>
  \<open>arrow.go\<close> without the HTTP loop (which is in \<open>Client\<close>): the database type names of Arrow
  fields, the conversion of Arrow cells into driver values, and \<open>decodeQueryResponse\<close>.

  The Arrow library is not part of the repository.  Its schema types are the datatype
  \<open>arrow_type\<close>; its IPC reader is a parameter that turns the bytes of a response into an
  \<open>arrow_stream\<close>; \<open>arrow_val\<close> holds what \<open>GetOneForMarshal\<close> answers for a cell (a float is the
  text \<open>strconv.FormatFloat\<close> gives, and \<open>json.Marshal\<close> of any other value is the parameter
  \<open>marshal\<close>).  Error texts are abbreviated to the constant part of their format string.
\<close>

subsection \<open>What the Arrow library delivers\<close>

datatype arrow_type =
    ArrowNull | ArrowBoolean
  | ArrowInt8 | ArrowInt16 | ArrowInt32 | ArrowInt64
  | ArrowUint8 | ArrowUint16 | ArrowUint32 | ArrowUint64
  | ArrowFloat32 | ArrowFloat64
  | ArrowBinary | ArrowLargeBinary | ArrowFixedSizeBinary
  | ArrowString | ArrowLargeString | ArrowStringView
  | ArrowTimestamp | ArrowDate32
  | ArrowDecimal64 int int | ArrowDecimal128 int int | ArrowDecimal256 int int
  | ArrowList arrow_field | ArrowLargeList arrow_field
  | ArrowFixedSizeList arrow_type int
  | ArrowMap arrow_field arrow_field
  | ArrowStruct "arrow_field list"
  | ArrowOther string
and arrow_field =
    ArrowField (af_Name: string) (af_Type: arrow_type) (af_Nullable: bool) (af_Metadata: strmap)

datatype arrow_val =
    AVNil
  | AVTime gtime
  | AVString string
  | AVBytes string
  | AVBool bool
  | AVInt int
  | AVUint nat
  | AVFloat string
  | AVRawMessage string
  | AVDecimal128 "64 word" "64 word"      \<comment> \<open>low and high bits\<close>
  | AVOther nat

text \<open>A column: which cells are null; the cells it can marshal, if it can; and the cells of a
  \<open>*array.Decimal128\<close>, if it is one.\<close>

record arrow_column =
  ac_nulls :: "bool list"
  ac_values :: "arrow_val list option"
  ac_decimals :: "(64 word \<times> 64 word) list option"

record arrow_batch =
  ab_Schema :: "arrow_field list"
  ab_Columns :: "arrow_column list"
  ab_NumRows :: nat

record arrow_stream =
  as_Schema :: "arrow_field list option"
  as_Metadata :: strmap
  as_Batches :: "arrow_batch list"
  as_Err :: "string option"

type_synonym arrow_reader = "string \<Rightarrow> arrow_stream option"
type_synonym marshal = "arrow_val \<Rightarrow> string option"

definition go_nth :: "'a list \<Rightarrow> nat \<Rightarrow> 'a go" where
  "go_nth xs i = (if i < length xs then Ok (xs ! i) else Panic ''index out of range'')"

subsection \<open>Type names\<close>

definition decimal_type_name :: "int \<Rightarrow> int \<Rightarrow> string" where
  "decimal_type_name p s = ''Decimal('' @ format_int p @ '', '' @ format_int s @ '')''"

text \<open>The branch of \<open>baseDataTypeStringFromArrowField\<close> for an extension type.\<close>

definition extensionTypeString :: "string \<Rightarrow> arrow_type \<Rightarrow> string go" where
  "extensionTypeString ext ty =
     (if ext \<in> {''EmptyArray'', ''EmptyMap'', ''Variant'', ''Bitmap'', ''Geometry'', ''Geography'',
                ''Interval''} then Ok ext
      else if ext = ''TimestampTz'' then Ok ''Timestamp_Tz''
      else if ext = ''Vector'' then
        (case ty of
           ArrowFixedSizeList elem len \<Rightarrow>
             if elem \<noteq> ArrowFloat32 then Err (EMsg ''unsupported vector element type'')
             else Ok (''Vector('' @ format_int len @ '')'')
         | _ \<Rightarrow> Err (EMsg ''unsupported vector arrow field''))
      else Err (EMsg ''unsupported arrow extension type''))"

fun scalarTypeString :: "arrow_type \<Rightarrow> string option" where
  "scalarTypeString ArrowNull = Some ''Null''"
| "scalarTypeString ArrowBoolean = Some ''Boolean''"
| "scalarTypeString ArrowInt8 = Some ''Int8''"
| "scalarTypeString ArrowInt16 = Some ''Int16''"
| "scalarTypeString ArrowInt32 = Some ''Int32''"
| "scalarTypeString ArrowInt64 = Some ''Int64''"
| "scalarTypeString ArrowUint8 = Some ''UInt8''"
| "scalarTypeString ArrowUint16 = Some ''UInt16''"
| "scalarTypeString ArrowUint32 = Some ''UInt32''"
| "scalarTypeString ArrowUint64 = Some ''UInt64''"
| "scalarTypeString ArrowFloat32 = Some ''Float32''"
| "scalarTypeString ArrowFloat64 = Some ''Float64''"
| "scalarTypeString ArrowBinary = Some ''Binary''"
| "scalarTypeString ArrowLargeBinary = Some ''Binary''"
| "scalarTypeString ArrowFixedSizeBinary = Some ''Binary''"
| "scalarTypeString ArrowString = Some ''String''"
| "scalarTypeString ArrowLargeString = Some ''String''"
| "scalarTypeString ArrowStringView = Some ''String''"
| "scalarTypeString ArrowTimestamp = Some ''Timestamp''"
| "scalarTypeString ArrowDate32 = Some ''Date''"
| "scalarTypeString (ArrowDecimal64 p s) = Some (decimal_type_name p s)"
| "scalarTypeString (ArrowDecimal128 p s) = Some (decimal_type_name p s)"
| "scalarTypeString (ArrowDecimal256 p s) = Some (decimal_type_name p s)"
| "scalarTypeString _ = None"

function dataTypeStringFromArrowField :: "arrow_field \<Rightarrow> string go"
  and baseDataTypeStringFromArrowField :: "arrow_field \<Rightarrow> string go"
  and dataTypeStrings :: "arrow_field list \<Rightarrow> string list go"
where
  "dataTypeStringFromArrowField field =
     go_bind (baseDataTypeStringFromArrowField field) (\<lambda>dbType.
     if af_Nullable field \<and> dbType \<noteq> ''Null'' then Ok (''Nullable('' @ dbType @ '')'') else Ok dbType)"
| "baseDataTypeStringFromArrowField (ArrowField name ty nullable meta) =
     (case map_of meta ''Extension'' of
        Some ext \<Rightarrow> extensionTypeString ext ty
      | None \<Rightarrow>
          (case ty of
             ArrowList elem \<Rightarrow>
               go_bind (dataTypeStringFromArrowField elem) (\<lambda>inner. Ok (''Array('' @ inner @ '')''))
           | ArrowLargeList elem \<Rightarrow>
               go_bind (dataTypeStringFromArrowField elem) (\<lambda>inner. Ok (''Array('' @ inner @ '')''))
           | ArrowMap k v \<Rightarrow>
               go_bind (dataTypeStringFromArrowField k) (\<lambda>key.
               go_bind (dataTypeStringFromArrowField v) (\<lambda>val.
               Ok (''Map('' @ key @ '', '' @ val @ '')'')))
           | ArrowStruct fs \<Rightarrow>
               go_bind (dataTypeStrings fs) (\<lambda>parts. Ok (''Tuple('' @ join '', '' parts @ '')''))
           | _ \<Rightarrow>
               (case scalarTypeString ty of
                  Some s \<Rightarrow> Ok s
                | None \<Rightarrow> Err (EMsg ''unsupported arrow data type''))))"
| "dataTypeStrings [] = Ok []"
| "dataTypeStrings (f # fs) =
     go_bind (dataTypeStringFromArrowField f) (\<lambda>s.
     go_bind (dataTypeStrings fs) (\<lambda>ss. Ok (s # ss)))"
  by pat_completeness auto
termination
proof (relation "measure
   (\<lambda>x. case x of
        Inl f \<Rightarrow> 2 * size f + 1
      | Inr (Inl f) \<Rightarrow> 2 * size f
      | Inr (Inr fs) \<Rightarrow> 2 * size_list size fs + 1)", goal_cases)
qed auto

definition field_to_data :: "arrow_field \<Rightarrow> data_field go" where
  "field_to_data f =
     go_bind (dataTypeStringFromArrowField f) (\<lambda>dbType. Ok \<lparr>df_Name = af_Name f, df_Type = dbType\<rparr>)"

definition dataFieldsFromArrowSchema :: "arrow_field list option \<Rightarrow> data_field list go" where
  "dataFieldsFromArrowSchema schema =
     (case schema of
        None \<Rightarrow> Err (EMsg ''missing arrow schema in response'')
      | Some fs \<Rightarrow> go_mapM field_to_data fs)"

subsection \<open>Instants\<close>

definition arrowTimestampMicrosMin :: int where "arrowTimestampMicrosMin = - 377705023201000000"
definition arrowTimestampMicrosMax :: int where "arrowTimestampMicrosMax = 253402207200000000"

definition clampArrowTimestampMicros :: "64 word \<Rightarrow> 64 word" where
  "clampArrowTimestampMicros value =
     (if sint value < arrowTimestampMicrosMin then word_of_int arrowTimestampMicrosMin
      else if arrowTimestampMicrosMax < sint value then word_of_int arrowTimestampMicrosMax
      else value)"

text \<open>\<open>time.UnixMicro\<close> and \<open>Time.In\<close>.\<close>

definition UnixMicro :: "int \<Rightarrow> gtime" where
  "UnixMicro us = \<lparr>t_ns = us * 1000, t_loc = Local\<rparr>"

definition time_in :: "gtime \<Rightarrow> location \<Rightarrow> gtime" where
  "time_in t loc = t\<lparr>t_loc := loc\<rparr>"

text \<open>The time zone offset is the low half of the high word, as a signed 32-bit integer.\<close>

definition arrowTimestampTZDecimalToTime :: "64 word \<Rightarrow> 64 word \<Rightarrow> gtime" where
  "arrowTimestampTZDecimalToTime low high =
     time_in (UnixMicro (sint (clampArrowTimestampMicros low)))
       (FixedZone [] (sint (ucast high :: 32 word)))"

definition layout_micros :: "chunk list" where
  "layout_micros = layout_datetime @ [FracSecond0 6]"

definition layout_micros_tz :: "chunk list" where
  "layout_micros_tz = layout_micros @ [Lit CHR '' '', NumTZ]"

definition formatArrowTimestampTZDecimalValue :: "tzdb \<Rightarrow> 64 word \<Rightarrow> 64 word \<Rightarrow> string" where
  "formatArrowTimestampTZDecimalValue tz low high =
     (let ts = arrowTimestampTZDecimalToTime low high;
          offset = z_offset (zone_lookup tz (t_loc ts) (t_ns ts div 1000000000))
      in time_format tz layout_micros_tz (time_in ts (FixedZone [] offset)))"

definition layout_rfc3339nano :: "chunk list" where
  "layout_rfc3339nano =
     layout_date @ [Lit CHR ''T''] @ layout_clock @ [FracSecond9, ISO8601ColonTZ]"

definition zonedLayouts :: "chunk list list" where
  "zonedLayouts =
     [layout_datetime @ [FracSecond9, ISO8601TZ], layout_datetime @ [FracSecond9, ISO8601TZ],
      layout_datetime @ [ISO8601TZ], layout_rfc3339nano]"

definition localLayouts :: "chunk list list" where
  "localLayouts = [layout_datetime @ [FracSecond9], layout_datetime @ [FracSecond9], layout_datetime]"

fun first_ok :: "(chunk list \<Rightarrow> gtime go) \<Rightarrow> chunk list list \<Rightarrow> gtime option" where
  "first_ok p [] = None"
| "first_ok p (l # ls) = (case p l of Ok t \<Rightarrow> Some t | _ \<Rightarrow> first_ok p ls)"

definition parseArrowTimestampString :: "tzdb \<Rightarrow> string \<Rightarrow> location \<Rightarrow> gtime go" where
  "parseArrowTimestampString tz value loc =
     (case first_ok (\<lambda>l. TimeParse tz l value) zonedLayouts of
        Some t \<Rightarrow> Ok t
      | None \<Rightarrow>
          (case first_ok (\<lambda>l. ParseInLocation tz l value loc) localLayouts of
             Some t \<Rightarrow> Ok t
           | None \<Rightarrow> Err (EMsg ''failed to parse arrow timestamp value'')))"

definition parseArrowTimestampValue :: "tzdb \<Rightarrow> arrow_val \<Rightarrow> location \<Rightarrow> gtime go" where
  "parseArrowTimestampValue tz value loc =
     (case value of
        AVTime t \<Rightarrow> Ok t
      | AVString s \<Rightarrow> parseArrowTimestampString tz s loc
      | _ \<Rightarrow> Err (EMsg ''unsupported arrow timestamp value type''))"

subsection \<open>Cells as text\<close>

definition formatArrowScalar :: "marshal \<Rightarrow> arrow_val \<Rightarrow> string go" where
  "formatArrowScalar marshal value =
     (case value of
        AVNil \<Rightarrow> Ok []
      | AVString s \<Rightarrow> Ok s
      | AVBool b \<Rightarrow> Ok (if b then ''true'' else ''false'')
      | AVInt i \<Rightarrow> Ok (format_int i)
      | AVUint n \<Rightarrow> Ok (format_uint n)
      | AVFloat t \<Rightarrow> Ok t
      | AVRawMessage s \<Rightarrow> Ok s
      | AVBytes s \<Rightarrow> Ok s
      | _ \<Rightarrow> (case marshal value of Some t \<Rightarrow> Ok t | None \<Rightarrow> Err json_error))"

definition formatArrowDateValue :: "tzdb \<Rightarrow> marshal \<Rightarrow> arrow_val \<Rightarrow> string go" where
  "formatArrowDateValue tz marshal value =
     (case value of
        AVString s \<Rightarrow> go_bind (TimeParse tz layout_date s) (\<lambda>_. Ok s)
      | AVTime t \<Rightarrow> Ok (time_format tz layout_date (time_in t UTC))
      | _ \<Rightarrow> formatArrowScalar marshal value)"

definition formatArrowTimestampValue :: "tzdb \<Rightarrow> arrow_val \<Rightarrow> location \<Rightarrow> string go" where
  "formatArrowTimestampValue tz value loc =
     go_bind (parseArrowTimestampValue tz value loc) (\<lambda>ts.
     Ok (time_format tz layout_micros (time_in ts loc)))"

definition formatArrowTimestampTZValue :: "tzdb \<Rightarrow> arrow_val \<Rightarrow> location \<Rightarrow> string go" where
  "formatArrowTimestampTZValue tz value loc =
     (case value of
        AVDecimal128 low high \<Rightarrow> Ok (formatArrowTimestampTZDecimalValue tz low high)
      | _ \<Rightarrow>
          go_bind (parseArrowTimestampValue tz value loc) (\<lambda>ts.
          Ok (time_format tz layout_micros_tz ts)))"

definition formatArrowValue :: "tzdb \<Rightarrow> marshal \<Rightarrow> type_desc \<Rightarrow> arrow_val \<Rightarrow> location \<Rightarrow> string go" where
  "formatArrowValue tz marshal desc value loc =
     (if Name desc = ''Date'' then formatArrowDateValue tz marshal value
      else if Name desc = ''Timestamp'' then formatArrowTimestampValue tz value loc
      else if Name desc = ''Timestamp_Tz'' then formatArrowTimestampTZValue tz value loc
      else
        (case value of
           AVBytes raw \<Rightarrow> if Name desc = ''Binary'' then Ok (to_upper (hex_encode raw))
                          else formatArrowScalar marshal value
         | _ \<Rightarrow> formatArrowScalar marshal value))"

definition cell_value :: "arrow_column \<Rightarrow> nat \<Rightarrow> arrow_val go" where
  "cell_value column rowIdx =
     (case ac_values column of
        None \<Rightarrow> Err (EMsg ''arrow column does not support row materialization'')
      | Some vs \<Rightarrow> go_nth vs rowIdx)"

definition formatArrowColumnValue ::
  "tzdb \<Rightarrow> marshal \<Rightarrow> type_desc \<Rightarrow> arrow_column \<Rightarrow> nat \<Rightarrow> location \<Rightarrow> string go" where
  "formatArrowColumnValue tz marshal desc column rowIdx loc =
     (case (Name desc = ''Timestamp_Tz'', ac_decimals column) of
        (True, Some ds) \<Rightarrow>
          go_bind (go_nth ds rowIdx) (\<lambda>(low, high). Ok (formatArrowTimestampTZDecimalValue tz low high))
      | _ \<Rightarrow>
          go_bind (cell_value column rowIdx) (\<lambda>v. formatArrowValue tz marshal desc v loc))"

subsection \<open>Cells as driver values\<close>

definition materializeArrowBinaryDriverValue :: "arrow_column \<Rightarrow> nat \<Rightarrow> dvalue go" where
  "materializeArrowBinaryDriverValue column rowIdx =
     go_bind (cell_value column rowIdx) (\<lambda>v.
     case v of
       AVBytes raw \<Rightarrow> Ok (materializeBinaryFromBinary raw)
     | AVString s \<Rightarrow> Ok (DBytes s)
     | _ \<Rightarrow> Err (EMsg ''unsupported arrow binary value type''))"

text \<open>\<open>Truncate(24 * time.Hour)\<close> of a UTC instant: midnight of its day.\<close>

definition truncate_day :: "gtime \<Rightarrow> gtime" where
  "truncate_day t = t\<lparr>t_ns := t_ns t - t_ns t mod 86400000000000\<rparr>"

definition materializeArrowDateDriverValue ::
  "tzdb \<Rightarrow> marshal \<Rightarrow> arrow_column \<Rightarrow> nat \<Rightarrow> dvalue go" where
  "materializeArrowDateDriverValue tz marshal column rowIdx =
     go_bind (cell_value column rowIdx) (\<lambda>v.
     case v of
       AVTime t \<Rightarrow> Ok (DTime (truncate_day (time_in t UTC)))
     | AVString s \<Rightarrow> go_bind (TimeParse tz layout_date s) (\<lambda>t. Ok (DTime t))
     | _ \<Rightarrow>
         go_bind (formatArrowDateValue tz marshal v) (\<lambda>text.
         go_bind (TimeParse tz layout_date text) (\<lambda>t. Ok (DTime t))))"

definition materializeArrowTimestampDriverValue ::
  "tzdb \<Rightarrow> arrow_column \<Rightarrow> nat \<Rightarrow> location \<Rightarrow> dvalue go" where
  "materializeArrowTimestampDriverValue tz column rowIdx loc =
     go_bind (cell_value column rowIdx) (\<lambda>v.
     go_bind (parseArrowTimestampValue tz v loc) (\<lambda>ts. Ok (DTime (time_in ts loc))))"

definition materializeArrowTimestampTZDriverValue ::
  "tzdb \<Rightarrow> arrow_column \<Rightarrow> nat \<Rightarrow> location \<Rightarrow> dvalue go" where
  "materializeArrowTimestampTZDriverValue tz column rowIdx loc =
     (case ac_decimals column of
        Some ds \<Rightarrow>
          go_bind (go_nth ds rowIdx) (\<lambda>(low, high). Ok (DTime (arrowTimestampTZDecimalToTime low high)))
      | None \<Rightarrow>
          go_bind (cell_value column rowIdx) (\<lambda>v.
          go_bind (parseArrowTimestampValue tz v loc) (\<lambda>ts. Ok (DTime ts))))"

definition materializeArrowDriverValue ::
  "tzdb \<Rightarrow> marshal \<Rightarrow> type_desc \<Rightarrow> arrow_column \<Rightarrow> nat \<Rightarrow> location \<Rightarrow> dvalue go" where
  "materializeArrowDriverValue tz marshal desc column rowIdx loc =
     (if Name desc = ''Null'' then Ok DNil
      else if Name desc = ''Binary'' then materializeArrowBinaryDriverValue column rowIdx
      else if Name desc = ''Date'' then materializeArrowDateDriverValue tz marshal column rowIdx
      else if Name desc = ''Timestamp'' then materializeArrowTimestampDriverValue tz column rowIdx loc
      else if Name desc = ''Timestamp_Tz'' then
        materializeArrowTimestampTZDriverValue tz column rowIdx loc
      else
        go_bind (formatArrowColumnValue tz marshal desc column rowIdx loc) (\<lambda>s. Ok (DString s)))"

subsection \<open>Batches and responses\<close>

text \<open>The body of the inner loop: null columns and null cells are \<open>nil\<close>.\<close>

definition arrow_cell ::
  "tzdb \<Rightarrow> marshal \<Rightarrow> location \<Rightarrow> nat \<Rightarrow> type_desc \<times> arrow_column \<Rightarrow> dvalue go" where
  "arrow_cell tz marshal loc rowIdx dc =
     (case dc of (desc, column) \<Rightarrow>
        if Name desc = ''Null'' then Ok DNil
        else go_bind (go_nth (ac_nulls column) rowIdx) (\<lambda>null.
          if null then Ok DNil
          else materializeArrowDriverValue tz marshal desc column rowIdx loc))"

definition field_desc :: "data_field \<Rightarrow> type_desc go" where
  "field_desc f = go_bind (ParseTypeDesc (df_Type f)) Normalize"

definition settings_location :: "tzdb \<Rightarrow> settings option \<Rightarrow> location go" where
  "settings_location tz st =
     (case st of
        None \<Rightarrow> Ok UTC
      | Some s \<Rightarrow> if TimeZone s = [] then Ok UTC else LoadLocation tz (TimeZone s))"

definition arrowRecordToRows ::
  "tzdb \<Rightarrow> marshal \<Rightarrow> data_field list \<Rightarrow> settings option \<Rightarrow> arrow_batch \<Rightarrow> dvalue list list go" where
  "arrowRecordToRows tz marshal flds0 st rec =
     go_bind
       (if length flds0 \<noteq> length (ab_Columns rec) then
          go_bind (dataFieldsFromArrowSchema (Some (ab_Schema rec))) (\<lambda>derived.
          if length derived \<noteq> length (ab_Columns rec) then
            Err (EMsg ''arrow record columns and schema do not match'')
          else Ok derived)
        else Ok flds0) (\<lambda>flds.
     go_bind (settings_location tz st) (\<lambda>loc.
     go_bind (go_mapM field_desc flds) (\<lambda>descs.
     go_mapM (\<lambda>rowIdx. go_mapM (arrow_cell tz marshal loc rowIdx) (zip descs (ab_Columns rec)))
       [0..<ab_NumRows rec])))"

fun arrowReaderToRows ::
  "tzdb \<Rightarrow> marshal \<Rightarrow> data_field list \<Rightarrow> settings option \<Rightarrow> arrow_batch list \<Rightarrow> string option
    \<Rightarrow> dvalue list list go" where
  "arrowReaderToRows tz marshal flds st [] err =
     (case err of None \<Rightarrow> Ok [] | Some m \<Rightarrow> Err (EWrap ''failed to read arrow batches'' (EMsg m)))"
| "arrowReaderToRows tz marshal flds st (b # bs) err =
     go_bind (arrowRecordToRows tz marshal flds st b) (\<lambda>rows.
     go_bind (arrowReaderToRows tz marshal flds st bs err) (\<lambda>rest. Ok (rows @ rest)))"

record rawHTTPResponse =
  raw_headers :: header
  raw_body :: string

definition isArrowResponse :: "header \<Rightarrow> bool" where
  "isArrowResponse h \<longleftrightarrow> has_prefix (header_get h contentType) arrowStreamContentType"

definition unmarshal_response :: "json_parser \<Rightarrow> string \<Rightarrow> string \<Rightarrow> query_response go" where
  "unmarshal_response json_parse what text =
     (case unmarshal json_parse dec_response text empty_response of
        (r, None) \<Rightarrow> Ok r
      | (r, Some e) \<Rightarrow> Err (EWrap what e))"

definition decodeQueryResponse ::
  "tzdb \<Rightarrow> json_parser \<Rightarrow> arrow_reader \<Rightarrow> marshal \<Rightarrow> rawHTTPResponse \<Rightarrow> query_response go" where
  "decodeQueryResponse tz json_parse ipc marshal raw =
     (if \<not> isArrowResponse (raw_headers raw) then
        go_bind (unmarshal_response json_parse ''failed to unmarshal response body'' (raw_body raw))
          (materializeJSONQueryRows tz)
      else
        case ipc (raw_body raw) of
          None \<Rightarrow> Err (EMsg ''failed to decode arrow stream'')
        | Some stream \<Rightarrow>
            (case as_Schema stream of
               None \<Rightarrow> Err (EMsg ''missing arrow schema in response'')
             | Some schema \<Rightarrow>
                 (case map_of (as_Metadata stream) ''response_header'' of
                    None \<Rightarrow> Err (EMsg ''missing response_header metadata in arrow payload'')
                  | Some h \<Rightarrow>
                      go_bind (unmarshal_response json_parse ''failed to decode response_header'' h) (\<lambda>resp.
                      go_bind
                        (case qr_Schema resp of
                           Some fs \<Rightarrow>
                             if length fs \<noteq> length schema then dataFieldsFromArrowSchema (Some schema)
                             else Ok fs
                         | None \<Rightarrow> dataFieldsFromArrowSchema (Some schema)) (\<lambda>fs.
                      go_bind (arrowReaderToRows tz marshal fs (qr_Settings resp) (as_Batches stream)
                                 (as_Err stream)) (\<lambda>rows.
                      Ok (resp\<lparr>qr_Schema := Some fs, qr_typedRows := Some rows\<rparr>)))))))"

end
