(* ===== verification/Client.thy ===== *)
theory Client
  imports Arrow
begin

text \<open>
  The transport half of \<open>client.go\<close>, with \<open>access_token.go\<close>, \<open>version.go\<close> and the HTTP loop of
  \<open>arrow.go\<close>: the state of an \<open>APIClient\<close>, which URLs it may request, the headers of a request, the
  attempts of \<open>doRequest\<close> and \<open>doRequestRaw\<close>, and the retry policy around them.

  \<open>st\<close> is everything a call may change: the client, its cookie jar with the requests sent so far,
  and counters of the token loads and random draws made.  \<open>env\<close> is everything outside the
  repository: the network, the JSON scanner, the time zones, random numbers, files, and the retry
  library (\<open>e_retry\<close>).  A context is its cancellation, as a function of the number of requests sent
  so far, and its two values.  \<open>c.rows\<close> is never set and \<open>doRequestFunc\<close> is a test hook, so
  neither is part of the state.
\<close>

subsection \<open>State\<close>

datatype access_token_loader =
    StaticAccessTokenLoader string
  | FileAccessTokenLoader string
  | CustomAccessTokenLoader

datatype auth_method = AuthMethodUserPassword | AuthMethodAccessToken | AuthMethodNone

datatype request_type = QueryRequest | PageRequest | FinalRequest | KillRequest

datatype query_transport = TransportAuto | TransportJSON | TransportArrow

record client =
  SessionID :: string
  QuerySeq :: int
  apiEndpoint :: string
  c_host :: string
  c_tenant :: string
  c_warehouse :: string
  c_user :: string
  c_password :: string
  sessionStateRaw :: "json option"
  sessionState :: "session_state option"
  routeHint :: string
  nodeID :: string
  statsTracked :: bool
  accessTokenLoader :: "access_token_loader option"
  WaitTimeSeconds :: int
  MaxRowsInBuffer :: int
  MaxRowsPerPage :: int
  PresignedURLDisabled :: bool
  PresignAllowPrivate :: bool
  EmptyFieldAs :: string
  queryResultFormat :: string
  stateRestored :: bool
  loginEnabled :: bool
  httpArrowCapabilityChecked :: bool
  httpArrowEnabled :: bool
  sessionLoggedIn :: bool
  connectionInfoInitialized :: bool
  userAgent :: string

record st =
  cl :: client
  net :: net_state
  st_loads :: nat
  st_draws :: nat
  st_stats :: "(string \<times> query_stats) list"

record go_context =
  cx_Done :: "nat \<Rightarrow> sentinel option"
  cx_QueryID :: "string option"
  cx_UserAgent :: "string option"

text \<open>The variables a retried closure assigns: the response and the response headers.\<close>

record captured =
  cp_Resp :: "query_response option"
  cp_Headers :: header

type_synonym retry_library =
  "nat \<Rightarrow> (go_error \<Rightarrow> bool) \<Rightarrow> (captured \<times> st \<Rightarrow> unit go \<times> captured \<times> st) \<Rightarrow> captured \<times> st
    \<Rightarrow> unit go \<times> captured \<times> st"

record env =
  e_net :: network
  e_quoted :: "string \<Rightarrow> string"
  e_json :: json_parser
  e_render :: "json \<Rightarrow> string"
  e_tz :: tzdb
  e_ipc :: arrow_reader
  e_marshal :: marshal
  e_rand :: "nat \<Rightarrow> nat"
  e_uuid :: "nat \<Rightarrow> string"
  e_files :: "nat \<Rightarrow> string \<Rightarrow> string go"
  e_toml :: "string \<Rightarrow> string option"
  e_custom :: "nat \<Rightarrow> bool \<Rightarrow> string go"
  e_expired :: "nat \<Rightarrow> nat \<Rightarrow> bool"
  e_retry :: retry_library
  e_pages :: nat

definition Background :: go_context where
  "Background = \<lparr>cx_Done = (\<lambda>_. None), cx_QueryID = None, cx_UserAgent = None\<rparr>"

text \<open>\<open>contextWithoutQueryID\<close> (\<open>arrow.go\<close>) and \<open>context.WithoutCancel\<close>.\<close>

definition contextWithoutQueryID :: "go_context \<Rightarrow> go_context" where
  "contextWithoutQueryID ctx = ctx\<lparr>cx_QueryID := None\<rparr>"

definition WithoutCancel :: "go_context \<Rightarrow> go_context" where
  "WithoutCancel ctx = ctx\<lparr>cx_Done := (\<lambda>_. None)\<rparr>"

text \<open>How many requests have been sent: the clock of contexts.\<close>

definition now :: "st \<Rightarrow> nat" where
  "now s = length (ns_Sent (net s))"

definition WithTimeout :: "env \<Rightarrow> go_context \<Rightarrow> nat \<Rightarrow> go_context" where
  "WithTimeout E ctx t0 =
     ctx\<lparr>cx_Done := (\<lambda>t. case cx_Done ctx t of
                          Some e \<Rightarrow> Some e
                        | None \<Rightarrow> if e_expired E t0 t then Some CtxDeadlineExceeded else None)\<rparr>"

subsection \<open>Sequencing\<close>

definition st_bind :: "('s \<Rightarrow> 'a go \<times> 's) \<Rightarrow> ('a \<Rightarrow> 's \<Rightarrow> 'b go \<times> 's) \<Rightarrow> 's \<Rightarrow> 'b go \<times> 's" where
  "st_bind m f s =
     (case m s of
        (Ok x, s') \<Rightarrow> f x s'
      | (Err e, s') \<Rightarrow> (Err e, s')
      | (Panic p, s') \<Rightarrow> (Panic p, s'))"

definition st_return :: "'a \<Rightarrow> 's \<Rightarrow> 'a go \<times> 's" where
  "st_return x s = (Ok x, s)"

subsection \<open>Access tokens (\<open>access_token.go\<close>)\<close>

definition file_token :: "env \<Rightarrow> nat \<Rightarrow> string \<Rightarrow> string go" where
  "file_token E n path =
     go_bind (e_files E n path) (\<lambda>content.
     case e_toml E content of Some token \<Rightarrow> Ok token | None \<Rightarrow> Ok content)"

text \<open>\<open>LoadAccessToken\<close> of the loader, at its \<open>n\<close>-th call.\<close>

definition loadToken :: "env \<Rightarrow> access_token_loader \<Rightarrow> nat \<Rightarrow> bool \<Rightarrow> string go" where
  "loadToken E l n forceRotate =
     (case l of
        StaticAccessTokenLoader token \<Rightarrow> Ok token
      | FileAccessTokenLoader path \<Rightarrow> file_token E n path
      | CustomAccessTokenLoader \<Rightarrow> e_custom E n forceRotate)"

definition LoadAccessToken :: "env \<Rightarrow> access_token_loader \<Rightarrow> bool \<Rightarrow> st \<Rightarrow> string go \<times> st" where
  "LoadAccessToken E l forceRotate s =
     (loadToken E l (st_loads s) forceRotate, s\<lparr>st_loads := Suc (st_loads s)\<rparr>)"

subsection \<open>Where a request may go\<close>

definition checkAPIRedirect :: "(string \<Rightarrow> string) \<Rightarrow> redirect_policy" where
  "checkAPIRedirect quoted loc via =
     (case via of
        [] \<Rightarrow> None
      | base # _ \<Rightarrow>
          if \<not> equal_fold (Scheme loc) (Scheme base) \<or> \<not> equal_fold (Host loc) (Host base) then
            Some (ERejectedURI (''refusing to send a request to '' @ quoted (url_string loc)
                   @ '': it does not belong to endpoint '' @ quoted (Scheme base @ ''://'' @ Host base)))
          else if 10 \<le> length via then Some (EMsg ''stopped after 10 redirects'')
          else None)"

definition makeURL :: "(string \<Rightarrow> string) \<Rightarrow> string \<Rightarrow> string \<Rightarrow> string go" where
  "makeURL quoted endpoint path =
     (case url_parse endpoint of
        Ok base \<Rightarrow>
          (case url_parse path of
             Ok u \<Rightarrow>
               if Scheme u \<noteq> [] \<or> Host u \<noteq> [] \<or> Opaque u \<noteq> [] then
                 (if \<not> equal_fold (Scheme u) (Scheme base) \<or> \<not> equal_fold (Host u) (Host base) then
                    Err (ERejectedURI (''refusing to send a request to '' @ quoted path
                           @ '': it does not belong to endpoint '' @ quoted endpoint))
                  else Ok path)
               else if Path u = [] then Ok (endpoint @ path)
               else if \<not> has_prefix (Path u) ''/'' then
                 Err (ERejectedURI (''invalid request path '' @ quoted path
                        @ '': it must be an absolute path or a URL on endpoint '' @ quoted endpoint))
               else Ok (endpoint @ path)
           | Err e \<Rightarrow>
               Err (ERejectedURI (''invalid request path '' @ quoted path @ '': ''
                      @ parse_error_text quoted path e))
           | Panic p \<Rightarrow> Panic p)
      | Err e \<Rightarrow>
          Err (EWrap (''invalid api endpoint '' @ quoted endpoint)
                 (EMsg (parse_error_text quoted endpoint e)))
      | Panic p \<Rightarrow> Panic p)"

subsection \<open>Headers\<close>

definition authMethod :: "client \<Rightarrow> auth_method" where
  "authMethod c =
     (if c_user c \<noteq> [] then AuthMethodUserPassword
      else if accessTokenLoader c \<noteq> None then AuthMethodAccessToken
      else AuthMethodNone)"

definition basic_encode :: "string \<Rightarrow> string \<Rightarrow> string" where
  "basic_encode name key = b64_encode (name @ '':'' @ key)"

definition GetQueryID :: "client \<Rightarrow> string" where
  "GetQueryID c = SessionID c @ ''.'' @ format_int (QuerySeq c)"

text \<open>\<open>version.go\<close> embeds the file \<open>VERSION\<close>.\<close>

definition version :: string where
  "version = ''0.9.4'' @ [CHR 0x0A]"

definition set_nonempty :: "string \<Rightarrow> string \<Rightarrow> header \<Rightarrow> header" where
  "set_nonempty k v h = (if v \<noteq> [] then header_set k v h else h)"

text \<open>The headers that do not depend on the authentication.\<close>

definition baseHeaders :: "go_context \<Rightarrow> client \<Rightarrow> header" where
  "baseHeaders ctx c =
     (let ua = (case cx_UserAgent ctx of Some ua \<Rightarrow> ua | None \<Rightarrow> userAgent c);
          pkg = ''lake-go/'' @ trim_space version
      in header_set LakeQueryIDHeader
           (case cx_QueryID ctx of Some q \<Rightarrow> q | None \<Rightarrow> GetQueryID c)
         (set_nonempty LakeRouteHintHeader (routeHint c)
         (set_nonempty LakeWarehouseHeader (c_warehouse c)
         (set_nonempty LakeTenantHeader (c_tenant c)
         (header_set UserAgent (if ua \<noteq> [] then pkg @ '' ('' @ ua @ '')'' else pkg)
         (header_set WarehouseRoute ''warehouse'' []))))))"

definition makeHeaders :: "env \<Rightarrow> go_context \<Rightarrow> st \<Rightarrow> header go \<times> st" where
  "makeHeaders E ctx s =
     (let c = cl s; h = baseHeaders ctx c in
      case (authMethod c, accessTokenLoader c) of
        (AuthMethodUserPassword, _) \<Rightarrow>
          (Ok (header_set Authorization (''Basic '' @ basic_encode (c_user c) (c_password c)) h), s)
      | (AuthMethodAccessToken, Some l) \<Rightarrow>
          (case LoadAccessToken E l False s of
             (Ok token, s') \<Rightarrow> (Ok (header_set Authorization (''Bearer '' @ token) h), s')
           | (Err e, s') \<Rightarrow> (Err (EWrap ''failed to load access token'' e), s')
           | (Panic p, s') \<Rightarrow> (Panic p, s'))
      | _ \<Rightarrow> (Err (EMsg ''no user password or access token''), s))"

text \<open>What \<open>doRequest\<close> and \<open>doRequestRaw\<close> add.\<close>

definition requestHeaders :: "client \<Rightarrow> string \<Rightarrow> bool \<Rightarrow> string \<Rightarrow> header \<Rightarrow> header" where
  "requestHeaders c method needSticky acceptType h =
     header_set accept acceptType
       (header_set contentType jsonContentType
       ((if method = ''GET'' then set_nonempty LakeQueryIDNode (nodeID c) else id)
       ((if needSticky then set_nonempty LakeQueryStickyNode (nodeID c) else id) h)))"

subsection \<open>One HTTP exchange\<close>

text \<open>\<open>http.NewRequest\<close> drops an empty port.\<close>

definition removeEmptyPort :: "string \<Rightarrow> string" where
  "removeEmptyPort host =
     (case last_index host CHR '':'' of
        None \<Rightarrow> host
      | Some i \<Rightarrow>
          if (case last_index host CHR '']'' of None \<Rightarrow> True | Some j \<Rightarrow> j < i)
          then trim_suffix host '':'' else host)"

text \<open>The request that both loops build: \<open>NewRequest\<close>, the headers, and the \<open>Host\<close> override.\<close>

definition newRequest :: "env \<Rightarrow> client \<Rightarrow> string \<Rightarrow> string \<Rightarrow> body \<Rightarrow> header \<Rightarrow> request go" where
  "newRequest E c method reqURL b h =
     (case url_parse reqURL of
        Ok u \<Rightarrow>
          Ok \<lparr>rq_Method = method, rq_URL = u\<lparr>Host := removeEmptyPort (Host u)\<rparr>,
              rq_Host = (if c_host c \<noteq> [] then c_host c else removeEmptyPort (Host u)),
              rq_Header = h, rq_Cookies = [], rq_Body = b\<rparr>
      | Err e \<Rightarrow>
          Err (EWrap ''failed to create http request'' (EMsg (parse_error_text (e_quoted E) reqURL e)))
      | Panic p \<Rightarrow> Panic p)"

text \<open>The request limit of \<open>checkAPIRedirect\<close> makes eleven rounds enough.\<close>

definition redirect_fuel :: nat where "redirect_fuel = 11"

definition client_do :: "env \<Rightarrow> bool \<Rightarrow> request \<Rightarrow> st \<Rightarrow> response go \<times> st" where
  "client_do E usejar req s =
     (let (res, ns) = http_do (e_quoted E) (e_net E) (checkAPIRedirect (e_quoted E)) usejar
                        redirect_fuel [] req (net s)
      in (res, s\<lparr>net := ns\<rparr>))"

text \<open>The error of a status code, if it is one.\<close>

definition statusError :: "env \<Rightarrow> int \<Rightarrow> string \<Rightarrow> go_error option" where
  "statusError E status b =
     (if status = 401 then Some (NewAPIError (e_json E) ''authorization failed'' status b)
      else if 500 < status then Some (NewAPIError (e_json E) ''please retry again later'' status b)
      else if status = 500 then Some (NewAPIError (e_json E) ''internal server error'' status b)
      else if 400 \<le> status then Some (NewAPIError (e_json E) ''please check your arguments'' status b)
      else if status \<noteq> 200 then Some (NewAPIError (e_json E) ''unexpected HTTP StatusCode'' status b)
      else None)"

text \<open>A forced token load whose result is dropped.\<close>

definition rotateToken :: "env \<Rightarrow> st \<Rightarrow> st" where
  "rotateToken E s =
     (case accessTokenLoader (cl s) of
        None \<Rightarrow> s
      | Some l \<Rightarrow> snd (LoadAccessToken E l True s))"

text \<open>One attempt up to the response body: context, request, transport, read.\<close>

definition exchange ::
  "env \<Rightarrow> go_context \<Rightarrow> string \<Rightarrow> string \<Rightarrow> body \<Rightarrow> header \<Rightarrow> st \<Rightarrow> (response \<times> string) go \<times> st" where
  "exchange E ctx method reqURL b h s =
     (case cx_Done ctx (now s) of
        Some e \<Rightarrow> (Err (EWrap ''context done'' (ESentinel e)), s)
      | None \<Rightarrow>
          (case newRequest E (cl s) method reqURL b h of
             Ok req \<Rightarrow>
               (case client_do E True req s of
                  (Ok resp, s') \<Rightarrow>
                    (case rs_Body resp of
                       Ok text \<Rightarrow> (Ok (resp, text), s')
                     | Err m \<Rightarrow> (Err (EWrap m (ESentinel ErrReadResponse)), s')
                     | Panic p \<Rightarrow> (Panic p, s'))
                | (Err e, s') \<Rightarrow> (Err (EWrap (error_text e) (ESentinel ErrDoRequest)), s')
                | (Panic p, s') \<Rightarrow> (Panic p, s'))
           | Err e \<Rightarrow> (Err e, s)
           | Panic p \<Rightarrow> (Panic p, s)))"

subsection \<open>\<open>doRequest\<close>\<close>

text \<open>
  \<open>dec\<close> decodes a document into the caller's response struct \<open>resp\<close> (\<open>None\<close> for a nil \<open>resp\<close>); a
  \<open>null\<close> document makes the local pointer nil.  The result carries the struct as the call leaves
  it, and the response headers if any response arrived.
\<close>

definition decodeBody ::
  "env \<Rightarrow> (json \<Rightarrow> 'r \<Rightarrow> 'r \<times> bool) option \<Rightarrow> response \<times> string \<Rightarrow> 'r
    \<Rightarrow> 'r \<times> (json \<Rightarrow> 'r \<Rightarrow> 'r \<times> bool) option \<times> go_error option" where
  "decodeBody E dec rt resp =
     (case dec of
        Some d \<Rightarrow>
          if has_prefix (header_get (rs_Header (fst rt)) contentType) ''application/json'' then
            (case unmarshal (e_json E) d (snd rt) resp of
               (x, err) \<Rightarrow>
                 (x, if e_json E (snd rt) = Some JNull then None else dec,
                  map_option (EWrap ''failed to unmarshal response body'') err))
          else (resp, dec, None)
      | None \<Rightarrow> (resp, dec, None))"

definition authRetryLimit :: nat where "authRetryLimit = 2"

fun doRequest_loop ::
  "env \<Rightarrow> go_context \<Rightarrow> string \<Rightarrow> string \<Rightarrow> body \<Rightarrow> header \<Rightarrow> nat \<Rightarrow> (json \<Rightarrow> 'r \<Rightarrow> 'r \<times> bool) option \<Rightarrow> 'r
    \<Rightarrow> header option \<Rightarrow> st \<Rightarrow> unit go \<times> 'r \<times> header option \<times> st" where
  "doRequest_loop E ctx method reqURL b h 0 dec resp rh s =
     (Err (EMsg ''failed to do request after 2 retries''), resp, rh, s)"
| "doRequest_loop E ctx method reqURL b h (Suc k) dec resp rh s =
     (case exchange E ctx method reqURL b h s of
        (Ok rt, s') \<Rightarrow>
          (case decodeBody E dec rt resp of
             (resp', dec', unmarshalErr) \<Rightarrow>
               let rh' = Some (rs_Header (fst rt)); status = rs_StatusCode (fst rt) in
               if status = 401 \<and> authMethod (cl s') = AuthMethodAccessToken \<and> 0 < k then
                 doRequest_loop E ctx method reqURL b h k dec' resp' rh' (rotateToken E s')
               else
                 (case statusError E status (snd rt) of
                    Some e \<Rightarrow> (Err e, resp', rh', s')
                  | None \<Rightarrow>
                      (case unmarshalErr of
                         Some e \<Rightarrow> (Err e, resp', rh', s')
                       | None \<Rightarrow> (Ok (), resp', rh', s'))))
      | (Err e, s') \<Rightarrow> (Err e, resp, rh, s')
      | (Panic p, s') \<Rightarrow> (Panic p, resp, rh, s'))"

definition doRequest ::
  "env \<Rightarrow> go_context \<Rightarrow> string \<Rightarrow> string \<Rightarrow> body \<Rightarrow> bool \<Rightarrow> (json \<Rightarrow> 'r \<Rightarrow> 'r \<times> bool) option \<Rightarrow> 'r \<Rightarrow> st
    \<Rightarrow> unit go \<times> 'r \<times> header option \<times> st" where
  "doRequest E ctx method path b needSticky dec resp s =
     (case makeURL (e_quoted E) (apiEndpoint (cl s)) path of
        Ok reqURL \<Rightarrow>
          (case makeHeaders E ctx s of
             (Ok h, s') \<Rightarrow>
               doRequest_loop E ctx method reqURL b
                 (requestHeaders (cl s') method needSticky jsonContentType h)
                 authRetryLimit dec resp None s'
           | (Err e, s') \<Rightarrow> (Err (EWrap ''failed to make request headers'' e), resp, None, s')
           | (Panic p, s') \<Rightarrow> (Panic p, resp, None, s'))
      | Err e \<Rightarrow> (Err e, resp, None, s)
      | Panic p \<Rightarrow> (Panic p, resp, None, s))"

subsection \<open>\<open>doRequestRaw\<close> (\<open>arrow.go\<close>)\<close>

fun doRequestRaw_loop ::
  "env \<Rightarrow> go_context \<Rightarrow> string \<Rightarrow> string \<Rightarrow> body \<Rightarrow> header \<Rightarrow> nat \<Rightarrow> st \<Rightarrow> rawHTTPResponse go \<times> st" where
  "doRequestRaw_loop E ctx method reqURL b h 0 s =
     (Err (EMsg ''failed to do request after 2 retries''), s)"
| "doRequestRaw_loop E ctx method reqURL b h (Suc k) s =
     (case exchange E ctx method reqURL b h s of
        (Ok rt, s') \<Rightarrow>
          let status = rs_StatusCode (fst rt) in
          if status = 401 \<and> authMethod (cl s') = AuthMethodAccessToken \<and> 0 < k then
            doRequestRaw_loop E ctx method reqURL b h k (rotateToken E s')
          else
            (case statusError E status (snd rt) of
               Some e \<Rightarrow> (Err e, s')
             | None \<Rightarrow> (Ok \<lparr>raw_headers = rs_Header (fst rt), raw_body = snd rt\<rparr>, s'))
      | (Err e, s') \<Rightarrow> (Err e, s')
      | (Panic p, s') \<Rightarrow> (Panic p, s'))"

definition doRequestRaw ::
  "env \<Rightarrow> go_context \<Rightarrow> string \<Rightarrow> string \<Rightarrow> body \<Rightarrow> bool \<Rightarrow> string \<Rightarrow> st \<Rightarrow> rawHTTPResponse go \<times> st" where
  "doRequestRaw E ctx method path b needSticky acceptType s =
     (case makeURL (e_quoted E) (apiEndpoint (cl s)) path of
        Ok reqURL \<Rightarrow>
          (case makeHeaders E ctx s of
             (Ok h, s') \<Rightarrow>
               doRequestRaw_loop E ctx method reqURL b
                 (requestHeaders (cl s') method needSticky
                    (if acceptType = [] then jsonContentType else acceptType) h)
                 authRetryLimit s'
           | (Err e, s') \<Rightarrow> (Err (EWrap ''failed to make request headers'' e), s')
           | (Panic p, s') \<Rightarrow> (Panic p, s'))
      | Err e \<Rightarrow> (Err e, s)
      | Panic p \<Rightarrow> (Panic p, s))"

subsection \<open>\<open>doRetry\<close>\<close>

text \<open>
  \<open>github.com/avast/retry-go\<close> is not part of the repository.  What the client relies on is written
  down by \<open>retry_spec\<close>: the function runs until it succeeds, until an error that \<open>RetryIf\<close> does not
  accept, or until the attempts are used up, and the last error is returned
  (\<open>LastErrorOnly\<close>).  \<open>retry_documented\<close> says that a library behaves that way.
\<close>

fun retry_spec :: "nat \<Rightarrow> (go_error \<Rightarrow> bool) \<Rightarrow> ('s \<Rightarrow> unit go \<times> 's) \<Rightarrow> 's \<Rightarrow> unit go \<times> 's" where
  "retry_spec 0 retryIf f s = (Ok (), s)"
| "retry_spec (Suc n) retryIf f s =
     (case f s of
        (Err e, s') \<Rightarrow>
          if retryIf e \<and> 0 < n then retry_spec n retryIf f s' else (Err e, s')
      | (r, s') \<Rightarrow> (r, s'))"

definition retry_documented :: "retry_library \<Rightarrow> bool" where
  "retry_documented R \<longleftrightarrow> (\<forall>n p f s. 0 < n \<longrightarrow> R n p f s = retry_spec n p f s)"

definition attempts :: "request_type \<Rightarrow> nat" where
  "attempts t = (if t = QueryRequest then 5 else 3)"

definition retryIf :: "request_type \<Rightarrow> go_error \<Rightarrow> bool" where
  "retryIf t err =
     (if errors_is err CtxCanceled \<or> errors_is err CtxDeadlineExceeded then False
      else if errors_is err ErrDoRequest \<or> errors_is err ErrReadResponse \<or> IsProxyErr err then True
      else t = QueryRequest \<and> isProvisionWarehouseTimeout err)"

definition doRetry ::
  "env \<Rightarrow> request_type \<Rightarrow> (captured \<times> st \<Rightarrow> unit go \<times> captured \<times> st) \<Rightarrow> captured \<times> st
    \<Rightarrow> unit go \<times> captured \<times> st" where
  "doRetry E t f cs = e_retry E (attempts t) (retryIf t) f cs"

end
