(* ===== verification/Query_Client.thy ===== *)
theory Query_Client
  imports Client
begin

text \<open>
  The query half of \<open>client.go\<close> and \<open>clientstate.go\<close>: connection initialisation and login, the
  session state, starting, polling, killing and closing a query, \<open>QuerySync\<close>, \<open>Verify\<close>, \<open>Logout\<close>,
  and saving and restoring the client's state.

  A polling loop runs as long as the server names a next page, so it takes the bound \<open>e_pages\<close> as
  fuel; running out of it is a \<open>Panic\<close> of its own.
\<close>

subsection \<open>Random route hints\<close>

definition route_charset :: string where "route_charset = ''abcdef0123456789''"

definition randRouteHint :: "env \<Rightarrow> nat \<Rightarrow> string" where
  "randRouteHint E n = map (\<lambda>i. route_charset ! (e_rand E (n + i) mod length route_charset)) [0..<16]"

definition newRouteHint :: "env \<Rightarrow> st \<Rightarrow> st" where
  "newRouteHint E s =
     s\<lparr>cl := (cl s)\<lparr>routeHint := randRouteHint E (st_draws s)\<rparr>, st_draws := st_draws s + 16\<rparr>"

subsection \<open>Session state\<close>

definition NeedSticky :: "client \<Rightarrow> bool" where
  "NeedSticky c = (case sessionState c of Some ss \<Rightarrow> ss_NeedSticky ss | None \<Rightarrow> False)"

definition NeedKeepAlive :: "client \<Rightarrow> bool" where
  "NeedKeepAlive c = (case sessionState c of Some ss \<Rightarrow> ss_NeedKeepAlive ss | None \<Rightarrow> False)"

definition inActiveTransaction :: "client \<Rightarrow> bool" where
  "inActiveTransaction c =
     (case sessionState c of Some ss \<Rightarrow> equal_fold (ss_TxnState ss) TxnStateActive | None \<Rightarrow> False)"

definition applySessionState :: "query_response option \<Rightarrow> client \<Rightarrow> client" where
  "applySessionState response c =
     (case response of
        None \<Rightarrow> c
      | Some r \<Rightarrow>
          (case qr_Session r of
             None \<Rightarrow> c
           | Some j \<Rightarrow>
               c\<lparr>sessionStateRaw := Some j,
                 sessionState := map_option (\<lambda>ss. fst (dec_session j ss)) (sessionState c)\<rparr>))"

definition trackStats :: "query_response option \<Rightarrow> st \<Rightarrow> st" where
  "trackStats resp s =
     (case resp of
        None \<Rightarrow> s
      | Some r \<Rightarrow>
          (case qr_Stats r of
             Some st \<Rightarrow>
               if statsTracked (cl s) then s\<lparr>st_stats := st_stats s @ [(qr_ID r, st)]\<rparr> else s
           | None \<Rightarrow> s))"

definition getPaginationConfig :: "client \<Rightarrow> pagination_config option" where
  "getPaginationConfig c =
     (if MaxRowsPerPage c = 0 \<and> MaxRowsInBuffer c = 0 \<and> WaitTimeSeconds c = 0 then None
      else Some \<lparr>pg_WaitTime = WaitTimeSeconds c, pg_MaxRowsInBuffer = MaxRowsInBuffer c,
                 pg_MaxRowsPerPage = MaxRowsPerPage c\<rparr>)"

definition upd_client :: "(client \<Rightarrow> client) \<Rightarrow> st \<Rightarrow> st" where
  "upd_client f s = s\<lparr>cl := f (cl s)\<rparr>"

subsection \<open>Connection initialisation\<close>

definition httpArrowResultVersionMax :: int where "httpArrowResultVersionMax = 2"

definition setHTTPArrowCapability :: "int option \<Rightarrow> client \<Rightarrow> client" where
  "setHTTPArrowCapability maxArrowVersion c =
     c\<lparr>httpArrowEnabled := (case maxArrowVersion of
                               Some v \<Rightarrow> httpArrowResultVersionMax \<le> v | None \<Rightarrow> False),
       httpArrowCapabilityChecked := True\<rparr>"

definition QueryResultFormatJSON :: string where "QueryResultFormatJSON = ''json''"
definition QueryResultFormatArrow :: string where "QueryResultFormatArrow = ''arrow''"

definition usesHTTPArrowTransport :: "client \<Rightarrow> bool" where
  "usesHTTPArrowTransport c \<longleftrightarrow> queryResultFormat c = QueryResultFormatArrow \<and> httpArrowEnabled c"

definition loggedIn :: "header \<Rightarrow> client \<Rightarrow> client" where
  "loggedIn h c =
     c\<lparr>SessionID := (if header_get h LakeSessionIDHeader \<noteq> [] then header_get h LakeSessionIDHeader
                     else SessionID c),
       sessionLoggedIn := True\<rparr>"

definition login :: "env \<Rightarrow> go_context \<Rightarrow> st \<Rightarrow> login_response go \<times> st" where
  "login E ctx s =
     (case doRequest E ctx ''POST'' ''/v1/session/login''
             (JsonBody (login_request_json (loginRequestFromSession (sessionState (cl s))))) False
             (Some (dec_struct login_response_member))
             \<lparr>lr_Version = [], lr_ServerMaxArrowResultVersion = None\<rparr> s of
        (Ok _, resp, rh, s') \<Rightarrow>
          (Ok resp, upd_client (loggedIn (case rh of Some h \<Rightarrow> h | None \<Rightarrow> [])) s')
      | (Err e, resp, rh, s') \<Rightarrow> (Err e, s')
      | (Panic p, resp, rh, s') \<Rightarrow> (Panic p, s'))"

definition initialized :: "int option \<Rightarrow> st \<Rightarrow> st" where
  "initialized v s =
     upd_client (\<lambda>c. (setHTTPArrowCapability v c)\<lparr>connectionInfoInitialized := True\<rparr>) s"

definition initializeConnectionInfo :: "env \<Rightarrow> go_context \<Rightarrow> st \<Rightarrow> unit go \<times> st" where
  "initializeConnectionInfo E ctx s =
     (if stateRestored (cl s) \<or> connectionInfoInitialized (cl s) then (Ok (), s)
      else if loginEnabled (cl s) then
        (case login E (contextWithoutQueryID ctx) s of
           (Ok resp, s') \<Rightarrow> (Ok (), initialized (lr_ServerMaxArrowResultVersion resp) s')
         | (Err e, s') \<Rightarrow> if \<not> IsNotFound e then (Err e, s') else (Ok (), initialized None s')
         | (Panic p, s') \<Rightarrow> (Panic p, s'))
      else (Ok (), initialized None s))"

subsection \<open>Attempts of a query request\<close>

definition the_resp :: "captured \<Rightarrow> query_response" where
  "the_resp cap = (case cp_Resp cap of Some r \<Rightarrow> r | None \<Rightarrow> empty_response)"

text \<open>The JSON closure: every attempt decodes into the same \<open>jsonResp\<close>.  \<open>wantHeaders\<close> says whether
  the response headers are captured.\<close>

definition jsonAttempt ::
  "env \<Rightarrow> go_context \<Rightarrow> string \<Rightarrow> string \<Rightarrow> body \<Rightarrow> (client \<Rightarrow> bool) \<Rightarrow> bool \<Rightarrow> captured \<times> st
    \<Rightarrow> unit go \<times> captured \<times> st" where
  "jsonAttempt E ctx method path b sticky wantHeaders cs =
     (case cs of (cap, s) \<Rightarrow>
        (case doRequest E ctx method path b (sticky (cl s)) (Some dec_response) (the_resp cap) s of
           (res, r, rh, s') \<Rightarrow>
             (res, cap\<lparr>cp_Resp := Some r,
                       cp_Headers := (case rh of Some h \<Rightarrow> if wantHeaders then h else cp_Headers cap
                                              | None \<Rightarrow> cp_Headers cap)\<rparr>, s')))"

definition arrowAttempt ::
  "env \<Rightarrow> go_context \<Rightarrow> string \<Rightarrow> string \<Rightarrow> body \<Rightarrow> (client \<Rightarrow> bool) \<Rightarrow> bool \<Rightarrow> captured \<times> st
    \<Rightarrow> unit go \<times> captured \<times> st" where
  "arrowAttempt E ctx method path b sticky wantHeaders cs =
     (case cs of (cap, s) \<Rightarrow>
        (case doRequestRaw E ctx method path b (sticky (cl s)) arrowStreamContentType s of
           (Ok raw, s') \<Rightarrow>
             let cap' = cap\<lparr>cp_Headers := (if wantHeaders then raw_headers raw else cp_Headers cap)\<rparr> in
             (case decodeQueryResponse (e_tz E) (e_json E) (e_ipc E) (e_marshal E) raw of
                Ok r \<Rightarrow> (Ok (), cap'\<lparr>cp_Resp := Some r\<rparr>, s')
              | Err e \<Rightarrow> (Err e, cap'\<lparr>cp_Resp := None\<rparr>, s')
              | Panic p \<Rightarrow> (Panic p, cap', s'))
         | (Err e, s') \<Rightarrow> (Err e, cap, s')
         | (Panic p, s') \<Rightarrow> (Panic p, cap, s')))"

definition no_capture :: captured where "no_capture = \<lparr>cp_Resp = None, cp_Headers = []\<rparr>"

definition chooseArrow :: "client \<Rightarrow> query_transport \<Rightarrow> bool" where
  "chooseArrow c transport =
     (case transport of
        TransportArrow \<Rightarrow> True | TransportJSON \<Rightarrow> False | TransportAuto \<Rightarrow> usesHTTPArrowTransport c)"

subsection \<open>Starting a query\<close>

definition saveNode :: "query_response option \<Rightarrow> client \<Rightarrow> client" where
  "saveNode resp c =
     (case resp of Some r \<Rightarrow> if qr_NodeID r \<noteq> [] then c\<lparr>nodeID := qr_NodeID r\<rparr> else c | None \<Rightarrow> c)"

definition saveRouteHint :: "header \<Rightarrow> client \<Rightarrow> client" where
  "saveRouteHint h c =
     (if header_get h LakeRouteHintHeader \<noteq> [] then c\<lparr>routeHint := header_get h LakeRouteHintHeader\<rparr> else c)"

text \<open>The error a finished request reports: the server's own error first.\<close>

definition queryOutcome :: "string \<Rightarrow> query_response option \<Rightarrow> unit go \<Rightarrow> query_response option go" where
  "queryOutcome what resp res =
     (case (resp, res) of
        (_, Panic p) \<Rightarrow> Panic p
      | (Some r, _) \<Rightarrow>
          (case (qr_Error r, res) of
             (Some e, _) \<Rightarrow> Err (EWrap ''query error'' (EQuery e))
           | (None, Err e) \<Rightarrow> Err (EWrap what e)
           | _ \<Rightarrow> Ok (Some r))
      | (None, Err e) \<Rightarrow> Err (EWrap what e)
      | _ \<Rightarrow> Ok None)"

definition materializeOption :: "env \<Rightarrow> query_response option \<Rightarrow> query_response option go" where
  "materializeOption E resp =
     (case resp of
        None \<Rightarrow> Ok None
      | Some r \<Rightarrow> go_bind (materializeJSONQueryRows (e_tz E) r) (\<lambda>r'. Ok (Some r')))"

definition finalizeQueryResponse ::
  "env \<Rightarrow> query_response option \<Rightarrow> header \<Rightarrow> unit go \<Rightarrow> st \<Rightarrow> query_response option go \<times> st" where
  "finalizeQueryResponse E resp respHeaders res s =
     (case (case res of Ok _ \<Rightarrow> materializeOption E resp | Err _ \<Rightarrow> Ok resp | Panic p \<Rightarrow> Panic p) of
        Err e \<Rightarrow> (Err (EWrap ''failed to materialize query rows'' e), s)
      | Panic p \<Rightarrow> (Panic p, s)
      | Ok resp' \<Rightarrow>
          (queryOutcome ''failed to do query request'' resp' res,
           upd_client (saveRouteHint respHeaders \<circ> applySessionState resp')
             (trackStats resp' (upd_client (saveNode resp') s))))"

definition startQueryRequestWithTransport ::
  "env \<Rightarrow> go_context \<Rightarrow> query_request \<Rightarrow> query_transport \<Rightarrow> st \<Rightarrow> query_response option go \<times> st" where
  "startQueryRequestWithTransport E ctx request transport s =
     (let s1 = upd_client (\<lambda>c. c\<lparr>QuerySeq := QuerySeq c + 1\<rparr>) s;
          s2 = (if inActiveTransaction (cl s1) then s1 else newRouteHint E s1);
          useArrow = chooseArrow (cl s2) transport;
          attempt =
            (if useArrow then
               arrowAttempt E ctx ''POST'' ''/v1/query''
                 (JsonBody (query_request_json
                    (request\<lparr>rq_ArrowResultVersionMax := Some httpArrowResultVersionMax\<rparr>)))
                 NeedSticky True
             else
               jsonAttempt E ctx ''POST'' ''/v1/query'' (JsonBody (query_request_json request))
                 NeedSticky True);
          cap = (if useArrow then no_capture else no_capture\<lparr>cp_Resp := Some empty_response\<rparr>)
      in case doRetry E QueryRequest attempt (cap, s2) of
           (res, cap', s3) \<Rightarrow> finalizeQueryResponse E (cp_Resp cap') (cp_Headers cap') res s3)"

definition queryRequest :: "client \<Rightarrow> string \<Rightarrow> query_request" where
  "queryRequest c sql =
     \<lparr>rq_Session = sessionStateRaw c, rq_SQL = sql, rq_Pagination = getPaginationConfig c,
      rq_ArrowResultVersionMax = None, rq_StageAttachment = None\<rparr>"

definition startQuery ::
  "env \<Rightarrow> go_context \<Rightarrow> string \<Rightarrow> query_transport \<Rightarrow> st \<Rightarrow> query_response option go \<times> st" where
  "startQuery E ctx query transport s =
     startQueryRequestWithTransport E ctx (queryRequest (cl s) query) transport s"

definition StartQuery :: "env \<Rightarrow> go_context \<Rightarrow> string \<Rightarrow> st \<Rightarrow> query_response option go \<times> st" where
  "StartQuery E ctx query =
     st_bind (initializeConnectionInfo E ctx) (\<lambda>_. startQuery E ctx query TransportAuto)"

subsection \<open>Polling\<close>

text \<open>A restored client polls Arrow pages when the result format asks for Arrow.\<close>

definition pollTransport :: "client \<Rightarrow> query_transport \<Rightarrow> query_transport" where
  "pollTransport c transport =
     (if transport = TransportAuto \<and> stateRestored c \<and> queryResultFormat c = QueryResultFormatArrow
      then TransportArrow else transport)"

definition pollQueryWithTransport ::
  "env \<Rightarrow> go_context \<Rightarrow> string \<Rightarrow> query_transport \<Rightarrow> st \<Rightarrow> query_response option go \<times> st" where
  "pollQueryWithTransport E ctx nextURI transport s =
     (let useArrow = chooseArrow (cl s) (pollTransport (cl s) transport);
          attempt = (if useArrow then arrowAttempt E ctx ''GET'' nextURI NoBody (\<lambda>_. True) False
                     else jsonAttempt E ctx ''GET'' nextURI NoBody (\<lambda>_. True) False);
          cap = (if useArrow then no_capture else no_capture\<lparr>cp_Resp := Some empty_response\<rparr>)
      in case doRetry E PageRequest attempt (cap, s) of
           (res, cap', s1) \<Rightarrow>
             (case (case res of Ok _ \<Rightarrow> materializeOption E (cp_Resp cap')
                            | Err _ \<Rightarrow> Ok (cp_Resp cap') | Panic p \<Rightarrow> Panic p) of
                Err e \<Rightarrow> (Err (EWrap ''failed to materialize query rows'' e), s1)
              | Panic p \<Rightarrow> (Panic p, s1)
              | Ok resp \<Rightarrow>
                  (queryOutcome ''failed to query page'' resp res,
                   trackStats resp (upd_client (applySessionState resp) s1))))"

definition PollQuery :: "env \<Rightarrow> go_context \<Rightarrow> string \<Rightarrow> st \<Rightarrow> query_response option go \<times> st" where
  "PollQuery E ctx nextURI =
     st_bind (initializeConnectionInfo E ctx) (\<lambda>_. pollQueryWithTransport E ctx nextURI TransportAuto)"

text \<open>The attempt that kills or closes a query ignores the response.\<close>

definition endAttempt :: "env \<Rightarrow> go_context \<Rightarrow> string \<Rightarrow> captured \<times> st \<Rightarrow> unit go \<times> captured \<times> st" where
  "endAttempt E ctx uri cs =
     (case cs of (cap, s) \<Rightarrow>
        (case doRequest E ctx ''GET'' uri NoBody True (None :: (json \<Rightarrow> unit \<Rightarrow> unit \<times> bool) option) () s of
           (res, _, _, s') \<Rightarrow> (res, cap, s')))"

definition endQuery :: "env \<Rightarrow> request_type \<Rightarrow> go_context \<Rightarrow> string \<Rightarrow> st \<Rightarrow> st" where
  "endQuery E t ctx uri s =
     (if uri \<noteq> [] then
        snd (snd (doRetry E t (endAttempt E (WithTimeout E ctx (now s)) uri) (no_capture, s)))
      else s)"

text \<open>\<open>KillQuery\<close> and \<open>CloseQuery\<close> always answer nil; what they do is to the state.\<close>

definition KillQuery :: "env \<Rightarrow> go_context \<Rightarrow> query_response \<Rightarrow> st \<Rightarrow> st" where
  "KillQuery E ctx r s = endQuery E KillRequest ctx (qr_KillURI r) s"

definition CloseQuery :: "env \<Rightarrow> go_context \<Rightarrow> query_response \<Rightarrow> st \<Rightarrow> st" where
  "CloseQuery E ctx r s = endQuery E FinalRequest ctx (qr_FinalURI r) s"

text \<open>\<open>append\<close> of two slices that may be nil.\<close>

definition append_slices :: "'a list option \<Rightarrow> 'a list option \<Rightarrow> 'a list option" where
  "append_slices a b =
     (case (a, b) of
        (None, Some (y # ys)) \<Rightarrow> Some (y # ys)
      | (None, _) \<Rightarrow> None
      | (Some xs, None) \<Rightarrow> Some xs
      | (Some xs, Some ys) \<Rightarrow> Some (xs @ ys))"

definition carryRows :: "query_response \<Rightarrow> query_response \<Rightarrow> query_response" where
  "carryRows old r =
     r\<lparr>qr_Data := qr_Data old @ qr_Data r,
       qr_typedRows := append_slices (qr_typedRows old) (qr_typedRows r)\<rparr>"

fun pollLoop ::
  "env \<Rightarrow> go_context \<Rightarrow> query_transport \<Rightarrow> nat \<Rightarrow> query_response \<Rightarrow> st \<Rightarrow> query_response go \<times> st" where
  "pollLoop E ctx transport fuel resp s =
     (if ReadFinished resp then (Ok resp, s)
      else
        case fuel of
          0 \<Rightarrow> (Panic ''out of fuel'', s)
        | Suc n \<Rightarrow>
            (case pollQueryWithTransport E ctx (qr_NextURI resp) transport s of
               (Err e, s') \<Rightarrow>
                 (Err e, if errors_is e CtxCanceled then KillQuery E Background resp s' else s')
             | (Panic p, s') \<Rightarrow> (Panic p, s')
             | (Ok None, s') \<Rightarrow> (Panic ''nil pointer dereference'', s')
             | (Ok (Some next), s') \<Rightarrow>
                 (case qr_Error next of
                    Some e \<Rightarrow> (Err (EWrap ''query page has error'' (EQuery e)), s')
                  | None \<Rightarrow> pollLoop E ctx transport n (carryRows resp next) s')))"

declare pollLoop.simps [simp del]

definition pollUntilQueryEnd ::
  "env \<Rightarrow> go_context \<Rightarrow> query_response \<Rightarrow> query_transport \<Rightarrow> st \<Rightarrow> query_response go \<times> st" where
  "pollUntilQueryEnd E ctx resp transport s = pollLoop E ctx transport (e_pages E) resp s"

subsection \<open>\<open>QuerySync\<close>\<close>

text \<open>A restored client whose result format is Arrow runs statements over JSON.\<close>

definition syncTransport :: "client \<Rightarrow> query_transport \<Rightarrow> query_transport" where
  "syncTransport c transport =
     (if transport = TransportAuto \<and> stateRestored c \<and> queryResultFormat c = QueryResultFormatArrow
      then TransportJSON else transport)"

text \<open>After the query has started: poll to the end, then close it, whatever the outcome.\<close>

definition finishQuery ::
  "env \<Rightarrow> go_context \<Rightarrow> query_transport \<Rightarrow> (query_error \<Rightarrow> go_error) \<Rightarrow> query_response option \<Rightarrow> st
    \<Rightarrow> query_response go \<times> st" where
  "finishQuery E ctx transport mkerr resp s =
     (case resp of
        None \<Rightarrow> (Panic ''nil pointer dereference'', s)
      | Some r \<Rightarrow>
          (case qr_Error r of
             Some e \<Rightarrow> (Err (mkerr e), CloseQuery E ctx r s)
           | None \<Rightarrow>
               (case pollUntilQueryEnd E ctx r transport s of
                  (res, s') \<Rightarrow> (res, CloseQuery E ctx r s'))))"

definition querySyncWithTransport ::
  "env \<Rightarrow> go_context \<Rightarrow> string \<Rightarrow> query_transport \<Rightarrow> st \<Rightarrow> query_response go \<times> st" where
  "querySyncWithTransport E ctx query transport0 s =
     (let transport = syncTransport (cl s) transport0 in
      st_bind (startQuery E ctx query transport)
        (finishQuery E ctx transport (\<lambda>e. EMsg (''query error: '' @ query_error_text e))) s)"

definition QuerySync :: "env \<Rightarrow> go_context \<Rightarrow> string \<Rightarrow> st \<Rightarrow> query_response go \<times> st" where
  "QuerySync E ctx query =
     st_bind (initializeConnectionInfo E ctx) (\<lambda>_. querySyncWithTransport E ctx query TransportAuto)"

subsection \<open>\<open>Verify\<close> and \<open>Logout\<close>\<close>

definition verifyMaxRetries :: nat where "verifyMaxRetries = 2"

fun verifyLoop :: "env \<Rightarrow> go_context \<Rightarrow> nat \<Rightarrow> verify_response \<Rightarrow> st \<Rightarrow> unit go \<times> verify_response \<times> st" where
  "verifyLoop E ctx left response s =
     (case doRequest E ctx ''POST'' ''/v1/verify'' NoBody False
             (Some (dec_struct verify_response_member)) response s of
        (res, response', rh, s') \<Rightarrow>
          (case res of
             Err e \<Rightarrow>
               (case left of
                  Suc k \<Rightarrow> if isBadGateway e then verifyLoop E ctx k response' s' else (Err e, response', s')
                | 0 \<Rightarrow> (Err e, response', s'))
           | _ \<Rightarrow> (res, response', s')))"

declare verifyLoop.simps [simp del]

definition Verify :: "env \<Rightarrow> go_context \<Rightarrow> st \<Rightarrow> unit go \<times> st" where
  "Verify E ctx s =
     (case initializeConnectionInfo E ctx s of
        (Err e, s1) \<Rightarrow> (Err (EWrap ''initialize connection failed'' e), s1)
      | (Panic p, s1) \<Rightarrow> (Panic p, s1)
      | (Ok _, s1) \<Rightarrow>
          (case verifyLoop E ctx verifyMaxRetries \<lparr>vr_Tenant = [], vr_User = [], vr_Roles = []\<rparr> s1 of
             (Err e, response, s2) \<Rightarrow> (Err (EWrap ''verify failed'' e), s2)
           | (Panic p, response, s2) \<Rightarrow> (Panic p, s2)
           | (Ok _, response, s2) \<Rightarrow>
               let c = cl s2 in
               if c_tenant c \<noteq> [] \<and> vr_Tenant response \<noteq> c_tenant c then
                 (Err (EMsg (''verify tenant mismatch, expected: '' @ c_tenant c @ '', got: ''
                             @ vr_Tenant response)), s2)
               else if c_user c \<noteq> [] \<and> vr_User response \<noteq> c_user c then
                 (Err (EMsg (''verify user mismatch, expected: '' @ c_user c @ '', got: ''
                             @ vr_User response)), s2)
               else (Ok (), s2)))"

definition Logout :: "env \<Rightarrow> go_context \<Rightarrow> st \<Rightarrow> unit go \<times> st" where
  "Logout E ctx s =
     (if sessionLoggedIn (cl s) \<or> NeedKeepAlive (cl s) then
        (case doRequest E ctx ''POST'' ''/v1/session/logout'' NoBody (NeedSticky (cl s))
                (None :: (json \<Rightarrow> unit \<Rightarrow> unit \<times> bool) option) () s of
           (res, _, _, s') \<Rightarrow> (res, s'))
      else (Ok (), s))"

subsection \<open>Saving and restoring the state (\<open>clientstate.go\<close>)\<close>

record client_state =
  cs_SessionID :: string
  cs_QuerySeq :: int
  cs_RouteHint :: string
  cs_NodeID :: string
  cs_SessionState :: string
  cs_Cookies :: "(string \<times> string) list"

definition WithState :: "env \<Rightarrow> client_state option \<Rightarrow> st \<Rightarrow> st" where
  "WithState E state s =
     (case state of
        None \<Rightarrow> s
      | Some cs \<Rightarrow>
          let s1 = upd_client (\<lambda>c. c\<lparr>stateRestored := True, SessionID := cs_SessionID cs,
                     QuerySeq := cs_QuerySeq cs, routeHint := cs_RouteHint cs,
                     nodeID := cs_NodeID cs\<rparr>) s;
              s2 = s1\<lparr>net := (net s1)\<lparr>ns_Jar := SetCookies (ns_Jar (net s1)) (cs_Cookies cs)\<rparr>\<rparr>
          in if cs_SessionState cs = [] then s2
             else
               (case e_json E (cs_SessionState cs) of
                  None \<Rightarrow> s2
                | Some j \<Rightarrow>
                    let s3 = upd_client (\<lambda>c. c\<lparr>sessionStateRaw := Some j\<rparr>) s2;
                        (ss, ok) = dec_session j empty_session
                    in if ok then upd_client (\<lambda>c. c\<lparr>sessionState := Some ss\<rparr>) s3 else s3))"

definition GetState :: "env \<Rightarrow> st \<Rightarrow> client_state" where
  "GetState E s =
     \<lparr>cs_SessionID = SessionID (cl s), cs_QuerySeq = QuerySeq (cl s),
      cs_RouteHint = routeHint (cl s), cs_NodeID = nodeID (cl s),
      cs_SessionState = (case sessionStateRaw (cl s) of Some j \<Rightarrow> e_render E j | None \<Rightarrow> []),
      cs_Cookies = Cookies (ns_Jar (net s))\<rparr>"

text \<open>\<open>snapshotClientState\<close>: deep copies now, and the closure that puts them back.\<close>

definition cloneRawMessage :: "json option \<Rightarrow> json option" where
  "cloneRawMessage raw = (case raw of None \<Rightarrow> None | Some j \<Rightarrow> Some j)"

definition cloneSessionState :: "session_state option \<Rightarrow> session_state option" where
  "cloneSessionState state =
     (case state of
        None \<Rightarrow> None
      | Some ss \<Rightarrow>
          Some (ss\<lparr>ss_SecondaryRoles := map_option (\<lambda>rs. [] @ rs) (ss_SecondaryRoles ss),
                   ss_Settings := map_option (\<lambda>m. foldl (\<lambda>a (k, v). AList.update k v a) [] m)
                                    (ss_Settings ss)\<rparr>))"

definition snapshotClientState :: "client \<Rightarrow> client \<Rightarrow> client" where
  "snapshotClientState c =
     (let querySeq = QuerySeq c; hint = routeHint c; node = nodeID c; restored = stateRestored c;
          raw = cloneRawMessage (sessionStateRaw c); ss = cloneSessionState (sessionState c)
      in (\<lambda>c'. c'\<lparr>QuerySeq := querySeq, routeHint := hint, nodeID := node, stateRestored := restored,
                sessionStateRaw := raw, sessionState := ss\<rparr>))"

end
