(* ===== verification/Client_Facts.thy ===== *)
theory Client_Facts
  imports Query_Client
begin

text \<open>
  Facts about the transport of \<open>Client\<close>: which URLs \<open>makeURL\<close> accepts, that every request of
  \<open>doRequest\<close> and of its redirects stays on the endpoint, the bounds on the number of requests, the
  one set of headers that all attempts of a call share, and the retry policy.
\<close>

subsection \<open>Parsed paths\<close>

lemma to_lower_Nil [simp]: "to_lower s = [] \<longleftrightarrow> s = []"
  by (subst to_lower.simps) (auto split: list.splits)

lemma get_scheme_none: "get_scheme acc s = Ok ([], r) \<Longrightarrow> r = acc @ s"
  by (induction acc s rule: get_scheme.induct) (auto split: if_splits)

lemma url_unescape_hd:
  "url_unescape encodePath (c # s) = Ok p \<Longrightarrow> c \<noteq> CHR ''%'' \<Longrightarrow> \<exists>p'. p = c # p'"
  by (auto simp: go_bind_eq_Ok)

lemma fst_cut_hd: "c \<noteq> k \<Longrightarrow> \<exists>r. fst (cut_at k (c # s)) = c # r"
  by (auto simp: Let_def split: prod.splits)

lemma cut_query_hd: "c \<noteq> CHR ''?'' \<Longrightarrow> \<exists>r. fst (cut_query (c # s)) = c # r"
  by (simp add: cut_query_takeWhile)

lemma parse_hier_rel:
  "parse_hier u (c # r) = Ok v \<Longrightarrow> c \<notin> {CHR ''/'', CHR ''%''} \<Longrightarrow> \<exists>p. Path v = c # p"
  by (auto simp: parse_hier_def set_path_def go_bind_eq_Ok dest!: url_unescape_hd split: if_splits)

lemma parse_hier_keeps: "parse_hier v r = Ok w \<Longrightarrow> Scheme w = Scheme v"
  by (auto simp: parse_hier_def go_bind_eq_Ok dest!: set_path_keeps split: if_splits prod.splits)

lemma parse_after_scheme_Scheme:
  "parse_after_scheme (scheme, rest0) = Ok u \<Longrightarrow> Scheme u = to_lower scheme"
  by (auto simp: parse_after_scheme_def Let_def dest!: parse_hier_keeps split: if_splits prod.splits)

lemma parse_after_scheme_Path:
  "parse_after_scheme ([], c # s) = Ok u \<Longrightarrow> c \<notin> set ''/?%'' \<Longrightarrow> \<exists>p. Path u = c # p"
  using cut_query_hd [of c s]
  by (auto simp: parse_after_scheme_def Let_def dest!: parse_hier_rel split: if_splits prod.splits)

text \<open>A reference without scheme and host whose decoded path is empty or absolute starts with a
  slash, a question mark, a hash, or a percent sign.\<close>

lemma parse_no_frag_rel:
  assumes "parse_no_frag (c # s) = Ok u" "Scheme u = []" "c \<notin> set ''/?%''"
  shows "\<exists>p. Path u = c # p"
proof (cases "c # s = ''*''")
  case True
  with assms(1) show ?thesis by (auto simp: parse_no_frag_def empty_url_def split: if_splits)
next
  case False
  with assms(1) obtain sr where g: "get_scheme [] (c # s) = Ok sr" "parse_after_scheme sr = Ok u"
    by (auto simp del: get_scheme.simps simp: parse_no_frag_def go_bind_eq_Ok split: if_splits)
  obtain scheme rest0 where sr: "sr = (scheme, rest0)" by (cases sr)
  with g(2) assms(2) have sch: "scheme = []" using parse_after_scheme_Scheme by fastforce
  have "rest0 = c # s" using get_scheme_none [of "[]" "c # s" rest0] g(1) sr sch by (simp del: get_scheme.simps)
  with g(2) sr sch assms(3) show ?thesis by (auto intro: parse_after_scheme_Path)
qed

lemma url_parse_rel:
  assumes "url_parse p = Ok u" "Scheme u = []" "Path u = [] \<or> has_prefix (Path u) ''/''"
    and "p = [] \<or> hd p \<noteq> CHR ''%''"
  shows "p = [] \<or> hd p \<in> set ''/?#''"
proof (rule ccontr)
  assume n: "\<not> (p = [] \<or> hd p \<in> set ''/?#'')"
  then obtain c s where p: "p = c # s" "c \<notin> set ''/?#''" by (cases p) auto
  then obtain r where r: "fst (cut_at CHR ''#'' p) = c # r"
    using fst_cut_hd [of c "CHR ''#''" s] by (auto simp del: cut_at.simps)
  have "\<exists>v. parse_no_frag (c # r) = Ok v \<and> Scheme v = Scheme u \<and> Path v = Path u"
    using assms(1) r
    by (auto simp: url_parse_def go_bind_eq_Ok split: prod.splits option.splits if_splits)
  then obtain v where v: "parse_no_frag (c # r) = Ok v" "Scheme v = Scheme u" "Path v = Path u"
    by blast
  from parse_no_frag_rel [OF v(1)] v p assms(2,4) obtain q where "Path u = c # q" by auto
  with assms(3) p show False by auto
qed

text \<open>The URL that \<open>makeURL\<close> returns parses to the scheme and host of the endpoint.\<close>

definition same_origin :: "url \<Rightarrow> url \<Rightarrow> bool" where
  "same_origin base u \<longleftrightarrow> equal_fold (Scheme u) (Scheme base) \<and> equal_fold (Host u) (Host base)"

lemma makeURL_same_origin:
  assumes "makeURL q (sch @ ''://'' @ host) path = Ok r" "web_scheme sch"
    and "path = [] \<or> hd path \<noteq> CHR ''%''"
    and "url_parse (sch @ ''://'' @ host) = Ok base" "url_parse r = Ok u"
  shows "same_origin base u"
proof -
  from assms(1,4) obtain v where v: "url_parse path = Ok v"
    by (auto simp: makeURL_def split: outcome.splits)
  show ?thesis
  proof (cases "Scheme v \<noteq> [] \<or> Host v \<noteq> [] \<or> Opaque v \<noteq> []")
    case True
    with assms v show ?thesis by (auto simp: makeURL_def same_origin_def split: if_splits)
  next
    case False
    with assms(1,4) v have r: "r = (sch @ ''://'' @ host) @ path"
      and "Path v = [] \<or> has_prefix (Path v) ''/''"
      by (auto simp: makeURL_def split: if_splits)
    with url_parse_rel [OF v] False assms(3) have "path = [] \<or> hd path \<in> set ''/?#''" by auto
    from url_parse_append [OF assms(4,2) this] assms(5) r show ?thesis
      by (simp add: same_origin_def)
  qed
qed

subsection \<open>Every request of a call stays on the endpoint\<close>

lemma has_prefix_colon:
  assumes "s \<noteq> []" "p = kelvin \<or> p = long_s"
  shows "has_prefix (s @ '':'') p = has_prefix s p"
  using assms
  by (cases s; cases "tl s"; cases "tl (tl s)") (auto simp: kelvin_def long_s_def)

lemma fold_case_colon: "fold_case (s @ '':'') = fold_case s @ '':''"
proof (induction s rule: fold_case.induct)
  case (1 s)
  show ?case
  proof (cases s)
    case Nil
    show ?thesis unfolding Nil by code_simp
  next
    case (Cons c cs)
    have d: "has_prefix s kelvin \<Longrightarrow> 3 \<le> length s" "has_prefix s long_s \<Longrightarrow> 2 \<le> length s"
      by (auto dest: has_prefix_length simp: kelvin_def long_s_def)
    have "fold_case (s @ '':'') =
      (if has_prefix s kelvin then CHR ''k'' # fold_case (drop 3 (s @ '':''))
       else if has_prefix s long_s then CHR ''s'' # fold_case (drop 2 (s @ '':''))
       else lower_byte c # fold_case (cs @ '':''))"
      using Cons by (subst fold_case.simps) (simp add: has_prefix_colon [of "c # cs", simplified])
    moreover have "fold_case s =
      (if has_prefix s kelvin then CHR ''k'' # fold_case (drop 3 s)
       else if has_prefix s long_s then CHR ''s'' # fold_case (drop 2 s)
       else lower_byte c # fold_case cs)"
      using Cons by (subst fold_case.simps) simp
    ultimately show ?thesis using 1 Cons d by auto
  qed
qed

text \<open>The URL a request is dialled to has the scheme and host of \<open>base\<close>, up to an empty port that
  \<open>NewRequest\<close> drops.\<close>

definition dial_ok :: "url \<Rightarrow> url \<Rightarrow> bool" where
  "dial_ok base u \<longleftrightarrow>
     equal_fold (Scheme u) (Scheme base)
     \<and> (equal_fold (Host u) (Host base) \<or> equal_fold (Host u @ '':'') (Host base))"

lemma removeEmptyPort_cases: "removeEmptyPort h = h \<or> removeEmptyPort h @ '':'' = h"
proof -
  have "trim_suffix h '':'' = h \<or> trim_suffix h '':'' @ '':'' = h"
  proof (cases "has_prefix (rev h) '':''")
    case True
    then obtain r where "rev h = '':'' @ r" by (auto simp: has_prefix_iff)
    then have "h = rev r @ '':''" by (metis rev_append rev_rev_ident rev_singleton_conv)
    then show ?thesis by (simp add: trim_suffix_def)
  qed (simp add: trim_suffix_def)
  then show ?thesis by (auto simp: removeEmptyPort_def split: option.splits)
qed

lemma same_origin_dial: "same_origin base u \<Longrightarrow> dial_ok base (u\<lparr>Host := removeEmptyPort (Host u)\<rparr>)"
  using removeEmptyPort_cases [of "Host u"] by (auto simp: same_origin_def dial_ok_def)

lemma redirect_dial:
  assumes "checkAPIRedirect q loc vs = None" "vs \<noteq> []" "dial_ok base (hd vs)"
  shows "dial_ok base loc"
proof -
  from assms(1,2) have "equal_fold (Scheme loc) (Scheme (hd vs))" "equal_fold (Host loc) (Host (hd vs))"
    by (auto simp: checkAPIRedirect_def split: list.splits if_splits)
  with assms(3) show ?thesis
    by (auto simp: dial_ok_def equal_fold_def fold_case_colon)
qed

definition confined :: "url \<Rightarrow> st \<Rightarrow> bool" where
  "confined base s \<longleftrightarrow> list_all (\<lambda>r. dial_ok base (rq_URL r)) (ns_Sent (net s))"

lemma client_do_confined:
  assumes "dial_ok base (rq_URL req)" "confined base s"
  shows "confined base (snd (client_do E usejar req s))"
proof -
  have "list_all (\<lambda>r. dial_ok base (rq_URL r))
    (ns_Sent (snd (http_do (e_quoted E) (e_net E) (checkAPIRedirect (e_quoted E)) usejar redirect_fuel []
       req (net s))))"
    using assms
    by (intro http_do_sent [where Q = "dial_ok base"])
      (auto simp: confined_def redirect_request_def Let_def intro: redirect_dial)
  then show ?thesis by (simp add: client_do_def confined_def case_prod_beta Let_def)
qed

lemma client_do_keeps [simp]: "cl (snd (client_do E usejar req s)) = cl s"
  by (simp add: client_do_def case_prod_beta Let_def)

lemma newRequest_dial:
  assumes "newRequest E c method reqURL b h = Ok req" "\<And>u. url_parse reqURL = Ok u \<Longrightarrow> same_origin base u"
  shows "dial_ok base (rq_URL req)"
  using assms by (auto simp: newRequest_def intro: same_origin_dial split: outcome.splits)

lemma exchange_state:
  "snd (exchange E ctx method reqURL b h s) =
     (case (cx_Done ctx (now s), newRequest E (cl s) method reqURL b h) of
        (None, Ok req) \<Rightarrow> snd (client_do E True req s)
      | _ \<Rightarrow> s)"
proof (cases "(cx_Done ctx (now s), newRequest E (cl s) method reqURL b h)")
  case (Pair d n)
  show ?thesis
  proof (cases "\<exists>req. d = None \<and> n = Ok req")
    case True
    then obtain req where "d = None" "n = Ok req" by blast
    with Pair show ?thesis
      by (cases "client_do E True req s") (simp add: exchange_def split: outcome.split)
  next
    case False
    with Pair show ?thesis by (cases d; cases n) (simp_all add: exchange_def)
  qed
qed

lemma exchange_confined:
  assumes "\<And>u. url_parse reqURL = Ok u \<Longrightarrow> same_origin base u" "confined base s"
  shows "confined base (snd (exchange E ctx method reqURL b h s))"
  using assms client_do_confined [OF newRequest_dial [OF _ assms(1)] assms(2)]
  by (simp add: exchange_state split: option.split outcome.split)

lemma exchange_keeps [simp]: "cl (snd (exchange E ctx method reqURL b h s)) = cl s"
  by (simp add: exchange_state split: option.split outcome.split)

lemma rotateToken_simps [simp]:
  "net (rotateToken E s) = net s" "cl (rotateToken E s) = cl s"
  by (auto simp: rotateToken_def LoadAccessToken_def split: option.splits)

lemma confined_rotate [simp]: "confined base (rotateToken E s) = confined base s"
  by (simp add: confined_def)

end
