(* ===== verification/Client_Invariant.thy ===== *)
theory Client_Invariant
  imports Client_Facts "HOL-Library.Sublist"
begin

text \<open>
  Invariants of the client over whole calls.  The locale \<open>client_invariant\<close> is the contract between
  the transport and the operations built on it: a predicate that survives one authorized exchange
  with an admitted path, context and body, and every step that sends nothing and leaves the configuration alone,
  survives login, start, poll, kill, close, verify and logout.  It is interpreted for staying on the
  endpoint, for the request log only growing, for every request carrying the credentials, and for
  the configuration being constant.
\<close>

subsection \<open>Steps that send nothing\<close>

definition same_config :: "client \<Rightarrow> client \<Rightarrow> bool" where
  "same_config c c' \<longleftrightarrow>
     apiEndpoint c' = apiEndpoint c \<and> c_host c' = c_host c \<and> c_user c' = c_user c
     \<and> c_password c' = c_password c \<and> accessTokenLoader c' = accessTokenLoader c"

definition silent :: "st \<Rightarrow> st \<Rightarrow> bool" where
  "silent s s' \<longleftrightarrow> same_config (cl s) (cl s') \<and> ns_Sent (net s') = ns_Sent (net s)"

lemma same_config_refl [simp]: "same_config c c"
  by (simp add: same_config_def)

lemma silent_refl [simp]: "silent s s"
  by (simp add: silent_def)

lemma silent_trans: "silent s s' \<Longrightarrow> silent s' s'' \<Longrightarrow> silent s s''"
  by (simp add: silent_def same_config_def)

lemma same_config_updates:
  "same_config c (applySessionState resp c)"
  "same_config c (saveNode resp c)"
  "same_config c (saveRouteHint h c)"
  "same_config c (loggedIn h c)"
  "same_config c (setHTTPArrowCapability v c)"
  by (auto simp: same_config_def applySessionState_def saveNode_def saveRouteHint_def loggedIn_def
      setHTTPArrowCapability_def split: option.splits)

lemma silent_upd: "same_config (cl s) (f (cl s)) \<Longrightarrow> silent s (upd_client f s)"
  by (simp add: silent_def upd_client_def)

lemma silent_steps:
  "silent s (newRouteHint E s)"
  "silent s (trackStats resp s)"
  "silent s (snd (LoadAccessToken E l force s))"
  "silent s (rotateToken E s)"
  "silent s (initialized v s)"
  by (auto simp: silent_def newRouteHint_def trackStats_def LoadAccessToken_def rotateToken_def
      initialized_def upd_client_def same_config_def setHTTPArrowCapability_def split: option.splits)

lemma silent_makeHeaders: "silent s (snd (makeHeaders E ctx s))"
  using silent_steps(3) [of s E _ False]
  by (auto simp: makeHeaders_def Let_def split: auth_method.splits option.splits prod.splits outcome.splits)
    (metis snd_conv)+

text \<open>The header that authenticates a request.\<close>

definition authorized :: "client \<Rightarrow> header \<Rightarrow> bool" where
  "authorized c h \<longleftrightarrow>
     (if c_user c \<noteq> [] then
        header_lookup h Authorization = Some (''Basic '' @ basic_encode (c_user c) (c_password c))
      else case header_lookup h Authorization of
             Some v \<Rightarrow> has_prefix v ''Bearer '' | None \<Rightarrow> False)"

lemma authorized_makeHeaders: "makeHeaders E ctx s = (Ok h, s') \<Longrightarrow> authorized (cl s) h"
  by (auto simp: makeHeaders_def authorized_def authMethod_def Let_def has_prefix_iff
      split: auth_method.splits option.splits prod.splits outcome.splits if_splits)

lemma authorized_requestHeaders: "authorized c h \<Longrightarrow> authorized c (requestHeaders c' m sticky acc h)"
  by (simp add: authorized_def requestHeaders_def set_nonempty_def)

lemma authorized_same_config: "same_config c c' \<Longrightarrow> authorized c' h = authorized c h"
  by (simp add: authorized_def same_config_def)

text \<open>The query ID a request is sent with.\<close>

definition query_id :: "go_context \<Rightarrow> client \<Rightarrow> string" where
  "query_id ctx c = (case cx_QueryID ctx of Some q \<Rightarrow> q | None \<Rightarrow> GetQueryID c)"

text \<open>A header of a request on \<open>ctx\<close>: it authenticates the client and names the query.\<close>

definition stamped :: "go_context \<Rightarrow> client \<Rightarrow> header \<Rightarrow> bool" where
  "stamped ctx c h \<longleftrightarrow> authorized c h \<and> header_lookup h LakeQueryIDHeader = Some (query_id ctx c)"

lemma makeHeaders_keeps: "cl (snd (makeHeaders E ctx s)) = cl s"
  by (auto simp: makeHeaders_def Let_def LoadAccessToken_def split: auth_method.split option.split prod.split outcome.split)

lemma makeHeaders_query_id:
  "makeHeaders E ctx s = (Ok h, s') \<Longrightarrow> header_lookup h LakeQueryIDHeader = Some (query_id ctx (cl s))"
  by (auto simp: makeHeaders_def baseHeaders_def query_id_def Let_def
      split: auth_method.splits option.splits prod.splits outcome.splits)

lemma stamped_makeHeaders:
  assumes "makeHeaders E ctx s = (Ok h, s')"
  shows "stamped ctx (cl s') (requestHeaders c m sticky acc h)"
proof -
  have k: "cl s' = cl s" using makeHeaders_keeps [of E ctx s] assms by simp
  have "header_lookup (requestHeaders c m sticky acc h) LakeQueryIDHeader = header_lookup h LakeQueryIDHeader"
    by (simp add: requestHeaders_def set_nonempty_def)
  with makeHeaders_query_id [OF assms] authorized_requestHeaders [OF authorized_makeHeaders [OF assms]] k
  show ?thesis by (simp add: stamped_def)
qed

subsection \<open>The contract\<close>

locale client_invariant =
  fixes I :: "st \<Rightarrow> bool" and admitted :: "string \<Rightarrow> bool" and ctx_ok :: "go_context \<Rightarrow> bool"
    and body_ok :: "body \<Rightarrow> bool" and sql_ok :: "string \<Rightarrow> bool"
  assumes step: "I s \<Longrightarrow> silent s s' \<Longrightarrow> I s'"
    and send: "I s \<Longrightarrow> makeURL (e_quoted E) (apiEndpoint (cl s)) path = Ok reqURL \<Longrightarrow> admitted path
      \<Longrightarrow> stamped ctx (cl s) h \<Longrightarrow> ctx_ok ctx \<Longrightarrow> body_ok b \<Longrightarrow> newRequest E (cl s) m reqURL b h = Ok req
      \<Longrightarrow> I (snd (client_do E usejar req s))"
    and fixed: "admitted ''/v1/query''" "admitted ''/v1/session/login''" "admitted ''/v1/verify''"
      "admitted ''/v1/session/logout''" "admitted ''/v1/upload_to_stage''"
    and contexts: "ctx_ok Background" "ctx_ok ctx \<Longrightarrow> ctx_ok (contextWithoutQueryID ctx)"
      "ctx_ok ctx \<Longrightarrow> ctx_ok (WithTimeout E ctx t)"
    and bodies [simp]: "body_ok NoBody" "body_ok (JsonBody (login_request_json l))" "body_ok (UploadBody u)"
    and query_body: "sql_ok (rq_SQL q) \<Longrightarrow> body_ok (JsonBody (query_request_json q))"
begin

lemma call: "I s \<Longrightarrow> makeURL (e_quoted E) (apiEndpoint (cl s)) path = Ok reqURL \<Longrightarrow> admitted path
    \<Longrightarrow> stamped ctx (cl s) h \<Longrightarrow> ctx_ok ctx \<Longrightarrow> body_ok b \<Longrightarrow> I (snd (exchange E ctx m reqURL b h s))"
  by (auto simp: exchange_state split: option.split outcome.split intro: send)

lemma upd: "I s \<Longrightarrow> same_config (cl s) (f (cl s)) \<Longrightarrow> I (upd_client f s)"
  by (rule step [OF _ silent_upd])

lemma prepared:
  assumes "I s" "makeURL (e_quoted E) (apiEndpoint (cl s)) path = Ok reqURL"
    and "makeHeaders E ctx s = (Ok h, s1)"
  shows "I s1" "makeURL (e_quoted E) (apiEndpoint (cl s1)) path = Ok reqURL"
    "stamped ctx (cl s1) (requestHeaders c m sticky acc h)"
proof -
  have q: "silent s s1" using silent_makeHeaders [of s E ctx] assms(3) by simp
  then show "I s1" by (rule step [OF assms(1)])
  from q have c: "same_config (cl s) (cl s1)" by (simp add: silent_def)
  with assms(2) show "makeURL (e_quoted E) (apiEndpoint (cl s1)) path = Ok reqURL"
    by (simp add: same_config_def)
  show "stamped ctx (cl s1) (requestHeaders c m sticky acc h)" by (rule stamped_makeHeaders [OF assms(3)])
qed

lemma prepared_fail:
  assumes "I s" "makeHeaders E ctx s = (r, s1)"
  shows "I s1"
  using step [OF assms(1) silent_makeHeaders, of E ctx] assms(2) by simp

lemma doRequest_loop_inv:
  assumes "I s" "makeURL (e_quoted E) (apiEndpoint (cl s)) path = Ok reqURL" "admitted path"
    and "stamped ctx (cl s) h" "ctx_ok ctx" "body_ok b"
  shows "I (snd (snd (snd (doRequest_loop E ctx m reqURL b h k dec resp rh s))))"
  using assms
proof (induction k arbitrary: dec resp rh s)
  case (Suc k)
  obtain r s1 where e: "exchange E ctx m reqURL b h s = (r, s1)" by fastforce
  have s1: "I s1" "cl s1 = cl s"
    using call [OF Suc.prems, where m = m] exchange_keeps [of E ctx m reqURL b h s] e
    by simp_all
  have "I (rotateToken E s1)" using step [OF s1(1) silent_steps(4)] .
  with Suc.IH [of "rotateToken E s1"] Suc.prems s1 e show ?case
    by (auto simp: Let_def split: outcome.split option.split prod.split)
qed simp

lemma doRequest_inv:
  assumes "I s" "admitted path" "ctx_ok ctx" "body_ok b"
  shows "I (snd (snd (snd (doRequest E ctx m path b sticky dec resp s))))"
proof (cases "makeURL (e_quoted E) (apiEndpoint (cl s)) path")
  case url: (Ok reqURL)
  obtain hr s1 where h: "makeHeaders E ctx s = (hr, s1)" by fastforce
  show ?thesis
  proof (cases hr)
    case (Ok h0)
    note p = prepared [OF assms(1) url h [unfolded Ok]]
    show ?thesis
      using doRequest_loop_inv [OF p(1,2) assms(2) p(3) assms(3,4)] url h Ok by (simp add: doRequest_def)
  qed (use url h prepared_fail [OF assms(1) h] in \<open>simp_all add: doRequest_def\<close>)
qed (use assms in \<open>simp_all add: doRequest_def\<close>)

lemma doRequestRaw_loop_inv:
  assumes "I s" "makeURL (e_quoted E) (apiEndpoint (cl s)) path = Ok reqURL" "admitted path"
    and "stamped ctx (cl s) h" "ctx_ok ctx" "body_ok b"
  shows "I (snd (doRequestRaw_loop E ctx m reqURL b h k s))"
  using assms
proof (induction k arbitrary: s)
  case (Suc k)
  obtain r s1 where e: "exchange E ctx m reqURL b h s = (r, s1)" by fastforce
  have s1: "I s1" "cl s1 = cl s"
    using call [OF Suc.prems, where m = m] exchange_keeps [of E ctx m reqURL b h s] e
    by simp_all
  have "I (rotateToken E s1)" using step [OF s1(1) silent_steps(4)] .
  with Suc.IH [of "rotateToken E s1"] Suc.prems s1 e show ?case
    by (auto simp: Let_def split: outcome.split option.split)
qed simp

lemma doRequestRaw_inv:
  assumes "I s" "admitted path" "ctx_ok ctx" "body_ok b"
  shows "I (snd (doRequestRaw E ctx m path b sticky acc s))"
proof (cases "makeURL (e_quoted E) (apiEndpoint (cl s)) path")
  case url: (Ok reqURL)
  obtain hr s1 where h: "makeHeaders E ctx s = (hr, s1)" by fastforce
  show ?thesis
  proof (cases hr)
    case (Ok h0)
    note p = prepared [OF assms(1) url h [unfolded Ok]]
    show ?thesis
      using doRequestRaw_loop_inv [OF p(1,2) assms(2) p(3) assms(3,4)] url h Ok by (simp add: doRequestRaw_def)
  qed (use url h prepared_fail [OF assms(1) h] in \<open>simp_all add: doRequestRaw_def\<close>)
qed (use assms in \<open>simp_all add: doRequestRaw_def\<close>)
end

subsection \<open>Retried calls\<close>

lemma retry_spec_inv:
  "(\<And>s. J s \<Longrightarrow> J (snd (f s))) \<Longrightarrow> J s \<Longrightarrow> J (snd (retry_spec n p f s))"
proof (induction n arbitrary: s)
  case (Suc n)
  obtain r s1 where e: "f s = (r, s1)" by fastforce
  have "J s1" using Suc.prems(1) [OF Suc.prems(2)] e by simp
  with Suc.IH [of s1] Suc.prems(1) e show ?case by (simp split: outcome.split)
qed simp

lemma doRetry_spec:
  "retry_documented (e_retry E) \<Longrightarrow> doRetry E t f cs = retry_spec (attempts t) (retryIf t) f cs"
  by (cases cs) (simp add: doRetry_def retry_documented_def attempts_def)

context client_invariant
begin

lemma doRetry_inv:
  assumes "retry_documented (e_retry E)" "\<And>cap s. I s \<Longrightarrow> I (snd (snd (f (cap, s))))" "I s"
  shows "I (snd (snd (doRetry E t f (cap, s))))"
  using retry_spec_inv [of "\<lambda>cs. I (snd cs)" f "(cap, s)" "attempts t" "retryIf t"] assms(2,3)
  by (simp add: doRetry_spec [OF assms(1)] split_paired_all)

lemma doRequest_invD:
  "doRequest E ctx m path b sticky dec resp s = (r, x, h, s') \<Longrightarrow> I s \<Longrightarrow> admitted path \<Longrightarrow> ctx_ok ctx
    \<Longrightarrow> body_ok b \<Longrightarrow> I s'"
  using doRequest_inv [of s path ctx b E m sticky dec resp] by simp

lemma doRequestRaw_invD:
  "doRequestRaw E ctx m path b sticky acc s = (r, s') \<Longrightarrow> I s \<Longrightarrow> admitted path \<Longrightarrow> ctx_ok ctx
    \<Longrightarrow> body_ok b \<Longrightarrow> I s'"
  using doRequestRaw_inv [of s path ctx b E m sticky acc] by simp

lemma jsonAttempt_inv:
  "I s \<Longrightarrow> admitted path \<Longrightarrow> ctx_ok ctx \<Longrightarrow> body_ok b \<Longrightarrow> I (snd (snd (jsonAttempt E ctx m path b sticky wh (cap, s))))"
  by (auto simp: jsonAttempt_def dest: doRequest_invD split: prod.split)

lemma arrowAttempt_inv:
  "I s \<Longrightarrow> admitted path \<Longrightarrow> ctx_ok ctx \<Longrightarrow> body_ok b \<Longrightarrow> I (snd (snd (arrowAttempt E ctx m path b sticky wh (cap, s))))"
  by (auto simp: arrowAttempt_def Let_def dest: doRequestRaw_invD split: prod.split outcome.split)

lemma endAttempt_inv:
  "I s \<Longrightarrow> admitted path \<Longrightarrow> ctx_ok ctx \<Longrightarrow> I (snd (snd (endAttempt E ctx path (cap, s))))"
  by (auto simp: endAttempt_def dest: doRequest_invD split: prod.split)

lemma retried_json:
  assumes "doRetry E t (jsonAttempt E ctx m path b sticky wh) (cap, s) = (r, cap', s')"
    and "retry_documented (e_retry E)" "I s" "admitted path" "ctx_ok ctx" "body_ok b"
  shows "I s'"
  using doRetry_inv [OF assms(2), of "jsonAttempt E ctx m path b sticky wh" s t cap] assms
  by (simp add: jsonAttempt_inv)

lemma retried_arrow:
  assumes "doRetry E t (arrowAttempt E ctx m path b sticky wh) (cap, s) = (r, cap', s')"
    and "retry_documented (e_retry E)" "I s" "admitted path" "ctx_ok ctx" "body_ok b"
  shows "I s'"
  using doRetry_inv [OF assms(2), of "arrowAttempt E ctx m path b sticky wh" s t cap] assms
  by (simp add: arrowAttempt_inv)

lemma login_inv: "I s \<Longrightarrow> ctx_ok ctx \<Longrightarrow> I (snd (login E ctx s))"
  by (auto simp: login_def intro!: upd same_config_updates dest!: doRequest_invD [OF _ _ fixed(2)]
      split: prod.split outcome.split)

lemma initializeConnectionInfo_inv: "I s \<Longrightarrow> ctx_ok ctx \<Longrightarrow> I (snd (initializeConnectionInfo E ctx s))"
  using login_inv [of s "contextWithoutQueryID ctx" E] contexts(2) step [OF _ silent_steps(5)]
  by (auto simp: initializeConnectionInfo_def split: prod.split outcome.split)

lemma finalize_inv: "I s \<Longrightarrow> I (snd (finalizeQueryResponse E resp h res s))"
  by (auto simp: finalizeQueryResponse_def comp_def same_config_updates silent_steps
      intro!: upd step [OF upd silent_steps(2)] split: outcome.split)
    (auto simp: same_config_def saveRouteHint_def applySessionState_def split: option.splits)

lemma startQueryRequest_inv:
  assumes "retry_documented (e_retry E)" "I s" "ctx_ok ctx" "sql_ok (rq_SQL request)"
  shows "I (snd (startQueryRequestWithTransport E ctx request transport s))"
proof -
  let ?s1 = "upd_client (\<lambda>c. c\<lparr>QuerySeq := QuerySeq c + 1\<rparr>) s"
  have "I ?s1" using assms(2) by (rule upd) (simp add: same_config_def)
  moreover from this have "I (newRouteHint E ?s1)" by (rule step [OF _ silent_steps(1)])
  ultimately show ?thesis
    by (auto simp: startQueryRequestWithTransport_def Let_def query_body assms(4) split: prod.split
        intro!: finalize_inv dest!: retried_json [OF _ assms(1) _ fixed(1) assms(3)] retried_arrow [OF _ assms(1) _ fixed(1) assms(3)])
qed

lemma st_bind_inv:
  "I (snd (m s)) \<Longrightarrow> (\<And>x s. I s \<Longrightarrow> I (snd (f x s))) \<Longrightarrow> I (snd (st_bind m f s))"
  by (auto simp: st_bind_def split: prod.split outcome.split)

lemma startQuery_inv:
  "retry_documented (e_retry E) \<Longrightarrow> I s \<Longrightarrow> ctx_ok ctx \<Longrightarrow> sql_ok query
    \<Longrightarrow> I (snd (startQuery E ctx query transport s))"
  by (simp add: startQuery_def startQueryRequest_inv queryRequest_def)

lemma StartQuery_inv:
  "retry_documented (e_retry E) \<Longrightarrow> I s \<Longrightarrow> ctx_ok ctx \<Longrightarrow> sql_ok query \<Longrightarrow> I (snd (StartQuery E ctx query s))"
  unfolding StartQuery_def by (intro st_bind_inv initializeConnectionInfo_inv startQuery_inv)

lemma pollQuery_inv:
  assumes "retry_documented (e_retry E)" "I s" "admitted uri" "ctx_ok ctx"
  shows "I (snd (pollQueryWithTransport E ctx uri transport s))"
proof -
  have "I (trackStats r (upd_client (applySessionState r) s1))" if "I s1" for r s1
    by (intro step [OF _ silent_steps(2)] upd that same_config_updates)
  with assms(2) show ?thesis
    by (auto simp: pollQueryWithTransport_def Let_def split: prod.split outcome.split
        dest!: retried_json [OF _ assms(1) _ assms(3,4)] retried_arrow [OF _ assms(1) _ assms(3,4)])
qed

lemma PollQuery_inv:
  "retry_documented (e_retry E) \<Longrightarrow> I s \<Longrightarrow> admitted uri \<Longrightarrow> ctx_ok ctx \<Longrightarrow> I (snd (PollQuery E ctx uri s))"
  unfolding PollQuery_def by (intro st_bind_inv initializeConnectionInfo_inv pollQuery_inv)

lemma endQuery_inv:
  "retry_documented (e_retry E) \<Longrightarrow> I s \<Longrightarrow> admitted uri \<Longrightarrow> ctx_ok ctx \<Longrightarrow> I (endQuery E t ctx uri s)"
  by (auto simp: endQuery_def intro!: doRetry_inv endAttempt_inv contexts(3))

lemma KillQuery_inv:
  "retry_documented (e_retry E) \<Longrightarrow> I s \<Longrightarrow> admitted (qr_KillURI r) \<Longrightarrow> ctx_ok ctx \<Longrightarrow> I (KillQuery E ctx r s)"
  by (simp add: KillQuery_def endQuery_inv)

lemma CloseQuery_inv:
  "retry_documented (e_retry E) \<Longrightarrow> I s \<Longrightarrow> admitted (qr_FinalURI r) \<Longrightarrow> ctx_ok ctx \<Longrightarrow> I (CloseQuery E ctx r s)"
  by (simp add: CloseQuery_def endQuery_inv)

lemma pollLoop_inv:
  assumes "retry_documented (e_retry E)" "\<And>p. admitted p" "I s" "ctx_ok ctx"
  shows "I (snd (pollLoop E ctx transport fuel resp s))"
  using assms(3)
proof (induction fuel arbitrary: resp s)
  case (Suc n)
  obtain r s1 where p: "pollQueryWithTransport E ctx (qr_NextURI resp) transport s = (r, s1)" by fastforce
  have "I s1" using pollQuery_inv [OF assms(1) Suc.prems assms(2,4)] p by (metis snd_conv)
  with p Suc.IH KillQuery_inv [OF assms(1) _ assms(2) contexts(1)] Suc.prems show ?case
    by (subst pollLoop.simps) (simp split: outcome.split option.split)
qed (use assms in \<open>subst pollLoop.simps; simp\<close>)

lemma finishQuery_inv:
  assumes "retry_documented (e_retry E)" "\<And>p. admitted p" "I s" "ctx_ok ctx"
  shows "I (snd (finishQuery E ctx transport mk resp s))"
  using pollLoop_inv [OF assms(1,2) _ assms(4)] CloseQuery_inv [OF assms(1) _ assms(2,4)] assms(3)
  by (simp add: finishQuery_def pollUntilQueryEnd_def split: option.split prod.split) (metis snd_conv)

lemma QuerySync_inv:
  assumes "retry_documented (e_retry E)" "\<And>p. admitted p" "I s" "ctx_ok ctx" "sql_ok query"
  shows "I (snd (QuerySync E ctx query s))"
  unfolding QuerySync_def querySyncWithTransport_def Let_def
  by (intro st_bind_inv initializeConnectionInfo_inv startQuery_inv finishQuery_inv assms)

lemma verifyLoop_inv: "I s \<Longrightarrow> ctx_ok ctx \<Longrightarrow> I (snd (snd (verifyLoop E ctx left r s)))"
proof (induction left arbitrary: r s)
  case 0
  then show ?case
    by (subst verifyLoop.simps) (auto dest: doRequest_invD [OF _ _ fixed(3)] split: prod.split outcome.split)
next
  case (Suc k)
  then show ?case
    by (subst verifyLoop.simps) (auto dest: doRequest_invD [OF _ _ fixed(3)] split: prod.split outcome.split)
qed

lemma verifyLoop_invD: "verifyLoop E ctx left r s = (x, y, s') \<Longrightarrow> I s \<Longrightarrow> ctx_ok ctx \<Longrightarrow> I s'"
  using verifyLoop_inv [of s ctx E left r] by simp

lemma initialize_invD: "initializeConnectionInfo E ctx s = (r, s') \<Longrightarrow> I s \<Longrightarrow> ctx_ok ctx \<Longrightarrow> I s'"
  using initializeConnectionInfo_inv [of s ctx E] by simp

lemma Verify_inv: "I s \<Longrightarrow> ctx_ok ctx \<Longrightarrow> I (snd (Verify E ctx s))"
  by (auto simp: Verify_def Let_def dest: initialize_invD verifyLoop_invD split: prod.split outcome.split)

lemma Logout_inv: "I s \<Longrightarrow> ctx_ok ctx \<Longrightarrow> I (snd (Logout E ctx s))"
  by (auto simp: Logout_def dest: doRequest_invD [OF _ _ fixed(4)] split: prod.split)

lemma WithState_inv: "I s \<Longrightarrow> I (WithState E cs s)"
  by (erule step) (auto simp: silent_def WithState_def upd_client_def same_config_def Let_def
      split: option.split prod.split)

end

subsection \<open>The invariants\<close>

definition plain_path :: "string \<Rightarrow> bool" where
  "plain_path p \<longleftrightarrow> p = [] \<or> hd p \<noteq> CHR ''%''"

definition web_endpoint :: "string \<Rightarrow> bool" where
  "web_endpoint ep \<longleftrightarrow> has_prefix ep ''http://'' \<or> has_prefix ep ''https://''"

definition on_endpoint :: "st \<Rightarrow> bool" where
  "on_endpoint s \<longleftrightarrow>
     web_endpoint (apiEndpoint (cl s))
     \<and> (\<forall>base. url_parse (apiEndpoint (cl s)) = Ok base \<longrightarrow> confined base s)"

lemma web_endpoint_split:
  assumes "web_endpoint ep"
  obtains sch h where "web_scheme sch" "ep = sch @ ''://'' @ h"
  using assms that [of "''http''"] that [of "''https''"]
  by (auto simp: web_endpoint_def web_scheme_def has_prefix_iff)

lemma silent_confined: "silent s s' \<Longrightarrow> confined base s' = confined base s"
  by (simp add: silent_def confined_def)

lemma fixed_plain [simp]:
  "plain_path ''/v1/query''" "plain_path ''/v1/session/login''" "plain_path ''/v1/verify''"
  "plain_path ''/v1/session/logout''" "plain_path ''/v1/upload_to_stage''"
  by (simp_all add: plain_path_def)

lemma http_do_prefix:
  "prefix (ns_Sent ns) (ns_Sent (snd (http_do q N policy usejar n via req ns)))"
proof (induction n arbitrary: via req ns)
  case (Suc n)
  have "prefix (ns_Sent ns) (ns_Sent (snd (http_do q N policy usejar n via' req' \<lparr>ns_Jar = j, ns_Sent = ns_Sent ns @ [r]\<rparr>)))"
    for via' req' j r
    using Suc [of "\<lparr>ns_Jar = j, ns_Sent = ns_Sent ns @ [r]\<rparr>" via' req'] by (auto simp: prefix_def)
  then show ?case by (cases usejar) (auto simp: Let_def split: reply.split option.split)
qed simp

lemma client_do_prefix: "prefix (ns_Sent (net s)) (ns_Sent (net (snd (client_do E usejar req s))))"
  using http_do_prefix [of "net s"] by (simp add: client_do_def case_prod_beta Let_def)

lemma exchange_prefix: "prefix (ns_Sent (net s)) (ns_Sent (net (snd (exchange E ctx m url b h s))))"
  by (simp add: exchange_state client_do_prefix split: option.split outcome.split)

text \<open>Every request of an exchange carries the headers it was given.\<close>

lemma newRequest_header: "newRequest E c m url b h = Ok req \<Longrightarrow> rq_Header req = h"
  by (auto simp: newRequest_def split: outcome.splits)

lemma client_do_headers:
  assumes "list_all (\<lambda>r. P (rq_Header r)) (ns_Sent (net s))" "P (rq_Header req)"
  shows "list_all (\<lambda>r. P (rq_Header r)) (ns_Sent (net (snd (client_do E usejar req s))))"
proof -
  from assms have "list_all (\<lambda>r. P (rq_Header r)) (ns_Sent (snd (http_do (e_quoted E) (e_net E)
      (checkAPIRedirect (e_quoted E)) usejar redirect_fuel [] req (net s))))"
    by (intro http_do_sent [where Q = "\<lambda>_. True"]) (auto simp: redirect_request_def Let_def)
  then show ?thesis by (simp add: client_do_def case_prod_beta Let_def)
qed

interpretation config: client_invariant "\<lambda>s. same_config c0 (cl s)" "\<lambda>_. True" "\<lambda>_. True" "\<lambda>_. True" "\<lambda>_. True"
  by unfold_locales (auto simp: silent_def same_config_def)

interpretation log: client_invariant "\<lambda>s. prefix sent0 (ns_Sent (net s))" "\<lambda>_. True" "\<lambda>_. True" "\<lambda>_. True" "\<lambda>_. True"
  by unfold_locales (auto simp: silent_def intro: prefix_order.trans client_do_prefix)

interpretation credentials: client_invariant
  "\<lambda>s. same_config c0 (cl s) \<and> list_all (\<lambda>r. authorized c0 (rq_Header r)) (ns_Sent (net s))" "\<lambda>_. True" "\<lambda>_. True"
  "\<lambda>_. True" "\<lambda>_. True"
proof (unfold_locales, goal_cases)
  case (1 s s')
  then show ?case by (auto simp: silent_def same_config_def)
next
  case (2 s E path reqURL ctx h b m req usejar)
  then have "authorized c0 h" using authorized_same_config [of c0 "cl s" h] by (simp add: stamped_def)
  with 2 client_do_headers [of "authorized c0" s req E usejar] show ?case by (simp add: newRequest_header)
qed simp_all

interpretation origin: client_invariant on_endpoint plain_path "\<lambda>_. True" "\<lambda>_. True" "\<lambda>_. True"
proof (unfold_locales, goal_cases)
  case (1 s s')
  then show ?case by (auto simp: on_endpoint_def silent_confined) (auto simp: silent_def same_config_def)
next
  case (2 s E path reqURL ctx h b m req usejar)
  then obtain sch host where ep: "web_scheme sch" "apiEndpoint (cl s) = sch @ ''://'' @ host"
    by (auto simp: on_endpoint_def elim: web_endpoint_split)
  have "confined base (snd (client_do E usejar req s))"
    if "url_parse (apiEndpoint (cl s)) = Ok base" for base
  proof (rule client_do_confined [OF newRequest_dial])
    show "newRequest E (cl s) m reqURL b h = Ok req" by fact
    show "same_origin base u" if u: "url_parse reqURL = Ok u" for u
      using makeURL_same_origin [of "e_quoted E" sch host path reqURL base u] 2 ep that u
        \<open>url_parse (apiEndpoint (cl s)) = Ok base\<close> by (auto simp: plain_path_def)
    show "confined base s" using 2 that by (auto simp: on_endpoint_def)
  qed
  with 2 show ?case by (auto simp: on_endpoint_def)
qed simp_all

subsection \<open>How many requests a call sends\<close>

lemma http_do_bound:
  "length (ns_Sent (snd (http_do q N (checkAPIRedirect q) usejar n via req ns)))
     \<le> length (ns_Sent ns) + max 1 (10 - length via)"
proof (induction n arbitrary: via req ns)
  case (Suc n)
  have rec: "length (ns_Sent (snd (http_do q N (checkAPIRedirect q) usejar n (via @ [rq_URL req]) req'
      \<lparr>ns_Jar = j, ns_Sent = ns_Sent ns @ [r]\<rparr>))) \<le> length (ns_Sent ns) + max 1 (10 - length via)"
    if "checkAPIRedirect q loc (via @ [rq_URL req]) = None" for req' j r loc
  proof -
    have "Suc (length via) < 10"
      using that by (auto simp: checkAPIRedirect_def split: list.splits if_splits dest: arg_cong [where f = length])
    with Suc [of "via @ [rq_URL req]" req' "\<lparr>ns_Jar = j, ns_Sent = ns_Sent ns @ [r]\<rparr>"] show ?thesis
      by simp
  qed
  show ?case using rec by (cases usejar) (auto simp: Let_def split: reply.split option.split)
qed simp

lemma client_do_bound: "now (snd (client_do E usejar req s)) \<le> now s + 10"
  using http_do_bound [of "e_quoted E" "e_net E" usejar redirect_fuel "[]" req "net s"]
  by (simp add: now_def client_do_def case_prod_beta Let_def)

lemma exchange_bound: "now (snd (exchange E ctx m url b h s)) \<le> now s + 10"
  using client_do_bound [of E True _ s]
  by (simp add: exchange_state split: option.split outcome.split)

lemma now_simps [simp]: "now (rotateToken E s) = now s" "now (upd_client f s) = now s"
    "now (newRouteHint E s) = now s" "now (trackStats r s) = now s"
  by (auto simp: now_def upd_client_def newRouteHint_def trackStats_def split: option.splits)

lemma now_silent: "silent s s' \<Longrightarrow> now s' = now s"
  by (simp add: silent_def now_def)

lemma doRequest_loop_bound:
  "doRequest_loop E ctx m url b h k dec resp rh s = (r, x, y, s') \<Longrightarrow> now s' \<le> now s + 10 * k"
proof (induction k arbitrary: dec resp rh s)
  case (Suc k)
  obtain er s1 where e: "exchange E ctx m url b h s = (er, s1)" by fastforce
  then have s1: "now s1 \<le> now s + 10" using exchange_bound [of E ctx m url b h s] by simp
  then have "doRequest_loop E ctx m url b h k dec' resp' rh' (rotateToken E s1) = (r, x, y, s')
      \<Longrightarrow> now s' \<le> now s + (10 + 10 * k)" for dec' resp' rh'
    by (auto dest!: Suc.IH)
  with s1 e Suc.prems show ?case
    by (auto simp: Let_def split: outcome.splits option.splits prod.splits if_splits)
qed simp

lemma doRequest_bound:
  "doRequest E ctx m path b sticky dec resp s = (r, x, y, s') \<Longrightarrow> now s' \<le> now s + 20"
  using now_silent [OF silent_makeHeaders [of s E ctx]]
  by (auto simp: doRequest_def authRetryLimit_def split: outcome.splits prod.splits
      dest!: doRequest_loop_bound)

lemma doRequestRaw_loop_bound:
  "doRequestRaw_loop E ctx m url b h k s = (r, s') \<Longrightarrow> now s' \<le> now s + 10 * k"
proof (induction k arbitrary: s)
  case (Suc k)
  obtain er s1 where e: "exchange E ctx m url b h s = (er, s1)" by fastforce
  then have s1: "now s1 \<le> now s + 10" using exchange_bound [of E ctx m url b h s] by simp
  then have "doRequestRaw_loop E ctx m url b h k (rotateToken E s1) = (r, s')
      \<Longrightarrow> now s' \<le> now s + (10 + 10 * k)"
    by (auto dest!: Suc.IH)
  with s1 e Suc.prems show ?case
    by (auto simp: Let_def split: outcome.splits option.splits if_splits)
qed simp

lemma doRequestRaw_bound:
  "doRequestRaw E ctx m path b sticky acc s = (r, s') \<Longrightarrow> now s' \<le> now s + 20"
  using now_silent [OF silent_makeHeaders [of s E ctx]]
  by (auto simp: doRequestRaw_def authRetryLimit_def split: outcome.splits prod.splits
      dest!: doRequestRaw_loop_bound)

lemma retry_spec_bound:
  "(\<And>s. m (snd (f s)) \<le> m s + k) \<Longrightarrow> m (snd (retry_spec n p f s)) \<le> m s + n * (k :: nat)"
proof (induction n arbitrary: s)
  case (Suc n)
  obtain r s1 where e: "f s = (r, s1)" by fastforce
  have "m s1 \<le> m s + k" using Suc.prems [of s] e by simp
  moreover have "m (snd (retry_spec n p f s1)) \<le> m s1 + n * k" using Suc by blast
  ultimately show ?case using e by (simp split: outcome.split)
qed simp

lemma attempts_bound:
  "now (snd (snd (jsonAttempt E ctx m path b sticky wh cs))) \<le> now (snd cs) + 20"
  "now (snd (snd (arrowAttempt E ctx m path b sticky wh cs))) \<le> now (snd cs) + 20"
  "now (snd (snd (endAttempt E ctx path cs))) \<le> now (snd cs) + 20"
  by (auto simp: jsonAttempt_def arrowAttempt_def endAttempt_def Let_def
      split: prod.split outcome.split dest!: doRequest_bound doRequestRaw_bound)

lemma doRetry_bound:
  assumes "retry_documented (e_retry E)" "\<And>cs. now (snd (snd (f cs))) \<le> now (snd cs) + 20"
    and "doRetry E t f (cap, s) = (r, cap', s')"
  shows "now s' \<le> now s + attempts t * 20"
  using retry_spec_bound [of "\<lambda>cs. now (snd cs)" f 20 "attempts t" "retryIf t" "(cap, s)"] assms
  by (simp add: doRetry_spec [OF assms(1)])

lemma finalize_now: "now (snd (finalizeQueryResponse E resp h res s)) = now s"
  by (simp add: finalizeQueryResponse_def split: outcome.split)

lemma startQuery_bound:
  assumes "retry_documented (e_retry E)"
  shows "now (snd (startQuery E ctx query transport s)) \<le> now s + 100"
  by (auto simp: startQuery_def startQueryRequestWithTransport_def Let_def finalize_now attempts_def
      split: prod.split
      dest!: doRetry_bound [OF assms attempts_bound(1)] doRetry_bound [OF assms attempts_bound(2)])

lemma pollQuery_bound:
  assumes "retry_documented (e_retry E)"
  shows "now (snd (pollQueryWithTransport E ctx uri transport s)) \<le> now s + 60"
  by (auto simp: pollQueryWithTransport_def Let_def attempts_def split: prod.split outcome.split
      dest!: doRetry_bound [OF assms attempts_bound(1)] doRetry_bound [OF assms attempts_bound(2)])

lemma endQuery_bound:
  assumes "retry_documented (e_retry E)" "t \<noteq> QueryRequest"
  shows "now (endQuery E t ctx uri s) \<le> now s + 60"
proof -
  obtain r cap s' where d: "doRetry E t (endAttempt E (WithTimeout E ctx (now s)) uri) (no_capture, s) = (r, cap, s')"
    using prod_cases3 by blast
  from doRetry_bound [OF assms(1) attempts_bound(3) d] assms(2) d show ?thesis
    by (simp add: endQuery_def attempts_def)
qed

end
