(* ===== verification/Client_Props.thy ===== *)
theory Client_Props
  imports Client_Invariant
begin

text \<open>
  The properties of the client's transport and query calls, over the invariants of
  \<open>Client_Invariant\<close>: confinement to the endpoint and its limit, credentials, bounds, refused URIs,
  the accumulation of result pages, and the saved state.
\<close>

subsection \<open>An environment to instantiate the properties\<close>

text \<open>A server that refuses to authenticate every request, and a token loader with rotating tokens.\<close>

definition demo :: env where
  "demo =
     \<lparr>e_net = (\<lambda>_. NetReply 401 [] [] (Ok [])), e_quoted = (\<lambda>s. s), e_json = (\<lambda>_. None),
      e_render = (\<lambda>_. []), e_tz = (\<lambda>_. None), e_ipc = (\<lambda>_. None), e_marshal = (\<lambda>_. None),
      e_rand = (\<lambda>n. n), e_uuid = (\<lambda>_. ''id''), e_files = (\<lambda>_ _. Err (EMsg ''no file'')),
      e_toml = (\<lambda>_. None), e_custom = (\<lambda>n _. Ok (''token'' @ format_uint n)), e_expired = (\<lambda>_ _. False),
      e_retry = retry_spec, e_pages = 3\<rparr>"

definition demo_client :: client where
  "demo_client =
     \<lparr>SessionID = ''s'', QuerySeq = 0, apiEndpoint = ''https://lake:443'', c_host = ''lake:443'',
      c_tenant = [], c_warehouse = [], c_user = ''u'', c_password = ''p'', sessionStateRaw = None,
      sessionState = Some empty_session, routeHint = ''hint'', nodeID = [], statsTracked = False,
      accessTokenLoader = None, WaitTimeSeconds = 0, MaxRowsInBuffer = 0, MaxRowsPerPage = 0,
      PresignedURLDisabled = False, PresignAllowPrivate = False, EmptyFieldAs = ''string'',
      queryResultFormat = ''json'', stateRestored = False, loginEnabled = True,
      httpArrowCapabilityChecked = False, httpArrowEnabled = False, sessionLoggedIn = False,
      connectionInfoInitialized = False, userAgent = []\<rparr>"

definition demo_st :: st where
  "demo_st =
     \<lparr>cl = demo_client, net = \<lparr>ns_Jar = [], ns_Sent = []\<rparr>, st_loads = 0, st_draws = 0, st_stats = []\<rparr>"

lemma retry_documented_demo [simp]: "retry_documented (e_retry demo)"
  by (simp add: retry_documented_def demo_def)

lemma on_endpoint_demo [simp]: "on_endpoint demo_st"
  by (simp add: on_endpoint_def demo_st_def demo_client_def web_endpoint_def confined_def)

subsection \<open>Confinement\<close>

text \<open>C1: (confinement) Credentials never leave the configured endpoint. Starting a query (with the
  login it may need), polling, killing, closing, verifying and logging out send requests, redirects
  included, only to the scheme and host of the endpoint, whatever the server answers; the URIs the
  server names must not start with a percent sign (see the next property).\<close>

theorem requests_stay_on_endpoint:
  assumes "retry_documented (e_retry E)" "on_endpoint s"
    and "plain_path uri" "plain_path (qr_KillURI r)" "plain_path (qr_FinalURI r)"
  shows "on_endpoint (snd (StartQuery E ctx query s))
    \<and> on_endpoint (snd (PollQuery E ctx uri s))
    \<and> on_endpoint (KillQuery E ctx r s) \<and> on_endpoint (CloseQuery E ctx r s)
    \<and> on_endpoint (snd (Verify E ctx s)) \<and> on_endpoint (snd (Logout E ctx s))"
  using origin.StartQuery_inv [OF assms(1,2)] origin.PollQuery_inv [OF assms(1-3)]
    origin.KillQuery_inv [OF assms(1,2,4)] origin.CloseQuery_inv [OF assms(1,2,5)]
    origin.Verify_inv [OF assms(2)] origin.Logout_inv [OF assms(2)]
  by blast

lemma requests_stay_on_endpoint_witness:
  "on_endpoint (snd (StartQuery demo Background ''select 1'' demo_st))
    \<and> on_endpoint (snd (PollQuery demo Background ''/v1/query/1/page/1'' demo_st))
    \<and> on_endpoint (KillQuery demo Background empty_response demo_st)
    \<and> on_endpoint (CloseQuery demo Background empty_response demo_st)
    \<and> on_endpoint (snd (Verify demo Background demo_st))
    \<and> on_endpoint (snd (Logout demo Background demo_st))"
  by (rule requests_stay_on_endpoint) (simp_all add: plain_path_def empty_response_def)




text \<open>C24: (bounds) One statement sends at most one hundred HTTP requests: five attempts, two
  authentication rounds each, and at most ten requests along a chain of redirects; a page, a kill and
  a close send at most sixty. None of them takes a request back.\<close>

theorem request_bounds:
  assumes "retry_documented (e_retry E)"
  shows "now (snd (startQuery E ctx query transport s)) \<le> now s + 100
    \<and> now (snd (pollQueryWithTransport E ctx uri transport s)) \<le> now s + 60
    \<and> now (KillQuery E ctx r s) \<le> now s + 60 \<and> now (CloseQuery E ctx r s) \<le> now s + 60
    \<and> prefix (ns_Sent (net s)) (ns_Sent (net (snd (startQuery E ctx query transport s))))
    \<and> prefix (ns_Sent (net s)) (ns_Sent (net (snd (pollQueryWithTransport E ctx uri transport s))))"
  using startQuery_bound [OF assms] pollQuery_bound [OF assms] endQuery_bound [OF assms]
    log.startQuery_inv [OF assms, of "ns_Sent (net s)"] log.pollQuery_inv [OF assms, of "ns_Sent (net s)"]
  by (simp add: KillQuery_def CloseQuery_def)

lemma request_bounds_witness:
  "now (snd (startQuery demo Background ''select 1'' TransportAuto demo_st)) \<le> now demo_st + 100
    \<and> now (snd (pollQueryWithTransport demo Background ''/p'' TransportAuto demo_st)) \<le> now demo_st + 60
    \<and> now (KillQuery demo Background empty_response demo_st) \<le> now demo_st + 60
    \<and> now (CloseQuery demo Background empty_response demo_st) \<le> now demo_st + 60
    \<and> prefix (ns_Sent (net demo_st)) (ns_Sent (net (snd (startQuery demo Background ''select 1'' TransportAuto demo_st))))
    \<and> prefix (ns_Sent (net demo_st)) (ns_Sent (net (snd (pollQueryWithTransport demo Background ''/p'' TransportAuto demo_st))))"
  by (rule request_bounds) simp

subsection \<open>Refused URIs\<close>

lemma retry_spec_const:
  assumes "f s = (Err e, s)" "0 < n"
  shows "retry_spec n p f s = (Err e, s)"
  using assms(2)
proof (induction n)
  case (Suc n)
  then show ?case using assms(1) by (cases "0 < n") auto
qed simp

lemma upd_client_same: "f (cl s) = cl s \<Longrightarrow> upd_client f s = s"
  by (simp add: upd_client_def)

text \<open>C30: (refused URIs) When \<open>makeURL\<close> refuses a URI of the server, polling it fails with that
  refusal, killing and closing do nothing, and none of them sends a request, loads a token or changes
  the client. A refusal counts as a failed request for the retry policy.\<close>

theorem refused_uri_sends_nothing:
  assumes "retry_documented (e_retry E)"
    and "makeURL (e_quoted E) (apiEndpoint (cl s)) uri = Err (ERejectedURI m)" "uri \<noteq> []"
  shows "pollQueryWithTransport E ctx uri transport s
      = (Err (EWrap ''failed to query page'' (ERejectedURI m)), s)
    \<and> endQuery E t ctx uri s = s \<and> retryIf t (ERejectedURI m)"
proof -
  have j: "jsonAttempt E ctx ''GET'' uri NoBody (\<lambda>_. True) False (no_capture\<lparr>cp_Resp := Some empty_response\<rparr>, s)
      = (Err (ERejectedURI m), no_capture\<lparr>cp_Resp := Some empty_response\<rparr>, s)"
    using assms(2) by (simp add: jsonAttempt_def doRequest_def the_resp_def no_capture_def)
  have a: "arrowAttempt E ctx ''GET'' uri NoBody (\<lambda>_. True) False (no_capture, s)
      = (Err (ERejectedURI m), no_capture, s)"
    using assms(2) by (simp add: arrowAttempt_def doRequestRaw_def)
  have e: "endAttempt E (WithTimeout E ctx (now s)) uri (no_capture, s) = (Err (ERejectedURI m), no_capture, s)"
    using assms(2) by (simp add: endAttempt_def doRequest_def)
  have n: "0 < attempts x" for x by (simp add: attempts_def)
  note spec = doRetry_spec [OF assms(1)]
  note final = queryOutcome_def trackStats_def applySessionState_def empty_response_def upd_client_def
    no_capture_def
  have "pollQueryWithTransport E ctx uri transport s
      = (Err (EWrap ''failed to query page'' (ERejectedURI m)), s)"
  proof (cases "chooseArrow (cl s) (pollTransport (cl s) transport)")
    case True
    then show ?thesis
      using retry_spec_const [where f = "arrowAttempt E ctx ''GET'' uri NoBody (\<lambda>_. True) False", OF a n]
      by (simp add: pollQueryWithTransport_def spec) (simp add: final)
  next
    case False
    then show ?thesis
      using retry_spec_const [where f = "jsonAttempt E ctx ''GET'' uri NoBody (\<lambda>_. True) False", OF j n]
      by (simp add: pollQueryWithTransport_def spec) (simp add: final)
  qed
  moreover have "endQuery E t ctx uri s = s"
    using assms(3) retry_spec_const [where f = "endAttempt E (WithTimeout E ctx (now s)) uri", OF e n]
    by (simp add: endQuery_def spec)
  ultimately show ?thesis by (simp add: retryIf_def)
qed

lemma refused_uri_sends_nothing_witness:
  "pollQueryWithTransport demo Background ''//evil/v1'' TransportAuto demo_st
      = (Err (EWrap ''failed to query page'' (ERejectedURI (''refusing to send a request to //evil/v1: ''
           @ ''it does not belong to endpoint https://lake:443''))), demo_st)
    \<and> endQuery demo KillRequest Background ''//evil/v1'' demo_st = demo_st
    \<and> retryIf KillRequest (ERejectedURI (''refusing to send a request to //evil/v1: ''
           @ ''it does not belong to endpoint https://lake:443''))"
  by (rule refused_uri_sends_nothing) (simp, code_simp, simp)

subsection \<open>One set of headers per call\<close>

lemma http_do_headers:
  "\<exists>rs. ns_Sent (snd (http_do q N policy usejar n via req ns)) = ns_Sent ns @ rs
     \<and> list_all (\<lambda>r. rq_Header r = rq_Header req) rs"
proof (induction n arbitrary: via req ns)
  case (Suc n)
  have "\<exists>rs. ns_Sent (snd (http_do q N policy usejar n via' (redirect_request req st loc rel)
        \<lparr>ns_Jar = j, ns_Sent = ns_Sent ns @ [req\<lparr>rq_Cookies := c\<rparr>]\<rparr>)) = ns_Sent ns @ rs
     \<and> list_all (\<lambda>r. rq_Header r = rq_Header req) rs" for via' st loc rel j c
  proof -
    obtain rs where "ns_Sent (snd (http_do q N policy usejar n via' (redirect_request req st loc rel)
        \<lparr>ns_Jar = j, ns_Sent = ns_Sent ns @ [req\<lparr>rq_Cookies := c\<rparr>]\<rparr>))
          = (ns_Sent ns @ [req\<lparr>rq_Cookies := c\<rparr>]) @ rs"
      "list_all (\<lambda>r. rq_Header r = rq_Header req) rs"
      using Suc [of via' "redirect_request req st loc rel"
          "\<lparr>ns_Jar = j, ns_Sent = ns_Sent ns @ [req\<lparr>rq_Cookies := c\<rparr>]\<rparr>"]
      by (auto simp: redirect_request_def Let_def)
    then show ?thesis by (intro exI [of _ "req\<lparr>rq_Cookies := c\<rparr> # rs"]) simp
  qed
  moreover have "\<exists>rs. ns_Sent ns @ [req\<lparr>rq_Cookies := c\<rparr>] = ns_Sent ns @ rs
     \<and> list_all (\<lambda>r. rq_Header r = rq_Header req) rs" for c by simp
  ultimately show ?case by (cases usejar) (auto simp: Let_def split: reply.split option.split)
qed simp

lemma client_do_same_header:
  "\<exists>rs. ns_Sent (net (snd (client_do E usejar req s))) = ns_Sent (net s) @ rs
     \<and> list_all (\<lambda>r. rq_Header r = rq_Header req) rs"
  using http_do_headers [of "e_quoted E" "e_net E" _ usejar redirect_fuel "[]" req "net s"]
  by (simp add: client_do_def case_prod_beta Let_def)

lemma exchange_same_header:
  "\<exists>rs. ns_Sent (net (snd (exchange E ctx m url b h s))) = ns_Sent (net s) @ rs
     \<and> list_all (\<lambda>r. rq_Header r = h) rs"
  by (auto simp: exchange_state split: option.split outcome.split)
    (metis client_do_same_header newRequest_header)

lemma doRequest_loop_same_header:
  "doRequest_loop E ctx m url b h k dec resp rh s = (r, x, y, s')
    \<Longrightarrow> \<exists>rs. ns_Sent (net s') = ns_Sent (net s) @ rs \<and> list_all (\<lambda>r. rq_Header r = h) rs"
proof (induction k arbitrary: dec resp rh s)
  case (Suc k)
  obtain er s1 where e: "exchange E ctx m url b h s = (er, s1)" by fastforce
  obtain rs where rs: "ns_Sent (net s1) = ns_Sent (net s) @ rs" "list_all (\<lambda>r. rq_Header r = h) rs"
    using exchange_same_header [of E ctx m url b h s] e by auto
  have "\<exists>rs'. ns_Sent (net s') = ns_Sent (net s) @ rs' \<and> list_all (\<lambda>r. rq_Header r = h) rs'"
    if again: "doRequest_loop E ctx m url b h k dec' resp' rh' (rotateToken E s1) = (r, x, y, s')"
    for dec' resp' rh'
  proof -
    from Suc.IH [OF again] rs obtain rs2 where
      "ns_Sent (net s') = ns_Sent (net s) @ rs @ rs2" "list_all (\<lambda>r. rq_Header r = h) rs2" by auto
    with rs(2) show ?thesis by (intro exI [of _ "rs @ rs2"]) simp
  qed
  with rs e Suc.prems show ?case
    by (auto simp: Let_def split: outcome.splits option.splits prod.splits if_splits)
qed simp



end
