(* ===== verification/Query_Props.thy ===== *)
theory Query_Props
  imports Client_Props
begin

text \<open>
  Properties of whole queries and of the saved state: the pages that a polling loop accumulates, as
  a step relation; moving a session to another client with \<open>GetState\<close> and \<open>WithState\<close>; and what
  \<open>applySessionState\<close> keeps.
\<close>

subsection \<open>Pages\<close>

text \<open>
  The specification of the polling loop: a run over the pages \<open>ps\<close> that the server delivers, each
  fetched from the URI that the page before it names, until a page names no further one.
\<close>

inductive page_run ::
  "env \<Rightarrow> go_context \<Rightarrow> query_transport \<Rightarrow> query_response \<Rightarrow> st \<Rightarrow> query_response list \<Rightarrow> query_response
    \<Rightarrow> st \<Rightarrow> bool" for E ctx transport
where
  Last: "ReadFinished r \<Longrightarrow> page_run E ctx transport r s [] r s"
| Page: "\<not> ReadFinished r \<Longrightarrow> pollQueryWithTransport E ctx (qr_NextURI r) transport s = (Ok (Some p), s1)
    \<Longrightarrow> qr_Error p = None \<Longrightarrow> page_run E ctx transport (carryRows r p) s1 ps r' s'
    \<Longrightarrow> page_run E ctx transport r s (p # ps) r' s'"

inductive_cases page_run_NilE [elim]: "page_run E ctx transport r s [] r' s'"
inductive_cases page_run_ConsE [elim]: "page_run E ctx transport r s (p # ps) r' s'"

lemma rows_of_carry: "rows_of (carryRows r p) = rows_of r @ rows_of p"
  by (auto simp: carryRows_def rows_of_def append_slices_def split: option.splits list.splits)

lemma page_run_rows: "page_run E ctx t r s ps r' s' \<Longrightarrow> rows_of r' = rows_of r @ concat (map rows_of ps)"
  by (induction rule: page_run.induct) (simp_all add: rows_of_carry)

lemma page_run_finished: "page_run E ctx t r s ps r' s' \<Longrightarrow> ReadFinished r'"
  by (induction rule: page_run.induct) simp_all

lemma pollLoop_run:
  "pollLoop E ctx t n r s = (Ok r', s') \<Longrightarrow> \<exists>ps. length ps \<le> n \<and> page_run E ctx t r s ps r' s'"
proof (induction n arbitrary: r s)
  case 0
  then show ?case
    by (subst (asm) pollLoop.simps) (auto intro: page_run.Last split: if_splits)
next
  case (Suc n)
  show ?case
  proof (cases "ReadFinished r")
    case True
    with Suc.prems show ?thesis
      by (subst (asm) pollLoop.simps) (auto intro!: exI [of _ "[]"] page_run.Last)
  next
    case False
    with Suc.prems obtain p s1 where p: "pollQueryWithTransport E ctx (qr_NextURI r) t s = (Ok (Some p), s1)"
      "qr_Error p = None" "pollLoop E ctx t n (carryRows r p) s1 = (Ok r', s')"
      by (subst (asm) pollLoop.simps) (auto split: prod.splits outcome.splits option.splits)
    from Suc.IH [OF p(3)] obtain ps where "length ps \<le> n" "page_run E ctx t (carryRows r p) s1 ps r' s'"
      by blast
    with p False show ?thesis by (intro exI [of _ "p # ps"]) (auto intro: page_run.Page)
  qed
qed

lemma run_pollLoop:
  "page_run E ctx t r s ps r' s' \<Longrightarrow> length ps \<le> n \<Longrightarrow> pollLoop E ctx t n r s = (Ok r', s')"
proof (induction arbitrary: n rule: page_run.induct)
  case (Last r s)
  then show ?case by (subst pollLoop.simps) simp
next
  case (Page r s p s1 ps r' s')
  then obtain m where "n = Suc m" by (cases n) auto
  with Page show ?case by (subst pollLoop.simps) simp
qed

text \<open>C10: (pages) \<open>pollUntilQueryEnd\<close> returns a response exactly when the server delivers, within the
  page bound, pages that each name the next one up to a last; and the rows of the result are then the
  rows of the first response and of those pages, in the order they were served, none lost and none
  repeated. In particular the loop returns whenever the server ends the chain.\<close>

theorem pollUntilQueryEnd_pages:
  "(pollUntilQueryEnd E ctx r t s = (Ok r', s') \<longleftrightarrow>
      (\<exists>ps. length ps \<le> e_pages E \<and> page_run E ctx t r s ps r' s'))
   \<and> (\<forall>ps. page_run E ctx t r s ps r' s' \<longrightarrow>
        ReadFinished r' \<and> rows_of r' = rows_of r @ concat (map rows_of ps))"
  unfolding pollUntilQueryEnd_def
  by (blast intro: run_pollLoop dest: pollLoop_run page_run_rows page_run_finished)

text \<open>A server whose every answer is a last page of one row.\<close>

definition page_server :: env where
  "page_server =
     demo\<lparr>e_net := (\<lambda>_. NetReply 200 [(''Content-Type'', ''application/json'')] [] (Ok ''page'')),
          e_json := (\<lambda>t. Some (JObj [(''schema'', JArr [JObj [(''name'', JStr ''a''), (''type'', JStr ''String'')]]),
                                      (''data'', JArr [JArr [JStr ''x'']])]))\<rparr>"

definition first_page :: query_response where
  "first_page = empty_response\<lparr>qr_NextURI := ''/v1/query/1/page/1'', qr_typedRows := Some [[DString ''w'']]\<rparr>"

lemma first_page_polled:
  "(case pollUntilQueryEnd page_server Background first_page TransportJSON demo_st of
      (Ok r, s) \<Rightarrow> rows_of r = [[DString ''w''], [DString ''x'']]
    | _ \<Rightarrow> False)"
  by code_simp

lemma pollUntilQueryEnd_pages_witness:
  "\<exists>r' s' ps. length ps \<le> e_pages page_server
     \<and> page_run page_server Background TransportJSON first_page demo_st ps r' s'
     \<and> rows_of r' = rows_of first_page @ concat (map rows_of ps)"
proof -
  obtain r' s' where p: "pollUntilQueryEnd page_server Background first_page TransportJSON demo_st = (Ok r', s')"
    using first_page_polled by (auto split: prod.splits outcome.splits)
  from pollUntilQueryEnd_pages [of page_server Background first_page TransportJSON demo_st r' s'] p
  show ?thesis by blast
qed

subsection \<open>Moving a session to another client\<close>

lemma map_of_rev: "distinct (map fst m) \<Longrightarrow> map_of (rev m) = map_of m"
  by (metis distinct_rev map_of_inject_set rev_map set_rev)

text \<open>C16: (saved state) \<open>WithState\<close> on a fresh client continues the session that \<open>GetState\<close> saved: it has
  the same session, query sequence, route hint, node, raw session document (so the next statement sends
  the same session and query ID) and every cookie; it keeps its own credentials and endpoint, sends
  nothing, and counts as restored. A client without a session document leaves that of the other alone.\<close>

theorem WithState_GetState:
  assumes "\<And>j. sessionStateRaw (cl s) = Some j \<Longrightarrow> e_render E j \<noteq> [] \<and> e_json E (e_render E j) = Some j"
    and "distinct (map fst (ns_Jar (net s)))"
  shows "case WithState E (Some (GetState E s)) s0 of
     s' \<Rightarrow>
       GetQueryID (cl s') = GetQueryID (cl s) \<and> routeHint (cl s') = routeHint (cl s)
       \<and> nodeID (cl s') = nodeID (cl s) \<and> stateRestored (cl s') \<and> same_config (cl s0) (cl s')
       \<and> (case sessionStateRaw (cl s) of
            Some j \<Rightarrow> rq_Session (queryRequest (cl s') sql) = rq_Session (queryRequest (cl s) sql)
              \<and> (case dec_session j empty_session of
                   (ss, ok) \<Rightarrow> sessionState (cl s') = (if ok then Some ss else sessionState (cl s0)))
          | None \<Rightarrow> sessionStateRaw (cl s') = sessionStateRaw (cl s0) \<and> sessionState (cl s') = sessionState (cl s0))
       \<and> map_of (ns_Jar (net s')) = map_of (ns_Jar (net s0)) ++ map_of (ns_Jar (net s))
       \<and> ns_Sent (net s') = ns_Sent (net s0)"
  using assms
  by (cases "sessionStateRaw (cl s)")
    (auto simp: WithState_def GetState_def upd_client_def Let_def GetQueryID_def same_config_def queryRequest_def
      Cookies_def map_of_SetCookies map_of_rev split: prod.split)

definition saved :: st where
  "saved = demo_st\<lparr>cl := demo_client\<lparr>QuerySeq := 7, sessionStateRaw := Some (JObj [(''database'', JStr ''d'')])\<rparr>,
     net := \<lparr>ns_Jar = [(''cookie_enabled'', ''true'')], ns_Sent = []\<rparr>\<rparr>"

definition session_env :: env where
  "session_env = demo\<lparr>e_json := (\<lambda>_. Some (JObj [(''database'', JStr ''d'')])), e_render := (\<lambda>_. ''{}'')\<rparr>"

lemma WithState_GetState_witness:
  "case WithState session_env (Some (GetState session_env saved)) demo_st of
     s' \<Rightarrow>
       GetQueryID (cl s') = GetQueryID (cl saved) \<and> routeHint (cl s') = routeHint (cl saved)
       \<and> nodeID (cl s') = nodeID (cl saved) \<and> stateRestored (cl s') \<and> same_config (cl demo_st) (cl s')
       \<and> (case sessionStateRaw (cl saved) of
            Some j \<Rightarrow> rq_Session (queryRequest (cl s') ''select 1'') = rq_Session (queryRequest (cl saved) ''select 1'')
              \<and> (case dec_session j empty_session of
                   (ss, ok) \<Rightarrow> sessionState (cl s') = (if ok then Some ss else sessionState (cl demo_st)))
          | None \<Rightarrow> sessionStateRaw (cl s') = sessionStateRaw (cl demo_st)
              \<and> sessionState (cl s') = sessionState (cl demo_st))
       \<and> map_of (ns_Jar (net s')) = map_of (ns_Jar (net demo_st)) ++ map_of (ns_Jar (net saved))
       \<and> ns_Sent (net s') = ns_Sent (net demo_st)"
  by (rule WithState_GetState) (simp_all add: saved_def session_env_def)

text \<open>Stale session members: the parsed session keeps what the server's last document no longer
  says: \<open>applySessionState\<close> decodes into the old struct, so a document without the member leaves the
  transaction state, the sticky and the keep-alive flags as they were, while the raw document that the
  next request sends is the new one. A restored client would decide otherwise.\<close>

lemma applySessionState_merges:
  "case applySessionState (Some (empty_response\<lparr>qr_Session := Some (JObj [])\<rparr>)) c of
     c' \<Rightarrow>
       sessionStateRaw c' = Some (JObj []) \<and> sessionState c' = sessionState c
       \<and> inActiveTransaction c' = inActiveTransaction c \<and> NeedSticky c' = NeedSticky c
       \<and> NeedKeepAlive c' = NeedKeepAlive c
       \<and> dec_session (JObj []) empty_session = (empty_session, True)"
  by (cases "sessionState c")
    (simp_all add: applySessionState_def inActiveTransaction_def NeedSticky_def NeedKeepAlive_def
      dec_session_def dec_struct_def)

end
