(* ===== verification/Go_Duration.thy ===== *)
theory Go_Duration
  imports Go_Strings
begin

text \<open>
  \<open>time.Duration\<close>: printing (\<open>Duration.String\<close>) and \<open>time.ParseDuration\<close>, with the float64
  arithmetic of its fractions, and the round trip between them.  A duration is an integer number of
  nanoseconds of an int64.
\<close>

subsection \<open>Printing\<close>

text \<open>\<open>fmtFrac\<close>: the fraction of \<open>v / 10 ^ prec\<close> without trailing zeros, and the integer part.\<close>

fun frac_digits :: "nat \<Rightarrow> nat \<Rightarrow> string" where
  "frac_digits 0 v = []"
| "frac_digits (Suc p) v = frac_digits p (v div 10) @ [digit_char (v mod 10)]"

definition drop_zeros :: "string \<Rightarrow> string" where
  "drop_zeros s = rev (dropWhile (\<lambda>c. c = CHR ''0'') (rev s))"

definition fmt_frac :: "nat \<Rightarrow> nat \<Rightarrow> string" where
  "fmt_frac prec v =
     (let ds = drop_zeros (frac_digits prec (v mod 10 ^ prec)) in
      format_uint (v div 10 ^ prec) @ (if ds = [] then [] else ''.'' @ ds))"

definition micro_sign :: string where "micro_sign = [CHR 0xC2, CHR 0xB5]"
definition greek_mu :: string where "greek_mu = [CHR 0xCE, CHR 0xBC]"

definition ns_per_min :: nat where "ns_per_min = 60 * 10 ^ 9"
definition ns_per_hour :: nat where "ns_per_hour = 3600 * 10 ^ 9"

definition duration_abs :: "nat \<Rightarrow> string" where
  "duration_abs u =
     (if u = 0 then ''0s''
      else if u < 10 ^ 3 then format_uint u @ ''ns''
      else if u < 10 ^ 6 then fmt_frac 3 u @ micro_sign @ ''s''
      else if u < 10 ^ 9 then fmt_frac 6 u @ ''ms''
      else
        (if u < ns_per_min then []
         else (if u < ns_per_hour then [] else format_uint (u div ns_per_hour) @ ''h'')
              @ format_uint (u div ns_per_min mod 60) @ ''m'')
        @ fmt_frac 9 (u mod ns_per_min) @ ''s'')"

definition duration_string :: "int \<Rightarrow> string" where
  "duration_string d = (if d < 0 then ''-'' else []) @ duration_abs (nat \<bar>d\<bar>)"

subsection \<open>Float64 products\<close>

text \<open>A positive float64 is a pair of numerator and denominator.  \<open>f64 n d\<close> is \<open>n / d\<close> rounded to
  53 bits, ties to even, for quotients between \<open>2 ^ - 148\<close> and \<open>2 ^ 253\<close>.\<close>

fun halvings :: "nat \<Rightarrow> nat \<Rightarrow> nat \<Rightarrow> nat" where
  "halvings 0 n d = 0"
| "halvings (Suc k) n d = (if 2 ^ 52 * d \<le> n then 0 else Suc (halvings k (2 * n) d))"

fun doublings :: "nat \<Rightarrow> nat \<Rightarrow> nat \<Rightarrow> nat" where
  "doublings 0 n d = 0"
| "doublings (Suc k) n d = (if n < 2 ^ 53 * d then 0 else Suc (doublings k n (2 * d)))"

definition round_even :: "nat \<Rightarrow> nat \<Rightarrow> nat" where
  "round_even n d =
     (let q = n div d; r = n mod d in
      if d < 2 * r \<or> (2 * r = d \<and> odd q) then q + 1 else q)"

type_synonym float64 = "nat \<times> nat"

definition f64 :: "nat \<Rightarrow> nat \<Rightarrow> float64" where
  "f64 n d =
     (if n = 0 then (0, 1)
      else let u = halvings 200 n d; v = doublings 200 n d
           in (round_even (n * 2 ^ u) (d * 2 ^ v) * 2 ^ v, 2 ^ u))"

definition f64_mul :: "float64 \<Rightarrow> float64 \<Rightarrow> float64" where
  "f64_mul a b = f64 (fst a * fst b) (snd a * snd b)"

definition f64_trunc :: "float64 \<Rightarrow> nat" where
  "f64_trunc a = fst a div snd a"

text \<open>\<open>uint64(float64(f) * (float64(unit) / scale))\<close>.\<close>

definition scaled :: "nat \<Rightarrow> nat \<Rightarrow> nat \<Rightarrow> nat" where
  "scaled f unit scale = f64_trunc (f64_mul (f64 f 1) (f64 unit scale))"

subsection \<open>Parsing\<close>

fun leading_int :: "nat \<Rightarrow> string \<Rightarrow> (nat \<times> string) option" where
  "leading_int x [] = Some (x, [])"
| "leading_int x (c # s) =
     (if \<not> is_digit c then Some (x, c # s)
      else if 2 ^ 63 div 10 < x then None
      else let y = x * 10 + digit_val c in if 2 ^ 63 < y then None else leading_int y s)"

text \<open>\<open>leadingFraction\<close>: digits behind an overflow are skipped.\<close>

fun leading_fraction :: "nat \<Rightarrow> nat \<Rightarrow> bool \<Rightarrow> string \<Rightarrow> nat \<times> nat \<times> string" where
  "leading_fraction x scale over [] = (x, scale, [])"
| "leading_fraction x scale over (c # s) =
     (if \<not> is_digit c then (x, scale, c # s)
      else if over \<or> (2 ^ 63 - 1) div 10 < x then leading_fraction x scale True s
      else let y = x * 10 + digit_val c in
        if 2 ^ 63 < y then leading_fraction x scale True s
        else leading_fraction y (scale * 10) False s)"

definition unit_of :: "string \<Rightarrow> nat option" where
  "unit_of u =
     (if u = ''ns'' then Some 1
      else if u = ''us'' \<or> u = micro_sign @ ''s'' \<or> u = greek_mu @ ''s'' then Some (10 ^ 3)
      else if u = ''ms'' then Some (10 ^ 6)
      else if u = ''s'' then Some (10 ^ 9)
      else if u = ''m'' then Some ns_per_min
      else if u = ''h'' then Some ns_per_hour
      else None)"

definition unit_char :: "char \<Rightarrow> bool" where
  "unit_char c \<longleftrightarrow> c \<noteq> CHR ''.'' \<and> \<not> is_digit c"

text \<open>One number with its unit: the nanoseconds it adds and the rest of the text.\<close>

definition duration_part :: "string \<Rightarrow> (nat \<times> string) option" where
  "duration_part s =
     (if s = [] \<or> (hd s \<noteq> CHR ''.'' \<and> \<not> is_digit (hd s)) then None
      else
        case leading_int 0 s of
          None \<Rightarrow> None
        | Some (v, s1) \<Rightarrow>
            (let (f, scale, s2) =
                   (if has_prefix s1 ''.'' then leading_fraction 0 1 False (tl s1) else (0, 1, s1));
                 pre = (length s1 \<noteq> length s);
                 post = (has_prefix s1 ''.'' \<and> length s2 \<noteq> length (tl s1));
                 u = takeWhile unit_char s2
             in if \<not> pre \<and> \<not> post then None
                else
                  case unit_of u of
                    None \<Rightarrow> None
                  | Some unit \<Rightarrow>
                      if 2 ^ 63 div unit < v then None
                      else
                        let w = v * unit + (if 0 < f then scaled f unit scale else 0)
                        in if 2 ^ 63 < w then None else Some (w, dropWhile unit_char s2)))"

lemma leading_int_length: "leading_int x s = Some (v, r) \<Longrightarrow> length r \<le> length s"
  by (induction x s rule: leading_int.induct) (auto simp: Let_def split: if_splits)

lemma leading_fraction_length: "leading_fraction x sc ov s = (f, sc', r) \<Longrightarrow> length r \<le> length s"
  by (induction x sc ov s rule: leading_fraction.induct) (auto simp: Let_def split: if_splits)

lemma unit_of_nonempty: "unit_of u = Some n \<Longrightarrow> u \<noteq> []"
  by (auto simp: unit_of_def)

lemma duration_part_shorter: "duration_part s = Some (w, r) \<Longrightarrow> length r < length s"
proof -
  assume a: "duration_part s = Some (w, r)"
  then obtain v s1 where s1: "leading_int 0 s = Some (v, s1)"
    by (auto simp: duration_part_def split: if_splits option.splits)
  obtain f scale s2 where s2:
    "(if has_prefix s1 ''.'' then leading_fraction 0 1 False (tl s1) else (0, 1, s1)) = (f, scale, s2)"
    by (metis prod_cases3)
  have l: "length s2 \<le> length s"
    using leading_int_length [OF s1] s2 leading_fraction_length [of 0 1 False "tl s1" f scale s2]
    by (auto split: if_splits)
  have r: "r = dropWhile unit_char s2" "takeWhile unit_char s2 \<noteq> []"
    using a s1 s2 unit_of_nonempty
    by (auto simp: duration_part_def Let_def split: if_splits option.splits prod.splits)
  have "length s2 = length (takeWhile unit_char s2) + length r"
    unfolding r(1) by (metis length_append takeWhile_dropWhile_id)
  with r(2) l show ?thesis by (cases "takeWhile unit_char s2") auto
qed

function duration_parts :: "nat \<Rightarrow> string \<Rightarrow> nat option" where
  "duration_parts d s =
     (if s = [] then Some d
      else
        case duration_part s of
          None \<Rightarrow> None
        | Some (w, r) \<Rightarrow> if 2 ^ 63 < d + w then None else duration_parts (d + w) r)"
  by pat_completeness auto
termination
  by (relation "measure (\<lambda>(d, s). length s)") (auto dest: duration_part_shorter)

declare duration_parts.simps [simp del]

definition ParseDuration :: "string \<Rightarrow> int option" where
  "ParseDuration orig =
     (let neg = has_prefix orig ''-'';
          s = (if has_prefix orig ''-'' \<or> has_prefix orig ''+'' then tl orig else orig)
      in if s = ''0'' then Some 0
         else if s = [] then None
         else
           case duration_parts 0 s of
             None \<Rightarrow> None
           | Some d \<Rightarrow>
               if neg then Some (- int d) else if 2 ^ 63 - 1 < d then None else Some (int d))"

subsection \<open>The round trip\<close>

lemma doublings_none: "n < 2 ^ 53 * d \<Longrightarrow> doublings k n d = 0"
  by (cases k) auto

lemma f64_exact:
  assumes "m < 2 ^ 53" "0 < d"
  shows "fst (f64 (m * d) d) = m * snd (f64 (m * d) d)" "0 < snd (f64 (m * d) d)"
proof -
  have v: "doublings 200 (m * d) d = 0" using assms by (intro doublings_none) simp
  have "round_even (m * d * 2 ^ u) d = m * 2 ^ u" for u
  proof -
    have "m * d * 2 ^ u = m * 2 ^ u * d" by simp
    then show ?thesis using assms(2) by (simp only: round_even_def Let_def) simp
  qed
  with v assms(2) show "fst (f64 (m * d) d) = m * snd (f64 (m * d) d)" "0 < snd (f64 (m * d) d)"
    by (simp_all add: f64_def Let_def)
qed

lemma scaled_exact:
  assumes "f < 2 ^ 53" "q < 2 ^ 53" "f * q < 2 ^ 53" "0 < scale"
  shows "scaled f (q * scale) scale = f * q"
proof -
  define a where "a = f64 (f * 1) 1"
  define b where "b = f64 (q * scale) scale"
  have a: "fst a = f * snd a" "0 < snd a" unfolding a_def using f64_exact [OF assms(1), of 1] by simp_all
  have b: "fst b = q * snd b" "0 < snd b" unfolding b_def using f64_exact [OF assms(2,4)] by simp_all
  have n: "fst a * fst b = f * q * (snd a * snd b)" using a b by simp
  have "fst (f64_mul a b) = f * q * snd (f64_mul a b)" "0 < snd (f64_mul a b)"
    unfolding f64_mul_def n using f64_exact [OF assms(3), of "snd a * snd b"] a(2) b(2) by simp_all
  then show ?thesis by (simp add: scaled_def f64_trunc_def a_def [symmetric, simplified] b_def [symmetric])
qed

abbreviation dec_from :: "nat \<Rightarrow> string \<Rightarrow> nat" where
  "dec_from \<equiv> foldl (\<lambda>n c. n * 10 + digit_val c)"

lemma dec_from_ge: "x \<le> dec_from x ds"
proof (induction ds arbitrary: x)
  case (Cons c ds)
  from Cons.IH [of "x * 10 + digit_val c"] show ?case by simp
qed simp

lemma dec_from_add: "dec_from x ds = x * 10 ^ length ds + digits_val ds"
proof (induction ds arbitrary: x)
  case (Cons c ds)
  show ?case
    using Cons [of "x * 10 + digit_val c"] Cons [of "digit_val c"]
    by (simp add: digits_val_def algebra_simps)
qed (simp add: digits_val_def)

lemma leading_int_digits:
  assumes "list_all is_digit ds" "dec_from x ds \<le> 2 ^ 63" "rest = [] \<or> \<not> is_digit (hd rest)"
  shows "leading_int x (ds @ rest) = Some (dec_from x ds, rest)"
  using assms
proof (induction ds arbitrary: x)
  case Nil
  then show ?case by (cases rest) auto
next
  case (Cons c ds)
  have "x * 10 + digit_val c \<le> 2 ^ 63" using Cons.prems(2) dec_from_ge [of "x * 10 + digit_val c" ds] by simp
  with Cons show ?case by (simp add: Let_def)
qed

lemma leading_fraction_digits:
  assumes "list_all is_digit ds" "dec_from x ds < 10 ^ 18" "rest = [] \<or> \<not> is_digit (hd rest)"
  shows "leading_fraction x sc False (ds @ rest) = (dec_from x ds, sc * 10 ^ length ds, rest)"
  using assms
proof (induction ds arbitrary: x sc)
  case Nil
  then show ?case by (cases rest) auto
next
  case (Cons c ds)
  have "x * 10 + digit_val c < 10 ^ 18" using Cons.prems(2) dec_from_ge [of "x * 10 + digit_val c" ds] by simp
  with Cons show ?case by (simp add: Let_def)
qed

lemma frac_digits_facts: "length (frac_digits p v) = p" "list_all is_digit (frac_digits p v)"
  by (induction p arbitrary: v) auto

lemma digits_val_frac: "v < 10 ^ p \<Longrightarrow> digits_val (frac_digits p v) = v"
  by (induction p arbitrary: v) (auto simp: digits_val_snoc digits_val_def [of "[]"])

lemma digits_val_zeros: "digits_val (ds @ replicate k CHR ''0'') = digits_val ds * 10 ^ k"
proof (induction k)
  case (Suc k)
  have "digits_val ((ds @ replicate k CHR ''0'') @ [CHR ''0'']) = digits_val ds * 10 ^ Suc k"
    unfolding digits_val_snoc Suc by (simp add: digit_val_def)
  then show ?case by (simp add: replicate_append_same)
qed simp

lemma drop_zeros_split: "\<exists>k. s = drop_zeros s @ replicate k CHR ''0''"
proof -
  have "takeWhile (\<lambda>c. c = CHR ''0'') (rev s) = replicate (length (takeWhile (\<lambda>c. c = CHR ''0'') (rev s))) CHR ''0''"
    by (rule replicate_length_same [symmetric]) (auto dest: set_takeWhileD)
  moreover have "rev s = takeWhile (\<lambda>c. c = CHR ''0'') (rev s) @ dropWhile (\<lambda>c. c = CHR ''0'') (rev s)"
    by simp
  ultimately have "s = drop_zeros s @ replicate (length (takeWhile (\<lambda>c. c = CHR ''0'') (rev s))) CHR ''0''"
    unfolding drop_zeros_def by (metis rev_append rev_replicate rev_rev_ident)
  then show ?thesis by blast
qed

lemma list_all_hd: "list_all P s \<Longrightarrow> s \<noteq> [] \<Longrightarrow> P (hd s)"
  by (cases s) auto

lemma unit_not_digit:
  assumes "unit_of u = Some n" "list_all unit_char u"
  shows "u \<noteq> []" "\<not> is_digit (hd u)" "hd u \<noteq> CHR ''.''"
  using unit_of_nonempty [OF assms(1)] list_all_hd [OF assms(2)] by (auto simp: unit_char_def)

lemma cut_unit:
  assumes "list_all unit_char u" "rest = [] \<or> is_digit (hd rest)"
  shows "takeWhile unit_char (u @ rest) = u" "dropWhile unit_char (u @ rest) = rest"
proof -
  have "takeWhile unit_char rest = []" "dropWhile unit_char rest = rest"
    using assms(2) by (cases rest; simp add: unit_char_def)+
  with assms(1) show "takeWhile unit_char (u @ rest) = u" "dropWhile unit_char (u @ rest) = rest"
    by (simp_all add: list_all_iff)
qed

lemma leading_int_uint:
  assumes "v \<le> 2 ^ 63" "rest = [] \<or> \<not> is_digit (hd rest)"
  shows "leading_int 0 (format_uint v @ rest) = Some (v, rest)"
proof -
  have "dec_from 0 (format_uint v) = v" by (simp add: digits_val_def [symmetric])
  with leading_int_digits [OF format_uint_digits [of v], of 0 rest] assms show ?thesis by simp
qed

lemma duration_part_int:
  assumes "unit_of u = Some n" "list_all unit_char u" "rest = [] \<or> is_digit (hd rest)"
    and "0 < n" "v * n \<le> 2 ^ 63"
  shows "duration_part (format_uint v @ u @ rest) = Some (v * n, rest)"
proof -
  note u = unit_not_digit [OF assms(1,2)]
  have "v \<le> v * n" using assms(4) by simp
  then have v: "v \<le> 2 ^ 63" using assms(5) by (rule order_trans)
  have l: "leading_int 0 (format_uint v @ u @ rest) = Some (v, u @ rest)"
    using u v by (intro leading_int_uint) auto
  have p: "\<not> has_prefix (u @ rest) ''.''" using u by (cases u) auto
  obtain c cs where f: "format_uint v = c # cs" "is_digit c" using format_uint_hd by blast
  have ov: "\<not> 2 ^ 63 div n < v" using assms(4,5) by (simp add: not_less less_eq_div_iff_mult_less_eq)
  show ?thesis
    unfolding duration_part_def l using p f ov assms(1,5) cut_unit [OF assms(2,3)]
    by (simp add: Let_def)
qed

lemma duration_part_frac:
  assumes "unit_of u = Some (10 ^ p)" "list_all unit_char u" "rest = [] \<or> is_digit (hd rest)"
    and "p \<le> 9" "v \<le> 2 ^ 63"
  shows "duration_part (fmt_frac p v @ u @ rest) = Some (v, rest)"
proof -
  define q m ds where "q = v div 10 ^ p" and "m = v mod 10 ^ p" and "ds = drop_zeros (frac_digits p m)"
  have m: "m < 10 ^ p" by (simp add: m_def)
  have vq: "q * 10 ^ p + m = v" unfolding q_def m_def by (rule div_mult_mod_eq)
  obtain k where k: "frac_digits p m = ds @ replicate k CHR ''0''"
    unfolding ds_def using drop_zeros_split by blast
  have len: "p = length ds + k" using frac_digits_facts(1) [of p m] k by simp
  have dig: "list_all is_digit ds" using frac_digits_facts(2) [of p m] k by simp
  have val: "digits_val ds * 10 ^ k = m"
    using digits_val_frac [OF m] k digits_val_zeros [of ds k] by simp
  show ?thesis
  proof (cases "ds = []")
    case True
    then have "m = 0" using val by (simp add: digits_val_def)
    then have "q * 10 ^ p \<le> 2 ^ 63" "v = q * 10 ^ p" using vq assms(5) by simp_all
    moreover have "fmt_frac p v = format_uint q"
      using True by (simp add: fmt_frac_def Let_def q_def ds_def m_def)
    ultimately show ?thesis using duration_part_int [OF assms(1-3), of q] by simp
  next
    case False
    note u = unit_not_digit [OF assms(1,2)]
    have qv: "q \<le> 2 ^ 63" using vq assms(5) order_trans [of q "q * 10 ^ p" "2 ^ 63"] by simp
    define tail where "tail = ''.'' @ ds @ u @ rest"
    have l: "leading_int 0 (format_uint q @ tail) = Some (q, tail)"
      using qv by (intro leading_int_uint) (auto simp: tail_def is_digit_def)
    have p9: "(10::nat) ^ p \<le> 10 ^ 9" using assms(4) by (intro power_increasing) auto
    have fm: "digits_val ds \<le> m" using val by (metis le_add1 mult.right_neutral mult_le_mono2 one_le_numeral one_le_power)
    have small: "digits_val ds < 10 ^ 18" using fm m p9 by simp
    have fr: "leading_fraction 0 1 False (ds @ u @ rest) = (digits_val ds, 10 ^ length ds, u @ rest)"
      using leading_fraction_digits [OF dig, of 0 "u @ rest" 1] small u by (simp add: digits_val_def)
    have unit: "(10::nat) ^ p = 10 ^ k * 10 ^ length ds" using len by (simp add: power_add)
    have "(10::nat) ^ k \<le> 10 ^ 9" using len assms(4) by (intro power_increasing) auto
    then have "(10::nat) ^ k < 2 ^ 53" by (rule le_less_trans) simp
    moreover have "digits_val ds < 2 ^ 53" "digits_val ds * 10 ^ k < 2 ^ 53"
      using val fm m p9 by simp_all
    ultimately have sc: "scaled (digits_val ds) (10 ^ p) (10 ^ length ds) = m"
      unfolding unit using val by (subst scaled_exact) auto
    have w: "q * 10 ^ p + (if 0 < digits_val ds then scaled (digits_val ds) (10 ^ p) (10 ^ length ds) else 0) = v"
      using sc val vq by auto
    have ov: "\<not> 2 ^ 63 div 10 ^ p < q"
    proof -
      have "q \<le> v div 10 ^ p" by (simp add: q_def)
      also have "\<dots> \<le> 2 ^ 63 div 10 ^ p" using assms(5) by (rule div_le_mono)
      finally show ?thesis by simp
    qed
    obtain c cs where f: "format_uint q = c # cs" "is_digit c" using format_uint_hd by blast
    have eq: "fmt_frac p v @ u @ rest = format_uint q @ tail"
      using False by (simp add: fmt_frac_def Let_def q_def ds_def m_def tail_def)
    have post: "length (u @ rest) \<noteq> length (ds @ u @ rest)" using False by simp
    have t: "has_prefix tail ''.''" "tl tail = ds @ u @ rest" by (simp_all add: tail_def)
    show ?thesis
      unfolding eq duration_part_def l
      using t fr post f w ov assms(1,5) cut_unit [OF assms(2,3)]
      by (simp add: Let_def)
  qed
qed

lemma duration_parts_step:
  assumes "duration_part s = Some (w, r)" "d + w \<le> 2 ^ 63"
  shows "duration_parts d s = duration_parts (d + w) r"
proof -
  have "s \<noteq> []" using assms(1) by (auto simp: duration_part_def)
  with assms show ?thesis by (subst duration_parts.simps) simp
qed

lemma duration_parts_Nil [simp]: "duration_parts d [] = Some d"
  by (simp add: duration_parts.simps)

lemma unit_facts:
  "unit_of ''ns'' = Some 1" "unit_of (micro_sign @ ''s'') = Some (10 ^ 3)" "unit_of ''ms'' = Some (10 ^ 6)"
  "unit_of ''s'' = Some (10 ^ 9)" "unit_of ''m'' = Some ns_per_min" "unit_of ''h'' = Some ns_per_hour"
  by (simp_all add: unit_of_def micro_sign_def greek_mu_def)

lemma unit_chars:
  "list_all unit_char ''ns''" "list_all unit_char (micro_sign @ ''s'')" "list_all unit_char ''ms''"
  "list_all unit_char ''s''" "list_all unit_char ''m''" "list_all unit_char ''h''"
  by (simp_all add: unit_char_def is_digit_def micro_sign_def)

lemma fmt_frac_hd: "fmt_frac p v \<noteq> []" "is_digit (hd (fmt_frac p v))"
  using format_uint_hd [of "v div 10 ^ p"] by (auto simp: fmt_frac_def Let_def)

lemma duration_split: "u = u div ns_per_hour * ns_per_hour + (u div ns_per_min mod 60 * ns_per_min + u mod ns_per_min)"
proof -
  have h: "ns_per_hour = ns_per_min * 60" by (simp add: ns_per_hour_def ns_per_min_def)
  have "u div ns_per_hour = u div ns_per_min div 60" unfolding h by (rule div_mult2_eq)
  moreover have "u div ns_per_min = u div ns_per_min div 60 * 60 + u div ns_per_min mod 60" by simp
  moreover have "u = u div ns_per_min * ns_per_min + u mod ns_per_min" by simp
  ultimately show ?thesis unfolding h by (metis add.assoc add_mult_distrib mult.assoc mult.commute)
qed

lemma duration_seconds:
  assumes "d + u mod ns_per_min \<le> 2 ^ 63"
  shows "duration_parts d (fmt_frac 9 (u mod ns_per_min) @ ''s'') = Some (d + u mod ns_per_min)"
proof -
  have "duration_part (fmt_frac 9 (u mod ns_per_min) @ ''s'' @ []) = Some (u mod ns_per_min, [])"
    using assms by (intro duration_part_frac unit_facts unit_chars) auto
  then have "duration_part (fmt_frac 9 (u mod ns_per_min) @ ''s'') = Some (u mod ns_per_min, [])" by simp
  from duration_parts_step [OF this assms] show ?thesis by simp
qed

lemma duration_minutes:
  assumes "d + (u div ns_per_min mod 60 * ns_per_min + u mod ns_per_min) \<le> 2 ^ 63"
  shows "duration_parts d (format_uint (u div ns_per_min mod 60) @ ''m'' @ fmt_frac 9 (u mod ns_per_min) @ ''s'')
    = Some (d + (u div ns_per_min mod 60 * ns_per_min + u mod ns_per_min))"
proof -
  have "duration_part (format_uint (u div ns_per_min mod 60) @ ''m'' @ fmt_frac 9 (u mod ns_per_min) @ ''s'')
      = Some (u div ns_per_min mod 60 * ns_per_min, fmt_frac 9 (u mod ns_per_min) @ ''s'')"
    using assms fmt_frac_hd [of 9 "u mod ns_per_min"]
    by (intro duration_part_int unit_facts unit_chars) (auto simp: ns_per_min_def)
  from duration_parts_step [OF this] duration_seconds [of "d + u div ns_per_min mod 60 * ns_per_min" u] assms
  show ?thesis by (simp add: add.assoc)
qed

lemma duration_hours:
  assumes "u \<le> 2 ^ 63"
  shows "duration_parts 0 (format_uint (u div ns_per_hour) @ ''h'' @ format_uint (u div ns_per_min mod 60) @ ''m''
      @ fmt_frac 9 (u mod ns_per_min) @ ''s'') = Some u"
proof -
  have le: "u div ns_per_hour * ns_per_hour + (u div ns_per_min mod 60 * ns_per_min + u mod ns_per_min) \<le> 2 ^ 63"
    using duration_split [of u] assms by simp
  have "duration_part (format_uint (u div ns_per_hour) @ ''h'' @ format_uint (u div ns_per_min mod 60) @ ''m''
      @ fmt_frac 9 (u mod ns_per_min) @ ''s'')
    = Some (u div ns_per_hour * ns_per_hour, format_uint (u div ns_per_min mod 60) @ ''m''
      @ fmt_frac 9 (u mod ns_per_min) @ ''s'')"
    using le format_uint_hd [of "u div ns_per_min mod 60"]
    by (intro duration_part_int unit_facts unit_chars) (auto simp: ns_per_hour_def)
  from duration_parts_step [OF this, of 0] duration_minutes [of "u div ns_per_hour * ns_per_hour" u] le
  show ?thesis using duration_split [of u] by simp
qed

lemma duration_parts_abs:
  assumes "u \<le> 2 ^ 63" "u \<noteq> 0"
  shows "duration_parts 0 (duration_abs u) = Some u"
proof -
  have part: "duration_parts 0 s = Some u" if "duration_part (s @ []) = Some (u, [])" for s
    using duration_parts_step [of s u "[]" 0] that assms(1) by simp
  consider "u < 10 ^ 3" | "10 ^ 3 \<le> u" "u < 10 ^ 6" | "10 ^ 6 \<le> u" "u < 10 ^ 9"
    | "10 ^ 9 \<le> u" "u < ns_per_min" | "ns_per_min \<le> u" "u < ns_per_hour" | "ns_per_hour \<le> u"
    by linarith
  then show ?thesis
  proof cases
    case 1
    have "duration_part ((format_uint u @ ''ns'') @ []) = Some (u, [])"
      using duration_part_int [OF unit_facts(1) unit_chars(1), of "[]" u] assms(1) by simp
    from part [OF this] 1 assms(2) show ?thesis by (simp add: duration_abs_def)
  next
    case 2
    have "duration_part ((fmt_frac 3 u @ micro_sign @ ''s'') @ []) = Some (u, [])"
      using duration_part_frac [OF unit_facts(2) unit_chars(2), of "[]" u] assms(1) by simp
    from part [OF this] 2 assms(2) show ?thesis by (simp add: duration_abs_def)
  next
    case 3
    have "duration_part ((fmt_frac 6 u @ ''ms'') @ []) = Some (u, [])"
      using duration_part_frac [OF unit_facts(3) unit_chars(3), of "[]" u] assms(1) by simp
    from part [OF this] 3 assms(2) show ?thesis by (simp add: duration_abs_def)
  next
    case 4
    with duration_seconds [of 0 u] assms show ?thesis by (simp add: duration_abs_def)
  next
    case 5
    then have "u div ns_per_hour = 0" by simp
    then have "u div ns_per_min mod 60 * ns_per_min + u mod ns_per_min = u" using duration_split [of u] by simp
    with duration_minutes [of 0 u] 5 assms show ?thesis by (simp add: duration_abs_def ns_per_min_def)
  next
    case 6
    then have "\<not> u < ns_per_min" "\<not> u < 10 ^ 9" by (simp_all add: ns_per_hour_def ns_per_min_def)
    with duration_hours [of u] 6 assms show ?thesis by (simp add: duration_abs_def)
  qed
qed

definition leads_digit :: "string \<Rightarrow> bool" where
  "leads_digit s \<longleftrightarrow> s \<noteq> [] \<and> is_digit (hd s)"

lemma leads_digit_append [simp]: "leads_digit s \<Longrightarrow> leads_digit (s @ t)"
  by (auto simp: leads_digit_def)

lemma leads_digit_numbers [simp]: "leads_digit (format_uint n)" "leads_digit (fmt_frac p v)"
  using format_uint_hd [of n] fmt_frac_hd [of p v] by (auto simp: leads_digit_def)

lemma duration_abs_leads: "leads_digit (duration_abs u)"
proof -
  have "leads_digit ''0s''" by (simp add: leads_digit_def is_digit_def)
  then show ?thesis by (simp add: duration_abs_def del: append_assoc)
qed

lemma duration_abs_hd: "\<exists>c s. duration_abs u = c # s \<and> is_digit c"
  using duration_abs_leads [of u] by (cases "duration_abs u") (auto simp: leads_digit_def)

lemma duration_abs_length: "2 \<le> length (duration_abs u)"
proof -
  have u: "1 \<le> length (format_uint n)" for n using format_uint_hd [of n] by auto
  have f: "1 \<le> length (fmt_frac p v)" for p v using fmt_frac_hd [of p v] by (cases "fmt_frac p v") auto
  show ?thesis
    using u [of u] f [of 3 u] f [of 6 u] f [of 9 "u mod ns_per_min"]
    by (simp add: duration_abs_def micro_sign_def)
qed

lemma ParseDuration_string:
  assumes "int64_min \<le> d" "d \<le> int64_max"
  shows "ParseDuration (duration_string d) = Some d"
proof -
  define u where "u = nat \<bar>d\<bar>"
  have u: "u \<le> 2 ^ 63" "0 \<le> d \<Longrightarrow> u \<le> 2 ^ 63 - 1"
    using assms by (simp_all add: u_def int64_min_def int64_max_def)
  obtain c s where hd: "duration_abs u = c # s" "is_digit c" using duration_abs_hd by blast
  have pre: "\<not> has_prefix (duration_abs u) ''-''" "\<not> has_prefix (duration_abs u) ''+''"
    using hd by (auto dest: is_digit_neq)
  have zero: "duration_abs u \<noteq> ''0''" "duration_abs u \<noteq> []" using duration_abs_length [of u] by auto
  show ?thesis
  proof (cases "d = 0")
    case True
    then show ?thesis by (simp add: duration_string_def duration_abs_def ParseDuration_def duration_parts.simps
        duration_part_def digit_val_def is_digit_def unit_char_def unit_of_def)
  next
    case False
    then have "duration_parts 0 (duration_abs u) = Some u" using u(1) by (intro duration_parts_abs) (auto simp: u_def)
    with pre zero u(2) False show ?thesis
      by (cases "d < 0") (auto simp: ParseDuration_def duration_string_def u_def [symmetric] Let_def, auto simp: u_def)
  qed
qed

end
