(* ===== verification/Sql_Encoder.thy ===== *)
theory Sql_Encoder
  imports Go_Time Encoding "HOL-Library.Word"
begin

text \<open>
  \<open>helpers.go\<close>, \<open>encoder.go\<close> and \<open>types.go\<close>: bind values rendered as SQL text.

  \<open>gval\<close> is a Go value as \<open>reflect\<close> sees it: the dynamic types and kinds that the
  encoder distinguishes.  A floating point number is represented by the decimal text
  \<open>strconv.FormatFloat(v, 'f', -1, bits)\<close> gives it, a map by its entries in the order in
  which \<open>MapKeys\<close> returns the keys, and \<open>GOther\<close> is any value that the encoder leaves to
  \<open>fmt.Sprint\<close>.  The record \<open>fmt_env\<close> carries the time zone database and \<open>fmt.Sprint\<close>.
\<close>

subsection \<open>Values\<close>

datatype gval =
    GNil
  | GBool bool
  | GInt int
  | GUint nat
  | GFloat string
  | GString string
  | GBytes string
  | GTime gtime
  | GDate gtime
  | GPtr "gval option"
  | GSlice "gval list"
  | GStruct "gfield list"
  | GMap "(gval \<times> gval) list"
  | GArrayW gval
  | GTupleW gval
  | GMapW gval
  | GOther string
and gfield = GField bool bool gval    \<comment> \<open>anonymous, exported, value\<close>

record fmt_env =
  fe_tz :: tzdb
  fe_sprint :: "gval \<Rightarrow> string"

subsection \<open>\<open>helpers.go\<close>\<close>

fun escape :: "string \<Rightarrow> string" where
  "escape [] = []"
| "escape (c # s) =
     (if c = CHR 0x5C then [CHR 0x5C, CHR 0x5C] @ escape s
      else if c = CHR 0x27 then [CHR 0x5C, CHR 0x27] @ escape s
      else c # escape s)"

definition quote :: "string \<Rightarrow> string" where
  "quote s = [CHR 0x27] @ s @ [CHR 0x27]"

definition redacted :: "string \<Rightarrow> string" where
  "redacted secret = (if secret = '''' then '''' else ''<redacted>'')"

definition dateFormat :: "chunk list" where
  "dateFormat = layout_date"

definition timeFormat :: "chunk list" where
  "timeFormat = layout_datetime @ [FracSecond0 6, NumColonTZ]"

definition dateTime64Format :: "chunk list" where
  "dateTime64Format = layout_datetime @ [FracSecond9]"

definition formatTime :: "tzdb \<Rightarrow> gtime \<Rightarrow> string" where
  "formatTime tz value = quote (time_format tz timeFormat value)"

definition formatDate :: "tzdb \<Rightarrow> gtime \<Rightarrow> string" where
  "formatDate tz value = quote (time_format tz dateFormat value)"

definition getTableFromInsertQuery :: "string \<Rightarrow> string go" where
  "getTableFromInsertQuery query =
     (if \<not> str_contains query ''insert'' \<and> \<not> str_contains query ''INSERT'' then
        Err (EMsg ''wrong insert statement'')
      else
        let splitQuery = split_on CHR '' '' query in
        if 2 < length splitQuery then Ok (trim_space (splitQuery ! 2))
        else Err (EMsg ''wrong insert''))"

definition generateDescTable :: "string \<Rightarrow> string go" where
  "generateDescTable query =
     go_bind (getTableFromInsertQuery query) (\<lambda>table. Ok (''DESC '' @ table))"

subsection \<open>\<open>encoder.go\<close>\<close>

text \<open>\<open>textEncoder.encode\<close>: the scalars.\<close>

definition encode_scalar :: "fmt_env \<Rightarrow> gval \<Rightarrow> string" where
  "encode_scalar E v =
     (case v of
        GNil \<Rightarrow> ''NULL''
      | GBool b \<Rightarrow> (if b then ''1'' else ''0'')
      | GInt i \<Rightarrow> format_int i
      | GUint n \<Rightarrow> format_uint n
      | GFloat t \<Rightarrow> t
      | GString s \<Rightarrow> quote (escape s)
      | GTime t \<Rightarrow> formatTime (fe_tz E) t
      | _ \<Rightarrow> fe_sprint E v)"

fun kind_name :: "gval \<Rightarrow> string" where
  "kind_name GNil = ''invalid''"
| "kind_name (GBool _) = ''bool''"
| "kind_name (GInt _) = ''int''"
| "kind_name (GUint _) = ''uint''"
| "kind_name (GFloat _) = ''float''"
| "kind_name (GString _) = ''string''"
| "kind_name (GBytes _) = ''slice''"
| "kind_name (GPtr _) = ''ptr''"
| "kind_name (GSlice _) = ''slice''"
| "kind_name (GMap _) = ''map''"
| "kind_name (GOther _) = ''other''"
| "kind_name _ = ''struct''"

function Encode :: "fmt_env \<Rightarrow> gval \<Rightarrow> string go"
  and encodeArray :: "fmt_env \<Rightarrow> gval \<Rightarrow> string go"
  and encodeElems :: "fmt_env \<Rightarrow> gval list \<Rightarrow> string list go"
  and encodeTuple :: "fmt_env \<Rightarrow> gval \<Rightarrow> string go"
  and encodeTuplePart :: "fmt_env \<Rightarrow> gval \<Rightarrow> string go"
  and encodeFields :: "fmt_env \<Rightarrow> nat \<Rightarrow> gfield list \<Rightarrow> string go"
  and encodeMap :: "fmt_env \<Rightarrow> gval \<Rightarrow> string go"
  and encodeEntries :: "fmt_env \<Rightarrow> (gval \<times> gval) list \<Rightarrow> string list go"
where
  "Encode E value =
     (case value of
        GArrayW v \<Rightarrow> encodeArray E v
      | GTupleW v \<Rightarrow> encodeTuple E v
      | GMapW v \<Rightarrow> encodeMap E v
      | GBytes s \<Rightarrow> Ok s
      | GTime t \<Rightarrow> Ok (encode_scalar E (GTime t))
      | GString s \<Rightarrow> Ok (quote (escape s))
      | GPtr p \<Rightarrow> (case p of None \<Rightarrow> Ok ''NULL'' | Some v \<Rightarrow> Encode E v)
      | GSlice vs \<Rightarrow> encodeArray E value
      | GStruct fs \<Rightarrow> encodeTuple E value
      | GDate t \<Rightarrow> encodeTuple E value
      | _ \<Rightarrow> Ok (encode_scalar E value))"
| "encodeArray E value =
     (case value of
        GSlice vs \<Rightarrow> go_bind (encodeElems E vs) (\<lambda>bs. Ok (''['' @ join '','' bs @ '']''))
      | GBytes s \<Rightarrow> Ok (''['' @ join '','' (map (\<lambda>c. format_uint (byte_of c)) s) @ '']'')
      | _ \<Rightarrow> Err (EMsg (''expected array or slice, got '' @ kind_name value)))"
| "encodeElems E [] = Ok []"
| "encodeElems E (v # vs) =
     go_bind (Encode E v) (\<lambda>b. go_bind (encodeElems E vs) (\<lambda>bs. Ok (b # bs)))"
| "encodeTuple E value = go_bind (encodeTuplePart E value) (\<lambda>b. Ok (''('' @ b @ '')''))"
| "encodeTuplePart E value =
     (case value of
        GStruct fs \<Rightarrow> encodeFields E 0 fs
      | GPtr (Some (GStruct fs)) \<Rightarrow> encodeFields E 0 fs
      | GPtr (Some v) \<Rightarrow>
          if kind_name v = ''struct'' then Ok ''''
          else Err (EMsg (''expected struct, got '' @ kind_name v))
      | GPtr None \<Rightarrow> Err (EMsg ''expected struct, got invalid'')
      | _ \<Rightarrow>
          if kind_name value = ''struct'' then Ok ''''
          else Err (EMsg (''expected struct, got '' @ kind_name value)))"
| "encodeFields E i [] = Ok ''''"
| "encodeFields E i (f # fs) =
     (case f of GField anonymous exported v \<Rightarrow>
        if anonymous then
          go_bind (encodeTuplePart E v) (\<lambda>b.
          go_bind (encodeFields E (Suc i) fs) (\<lambda>r. Ok ((if 0 < i then '','' else '''') @ b @ r)))
        else if \<not> exported then encodeFields E (Suc i) fs
        else
          go_bind (Encode E v) (\<lambda>b.
          go_bind (encodeFields E (Suc i) fs) (\<lambda>r. Ok ((if 0 < i then '','' else '''') @ b @ r))))"
| "encodeMap E value =
     (case value of
        GMap kvs \<Rightarrow> go_bind (encodeEntries E kvs) (\<lambda>bs. Ok (''map('' @ join '','' bs @ '')''))
      | _ \<Rightarrow> Err (EMsg (''expected map, got '' @ kind_name value)))"
| "encodeEntries E [] = Ok []"
| "encodeEntries E (e # kvs) =
     (case e of (k, v) \<Rightarrow>
        go_bind (Encode E k) (\<lambda>a. go_bind (Encode E v) (\<lambda>b.
        go_bind (encodeEntries E kvs) (\<lambda>bs. Ok ((a @ '','' @ b) # bs)))))"
  by pat_completeness auto
termination
proof (relation "measure
   (\<lambda>x. case x of
        Inl (Inl (Inl (E, v))) \<Rightarrow> 2 * size v + 2
      | Inl (Inl (Inr (E, v))) \<Rightarrow> 2 * size v + 1
      | Inl (Inr (Inl (E, vs))) \<Rightarrow> 2 * size_list size vs + 1
      | Inl (Inr (Inr (E, v))) \<Rightarrow> 2 * size v + 1
      | Inr (Inl (Inl (E, v))) \<Rightarrow> 2 * size v
      | Inr (Inl (Inr (E, i, fs))) \<Rightarrow> 2 * size_list size fs + 1
      | Inr (Inr (Inl (E, v))) \<Rightarrow> 2 * size v + 1
      | Inr (Inr (Inr (E, kvs))) \<Rightarrow> 2 * size_list (size_prod size size) kvs + 1)", goal_cases)
qed (auto split: gval.splits option.splits)

declare Encode.simps [simp del] encodeArray.simps [simp del] encodeTuple.simps [simp del]
  encodeTuplePart.simps [simp del] encodeMap.simps [simp del]

subsection \<open>\<open>types.go\<close>: the bind wrappers\<close>

text \<open>
  Each \<open>Value\<close> method turns a wrapper into a driver value: raw SQL text (\<open>GBytes\<close>, which
  the encoder passes through), or a string.
\<close>

definition tmap_Value :: "fmt_env \<Rightarrow> gval \<Rightarrow> gval go" where
  "tmap_Value E v = go_bind (Encode E (GMapW v)) (\<lambda>b. Ok (GBytes b))"

definition array_Value :: "fmt_env \<Rightarrow> gval \<Rightarrow> gval go" where
  "array_Value E v = go_bind (Encode E (GArrayW v)) (\<lambda>b. Ok (GBytes b))"

definition tuple_Value :: "fmt_env \<Rightarrow> gval \<Rightarrow> gval go" where
  "tuple_Value E v = go_bind (Encode E (GTupleW v)) (\<lambda>b. Ok (GBytes b))"

definition date_Value :: "fmt_env \<Rightarrow> gtime \<Rightarrow> gval go" where
  "date_Value E d = Ok (GBytes (formatDate (fe_tz E) d))"

definition bigUint64_Value :: "64 word \<Rightarrow> gval go" where
  "bigUint64_Value u = Ok (GBytes (format_uint (unat u)))"

definition decimal_Value :: "fmt_env \<Rightarrow> int \<Rightarrow> int \<Rightarrow> gval \<Rightarrow> gval go" where
  "decimal_Value E p s v =
     Ok (GBytes (''toDecimal'' @ format_int p @ ''('' @ quote (escape (fe_sprint E v)) @ '', ''
                 @ format_int s @ '')''))"

definition Decimal32 :: "fmt_env \<Rightarrow> gval \<Rightarrow> int \<Rightarrow> gval go" where
  "Decimal32 E v s = decimal_Value E 32 s v"

definition Decimal64 :: "fmt_env \<Rightarrow> gval \<Rightarrow> int \<Rightarrow> gval go" where
  "Decimal64 E v s = decimal_Value E 64 s v"

definition Decimal128 :: "fmt_env \<Rightarrow> gval \<Rightarrow> int \<Rightarrow> gval go" where
  "Decimal128 E v s = decimal_Value E 128 s v"

text \<open>\<open>Duration.Microseconds\<close> is a division that truncates towards zero.\<close>

definition go_quot :: "int \<Rightarrow> int \<Rightarrow> int" where
  "go_quot a b = sgn a * sgn b * (\<bar>a\<bar> div \<bar>b\<bar>)"

definition interval_Value :: "64 word \<Rightarrow> gval go" where
  "interval_Value d = Ok (GBytes (quote (format_int (go_quot (sint d) 1000))))"

end
