(* ===== verification/Dsn.thy ===== *)
theory Dsn
  imports Query_Client Go_Duration Sql_Encoder
begin

text \<open>
  \<open>dsn.go\<close>: the configuration of a connection, its printing (\<open>String\<close>, \<open>FormatDSN\<close>) and its
  parsing (\<open>ParseDSN\<close>), and the constructors of \<open>client.go\<close> that turn it into a client.

  A Go map is an association list with distinct keys; the order in which \<open>range\<close> visits it is the
  argument \<open>order\<close>, any function that permutes the entries.  \<open>quoted\<close> is the \<open>%q\<close> format.  A
  \<open>nil\<close> map reads as empty, and a write to it panics.
\<close>

subsection \<open>The configuration\<close>

record config =
  cfg_Tenant :: string
  cfg_Warehouse :: string
  cfg_User :: string
  cfg_Password :: string
  cfg_Database :: string
  cfg_Role :: string
  cfg_AccessToken :: string
  cfg_AccessTokenFile :: string
  cfg_AccessTokenLoader :: "access_token_loader option"
  cfg_Host :: string
  cfg_Timeout :: int
  cfg_WaitTimeSecs :: int
  cfg_MaxRowsInBuffer :: int
  cfg_MaxRowsPerPage :: int
  cfg_Location :: "location option"
  cfg_Debug :: bool
  cfg_GzipCompression :: bool
  cfg_Params :: "strmap option"
  cfg_TLSConfig :: string
  cfg_SSLMode :: string
  cfg_StatsTracker :: bool
  cfg_PresignedURLDisabled :: bool
  cfg_PresignAllowPrivate :: bool
  cfg_EmptyFieldAs :: string
  cfg_EnableOpenTelemetry :: bool
  cfg_QueryResultFormat :: string
  cfg_LoginEnabled :: bool
  cfg_UserAgent :: string
  cfg_loginConfigured :: bool

definition defaultDomain :: string where "defaultDomain = ''lake.tidbcloud.com''"
definition defaultScheme :: string where "defaultScheme = ''lake''"
definition SSL_MODE_DISABLE :: string where "SSL_MODE_DISABLE = ''disable''"

definition NewConfig :: config where
  "NewConfig =
     \<lparr>cfg_Tenant = [], cfg_Warehouse = [], cfg_User = [], cfg_Password = [], cfg_Database = [],
      cfg_Role = [], cfg_AccessToken = [], cfg_AccessTokenFile = [], cfg_AccessTokenLoader = None,
      cfg_Host = defaultDomain @ '':443'', cfg_Timeout = 0, cfg_WaitTimeSecs = 0,
      cfg_MaxRowsInBuffer = 0, cfg_MaxRowsPerPage = 0, cfg_Location = Some UTC, cfg_Debug = False,
      cfg_GzipCompression = False, cfg_Params = Some [], cfg_TLSConfig = [], cfg_SSLMode = [],
      cfg_StatsTracker = False, cfg_PresignedURLDisabled = False, cfg_PresignAllowPrivate = False,
      cfg_EmptyFieldAs = [], cfg_EnableOpenTelemetry = False,
      cfg_QueryResultFormat = QueryResultFormatJSON, cfg_LoginEnabled = True, cfg_UserAgent = [],
      cfg_loginConfigured = True\<rparr>"

text \<open>\<open>Config.String\<close>; \<open>None\<close> is a nil receiver.\<close>

definition config_string :: "config option \<Rightarrow> string" where
  "config_string c =
     (case c of
        None \<Rightarrow> ''Config<nil>''
      | Some cfg \<Rightarrow>
          ''Config{Host:'' @ cfg_Host cfg @ '' Tenant:'' @ cfg_Tenant cfg
          @ '' Warehouse:'' @ cfg_Warehouse cfg @ '' Database:'' @ cfg_Database cfg
          @ '' User:'' @ cfg_User cfg @ '' Password:'' @ redacted (cfg_Password cfg)
          @ '' AccessToken:'' @ redacted (cfg_AccessToken cfg) @ ''}'')"

definition effectiveLoginEnabled :: "config option \<Rightarrow> bool" where
  "effectiveLoginEnabled c =
     (case c of None \<Rightarrow> True | Some cfg \<Rightarrow> if \<not> cfg_loginConfigured cfg then True else cfg_LoginEnabled cfg)"

definition makeDefaultConfigValue :: "config \<Rightarrow> config" where
  "makeDefaultConfigValue cfg =
     (let c = (if cfg_EmptyFieldAs cfg = [] then cfg\<lparr>cfg_EmptyFieldAs := ''string''\<rparr> else cfg)
      in if cfg_QueryResultFormat c = [] then c\<lparr>cfg_QueryResultFormat := QueryResultFormatJSON\<rparr> else c)"

definition normalizeQueryResultFormat :: "string \<Rightarrow> string go" where
  "normalizeQueryResultFormat v =
     (let f = to_lower (trim_space v) in
      if f = [] \<or> f = QueryResultFormatJSON then Ok QueryResultFormatJSON
      else if f = QueryResultFormatArrow then Ok QueryResultFormatArrow
      else Err (EMsg (''invalid query_result_format: '' @ v)))"

subsection \<open>\<open>FormatDSN\<close>\<close>

definition location_name :: "location \<Rightarrow> string" where
  "location_name l =
     (case l of UTC \<Rightarrow> ''UTC'' | Local \<Rightarrow> ''Local'' | FixedZone n _ \<Rightarrow> n | NamedZone n \<Rightarrow> n)"

text \<open>\<open>query.Set(k, v)\<close> under a condition.\<close>

definition set_when :: "bool \<Rightarrow> string \<Rightarrow> string \<Rightarrow> strmap \<Rightarrow> strmap" where
  "set_when b k v q = (if b then AList.update k v q else q)"

text \<open>The query of the DSN, without the parameters of \<open>Params\<close>.\<close>

definition format_options :: "config \<Rightarrow> strmap" where
  "format_options cfg =
     (let location = (case cfg_Location cfg of Some l \<Rightarrow> location_name l | None \<Rightarrow> []);
          empty_as = (if cfg_EmptyFieldAs cfg \<noteq> [] then cfg_EmptyFieldAs cfg else ''string'')
      in (set_when True ''empty_field_as'' empty_as
        \<circ> set_when (cfg_PresignedURLDisabled cfg) ''presigned_url_disabled'' ''1''
        \<circ> set_when (cfg_PresignAllowPrivate cfg) ''presign_allow_private'' ''true''
        \<circ> set_when (cfg_QueryResultFormat cfg \<noteq> [] \<and> cfg_QueryResultFormat cfg \<noteq> QueryResultFormatJSON)
            ''query_result_format'' (cfg_QueryResultFormat cfg)
        \<circ> set_when (\<not> effectiveLoginEnabled (Some cfg)) ''login'' ''disable''
        \<circ> set_when (cfg_EnableOpenTelemetry cfg) ''enable_otel'' ''true''
        \<circ> set_when (cfg_SSLMode cfg \<noteq> []) ''sslmode'' (cfg_SSLMode cfg)
        \<circ> set_when (cfg_TLSConfig cfg \<noteq> []) ''tls_config'' (cfg_TLSConfig cfg)
        \<circ> set_when (cfg_Debug cfg) ''debug'' ''1''
        \<circ> set_when (cfg_GzipCompression cfg) ''enable_http_compression'' ''1''
        \<circ> set_when (cfg_Location cfg \<noteq> Some UTC \<and> cfg_Location cfg \<noteq> None) ''location'' location
        \<circ> set_when (cfg_MaxRowsPerPage cfg \<noteq> 0) ''max_rows_per_page'' (format_int (cfg_MaxRowsPerPage cfg))
        \<circ> set_when (cfg_MaxRowsInBuffer cfg \<noteq> 0) ''max_rows_in_buffer'' (format_int (cfg_MaxRowsInBuffer cfg))
        \<circ> set_when (cfg_WaitTimeSecs cfg \<noteq> 0) ''wait_time_secs'' (format_int (cfg_WaitTimeSecs cfg))
        \<circ> set_when (cfg_Timeout cfg \<noteq> 0) ''timeout'' (duration_string (cfg_Timeout cfg))
        \<circ> set_when (cfg_AccessTokenFile cfg \<noteq> []) ''access_token_file'' (cfg_AccessTokenFile cfg)
        \<circ> set_when (cfg_AccessToken cfg \<noteq> []) ''access_token'' (cfg_AccessToken cfg)
        \<circ> set_when (cfg_Role cfg \<noteq> []) ''role'' (cfg_Role cfg)
        \<circ> set_when (cfg_Warehouse cfg \<noteq> []) ''warehouse'' (cfg_Warehouse cfg)
        \<circ> set_when (cfg_Tenant cfg \<noteq> []) ''tenant'' (cfg_Tenant cfg)) [])"

definition params_of :: "config \<Rightarrow> strmap" where
  "params_of cfg = (case cfg_Params cfg of None \<Rightarrow> [] | Some m \<Rightarrow> m)"

definition format_query :: "(strmap \<Rightarrow> strmap) \<Rightarrow> config \<Rightarrow> strmap" where
  "format_query order cfg =
     foldl (\<lambda>q (k, v). AList.update k v q) (format_options cfg) (order (params_of cfg))"

definition format_user :: "config \<Rightarrow> userinfo option" where
  "format_user cfg =
     (if cfg_User cfg \<noteq> [] then
        (if cfg_Password cfg \<noteq> [] then Some (cfg_User cfg, Some (cfg_Password cfg))
         else Some (cfg_User cfg, None))
      else None)"

definition FormatDSN :: "(strmap \<Rightarrow> strmap) \<Rightarrow> config \<Rightarrow> string" where
  "FormatDSN order cfg =
     url_string (empty_url\<lparr>Host := cfg_Host cfg, Scheme := defaultScheme, User := format_user cfg,
       Path := (if cfg_Database cfg \<noteq> [] then cfg_Database cfg else ''/''),
       RawQuery := values_encode (format_query order cfg)\<rparr>)"

subsection \<open>\<open>AddParams\<close>\<close>

text \<open>What the parsing functions of \<open>strconv\<close> and \<open>time\<close> return: an error and a value, which is the
  nearest representable one for a number out of range.\<close>

definition int_param :: "(string \<Rightarrow> string) \<Rightarrow> string \<Rightarrow> go_error option \<times> int" where
  "int_param quoted v =
     (case parse_int64 v of
        Ok i \<Rightarrow> (None, i)
      | Err e \<Rightarrow> (Some (num_error_text quoted ''ParseInt'' v e),
          if e = ErrSyntax then 0 else if has_prefix v ''-'' then int64_min else int64_max)
      | Panic p \<Rightarrow> (None, 0))"

definition bool_param :: "(string \<Rightarrow> string) \<Rightarrow> string \<Rightarrow> go_error option \<times> bool" where
  "bool_param quoted v =
     (case parse_bool v of
        Ok b \<Rightarrow> (None, b)
      | Err e \<Rightarrow> (Some (num_error_text quoted ''ParseBool'' v e), False)
      | Panic p \<Rightarrow> (None, False))"

definition duration_param :: "(string \<Rightarrow> string) \<Rightarrow> string \<Rightarrow> go_error option \<times> int" where
  "duration_param quoted v =
     (case ParseDuration v of
        Some d \<Rightarrow> (None, d)
      | None \<Rightarrow> (Some (EMsg (''time: invalid duration '' @ quoted v)), 0))"

definition location_param :: "tzdb \<Rightarrow> string \<Rightarrow> go_error option \<times> location option" where
  "location_param tz v =
     (case LoadLocation tz v of Ok l \<Rightarrow> (None, Some l) | Err e \<Rightarrow> (Some e, None) | Panic p \<Rightarrow> (None, None))"

definition format_param :: "string \<Rightarrow> go_error option \<times> string" where
  "format_param v =
     (case normalizeQueryResultFormat v of Ok f \<Rightarrow> (None, f) | Err e \<Rightarrow> (Some e, []) | Panic p \<Rightarrow> (None, []))"

text \<open>One pass of the loop: the variable \<open>err\<close> and the configuration.  \<open>parsed\<close> assigns both,
  \<open>stored\<close> only the configuration.\<close>

type_synonym params_state = "go_error option \<times> config"

definition parsed :: "go_error option \<times> 'a \<Rightarrow> ('a \<Rightarrow> config) \<Rightarrow> params_state go" where
  "parsed r upd = Ok (fst r, upd (snd r))"

definition stored :: "go_error option \<Rightarrow> config \<Rightarrow> params_state go" where
  "stored err cfg = Ok (err, cfg)"

definition set_param :: "string \<Rightarrow> string \<Rightarrow> params_state \<Rightarrow> params_state go" where
  "set_param k v s =
     (case s of (err, cfg) \<Rightarrow>
        (case cfg_Params cfg of
           None \<Rightarrow> Panic ''assignment to entry in nil map''
         | Some m \<Rightarrow> Ok (err, cfg\<lparr>cfg_Params := Some (AList.update k v m)\<rparr>)))"

definition login_param :: "string \<Rightarrow> params_state \<Rightarrow> params_state go" where
  "login_param v s =
     (case s of (err, cfg) \<Rightarrow>
        (let t = to_lower (trim_space v); c = cfg\<lparr>cfg_loginConfigured := True\<rparr> in
         if t = [] \<or> t = ''enable'' then Ok (err, c\<lparr>cfg_LoginEnabled := True\<rparr>)
         else if t = ''disable'' then Ok (err, c\<lparr>cfg_LoginEnabled := False\<rparr>)
         else Ok (Some (EMsg (''invalid login: '' @ v)), c)))"

definition add_param ::
  "(string \<Rightarrow> string) \<Rightarrow> tzdb \<Rightarrow> string \<Rightarrow> string \<Rightarrow> params_state \<Rightarrow> params_state go" where
  "add_param quoted tz k v s =
     (case s of (err, cfg) \<Rightarrow>
        if k = ''timeout'' then parsed (duration_param quoted v) (\<lambda>x. cfg\<lparr>cfg_Timeout := x\<rparr>)
        else if k = ''wait_time_secs'' then parsed (int_param quoted v) (\<lambda>x. cfg\<lparr>cfg_WaitTimeSecs := x\<rparr>)
        else if k = ''max_rows_in_buffer'' then parsed (int_param quoted v) (\<lambda>x. cfg\<lparr>cfg_MaxRowsInBuffer := x\<rparr>)
        else if k = ''max_rows_per_page'' then parsed (int_param quoted v) (\<lambda>x. cfg\<lparr>cfg_MaxRowsPerPage := x\<rparr>)
        else if k = ''location'' then parsed (location_param tz v) (\<lambda>x. cfg\<lparr>cfg_Location := x\<rparr>)
        else if k = ''debug'' then parsed (bool_param quoted v) (\<lambda>x. cfg\<lparr>cfg_Debug := x\<rparr>)
        else if k = ''enable_http_compression'' then
          go_bind (parsed (bool_param quoted v) (\<lambda>x. cfg\<lparr>cfg_GzipCompression := x\<rparr>)) (set_param k v)
        else if k = ''presign_allow_private'' then
          parsed (bool_param quoted v) (\<lambda>x. cfg\<lparr>cfg_PresignAllowPrivate := x\<rparr>)
        else if k = ''presigned_url_disabled'' then
          parsed (bool_param quoted v) (\<lambda>x. cfg\<lparr>cfg_PresignedURLDisabled := x\<rparr>)
        else if k = ''empty_field_as'' then stored err (cfg\<lparr>cfg_EmptyFieldAs := v\<rparr>)
        else if k = ''tls_config'' then stored err (cfg\<lparr>cfg_TLSConfig := v\<rparr>)
        else if k = ''tenant'' then stored err (cfg\<lparr>cfg_Tenant := v\<rparr>)
        else if k = ''warehouse'' then stored err (cfg\<lparr>cfg_Warehouse := v\<rparr>)
        else if k = ''role'' then stored err (cfg\<lparr>cfg_Role := v\<rparr>)
        else if k = ''access_token'' then stored err (cfg\<lparr>cfg_AccessToken := v\<rparr>)
        else if k = ''access_token_file'' then stored err (cfg\<lparr>cfg_AccessTokenFile := v\<rparr>)
        else if k = ''sslmode'' then stored err (cfg\<lparr>cfg_SSLMode := v\<rparr>)
        else if k = ''enable_otel'' then parsed (bool_param quoted v) (\<lambda>x. cfg\<lparr>cfg_EnableOpenTelemetry := x\<rparr>)
        else if k = ''login'' then login_param v (err, cfg)
        else if k = ''query_result_format'' then parsed (format_param v) (\<lambda>x. cfg\<lparr>cfg_QueryResultFormat := x\<rparr>)
        else if k = ''default_format'' \<or> k = ''query'' \<or> k = ''database'' then
          Err (EMsg (''unknown option '' @ [CHR 0x27] @ k @ [CHR 0x27]))
        else set_param k v (err, cfg))"

text \<open>The loop; an early return keeps the configuration as it is by then.\<close>

fun add_params_loop ::
  "(string \<Rightarrow> string) \<Rightarrow> tzdb \<Rightarrow> strmap \<Rightarrow> params_state \<Rightarrow> unit go \<times> config" where
  "add_params_loop quoted tz [] s =
     ((case fst s of None \<Rightarrow> Ok () | Some e \<Rightarrow> Err e), snd s)"
| "add_params_loop quoted tz ((k, v) # kvs) s =
     (case add_param quoted tz k v s of
        Ok s' \<Rightarrow> add_params_loop quoted tz kvs s'
      | Err e \<Rightarrow> (Err e, snd s)
      | Panic p \<Rightarrow> (Panic p, snd s))"

text \<open>\<open>location\<close> and \<open>timezone\<close> are aliases.\<close>

definition alias_params :: "strmap \<Rightarrow> strmap go" where
  "alias_params params =
     (case (map_of params ''location'', map_of params ''timezone'') of
        (Some l, Some t) \<Rightarrow>
          if l \<noteq> t then
            Err (EMsg (''bad DSN: location('' @ l @ '') conflict with timezone('' @ t @ '')''))
          else Ok params
      | (Some l, None) \<Rightarrow> Ok (AList.update ''timezone'' l params)
      | (None, Some t) \<Rightarrow> Ok (AList.update ''location'' t params)
      | (None, None) \<Rightarrow> Ok params)"

definition AddParams ::
  "(string \<Rightarrow> string) \<Rightarrow> tzdb \<Rightarrow> (strmap \<Rightarrow> strmap) \<Rightarrow> strmap \<Rightarrow> config \<Rightarrow> unit go \<times> config" where
  "AddParams quoted tz order params cfg =
     (let c = makeDefaultConfigValue cfg in
      case alias_params params of
        Ok ps \<Rightarrow> add_params_loop quoted tz (order ps) (None, c)
      | Err e \<Rightarrow> (Err e, c)
      | Panic p \<Rightarrow> (Panic p, c))"

subsection \<open>\<open>ParseDSN\<close>\<close>

definition needEscape :: "string \<Rightarrow> bool" where
  "needEscape s =
     (case url_unescape encodeQueryComponent s of
        Ok u \<Rightarrow> url_escape encodeQueryComponent u \<noteq> s
      | _ \<Rightarrow> True)"

definition path_unescaped :: "string \<Rightarrow> string" where
  "path_unescaped s = (case url_unescape encodePathSegment s of Ok d \<Rightarrow> d | _ \<Rightarrow> s)"

definition encode_userinfo :: "string \<Rightarrow> string" where
  "encode_userinfo info =
     (case str_index info '':'' of
        None \<Rightarrow> userinfo_string (path_unescaped info, None)
      | Some i \<Rightarrow>
          userinfo_string (path_unescaped (take i info), Some (path_unescaped (drop (i + 1) info))))"

definition autoEncodeUserPassInDSN :: "string \<Rightarrow> string" where
  "autoEncodeUserPassInDSN dsn =
     (case str_index dsn ''://'' of
        None \<Rightarrow> dsn
      | Some i \<Rightarrow>
          let rest = drop (i + 3) dsn;
              authorityEnd = (case index_any rest ''/?#'' of None \<Rightarrow> length rest | Some e \<Rightarrow> e)
          in (case last_index (take authorityEnd rest) CHR ''@'' of
                None \<Rightarrow> dsn
              | Some atIdx \<Rightarrow>
                  take (i + 3) dsn @ encode_userinfo (take atIdx rest) @ drop atIdx rest))"

definition http_schemes :: "string list" where
  "http_schemes = [''http'', ''lake+http'', ''db+http'', ''dd+http'', ''bend+http'']"

definition https_schemes :: "string list" where
  "https_schemes = [''https'', ''lake+https'', ''db+https'', ''dd+https'', ''bend+https'']"

definition plain_schemes :: "string list" where
  "plain_schemes = [''lake'', ''db'', ''dd'', ''bend'']"

definition dsn_base :: "url \<Rightarrow> config go" where
  "dsn_base u =
     (if Scheme u \<in> set http_schemes then Ok (NewConfig\<lparr>cfg_SSLMode := SSL_MODE_DISABLE\<rparr>)
      else if Scheme u \<in> set https_schemes \<or> Scheme u \<in> set plain_schemes then Ok NewConfig
      else Err (EMsg ''unsupported DSN scheme''))"

definition dsn_authority :: "url \<Rightarrow> config \<Rightarrow> config" where
  "dsn_authority u cfg =
     (let c = (if 1 < length (Path u) then cfg\<lparr>cfg_Database := tl (Path u)\<rparr> else cfg) in
      case User u of
        None \<Rightarrow> c
      | Some (name, passwd) \<Rightarrow>
          let d = c\<lparr>cfg_User := name\<rparr> in
          (case passwd of Some p \<Rightarrow> d\<lparr>cfg_Password := p\<rparr> | None \<Rightarrow> d))"

definition dsn_host :: "url \<Rightarrow> config \<Rightarrow> config" where
  "dsn_host u cfg =
     (case SplitHostPort (Host u) of
        Some _ \<Rightarrow> cfg\<lparr>cfg_Host := Host u\<rparr>
      | None \<Rightarrow>
          cfg\<lparr>cfg_Host := JoinHostPort (Host u)
               (if cfg_SSLMode cfg = SSL_MODE_DISABLE then ''80'' else ''443'')\<rparr>)"

definition invalid_dsn :: go_error where
  "invalid_dsn = EWrap (''parse '' @ [CHR 0x22] @ ''<redacted>'' @ [CHR 0x22]) (EMsg ''invalid DSN URL'')"

definition ParseDSN ::
  "(string \<Rightarrow> string) \<Rightarrow> tzdb \<Rightarrow> (strmap \<Rightarrow> strmap) \<Rightarrow> string \<Rightarrow> config go" where
  "ParseDSN quoted tz order dsn =
     (case url_parse (autoEncodeUserPassInDSN dsn) of
        Ok u \<Rightarrow>
          go_bind (dsn_base u) (\<lambda>base.
          case AddParams quoted tz order (first_values (parse_query (RawQuery u))) (dsn_authority u base) of
            (Ok _, cfg) \<Rightarrow>
              if Scheme u \<in> set https_schemes \<and> cfg_SSLMode cfg = SSL_MODE_DISABLE then
                Err (EMsg (''HTTPS DSN cannot use sslmode=disable; use an explicit HTTP DSN ''
                  @ ''for plaintext''))
              else Ok (dsn_host u cfg)
          | (Err e, _) \<Rightarrow> Err e
          | (Panic p, _) \<Rightarrow> Panic p)
      | Err _ \<Rightarrow> Err invalid_dsn
      | Panic p \<Rightarrow> Panic p)"

subsection \<open>The client of a configuration (\<open>client.go\<close>)\<close>

definition initAccessTokenLoader :: "config \<Rightarrow> access_token_loader option" where
  "initAccessTokenLoader cfg =
     (if cfg_AccessTokenLoader cfg \<noteq> None then cfg_AccessTokenLoader cfg
      else if cfg_AccessTokenFile cfg \<noteq> [] then Some (FileAccessTokenLoader (cfg_AccessTokenFile cfg))
      else if cfg_AccessToken cfg \<noteq> [] then Some (StaticAccessTokenLoader (cfg_AccessToken cfg))
      else None)"

text \<open>\<open>NewAPIHttpClientFromConfig\<close>: the jar of the new HTTP client, with its one cookie.\<close>

definition NewAPIHttpClientFromConfig :: jar where
  "NewAPIHttpClientFromConfig = SetCookies [] [(''cookie_enabled'', ''true'')]"

definition initial_session :: "config \<Rightarrow> session_state" where
  "initial_session cfg =
     empty_session\<lparr>ss_Database := cfg_Database cfg, ss_Role := cfg_Role cfg,
       ss_SecondaryRoles := (if cfg_Role cfg \<noteq> [] then Some [] else None),
       ss_Settings := cfg_Params cfg\<rparr>"

definition api_scheme :: "config \<Rightarrow> string" where
  "api_scheme cfg = (if cfg_SSLMode cfg = SSL_MODE_DISABLE then ''http'' else ''https'')"

text \<open>\<open>NewAPIClientFromConfig\<close> with the identifier \<open>uuid\<close> and the route hint \<open>hint\<close> drawn.\<close>

definition NewAPIClientFromConfig :: "config \<Rightarrow> string \<Rightarrow> string \<Rightarrow> client" where
  "NewAPIClientFromConfig cfg uuid hint =
     \<lparr>SessionID = uuid, QuerySeq = 0, apiEndpoint = api_scheme cfg @ ''://'' @ cfg_Host cfg,
      c_host = cfg_Host cfg, c_tenant = cfg_Tenant cfg, c_warehouse = cfg_Warehouse cfg,
      c_user = cfg_User cfg, c_password = cfg_Password cfg,
      sessionStateRaw = Some (session_json (initial_session cfg)),
      sessionState = Some (initial_session cfg), routeHint = hint, nodeID = [],
      statsTracked = cfg_StatsTracker cfg, accessTokenLoader = initAccessTokenLoader cfg,
      WaitTimeSeconds = cfg_WaitTimeSecs cfg, MaxRowsInBuffer = cfg_MaxRowsInBuffer cfg,
      MaxRowsPerPage = cfg_MaxRowsPerPage cfg, PresignedURLDisabled = cfg_PresignedURLDisabled cfg,
      PresignAllowPrivate = cfg_PresignAllowPrivate cfg, EmptyFieldAs = cfg_EmptyFieldAs cfg,
      queryResultFormat = cfg_QueryResultFormat cfg, stateRestored = False,
      loginEnabled = effectiveLoginEnabled (Some cfg), httpArrowCapabilityChecked = False,
      httpArrowEnabled = False, sessionLoggedIn = False, connectionInfoInitialized = False,
      userAgent = cfg_UserAgent cfg\<rparr>"

end
