(* ===== verification/Url_Facts.thy ===== *)
theory Url_Facts
  imports Go_Url "HOL-Library.Multiset"
begin

text \<open>
  Facts about printing and parsing URLs: escaping is undone by unescaping, escaped text is free of
  the separators of its component, query strings survive \<open>Values.Encode\<close> and \<open>ParseQuery\<close>, and a
  printed URL with an authority, a path and a query parses back to its parts.
\<close>

subsection \<open>Escaping is undone\<close>

lemma hex_val_upper [simp]: "n < 16 \<Longrightarrow> hex_val (upper_hex n) = Some n"
  by (auto simp: hex_val_def upper_hex_def Let_def)

lemma byte_halves [simp]: "byte_of c div 16 < 16" "byte_of c mod 16 < 16"
  "char_of (byte_of c div 16 * 16 + byte_of c mod 16) = c"
  using byte_of_less [of c] char_of_byte_of [of c] by (simp_all add: div_less_iff_less_mult del: char_of_byte_of)

definition undoes :: "encoding \<Rightarrow> bool" where
  "undoes mode \<longleftrightarrow> mode \<notin> {encodeHost, encodeZone}"

lemma url_unescape_pct:
  "undoes mode \<Longrightarrow> url_unescape mode (pct c @ s) = go_bind (url_unescape mode s) (\<lambda>r. Ok (c # r))"
  by (simp add: pct_def undoes_def)

lemma percent_escaped: "shouldEscape (CHR ''%'') mode"
proof -
  have "list_all (shouldEscape (CHR ''%''))
    [encodePath, encodePathSegment, encodeHost, encodeZone, encodeUserPassword, encodeQueryComponent, encodeFragment]"
    by code_simp
  then show ?thesis by (cases mode) simp_all
qed

lemma plus_escaped: "shouldEscape (CHR ''+'') encodeQueryComponent"
  by code_simp

text \<open>The escaped form of one byte.\<close>

definition escape_byte :: "encoding \<Rightarrow> char \<Rightarrow> string" where
  "escape_byte mode c =
     (if \<not> shouldEscape c mode then [c]
      else if c = CHR '' '' \<and> mode = encodeQueryComponent then ''+'' else pct c)"

lemma url_escape_concat: "url_escape mode s = concat (map (escape_byte mode) s)"
  by (simp add: url_escape_def escape_byte_def [abs_def])

lemma url_escape_Cons [simp]: "url_escape mode (c # s) = escape_byte mode c @ url_escape mode s"
  by (simp add: url_escape_concat)

lemma url_escape_Nil [simp]: "url_escape mode [] = []"
  by (simp add: url_escape_concat)

text \<open>Text escaped for one component is read back by any mode that treats the plus sign alike.\<close>

lemma url_unescape_escape:
  assumes "undoes mode'" "(mode' = encodeQueryComponent) = (mode = encodeQueryComponent)"
  shows "url_unescape mode' (url_escape mode s) = Ok s"
proof (induction s)
  case (Cons c s)
  consider "\<not> shouldEscape c mode" | "shouldEscape c mode" "c = CHR '' ''" "mode = encodeQueryComponent"
    | "escape_byte mode c = pct c"
    unfolding escape_byte_def by metis
  then show ?case
  proof cases
    case 1
    then have "c \<noteq> CHR ''%''" "mode = encodeQueryComponent \<Longrightarrow> c \<noteq> CHR ''+''"
      using percent_escaped [of mode] plus_escaped by auto
    with 1 assms Cons show ?thesis by (auto simp: undoes_def escape_byte_def)
  next
    case 2
    with assms Cons show ?thesis by (simp add: undoes_def escape_byte_def)
  next
    case 3
    with Cons assms(1) show ?thesis by (simp add: url_unescape_pct)
  qed
qed simp

subsection \<open>What escaped text contains\<close>

lemma upper_hex_alnum: "n < 16 \<Longrightarrow> is_digit (upper_hex n) \<or> is_upper (upper_hex n)"
  by (auto simp: upper_hex_def is_digit_def is_upper_def of_char_of)

lemma url_escape_chars:
  assumes "c \<in> set (url_escape mode s)"
  shows "\<not> shouldEscape c mode \<or> c = CHR ''%'' \<or> (c = CHR ''+'' \<and> mode = encodeQueryComponent)"
proof -
  have hex: "\<not> shouldEscape (upper_hex n) mode" if "n < 16" for n
    using upper_hex_alnum [OF that] by (auto simp: shouldEscape_def is_alnum_def is_alpha_def)
  from assms obtain d where "c \<in> set (escape_byte mode d)" by (auto simp: url_escape_concat)
  then show ?thesis
    using hex [of "byte_of d div 16"] hex [of "byte_of d mod 16"]
    by (auto simp: pct_def escape_byte_def split: if_splits)
qed

text \<open>The bytes that no component leaves unescaped are control bytes, blanks and non-ASCII bytes.\<close>

definition clean :: "char \<Rightarrow> bool" where
  "clean c \<longleftrightarrow> 32 < byte_of c \<and> byte_of c < 127"

lemma clean_punct: "list_all clean (host_punct @ ''-_.~$&+,/:;=?@!()*'')"
  by code_simp

lemma alnum_clean: "is_alnum c \<Longrightarrow> clean c"
  by (auto simp: is_alnum_def is_alpha_def is_lower_def is_upper_def is_digit_def clean_def byte_of_def)

lemma clean_unescaped:
  assumes "\<not> shouldEscape c mode"
  shows "clean c"
proof (rule ccontr)
  assume n: "\<not> clean c"
  with clean_punct have "c \<notin> set host_punct" "c \<notin> set ''-_.~''" "c \<notin> set ''$&+,/:;=?@''" "c \<notin> set ''!()*''"
    unfolding list_all_iff set_append by fastforce+
  with n alnum_clean [of c] assms show False unfolding shouldEscape_def by argo
qed

lemma url_escape_clean: "c \<in> set (url_escape mode s) \<Longrightarrow> clean c"
  using url_escape_chars [of c mode s] clean_unescaped [of c mode]
  by (auto simp: clean_def byte_of_def)

lemma url_escape_free:
  assumes "shouldEscape c mode" "c \<noteq> CHR ''%''" "c \<noteq> CHR ''+'' \<or> mode \<noteq> encodeQueryComponent"
  shows "c \<notin> set (url_escape mode s)"
  using url_escape_chars [of c mode s] assms by blast

lemma separators_escaped:
  "list_all (\<lambda>c. shouldEscape c encodeQueryComponent) ''/?#@:&=;''"
  "list_all (\<lambda>c. shouldEscape c encodeUserPassword) ''/?#@:''"
  "list_all (\<lambda>c. shouldEscape c encodeHost) ''/?#@''"
  "list_all (\<lambda>c. shouldEscape c encodePath) ''?#''"
  by code_simp+

lemma query_escape_free: "c \<in> set ''/?#@:&=;'' \<Longrightarrow> c \<notin> set (url_escape encodeQueryComponent s)"
  using separators_escaped(1) by (intro url_escape_free) (auto simp: list_all_iff)

lemma user_escape_free: "c \<in> set ''/?#@:'' \<Longrightarrow> c \<notin> set (url_escape encodeUserPassword s)"
  using separators_escaped(2) by (intro url_escape_free) (auto simp: list_all_iff)

lemma host_escape_free: "c \<in> set ''/?#@'' \<Longrightarrow> c \<notin> set (url_escape encodeHost s)"
  using separators_escaped(3) by (intro url_escape_free) (auto simp: list_all_iff)

lemma path_escape_free: "c \<in> set ''?#'' \<Longrightarrow> c \<notin> set (url_escape encodePath s)"
  using separators_escaped(4) by (intro url_escape_free) (auto simp: list_all_iff)

lemma user_escape_valid: "c \<in> set (url_escape encodeUserPassword s) \<Longrightarrow> valid_userinfo [c]"
  using url_escape_chars [of c encodeUserPassword s]
  by (auto simp: valid_userinfo_def shouldEscape_def split: if_splits)

subsection \<open>Query strings\<close>

lemma split_on_free: "c \<notin> set s \<Longrightarrow> split_on c s = [s]"
  by (induction s) auto

lemma split_on_append: "c \<notin> set s \<Longrightarrow> split_on c (s @ c # t) = s # split_on c t"
  by (induction s) auto

lemma split_on_join:
  "xs \<noteq> [] \<Longrightarrow> list_all (\<lambda>x. c \<notin> set x) xs \<Longrightarrow> split_on c (join [c] xs) = xs"
  by (induction "[c]" xs rule: join.induct) (auto simp: split_on_free split_on_append)

lemma parse_pair_entry [simp]: "parse_pair (encode_entry kv) = Some kv"
proof -
  let ?k = "url_escape encodeQueryComponent (fst kv)" and ?v = "url_escape encodeQueryComponent (snd kv)"
  have "cut_at CHR ''='' (?k @ CHR ''='' # ?v) = (?k, Some ?v)"
    using query_escape_free [of "CHR ''=''" "fst kv"] by (intro cut_at_append) simp
  moreover have "CHR '';'' \<notin> set (?k @ CHR ''='' # ?v)"
    using query_escape_free [of "CHR '';''"] by simp
  moreover have "url_unescape encodeQueryComponent (url_escape encodeQueryComponent s) = Ok s" for s
    by (rule url_unescape_escape) (simp_all add: undoes_def)
  ultimately show ?thesis by (simp add: parse_pair_def encode_entry_def after_def)
qed

lemma mset_insert_sorted [simp]: "mset (insert_sorted kv es) = add_mset kv (mset es)"
  by (induction es) auto

lemma mset_sort_entries [simp]: "mset (sort_entries kvs) = mset kvs"
proof -
  have "mset (foldr insert_sorted kvs es) = mset kvs + mset es" for es
    by (induction kvs) auto
  then show ?thesis by (simp add: sort_entries_def)
qed

lemma set_sort_entries [simp]: "set (sort_entries kvs) = set kvs"
  by (metis mset_sort_entries set_mset_mset)

lemma distinct_keys_mset:
  assumes "mset kvs = mset kvs'" "distinct (map fst kvs')"
  shows "distinct (map fst kvs)" "map_of kvs = map_of kvs'"
proof -
  have "mset (map fst kvs) = mset (map fst kvs')" using assms(1) by simp
  then show d: "distinct (map fst kvs)" using assms(2) mset_eq_imp_distinct_iff by blast
  have "set kvs = set kvs'" using assms(1) by (metis set_mset_mset)
  with d assms(2) show "map_of kvs = map_of kvs'" by (metis map_of_inject_set)
qed

lemma map_filter_Some: "(\<And>x. x \<in> set xs \<Longrightarrow> f (g x) = Some x) \<Longrightarrow> List.map_filter f (map g xs) = xs"
  by (induction xs) (auto simp: map_filter_simps)

lemma parse_values_encode:
  assumes "kvs \<noteq> []"
  shows "parse_query (values_encode kvs) = sort_entries kvs"
proof -
  have free: "CHR ''&'' \<notin> set (encode_entry kv)" for kv
    using query_escape_free [of "CHR ''&''"] by (simp add: encode_entry_def)
  have "sort_entries kvs \<noteq> []" using assms set_sort_entries [of kvs] by (metis set_empty)
  then have "split_on CHR ''&'' (values_encode kvs) = map encode_entry (sort_entries kvs)"
    unfolding values_encode_def using free by (intro split_on_join) (auto simp: list_all_iff)
  then show ?thesis by (simp add: parse_query_def map_filter_Some)
qed

lemma first_values_distinct: "distinct (map fst kvs) \<Longrightarrow> first_values kvs = kvs"
proof (induction kvs)
  case (Cons kv kvs)
  then have "filter (\<lambda>e. fst e \<noteq> fst kv) kvs = kvs" by (intro filter_True) (auto simp: image_iff)
  with Cons show ?case by (cases kv) simp
qed simp

lemma values_encode_nonempty: "kvs \<noteq> [] \<Longrightarrow> values_encode kvs \<noteq> []"
proof -
  assume "kvs \<noteq> []"
  then obtain e es where s: "sort_entries kvs = e # es"
    using set_sort_entries [of kvs] by (cases "sort_entries kvs") auto
  then show ?thesis by (cases es) (auto simp: values_encode_def encode_entry_def)
qed

lemma set_join: "c \<in> set (join sep xs) \<Longrightarrow> c \<in> set sep \<or> (\<exists>x \<in> set xs. c \<in> set x)"
  by (induction sep xs rule: join.induct) auto

lemma values_encode_chars:
  assumes "c \<in> set (values_encode kvs)"
  shows "clean c" "c \<noteq> CHR ''#''"
proof -
  from set_join [OF assms [unfolded values_encode_def]]
  have "c = CHR ''&'' \<or> c = CHR ''='' \<or> (\<exists>s. c \<in> set (url_escape encodeQueryComponent s))"
    by (auto simp: encode_entry_def)
  then show "clean c" "c \<noteq> CHR ''#''"
    using url_escape_clean [of c encodeQueryComponent] query_escape_free [of c]
    by (auto simp: clean_def byte_of_def)
qed

subsection \<open>Printed URLs\<close>

lemma clean_ctrl: "list_all clean s \<Longrightarrow> \<not> list_ex (\<lambda>c. byte_of c < 32 \<or> byte_of c = 127) s"
  by (auto simp: list_all_iff list_ex_iff clean_def)

lemma good_scheme_clean: "good_scheme sch \<Longrightarrow> list_all clean (sch @ ''://'')"
  by (auto dest!: good_scheme_bytes simp: list_all_iff clean_def is_lower_def byte_of_def)

lemma url_parse_text:
  assumes "good_scheme sch" "set A \<inter> set ''/?#'' = {}" "set P \<inter> set ''?#'' = {}" "CHR ''#'' \<notin> set q"
    and "P \<noteq> []" "hd P = CHR ''/''" "q \<noteq> []" "list_all clean (A @ P @ q)"
    and "parse_authority A = Ok (user, host)" "url_unescape encodePath P = Ok path"
  shows "\<exists>raw. url_parse (sch @ ''://'' @ A @ P @ ''?'' @ q) =
    Ok (empty_url\<lparr>Scheme := sch, User := user, Host := host, Path := path, RawPath := raw, RawQuery := q\<rparr>)"
proof -
  let ?t = "sch @ ''://'' @ A @ P @ ''?'' @ q"
  have hash: "CHR ''#'' \<notin> set ?t"
    using assms(1-4) by (auto dest: good_scheme_free)
  have "list_all clean ?t" using good_scheme_clean [OF assms(1)] assms(8) by (simp add: clean_def byte_of_def)
  then have ctrl: "\<not> list_ex (\<lambda>c. byte_of c < 32 \<or> byte_of c = 127) ?t" by (rule clean_ctrl)
  have star: "?t \<noteq> ''*''" using assms(1) by (cases sch) auto
  have scheme: "get_scheme [] ?t = Ok (sch, ''//'' @ A @ P @ ''?'' @ q)"
    using get_scheme_good [OF assms(1), of "A @ P @ ''?'' @ q"] by simp
  have "CHR ''?'' \<notin> set (''//'' @ A @ P)" using assms(2,3) by auto
  from cut_at_append [OF this, of q] have q: "cut_query (''//'' @ A @ P @ ''?'' @ q) = (''//'' @ A @ P, False, q)"
    using assms(7) by (cases q) (auto simp: cut_query_def)
  obtain P' where P: "P = CHR ''/'' # P'" using assms(5,6) by (cases P) auto
  have "split_authority (A @ P) = (A, P)"
  proof -
    have "\<And>c. c \<in> set A \<Longrightarrow> c \<noteq> CHR ''/''" using assms(2) by auto
    then have "takeWhile (\<lambda>c. c \<noteq> CHR ''/'') (A @ P) = A" "dropWhile (\<lambda>c. c \<noteq> CHR ''/'') (A @ P) = P"
      unfolding P by (simp_all add: takeWhile_append2 dropWhile_append2)
    then show ?thesis by (simp add: split_authority_def)
  qed
  moreover have "to_lower sch = sch" "sch \<noteq> []"
    using assms(1) to_lower_lower by (auto simp: good_scheme_def)
  ultimately show ?thesis
    unfolding url_parse_def cut_at_None [OF hash]
    using ctrl star scheme q assms(9,10)
    by (simp add: parse_no_frag_def parse_after_scheme_def parse_hier_def set_path_def empty_url_def)
qed

end
