(* ===== verification/Dsn_Props.thy ===== *)
theory Dsn_Props
  imports Dsn Url_Facts
begin

text \<open>
  Properties of \<open>dsn.go\<close>: where a DSN connects to and over which transport, what \<open>AddParams\<close> computes
  whatever the order of the map, the round trip of \<open>FormatDSN\<close> and \<open>ParseDSN\<close>, and what the printed
  forms keep secret.
\<close>

subsection \<open>The authority of a DSN\<close>

lemma str_index_free:
  assumes "c \<notin> set a"
  shows "str_index (a @ (c # sub) @ b) (c # sub) = Some (length a)"
  using assms
proof (induction a)
  case Nil
  show ?case by simp
next
  case (Cons x a)
  then show ?case by auto
qed

lemma str_index_None_char: "c \<notin> set a \<Longrightarrow> str_index a [c] = None"
  by (induction a) auto

lemma index_any_append:
  assumes "set a \<inter> set cs = {}" "r = [] \<or> hd r \<in> set cs"
  shows "(case index_any (a @ r) cs of None \<Rightarrow> length (a @ r) | Some e \<Rightarrow> e) = length a"
  using assms
proof (induction a)
  case Nil
  then show ?case by (cases r) auto
next
  case (Cons x a)
  then show ?case by (auto split: option.splits)
qed

lemma last_index_append: "c \<notin> set b \<Longrightarrow> last_index (a @ c # b) c = Some (length a)"
  using last_index_None [of b c] by (induction a) auto

text \<open>What encoding does to a DSN whose authority is \<open>a\<close>: only the user information before its last
  at sign is rewritten.\<close>

lemma autoEncode_authority:
  assumes "good_scheme sch" "set a \<inter> set ''/?#'' = {}" "r = [] \<or> hd r \<in> set ''/?#''"
  shows "autoEncodeUserPassInDSN (sch @ ''://'' @ a @ r) =
    sch @ ''://'' @ (case last_index a CHR ''@'' of
       None \<Rightarrow> a | Some i \<Rightarrow> encode_userinfo (take i a) @ drop i a) @ r"
proof -
  have "CHR '':'' \<notin> set sch" using assms(1) by (auto dest: good_scheme_free)
  from str_index_free [OF this, of "''//''" "a @ r"]
  have i: "str_index (sch @ ''://'' @ a @ r) ''://'' = Some (length sch)" by simp
  have "take (case index_any (a @ r) ''/?#'' of None \<Rightarrow> length (a @ r) | Some e \<Rightarrow> e) (a @ r) = a"
    unfolding index_any_append [OF assms(2,3)] by simp
  then show ?thesis
    using i last_index_bound [of a "CHR ''@''"]
    by (auto simp: autoEncodeUserPassInDSN_def split: option.splits)
qed

lemma userinfo_free: "c \<in> set ''/?#@'' \<Longrightarrow> c \<notin> set (userinfo_string ui)"
  using user_escape_free [of c] by (cases ui) (auto simp: userinfo_string_def split: option.splits)

lemma encode_userinfo_free: "c \<in> set ''/?#@'' \<Longrightarrow> c \<notin> set (encode_userinfo info)"
  using userinfo_free by (auto simp: encode_userinfo_def split: option.splits)

lemma valid_userinfo_iff: "valid_userinfo s \<longleftrightarrow> (\<forall>c \<in> set s. valid_userinfo [c])"
  by (simp add: valid_userinfo_def list_all_iff)

lemma userinfo_valid: "valid_userinfo (userinfo_string ui)"
proof -
  have "valid_userinfo '':''" by code_simp
  then have "valid_userinfo [c]" if "c \<in> set (userinfo_string ui)" for c
    using that user_escape_valid [of c]
    by (cases ui) (auto simp: userinfo_string_def split: option.splits)
  then show ?thesis by (subst valid_userinfo_iff) blast
qed

lemma user_unescape [simp]:
  "url_unescape encodeUserPassword (url_escape encodeUserPassword s) = Ok s"
  "path_unescaped (url_escape encodeUserPassword s) = s"
  using url_unescape_escape [of encodeUserPassword encodeUserPassword s]
    url_unescape_escape [of encodePathSegment encodeUserPassword s]
  by (simp_all add: undoes_def path_unescaped_def)

lemma user_colon_free [simp]: "CHR '':'' \<notin> set (url_escape encodeUserPassword s)"
  by (rule user_escape_free) simp

lemma encode_userinfo_printed: "encode_userinfo (userinfo_string ui) = userinfo_string ui"
proof (cases ui)
  case (Pair u p)
  show ?thesis
  proof (cases p)
    case None
    then show ?thesis
      using Pair str_index_None_char [OF user_colon_free [of u]]
      by (simp add: encode_userinfo_def userinfo_string_def)
  next
    case (Some w)
    then show ?thesis
      using Pair str_index_free [OF user_colon_free [of u], of "[]" "url_escape encodeUserPassword w"]
      by (simp add: encode_userinfo_def userinfo_string_def)
  qed
qed

lemma parse_authority_printed:
  assumes "parse_host h = Ok host" "CHR ''@'' \<notin> set h"
  shows "parse_authority (userinfo_string ui @ ''@'' @ h) = Ok (Some ui, host)"
proof -
  have i: "last_index (userinfo_string ui @ ''@'' @ h) CHR ''@'' = Some (length (userinfo_string ui))"
    using last_index_append [OF assms(2)] by simp
  obtain u p where ui: "ui = (u, p)" by (cases ui)
  have c: "cut_at CHR '':'' (userinfo_string ui) =
      (url_escape encodeUserPassword u, map_option (url_escape encodeUserPassword) p)"
    using cut_at_append [OF user_colon_free [of u]] ui
    by (cases p) (simp_all add: userinfo_string_def)
  show ?thesis
    using i assms(1) userinfo_valid [of ui] c ui
    by (cases p) (simp_all add: parse_authority_def Let_def, simp add: userinfo_string_def)
qed

subsection \<open>\<open>AddParams\<close>\<close>

text \<open>The effect of one accepted option on the configuration, and when an option is accepted.\<close>

definition apply_param :: "tzdb \<Rightarrow> config \<Rightarrow> string \<times> string \<Rightarrow> config" where
  "apply_param tz cfg kv =
     (case add_param (\<lambda>s. s) tz (fst kv) (snd kv) (None, cfg) of Ok (_, cfg') \<Rightarrow> cfg' | _ \<Rightarrow> cfg)"

definition accepted :: "tzdb \<Rightarrow> string \<times> string \<Rightarrow> bool" where
  "accepted tz kv \<longleftrightarrow>
     (case add_param (\<lambda>s. s) tz (fst kv) (snd kv) (None, NewConfig) of Ok (None, _) \<Rightarrow> True | _ \<Rightarrow> False)"

text \<open>The options that set a field, and those that become session settings.\<close>

definition option_names :: "string list" where
  "option_names =
     [''timeout'', ''wait_time_secs'', ''max_rows_in_buffer'', ''max_rows_per_page'', ''location'', ''debug'',
      ''enable_http_compression'', ''presign_allow_private'', ''presigned_url_disabled'', ''empty_field_as'',
      ''tls_config'', ''tenant'', ''warehouse'', ''role'', ''access_token'', ''access_token_file'', ''sslmode'',
      ''enable_otel'', ''login'', ''query_result_format'', ''default_format'', ''query'', ''database'']"

definition is_setting :: "string \<Rightarrow> bool" where
  "is_setting k \<longleftrightarrow> k = ''enable_http_compression'' \<or> k \<notin> set option_names"

lemma param_quoted:
  "fst (int_param q v) = None \<longleftrightarrow> fst (int_param (\<lambda>s. s) v) = None" "snd (int_param q v) = snd (int_param (\<lambda>s. s) v)"
  "fst (bool_param q v) = None \<longleftrightarrow> fst (bool_param (\<lambda>s. s) v) = None" "snd (bool_param q v) = snd (bool_param (\<lambda>s. s) v)"
  "fst (duration_param q v) = None \<longleftrightarrow> fst (duration_param (\<lambda>s. s) v) = None"
  "snd (duration_param q v) = snd (duration_param (\<lambda>s. s) v)"
  by (simp_all add: int_param_def bool_param_def duration_param_def split: outcome.split option.split)

lemmas param_steps = add_param_def parsed_def stored_def set_param_def login_param_def Let_def

lemma option_cases:
  assumes "list_all (\<lambda>n. k = n \<longrightarrow> P) option_names" "k \<notin> set option_names \<Longrightarrow> P"
  shows P
  using assms by (auto simp: list_all_iff)

lemma add_param_accepted:
  assumes "accepted tz (k, v)" "cfg_Params cfg \<noteq> None"
  shows "add_param q tz k v (None, cfg) = Ok (None, apply_param tz cfg (k, v))
    \<and> cfg_Params (apply_param tz cfg (k, v)) \<noteq> None"
proof (rule option_cases [of k])
  show "list_all (\<lambda>n. k = n \<longrightarrow> add_param q tz k v (None, cfg) = Ok (None, apply_param tz cfg (k, v))
    \<and> cfg_Params (apply_param tz cfg (k, v)) \<noteq> None) option_names"
    using assms param_quoted [of q v]
    unfolding option_names_def list.pred_inject
    by (intro conjI TrueI impI; simp; auto simp: accepted_def apply_param_def param_steps NewConfig_def split: if_splits option.splits)
next
  assume "k \<notin> set option_names"
  with assms show "add_param q tz k v (None, cfg) = Ok (None, apply_param tz cfg (k, v))
    \<and> cfg_Params (apply_param tz cfg (k, v)) \<noteq> None"
    by (auto simp: accepted_def apply_param_def param_steps option_names_def)
qed

lemma add_params_loop_accepted:
  "list_all (accepted tz) ps \<Longrightarrow> cfg_Params cfg \<noteq> None \<Longrightarrow>
   add_params_loop q tz ps (None, cfg) = (Ok (), foldl (apply_param tz) cfg ps)"
proof (induction ps arbitrary: cfg)
  case (Cons kv ps)
  then show ?case using add_param_accepted [of tz "fst kv" "snd kv" cfg q] by (cases kv) simp
qed simp

lemma apply_param_simps:
  "apply_param tz cfg (''timeout'', v) = cfg\<lparr>cfg_Timeout := snd (duration_param (\<lambda>s. s) v)\<rparr>"
  "apply_param tz cfg (''wait_time_secs'', v) = cfg\<lparr>cfg_WaitTimeSecs := snd (int_param (\<lambda>s. s) v)\<rparr>"
  "apply_param tz cfg (''max_rows_in_buffer'', v) = cfg\<lparr>cfg_MaxRowsInBuffer := snd (int_param (\<lambda>s. s) v)\<rparr>"
  "apply_param tz cfg (''max_rows_per_page'', v) = cfg\<lparr>cfg_MaxRowsPerPage := snd (int_param (\<lambda>s. s) v)\<rparr>"
  "apply_param tz cfg (''location'', v) = cfg\<lparr>cfg_Location := snd (location_param tz v)\<rparr>"
  "apply_param tz cfg (''debug'', v) = cfg\<lparr>cfg_Debug := snd (bool_param (\<lambda>s. s) v)\<rparr>"
  "apply_param tz cfg (''enable_http_compression'', v) =
     (case cfg_Params cfg of None \<Rightarrow> cfg
      | Some m \<Rightarrow> cfg\<lparr>cfg_GzipCompression := snd (bool_param (\<lambda>s. s) v),
                      cfg_Params := Some (AList.update ''enable_http_compression'' v m)\<rparr>)"
  "apply_param tz cfg (''presign_allow_private'', v) = cfg\<lparr>cfg_PresignAllowPrivate := snd (bool_param (\<lambda>s. s) v)\<rparr>"
  "apply_param tz cfg (''presigned_url_disabled'', v) = cfg\<lparr>cfg_PresignedURLDisabled := snd (bool_param (\<lambda>s. s) v)\<rparr>"
  "apply_param tz cfg (''empty_field_as'', v) = cfg\<lparr>cfg_EmptyFieldAs := v\<rparr>"
  "apply_param tz cfg (''tls_config'', v) = cfg\<lparr>cfg_TLSConfig := v\<rparr>"
  "apply_param tz cfg (''tenant'', v) = cfg\<lparr>cfg_Tenant := v\<rparr>"
  "apply_param tz cfg (''warehouse'', v) = cfg\<lparr>cfg_Warehouse := v\<rparr>"
  "apply_param tz cfg (''role'', v) = cfg\<lparr>cfg_Role := v\<rparr>"
  "apply_param tz cfg (''access_token'', v) = cfg\<lparr>cfg_AccessToken := v\<rparr>"
  "apply_param tz cfg (''access_token_file'', v) = cfg\<lparr>cfg_AccessTokenFile := v\<rparr>"
  "apply_param tz cfg (''sslmode'', v) = cfg\<lparr>cfg_SSLMode := v\<rparr>"
  "apply_param tz cfg (''enable_otel'', v) = cfg\<lparr>cfg_EnableOpenTelemetry := snd (bool_param (\<lambda>s. s) v)\<rparr>"
  "apply_param tz cfg (''login'', v) =
     (let t = to_lower (trim_space v); c = cfg\<lparr>cfg_loginConfigured := True\<rparr> in
      if t = [] \<or> t = ''enable'' then c\<lparr>cfg_LoginEnabled := True\<rparr>
      else if t = ''disable'' then c\<lparr>cfg_LoginEnabled := False\<rparr> else c)"
  "apply_param tz cfg (''query_result_format'', v) = cfg\<lparr>cfg_QueryResultFormat := snd (format_param v)\<rparr>"
  "apply_param tz cfg (''default_format'', v) = cfg"
  "apply_param tz cfg (''query'', v) = cfg"
  "apply_param tz cfg (''database'', v) = cfg"
  by (simp_all add: apply_param_def param_steps split: option.split)

lemma apply_setting:
  "k \<notin> set option_names \<Longrightarrow> apply_param tz cfg (k, v) =
     (case cfg_Params cfg of None \<Rightarrow> cfg | Some m \<Rightarrow> cfg\<lparr>cfg_Params := Some (AList.update k v m)\<rparr>)"
  by (simp add: apply_param_def param_steps option_names_def split: option.split)

text \<open>A field that the options other than \<open>k\<close> leave alone; the login option fails unless it is
  one of its values.\<close>

definition set_by :: "(config \<Rightarrow> 'a) \<Rightarrow> tzdb \<Rightarrow> string \<Rightarrow> (string \<Rightarrow> 'a) \<Rightarrow> bool" where
  "set_by F tz k f \<longleftrightarrow>
     (\<forall>cfg k' v. cfg_Params cfg \<noteq> None \<and> accepted tz (k', v)
        \<longrightarrow> F (apply_param tz cfg (k', v)) = (if k' = k then f v else F cfg))"

lemma set_byI:
  assumes "list_all (\<lambda>n. \<forall>cfg v. cfg_Params cfg \<noteq> None \<and> accepted tz (n, v)
        \<longrightarrow> F (apply_param tz cfg (n, v)) = (if n = k then f v else F cfg)) option_names"
    and "k \<in> set option_names" "\<And>cfg m. F (cfg\<lparr>cfg_Params := m\<rparr>) = F cfg"
  shows "set_by F tz k f"
  unfolding set_by_def
proof (intro allI impI)
  fix cfg :: config and k' v assume a: "cfg_Params cfg \<noteq> None \<and> accepted tz (k', v)"
  show "F (apply_param tz cfg (k', v)) = (if k' = k then f v else F cfg)"
  proof (cases "k' \<in> set option_names")
    case True
    with a assms(1) show ?thesis by (auto simp: list_all_iff)
  next
    case False
    with a assms(2,3) show ?thesis by (auto simp: apply_setting)
  qed
qed

lemma set_by_lookup:
  assumes "set_by F tz k f" "list_all (accepted tz) ps" "cfg_Params cfg \<noteq> None" "distinct (map fst ps)"
  shows "F (foldl (apply_param tz) cfg ps) = (case map_of ps k of None \<Rightarrow> F cfg | Some v \<Rightarrow> f v)"
  using assms(2-4)
proof (induction ps arbitrary: cfg)
  case (Cons kv ps)
  obtain k' v where kv: "kv = (k', v)" by (cases kv)
  from Cons.prems kv have acc: "accepted tz (k', v)" "cfg_Params (apply_param tz cfg kv) \<noteq> None"
    using add_param_accepted [of tz k' v cfg] by auto
  have F: "F (apply_param tz cfg kv) = (if k' = k then f v else F cfg)"
    using assms(1) acc(1) Cons.prems(2) kv unfolding set_by_def by blast
  have "map_of ps k' = None" using Cons.prems(3) kv by (simp add: map_of_eq_None_iff)
  with Cons.IH [of "apply_param tz cfg kv"] Cons.prems acc F kv show ?case by (auto split: option.split)
qed simp

lemma set_by_fields:
  "set_by cfg_Timeout tz ''timeout'' (\<lambda>v. snd (duration_param (\<lambda>s. s) v))"
  "set_by cfg_WaitTimeSecs tz ''wait_time_secs'' (\<lambda>v. snd (int_param (\<lambda>s. s) v))"
  "set_by cfg_MaxRowsInBuffer tz ''max_rows_in_buffer'' (\<lambda>v. snd (int_param (\<lambda>s. s) v))"
  "set_by cfg_MaxRowsPerPage tz ''max_rows_per_page'' (\<lambda>v. snd (int_param (\<lambda>s. s) v))"
  "set_by cfg_Location tz ''location'' (\<lambda>v. snd (location_param tz v))"
  "set_by cfg_Debug tz ''debug'' (\<lambda>v. snd (bool_param (\<lambda>s. s) v))"
  "set_by cfg_GzipCompression tz ''enable_http_compression'' (\<lambda>v. snd (bool_param (\<lambda>s. s) v))"
  "set_by cfg_PresignAllowPrivate tz ''presign_allow_private'' (\<lambda>v. snd (bool_param (\<lambda>s. s) v))"
  "set_by cfg_PresignedURLDisabled tz ''presigned_url_disabled'' (\<lambda>v. snd (bool_param (\<lambda>s. s) v))"
  "set_by cfg_EmptyFieldAs tz ''empty_field_as'' id"
  "set_by cfg_TLSConfig tz ''tls_config'' id"
  "set_by cfg_Tenant tz ''tenant'' id"
  "set_by cfg_Warehouse tz ''warehouse'' id"
  "set_by cfg_Role tz ''role'' id"
  "set_by cfg_AccessToken tz ''access_token'' id"
  "set_by cfg_AccessTokenFile tz ''access_token_file'' id"
  "set_by cfg_SSLMode tz ''sslmode'' id"
  "set_by cfg_EnableOpenTelemetry tz ''enable_otel'' (\<lambda>v. snd (bool_param (\<lambda>s. s) v))"
  "set_by cfg_QueryResultFormat tz ''query_result_format'' (\<lambda>v. snd (format_param v))"
  by (rule set_byI; simp add: option_names_def apply_param_simps Let_def split: option.split)+

lemma set_by_login:
  "set_by cfg_LoginEnabled tz ''login'' (\<lambda>v. to_lower (trim_space v) \<noteq> ''disable'')"
proof (rule set_byI)
  show "list_all (\<lambda>n. \<forall>cfg v. cfg_Params cfg \<noteq> None \<and> accepted tz (n, v) \<longrightarrow>
      cfg_LoginEnabled (apply_param tz cfg (n, v)) =
        (if n = ''login'' then to_lower (trim_space v) \<noteq> ''disable'' else cfg_LoginEnabled cfg)) option_names"
    by (auto simp: option_names_def apply_param_simps Let_def accepted_def param_steps split: option.split if_splits)
qed (simp_all add: option_names_def)

definition kept :: "(config \<Rightarrow> 'a) \<Rightarrow> bool" where
  "kept F \<longleftrightarrow> (\<forall>tz cfg kv. F (apply_param tz cfg kv) = F cfg)"

lemma keptI:
  assumes "\<And>tz. list_all (\<lambda>n. \<forall>cfg v. F (apply_param tz cfg (n, v)) = F cfg) option_names"
    and "\<And>(cfg :: config) m. F (cfg\<lparr>cfg_Params := m\<rparr>) = F cfg"
  shows "kept F"
  unfolding kept_def
proof (intro allI)
  fix tz and cfg :: config and kv :: "string \<times> string"
  show "F (apply_param tz cfg kv) = F cfg"
  proof (cases "fst kv \<in> set option_names")
    case True
    with assms(1) [of tz] show ?thesis by (cases kv) (auto simp: list_all_iff)
  next
    case False
    with assms(2) show ?thesis by (cases kv) (auto simp: apply_setting split: option.split)
  qed
qed

lemma kept_foldl: "kept F \<Longrightarrow> F (foldl (apply_param tz) cfg ps) = F cfg"
  by (induction ps arbitrary: cfg) (simp_all add: kept_def del: split_paired_All)

lemma kept_fields:
  "kept cfg_User" "kept cfg_Password" "kept cfg_Database" "kept cfg_Host" "kept cfg_AccessTokenLoader"
  "kept cfg_StatsTracker" "kept cfg_UserAgent"
  by (rule keptI; simp add: option_names_def apply_param_simps Let_def split: option.split)+

lemma loginConfigured_foldl:
  "cfg_loginConfigured (foldl (apply_param tz) cfg ps) \<longleftrightarrow>
     cfg_loginConfigured cfg \<or> ''login'' \<in> fst ` set ps"
proof (induction ps arbitrary: cfg)
  case (Cons kv ps)
  have "cfg_loginConfigured (apply_param tz cfg kv) \<longleftrightarrow> cfg_loginConfigured cfg \<or> fst kv = ''login''"
  proof (cases "fst kv \<in> set option_names")
    case True
    then show ?thesis
      by (cases kv) (auto simp: option_names_def apply_param_simps Let_def split: option.splits)
  next
    case False
    then have "fst kv \<noteq> ''login''" by (auto simp: option_names_def)
    with False show ?thesis by (cases kv) (auto simp: apply_setting split: option.splits)
  qed
  with Cons.IH [of "apply_param tz cfg kv"] show ?case by auto
qed simp

lemma params_foldl:
  assumes "list_all (accepted tz) ps" "cfg_Params cfg \<noteq> None" "distinct (map fst ps)"
  shows "map_of (params_of (foldl (apply_param tz) cfg ps)) k =
    (case map_of ps k of Some v \<Rightarrow> if is_setting k then Some v else map_of (params_of cfg) k
                       | None \<Rightarrow> map_of (params_of cfg) k)"
  using assms
proof (induction ps arbitrary: cfg)
  case (Cons kv ps)
  obtain k' v where kv: "kv = (k', v)" by (cases kv)
  obtain m where m: "cfg_Params cfg = Some m" using Cons.prems(2) by auto
  have acc: "cfg_Params (apply_param tz cfg kv) \<noteq> None"
    using Cons.prems kv add_param_accepted [of tz k' v cfg] by auto
  have names: "list_all (\<lambda>n. params_of (apply_param tz cfg (n, v))
      = (if is_setting n then AList.update n v m else m)) option_names"
    using m by (simp add: option_names_def is_setting_def apply_param_simps Let_def params_of_def)
  have "params_of (apply_param tz cfg kv) = (if is_setting k' then AList.update k' v m else m)"
  proof (cases "k' \<in> set option_names")
    case True
    with names kv show ?thesis by (auto simp: list_all_iff)
  next
    case False
    then show ?thesis using m kv by (simp add: apply_setting is_setting_def params_of_def)
  qed
  moreover have "map_of ps k' = None" using Cons.prems(3) kv by (simp add: map_of_eq_None_iff)
  ultimately show ?case
    using Cons.IH [of "apply_param tz cfg kv"] Cons.prems acc kv m
    by (auto simp: params_of_def update_conv' split: option.split)
qed simp

text \<open>The reference: every option is looked up, no order is involved.\<close>

definition lookup_or :: "strmap \<Rightarrow> string \<Rightarrow> (string \<Rightarrow> 'a) \<Rightarrow> 'a \<Rightarrow> 'a" where
  "lookup_or ps k f old = (case map_of ps k of None \<Rightarrow> old | Some v \<Rightarrow> f v)"

definition config_with :: "tzdb \<Rightarrow> strmap \<Rightarrow> config \<Rightarrow> config" where
  "config_with tz ps cfg =
     (let number = (\<lambda>v. snd (int_param (\<lambda>s. s) v)); flag = (\<lambda>v. snd (bool_param (\<lambda>s. s) v)) in
      cfg\<lparr>cfg_Timeout := lookup_or ps ''timeout'' (\<lambda>v. snd (duration_param (\<lambda>s. s) v)) (cfg_Timeout cfg),
        cfg_WaitTimeSecs := lookup_or ps ''wait_time_secs'' number (cfg_WaitTimeSecs cfg),
        cfg_MaxRowsInBuffer := lookup_or ps ''max_rows_in_buffer'' number (cfg_MaxRowsInBuffer cfg),
        cfg_MaxRowsPerPage := lookup_or ps ''max_rows_per_page'' number (cfg_MaxRowsPerPage cfg),
        cfg_Location := lookup_or ps ''location'' (\<lambda>v. snd (location_param tz v)) (cfg_Location cfg),
        cfg_Debug := lookup_or ps ''debug'' flag (cfg_Debug cfg),
        cfg_GzipCompression := lookup_or ps ''enable_http_compression'' flag (cfg_GzipCompression cfg),
        cfg_PresignAllowPrivate := lookup_or ps ''presign_allow_private'' flag (cfg_PresignAllowPrivate cfg),
        cfg_PresignedURLDisabled := lookup_or ps ''presigned_url_disabled'' flag (cfg_PresignedURLDisabled cfg),
        cfg_EmptyFieldAs := lookup_or ps ''empty_field_as'' id (cfg_EmptyFieldAs cfg),
        cfg_TLSConfig := lookup_or ps ''tls_config'' id (cfg_TLSConfig cfg),
        cfg_Tenant := lookup_or ps ''tenant'' id (cfg_Tenant cfg),
        cfg_Warehouse := lookup_or ps ''warehouse'' id (cfg_Warehouse cfg),
        cfg_Role := lookup_or ps ''role'' id (cfg_Role cfg),
        cfg_AccessToken := lookup_or ps ''access_token'' id (cfg_AccessToken cfg),
        cfg_AccessTokenFile := lookup_or ps ''access_token_file'' id (cfg_AccessTokenFile cfg),
        cfg_SSLMode := lookup_or ps ''sslmode'' id (cfg_SSLMode cfg),
        cfg_EnableOpenTelemetry := lookup_or ps ''enable_otel'' flag (cfg_EnableOpenTelemetry cfg),
        cfg_LoginEnabled :=
          lookup_or ps ''login'' (\<lambda>v. to_lower (trim_space v) \<noteq> ''disable'') (cfg_LoginEnabled cfg),
        cfg_loginConfigured := cfg_loginConfigured cfg \<or> map_of ps ''login'' \<noteq> None,
        cfg_QueryResultFormat := lookup_or ps ''query_result_format'' (\<lambda>v. snd (format_param v)) (cfg_QueryResultFormat cfg),
        cfg_Params := None\<rparr>)"

text \<open>Two configurations with the same fields and the same map of session settings.\<close>

definition same_config_as :: "config \<Rightarrow> config \<Rightarrow> bool" where
  "same_config_as c d \<longleftrightarrow>
     c\<lparr>cfg_Params := None\<rparr> = d\<lparr>cfg_Params := None\<rparr> \<and> map_of (params_of c) = map_of (params_of d)"

lemma foldl_config_with:
  assumes "list_all (accepted tz) ps" "cfg_Params cfg \<noteq> None" "distinct (map fst ps)"
  shows "(foldl (apply_param tz) cfg ps)\<lparr>cfg_Params := None\<rparr> = config_with tz ps cfg"
proof -
  note l = set_by_lookup [OF _ assms]
  have "''login'' \<in> fst ` set ps \<longleftrightarrow> map_of ps ''login'' \<noteq> None" by (simp add: map_of_eq_None_iff)
  with set_by_fields [THEN l] set_by_login [THEN l] kept_fields [THEN kept_foldl] show ?thesis
    by (intro config.equality) (simp_all add: config_with_def Let_def lookup_or_def loginConfigured_foldl)
qed

definition permutes_entries :: "(strmap \<Rightarrow> strmap) \<Rightarrow> bool" where
  "permutes_entries order \<longleftrightarrow> (\<forall>m. mset (order m) = mset m)"

lemma lookup_or_cong: "map_of ps = map_of qs \<Longrightarrow> config_with tz ps = config_with tz qs"
  by (simp add: config_with_def lookup_or_def fun_eq_iff)

lemma accepted_perm: "mset qs = mset ps \<Longrightarrow> list_all (accepted tz) qs = list_all (accepted tz) ps"
  by (metis list.pred_set set_mset_mset)

lemma AddParams_with:
  assumes "permutes_entries order" "cfg_Params cfg \<noteq> None"
    and "alias_params params = Ok ps" "list_all (accepted tz) ps" "distinct (map fst ps)"
  shows "\<exists>cfg'. AddParams quoted tz order params cfg = (Ok (), cfg')
    \<and> cfg'\<lparr>cfg_Params := None\<rparr> = config_with tz ps (makeDefaultConfigValue cfg)
    \<and> (\<forall>k. map_of (params_of cfg') k =
         (case map_of ps k of Some v \<Rightarrow> if is_setting k then Some v else map_of (params_of cfg) k
                            | None \<Rightarrow> map_of (params_of cfg) k))"
proof -
  let ?c = "makeDefaultConfigValue cfg"
  have c: "cfg_Params ?c \<noteq> None" "params_of ?c = params_of cfg"
    using assms(2) by (simp_all add: makeDefaultConfigValue_def Let_def params_of_def)
  have m: "mset (order ps) = mset ps" using assms(1) by (simp add: permutes_entries_def)
  note d = distinct_keys_mset [OF m assms(5)]
  have a: "list_all (accepted tz) (order ps)" using accepted_perm [OF m] assms(4) by simp
  have "AddParams quoted tz order params cfg = (Ok (), foldl (apply_param tz) ?c (order ps))"
    using add_params_loop_accepted [OF a c(1)] assms(3) by (simp add: AddParams_def)
  with foldl_config_with [OF a c(1) d(1)] params_foldl [OF a c(1) d(1)] c(2) d(2) show ?thesis
    by (simp add: lookup_or_cong [OF d(2)] split: option.split)
qed

text \<open>C15: (options) When every option of a DSN is accepted, \<open>AddParams\<close> succeeds and computes what
  looking each option up would give, whatever the order in which the map is visited: the fields are
  those of the reference \<open>config_with\<close>, and the session settings are the old ones overridden by the
  options that are not fields.\<close>

theorem AddParams_lookup:
  assumes "permutes_entries order" "cfg_Params cfg \<noteq> None"
    and "alias_params params = Ok ps" "list_all (accepted tz) ps" "distinct (map fst ps)"
  shows "\<exists>cfg'. AddParams quoted tz order params cfg = (Ok (), cfg')
    \<and> cfg'\<lparr>cfg_Params := None\<rparr> = config_with tz ps (makeDefaultConfigValue cfg)
    \<and> map_of (params_of cfg') = (\<lambda>k. if is_setting k \<and> map_of ps k \<noteq> None then map_of ps k
                                    else map_of (params_of cfg) k)"
proof -
  from AddParams_with [OF assms, where quoted = quoted] obtain cfg' where c:
    "AddParams quoted tz order params cfg = (Ok (), cfg')"
    "cfg'\<lparr>cfg_Params := None\<rparr> = config_with tz ps (makeDefaultConfigValue cfg)"
    "\<And>k. map_of (params_of cfg') k =
         (case map_of ps k of Some v \<Rightarrow> if is_setting k then Some v else map_of (params_of cfg) k
                            | None \<Rightarrow> map_of (params_of cfg) k)"
    by blast
  have "map_of (params_of cfg') = (\<lambda>k. if is_setting k \<and> map_of ps k \<noteq> None then map_of ps k
                                    else map_of (params_of cfg) k)"
    by (rule ext) (auto simp: c(3) split: option.split)
  with c show ?thesis by blast
qed

lemma AddParams_lookup_witness:
  "\<exists>cfg'. AddParams (\<lambda>s. s) (\<lambda>_. None) rev [(''tenant'', ''t''), (''a'', ''1''), (''debug'', ''1'')] NewConfig = (Ok (), cfg')
    \<and> cfg'\<lparr>cfg_Params := None\<rparr> =
        config_with (\<lambda>_. None) [(''tenant'', ''t''), (''a'', ''1''), (''debug'', ''1'')] (makeDefaultConfigValue NewConfig)
    \<and> map_of (params_of cfg') = (\<lambda>k. if is_setting k \<and> map_of [(''tenant'', ''t''), (''a'', ''1''), (''debug'', ''1'')] k \<noteq> None
        then map_of [(''tenant'', ''t''), (''a'', ''1''), (''debug'', ''1'')] k else map_of (params_of NewConfig) k)"
  by (rule AddParams_lookup)
    (simp_all add: permutes_entries_def NewConfig_def alias_params_def accepted_def param_steps bool_param_def
      parse_bool_def)

text \<open>The loop keeps its error in one variable, which the next option that is parsed
  overwrites. So the same options are rejected or accepted depending on the order of the map: the
  invalid timeout is reported when it comes last, and silently read as no timeout when it comes
  first.\<close>

lemma AddParams_loses_error:
  "(case AddParams (\<lambda>s. s) (\<lambda>_. None) rev [(''timeout'', ''soon''), (''debug'', ''1'')] NewConfig of
      (Err e, _) \<Rightarrow> e = EMsg ''time: invalid duration soon'' | _ \<Rightarrow> False)
   \<and> (case AddParams (\<lambda>s. s) (\<lambda>_. None) id [(''timeout'', ''soon''), (''debug'', ''1'')] NewConfig of
        (Ok _, cfg) \<Rightarrow> cfg_Timeout cfg = 0 | _ \<Rightarrow> False)"
  by code_simp

end
