(* ===== verification/Dsn_Transport.thy ===== *)
theory Dsn_Transport
  imports Dsn_Props
begin

text \<open>
  Properties of whole DSNs: the host and the transport that \<open>ParseDSN\<close> chooses, the secrets that the
  printed forms keep, and the round trip of \<open>FormatDSN\<close> and \<open>ParseDSN\<close>.
\<close>

subsection \<open>Host and transport\<close>

definition dsn_scheme :: "string \<Rightarrow> bool" where
  "dsn_scheme sch \<longleftrightarrow> sch \<in> set (http_schemes @ https_schemes @ plain_schemes)"

lemma dsn_scheme_good: "dsn_scheme sch \<Longrightarrow> good_scheme sch"
proof -
  have "list_all good_scheme (http_schemes @ https_schemes @ plain_schemes)" by code_simp
  then show "dsn_scheme sch \<Longrightarrow> good_scheme sch" unfolding dsn_scheme_def list_all_iff by blast
qed

text \<open>The text of an authority behind its last at sign.\<close>

definition host_text :: "string \<Rightarrow> string" where
  "host_text a = (case last_index a CHR ''@'' of None \<Rightarrow> a | Some i \<Rightarrow> drop (i + 1) a)"

lemma parse_authority_host: "parse_authority a = Ok (ui, h) \<Longrightarrow> parse_host (host_text a) = Ok h"
proof (cases "last_index a CHR ''@''")
  case None
  then show "parse_authority a = Ok (ui, h) \<Longrightarrow> parse_host (host_text a) = Ok h"
    by (auto simp: parse_authority_def host_text_def go_bind_eq_Ok)
next
  case (Some i)
  obtain u p where c: "cut_at CHR '':'' (take i a) = (u, p)" by fastforce
  with Some show "parse_authority a = Ok (ui, h) \<Longrightarrow> parse_host (host_text a) = Ok h"
    by (cases p) (auto simp: parse_authority_def host_text_def go_bind_eq_Ok Let_def split: if_splits)
qed

definition encoded_authority :: "string \<Rightarrow> string" where
  "encoded_authority a =
     (case last_index a CHR ''@'' of None \<Rightarrow> a | Some i \<Rightarrow> encode_userinfo (take i a) @ drop i a)"

lemma encoded_authority_free:
  assumes "set a \<inter> set ''/?#'' = {}"
  shows "set (encoded_authority a) \<inter> set ''/?#'' = {}"
proof -
  have "set (encode_userinfo i) \<inter> set ''/?#'' = {}" for i using encode_userinfo_free [of _ i] by auto
  moreover have "set (drop i a) \<inter> set ''/?#'' = {}" for i using assms set_drop_subset [of i a] by blast
  ultimately show ?thesis using assms by (auto simp: encoded_authority_def split: option.splits)
qed

lemma encoded_authority_host: "host_text (encoded_authority a) = host_text a"
proof (cases "last_index a CHR ''@''")
  case None
  then show ?thesis by (simp add: encoded_authority_def)
next
  case (Some i)
  have at: "drop i a = CHR ''@'' # drop (Suc i) a"
    using last_index_bound [OF Some] by (metis Cons_nth_drop_Suc)
  have "last_index (encode_userinfo (take i a) @ CHR ''@'' # drop (Suc i) a) CHR ''@''
      = Some (length (encode_userinfo (take i a)))"
    by (rule last_index_append [OF last_index_after [OF Some]])
  then show ?thesis using Some at by (simp add: encoded_authority_def host_text_def)
qed

lemma ParseDSN_parts:
  assumes "ParseDSN quoted tz order dsn = Ok cfg"
  obtains u base c where "url_parse (autoEncodeUserPassInDSN dsn) = Ok u" "dsn_base u = Ok base"
    "AddParams quoted tz order (first_values (parse_query (RawQuery u))) (dsn_authority u base) = (Ok (), c)"
    "\<not> (Scheme u \<in> set https_schemes \<and> cfg_SSLMode c = SSL_MODE_DISABLE)" "cfg = dsn_host u c"
proof -
  from assms obtain u base where u: "url_parse (autoEncodeUserPassInDSN dsn) = Ok u" "dsn_base u = Ok base"
    by (auto simp: ParseDSN_def go_bind_eq_Ok split: outcome.splits)
  obtain res c where a: "AddParams quoted tz order (first_values (parse_query (RawQuery u))) (dsn_authority u base)
      = (res, c)" by fastforce
  from assms u a show thesis
    by (intro that [OF u]) (auto simp: ParseDSN_def split: outcome.splits if_splits)
qed

lemma ParseDSN_url:
  assumes "url_parse (autoEncodeUserPassInDSN (sch @ ''://'' @ a @ r)) = Ok u" "dsn_scheme sch"
    and "set a \<inter> set ''/?#'' = {}" "r = [] \<or> hd r \<in> set ''/?#''"
  shows "Scheme u = sch \<and> parse_host (host_text a) = Ok (Host u)"
proof -
  note good = dsn_scheme_good [OF assms(2)]
  have e: "autoEncodeUserPassInDSN (sch @ ''://'' @ a @ r) = sch @ ''://'' @ encoded_authority a @ r"
    using autoEncode_authority [OF good assms(3,4)] by (simp add: encoded_authority_def)
  have "takeWhile (\<lambda>c. c \<notin> set ''/?#'') (encoded_authority a) = encoded_authority a"
    using encoded_authority_free [OF assms(3)] by (auto simp: takeWhile_eq_all_conv)
  then have "auth_of (encoded_authority a @ r) = encoded_authority a"
    using auth_of_append [OF assms(4), of "encoded_authority a"] by (simp add: auth_of_def)
  with url_parse_authority [OF assms(1) [unfolded e] good]
  have "Scheme u = sch" "parse_authority (encoded_authority a) = Ok (User u, Host u)" by simp_all
  with parse_authority_host [of "encoded_authority a"] encoded_authority_host [of a] show ?thesis by simp
qed

lemma add_param_SSLMode:
  "add_param quoted tz k v (err, cfg) = Ok (err', cfg') \<Longrightarrow>
   cfg_SSLMode cfg' = (if k = ''sslmode'' then v else cfg_SSLMode cfg)"
  by (rule option_cases [of k])
    (simp add: option_names_def param_steps split: if_splits, auto simp: param_steps option_names_def split: option.splits)

lemma add_params_loop_SSLMode:
  assumes "add_params_loop quoted tz ps s = (Ok (), c)" "distinct (map fst ps)"
  shows "cfg_SSLMode c = (case map_of ps ''sslmode'' of Some v \<Rightarrow> v | None \<Rightarrow> cfg_SSLMode (snd s))"
  using assms
proof (induction ps arbitrary: s)
  case (Cons kv ps)
  obtain k v where kv: "kv = (k, v)" by (cases kv)
  with Cons.prems obtain err' cfg' where step: "add_param quoted tz k v s = Ok (err', cfg')"
    "add_params_loop quoted tz ps (err', cfg') = (Ok (), c)"
    by (auto split: outcome.splits)
  have "map_of ps k = None" using Cons.prems(2) kv by (simp add: map_of_eq_None_iff)
  with Cons.IH [OF step(2)] Cons.prems(2) kv add_param_SSLMode [of quoted tz k v "fst s" "snd s"] step(1)
  show ?case by (auto split: option.split)
qed simp

lemma distinct_first_values: "distinct (map fst (first_values kvs))"
  by (induction kvs rule: first_values.induct) (auto simp: distinct_map_filter image_iff)

lemma alias_params_lookup:
  assumes "alias_params ps = Ok qs"
  shows "k \<notin> {''location'', ''timezone''} \<Longrightarrow> map_of qs k = map_of ps k"
    "distinct (map fst ps) \<Longrightarrow> distinct (map fst qs)"
  using assms by (auto simp: alias_params_def update_conv' distinct_update split: option.splits if_splits)

lemma AddParams_SSLMode:
  assumes "AddParams quoted tz order ps cfg = (Ok (), c)" "permutes_entries order" "distinct (map fst ps)"
  shows "cfg_SSLMode c = (case map_of ps ''sslmode'' of Some v \<Rightarrow> v | None \<Rightarrow> cfg_SSLMode cfg)"
proof -
  from assms(1) obtain qs where qs: "alias_params ps = Ok qs"
    "add_params_loop quoted tz (order qs) (None, makeDefaultConfigValue cfg) = (Ok (), c)"
    by (auto simp: AddParams_def Let_def split: outcome.splits)
  have "mset (order qs) = mset qs" using assms(2) by (simp add: permutes_entries_def)
  from distinct_keys_mset [OF this alias_params_lookup(2) [OF qs(1) assms(3)]]
  have d: "distinct (map fst (order qs))" "map_of (order qs) = map_of qs" by simp_all
  have "cfg_SSLMode (makeDefaultConfigValue cfg) = cfg_SSLMode cfg"
    by (simp add: makeDefaultConfigValue_def Let_def)
  with add_params_loop_SSLMode [OF qs(2) d(1)] d(2) alias_params_lookup(1) [OF qs(1), of "''sslmode''"]
  show ?thesis by (simp split: option.split)
qed

lemma dsn_authority_keeps: "cfg_SSLMode (dsn_authority u cfg) = cfg_SSLMode cfg"
  by (simp add: dsn_authority_def Let_def split: option.split)

lemma dsn_base_SSLMode:
  "dsn_base u = Ok base \<Longrightarrow> cfg_SSLMode base = (if Scheme u \<in> set http_schemes then SSL_MODE_DISABLE else [])"
  by (auto simp: dsn_base_def NewConfig_def split: if_splits)

lemma dsn_host_keeps:
  "cfg_SSLMode (dsn_host u cfg) = cfg_SSLMode cfg"
  "cfg_Host (dsn_host u cfg) \<in> {Host u, JoinHostPort (Host u) ''80'', JoinHostPort (Host u) ''443''}"
  by (auto simp: dsn_host_def split: option.split)

text \<open>C26: (DSN endpoints) For a DSN \<open>sch://a...\<close> that is accepted, whatever user information, path and
  options it has: the client's host is the one named behind the last at sign of the authority (with
  the default port when it has none), so no credential can name another host; an HTTPS scheme always
  gives an HTTPS endpoint; and the endpoint is plain HTTP only if the scheme says so or the options
  say \<open>sslmode=disable\<close>.\<close>

theorem ParseDSN_endpoint:
  assumes "ParseDSN quoted tz order (sch @ ''://'' @ a @ r) = Ok cfg" "permutes_entries order"
    and "dsn_scheme sch" "set a \<inter> set ''/?#'' = {}" "r = [] \<or> hd r \<in> set ''/?#''"
  shows "(\<exists>h. parse_host (host_text a) = Ok h
      \<and> cfg_Host cfg \<in> {h, JoinHostPort h ''80'', JoinHostPort h ''443''})
    \<and> (sch \<in> set https_schemes \<longrightarrow>
         apiEndpoint (NewAPIClientFromConfig cfg uuid hint) = ''https://'' @ cfg_Host cfg)
    \<and> (\<exists>u. url_parse (autoEncodeUserPassInDSN (sch @ ''://'' @ a @ r)) = Ok u
      \<and> (apiEndpoint (NewAPIClientFromConfig cfg uuid hint) = ''http://'' @ cfg_Host cfg \<longleftrightarrow>
           (case map_of (first_values (parse_query (RawQuery u))) ''sslmode'' of
              Some mode \<Rightarrow> mode = SSL_MODE_DISABLE | None \<Rightarrow> sch \<in> set http_schemes)))"
proof -
  from ParseDSN_parts [OF assms(1)] obtain u base c where p:
    "url_parse (autoEncodeUserPassInDSN (sch @ ''://'' @ a @ r)) = Ok u" "dsn_base u = Ok base"
    "AddParams quoted tz order (first_values (parse_query (RawQuery u))) (dsn_authority u base) = (Ok (), c)"
    "\<not> (Scheme u \<in> set https_schemes \<and> cfg_SSLMode c = SSL_MODE_DISABLE)" "cfg = dsn_host u c"
    by blast
  from ParseDSN_url [OF p(1) assms(3-5)] have u: "Scheme u = sch" "parse_host (host_text a) = Ok (Host u)"
    by simp_all
  have ssl: "cfg_SSLMode cfg = (case map_of (first_values (parse_query (RawQuery u))) ''sslmode'' of
      Some v \<Rightarrow> v | None \<Rightarrow> if sch \<in> set http_schemes then SSL_MODE_DISABLE else [])"
    using AddParams_SSLMode [OF p(3) assms(2) distinct_first_values] dsn_base_SSLMode [OF p(2)] u(1) p(5)
    by (simp add: dsn_host_keeps dsn_authority_keeps split: option.split)
  have endpoint: "apiEndpoint (NewAPIClientFromConfig cfg uuid hint) =
      (if cfg_SSLMode cfg = SSL_MODE_DISABLE then ''http://'' else ''https://'') @ cfg_Host cfg"
    by (simp add: NewAPIClientFromConfig_def api_scheme_def)
  have "sch \<in> set https_schemes \<Longrightarrow> cfg_SSLMode cfg \<noteq> SSL_MODE_DISABLE"
    using p(4,5) u(1) by (simp add: dsn_host_keeps)
  moreover have "cfg_Host cfg \<in> {Host u, JoinHostPort (Host u) ''80'', JoinHostPort (Host u) ''443''}"
    using dsn_host_keeps(2) [of u c] p(5) by simp
  moreover have "cfg_SSLMode cfg = SSL_MODE_DISABLE \<longleftrightarrow>
      (case map_of (first_values (parse_query (RawQuery u))) ''sslmode'' of
         Some mode \<Rightarrow> mode = SSL_MODE_DISABLE | None \<Rightarrow> sch \<in> set http_schemes)"
    unfolding ssl by (simp add: SSL_MODE_DISABLE_def split: option.split)
  ultimately show ?thesis using u(2) p(1) endpoint by auto
qed

definition demo_config :: config where
  "demo_config =
     NewConfig\<lparr>cfg_User := ''u'', cfg_Password := ''p@evil'', cfg_Host := ''lake:443'', cfg_Database := ''db'',
       cfg_Debug := True, cfg_EmptyFieldAs := ''string''\<rparr>"

lemma demo_config_parsed:
  "ParseDSN (\<lambda>s. s) (\<lambda>_. None) id (''https'' @ ''://'' @ ''u:p@evil@lake'' @ ''/db?debug=1'') = Ok demo_config"
  by code_simp

lemma ParseDSN_endpoint_witness:
  "(\<exists>h. parse_host ''lake'' = Ok h
      \<and> cfg_Host demo_config \<in> {h, JoinHostPort h ''80'', JoinHostPort h ''443''})
    \<and> apiEndpoint (NewAPIClientFromConfig demo_config ''s'' ''h'') = ''https://'' @ cfg_Host demo_config"
proof -
  have c: "dsn_scheme ''https''" "host_text ''u:p@evil@lake'' = ''lake''" "''https'' \<in> set https_schemes"
    by code_simp+
  have "permutes_entries id" "set ''u:p@evil@lake'' \<inter> set ''/?#'' = {}" "hd ''/db?debug=1'' \<in> set ''/?#''"
    by (simp_all add: permutes_entries_def)
  from ParseDSN_endpoint [OF demo_config_parsed this(1) c(1) this(2) disjI2 [OF this(3)], of "''s''" "''h''"] c
  show ?thesis by simp
qed

subsection \<open>The round trip\<close>

text \<open>Configurations that a DSN can express: what \<open>FormatDSN\<close> drops has its default, and the session
  settings agree with the fields that are options as well.\<close>

definition in_int64 :: "int \<Rightarrow> bool" where
  "in_int64 i \<longleftrightarrow> int64_min \<le> i \<and> i \<le> int64_max"

definition host_stable :: "string \<Rightarrow> bool" where
  "host_stable h \<longleftrightarrow> parse_host (url_escape encodeHost h) = Ok h \<and> SplitHostPort h \<noteq> None"

definition location_stable :: "tzdb \<Rightarrow> config \<Rightarrow> bool" where
  "location_stable tz cfg \<longleftrightarrow>
     (case (cfg_Location cfg, map_of (params_of cfg) ''timezone'') of
        (Some UTC, None) \<Rightarrow> True
      | (Some l, Some t) \<Rightarrow> LoadLocation tz t = Ok l \<and> (l \<noteq> UTC \<longrightarrow> t = location_name l)
      | _ \<Rightarrow> False)"

definition compression_stable :: "config \<Rightarrow> bool" where
  "compression_stable cfg \<longleftrightarrow>
     (case map_of (params_of cfg) ''enable_http_compression'' of
        None \<Rightarrow> \<not> cfg_GzipCompression cfg
      | Some v \<Rightarrow> parse_bool v = Ok (cfg_GzipCompression cfg))"

definition expressible :: "tzdb \<Rightarrow> config \<Rightarrow> bool" where
  "expressible tz cfg \<longleftrightarrow>
     cfg_AccessTokenLoader cfg = None \<and> \<not> cfg_StatsTracker cfg \<and> cfg_UserAgent cfg = []
     \<and> cfg_loginConfigured cfg \<and> cfg_EmptyFieldAs cfg \<noteq> []
     \<and> cfg_QueryResultFormat cfg \<in> {QueryResultFormatJSON, QueryResultFormatArrow}
     \<and> in_int64 (cfg_Timeout cfg) \<and> in_int64 (cfg_WaitTimeSecs cfg)
     \<and> in_int64 (cfg_MaxRowsInBuffer cfg) \<and> in_int64 (cfg_MaxRowsPerPage cfg)
     \<and> (cfg_User cfg = [] \<longrightarrow> cfg_Password cfg = [])
     \<and> (cfg_Database cfg = [] \<or> hd (cfg_Database cfg) \<noteq> CHR ''/'')
     \<and> host_stable (cfg_Host cfg) \<and> cfg_Params cfg \<noteq> None
     \<and> distinct (map fst (params_of cfg)) \<and> list_all (\<lambda>kv. is_setting (fst kv)) (params_of cfg)
     \<and> location_stable tz cfg \<and> compression_stable cfg"

text \<open>The printed text.\<close>

definition format_authority :: "config \<Rightarrow> string" where
  "format_authority cfg =
     (case format_user cfg of None \<Rightarrow> [] | Some ui \<Rightarrow> userinfo_string ui @ ''@'')
     @ url_escape encodeHost (cfg_Host cfg)"

definition format_path :: "config \<Rightarrow> string" where
  "format_path cfg =
     CHR ''/'' # (if cfg_Database cfg = [] then []
                  else if cfg_Database cfg = ''*'' then ''*'' else url_escape encodePath (cfg_Database cfg))"

lemma host_stable_nonempty: "host_stable h \<Longrightarrow> h \<noteq> []"
  by (auto simp: host_stable_def SplitHostPort_def)

lemma escape_byte_hd: "\<exists>d ds. escape_byte mode c = d # ds \<and> (d = c \<or> d = CHR ''%'' \<or> d = CHR ''+'')"
  by (simp add: escape_byte_def pct_def)

lemma path_escape_hd:
  assumes "s \<noteq> []" "hd s \<noteq> CHR ''/''"
  shows "url_escape encodePath s \<noteq> []" "hd (url_escape encodePath s) \<noteq> CHR ''/''"
proof -
  obtain c cs where s: "s = c # cs" using assms(1) by (cases s) auto
  obtain d ds where "escape_byte encodePath c = d # ds" "d = c \<or> d = CHR ''%'' \<or> d = CHR ''+''"
    using escape_byte_hd by blast
  with s assms show "url_escape encodePath s \<noteq> []" "hd (url_escape encodePath s) \<noteq> CHR ''/''" by auto
qed

lemma slash_path: "escape_byte encodePath CHR ''/'' = ''/''"
  by code_simp

lemma update_nonempty: "AList.update k v m \<noteq> []"
  by (cases m) auto

lemma set_when_True: "set_when True k v q = AList.update k v q"
  by (simp add: set_when_def)

lemma format_query_nonempty: "format_query order cfg \<noteq> []"
proof -
  have f: "m \<noteq> [] \<Longrightarrow> foldl (\<lambda>q (k, v). AList.update k v q) m ps \<noteq> []" for m ps :: strmap
  proof (induction ps arbitrary: m)
    case (Cons p ps)
    from Cons.IH [OF update_nonempty [of "fst p" "snd p" m]] show ?case by (simp add: case_prod_beta)
  qed simp
  have "format_options cfg \<noteq> []"
    unfolding format_options_def Let_def comp_apply
    by (simp only: set_when_True update_nonempty not_False_eq_True)
  then show ?thesis by (simp add: format_query_def f)
qed

lemma FormatDSN_text:
  assumes "host_stable (cfg_Host cfg)" "cfg_Database cfg = [] \<or> hd (cfg_Database cfg) \<noteq> CHR ''/''"
  shows "FormatDSN order cfg = ''lake'' @ ''://'' @ format_authority cfg @ format_path cfg @ ''?''
    @ values_encode (format_query order cfg)"
proof -
  note q = values_encode_nonempty [OF format_query_nonempty [of order cfg]]
  note h = host_stable_nonempty [OF assms(1)]
  have star: "url_escape encodePath ''*'' \<noteq> []" by code_simp
  show ?thesis
  proof (cases "cfg_Database cfg = []")
    case True
    then show ?thesis using q h
      by (simp add: FormatDSN_def url_string_def Let_def escaped_path_def empty_url_def defaultScheme_def
          format_authority_def format_path_def slash_path split: option.split)
  next
    case False
    with assms(2) path_escape_hd [of "cfg_Database cfg"] q h show ?thesis
      by (simp add: FormatDSN_def url_string_def Let_def escaped_path_def empty_url_def defaultScheme_def
          format_authority_def format_path_def split: option.split)
  qed
qed

text \<open>The text parses back to its parts.\<close>

lemma host_clean: "set (url_escape encodeHost h) \<inter> set ''/?#@'' = {}"
  using host_escape_free [of _ h] by auto

lemma format_authority_parts:
  assumes "host_stable (cfg_Host cfg)"
  shows "set (format_authority cfg) \<inter> set ''/?#'' = {}"
    "list_all clean (format_authority cfg)"
    "encoded_authority (format_authority cfg) = format_authority cfg"
    "parse_authority (format_authority cfg) = Ok (format_user cfg, cfg_Host cfg)"
proof -
  have u: "set (userinfo_string ui) \<inter> set ''/?#@'' = {}" for ui
    using userinfo_free [of _ ui] by auto
  show "set (format_authority cfg) \<inter> set ''/?#'' = {}"
    using u host_clean [of "cfg_Host cfg"] by (auto simp: format_authority_def split: option.split)
  have "clean c" if "c \<in> set (userinfo_string ui)" for c ui
    using that url_escape_clean [of c encodeUserPassword]
    by (cases ui) (auto simp: userinfo_string_def clean_def byte_of_def split: option.splits)
  then show "list_all clean (format_authority cfg)"
    using url_escape_clean [of _ encodeHost "cfg_Host cfg"]
    by (auto simp: format_authority_def list_all_iff clean_def byte_of_def split: option.splits)
  have no_at: "CHR ''@'' \<notin> set (url_escape encodeHost (cfg_Host cfg))" by (rule host_escape_free) simp
  have i: "last_index (userinfo_string ui @ ''@'' @ url_escape encodeHost (cfg_Host cfg)) CHR ''@''
      = Some (length (userinfo_string ui))" for ui
    using last_index_append [OF no_at] by simp
  have none: "last_index (url_escape encodeHost (cfg_Host cfg)) CHR ''@'' = None"
    using last_index_None no_at by blast
  show "encoded_authority (format_authority cfg) = format_authority cfg"
    using i none encode_userinfo_printed
    by (simp add: encoded_authority_def format_authority_def split: option.split)
  show "parse_authority (format_authority cfg) = Ok (format_user cfg, cfg_Host cfg)"
    using assms parse_authority_printed [OF _ no_at] none
    by (simp add: format_authority_def host_stable_def split: option.split)
      (simp add: parse_authority_def)
qed

lemma format_path_parts:
  "set (format_path cfg) \<inter> set ''?#'' = {}" "list_all clean (format_path cfg)" "format_path cfg \<noteq> []"
  "hd (format_path cfg) = CHR ''/''" "url_unescape encodePath (format_path cfg) = Ok (CHR ''/'' # cfg_Database cfg)"
proof -
  show "set (format_path cfg) \<inter> set ''?#'' = {}"
    using path_escape_free [of _ "cfg_Database cfg"] by (auto simp: format_path_def)
  show "list_all clean (format_path cfg)"
    using url_escape_clean [of _ encodePath "cfg_Database cfg"]
    by (auto simp: format_path_def list_all_iff clean_def byte_of_def)
  show "format_path cfg \<noteq> []" "hd (format_path cfg) = CHR ''/''" by (simp_all add: format_path_def)
  show "url_unescape encodePath (format_path cfg) = Ok (CHR ''/'' # cfg_Database cfg)"
    using url_unescape_escape [of encodePath encodePath "cfg_Database cfg"]
    by (auto simp: format_path_def undoes_def)
qed

lemma FormatDSN_parses:
  assumes "host_stable (cfg_Host cfg)" "cfg_Database cfg = [] \<or> hd (cfg_Database cfg) \<noteq> CHR ''/''"
  shows "\<exists>raw. url_parse (autoEncodeUserPassInDSN (FormatDSN order cfg)) =
    Ok (empty_url\<lparr>Scheme := ''lake'', User := format_user cfg, Host := cfg_Host cfg,
      Path := CHR ''/'' # cfg_Database cfg, RawPath := raw,
      RawQuery := values_encode (format_query order cfg)\<rparr>)"
proof -
  note A = format_authority_parts [OF assms(1)] and P = format_path_parts [of cfg]
  let ?q = "values_encode (format_query order cfg)"
  have good: "good_scheme ''lake''" by code_simp
  have r: "format_path cfg @ ''?'' @ ?q = [] \<or> hd (format_path cfg @ ''?'' @ ?q) \<in> set ''/?#''"
    by (simp add: format_path_def)
  have e: "autoEncodeUserPassInDSN (FormatDSN order cfg) = FormatDSN order cfg"
    unfolding FormatDSN_text [OF assms] autoEncode_authority [OF good A(1) r]
    using A(3) by (simp add: encoded_authority_def)
  have q: "CHR ''#'' \<notin> set ?q" "list_all clean ?q" "?q \<noteq> []"
    using values_encode_chars [of _ "format_query order cfg"] values_encode_nonempty [OF format_query_nonempty]
    by (auto simp: list_all_iff)
  show ?thesis
    unfolding e unfolding FormatDSN_text [OF assms]
    using url_parse_text [OF good A(1) P(1) q(1) P(3,4) q(3) _ A(4) P(5)] A(2) P(2) q(2) by simp
qed

text \<open>What the printed query says of every option.\<close>

lemma set_when_lookup: "map_of (set_when b k v q) j = (if b \<and> j = k then Some v else map_of q j)"
  by (simp add: set_when_def update_conv')

lemma format_options_lookup:
  "map_of (format_options cfg) ''timeout'' = (if cfg_Timeout cfg \<noteq> 0 then Some (duration_string (cfg_Timeout cfg)) else None)"
  "map_of (format_options cfg) ''wait_time_secs'' = (if cfg_WaitTimeSecs cfg \<noteq> 0 then Some (format_int (cfg_WaitTimeSecs cfg)) else None)"
  "map_of (format_options cfg) ''max_rows_in_buffer'' = (if cfg_MaxRowsInBuffer cfg \<noteq> 0 then Some (format_int (cfg_MaxRowsInBuffer cfg)) else None)"
  "map_of (format_options cfg) ''max_rows_per_page'' = (if cfg_MaxRowsPerPage cfg \<noteq> 0 then Some (format_int (cfg_MaxRowsPerPage cfg)) else None)"
  "map_of (format_options cfg) ''location'' = (case cfg_Location cfg of None \<Rightarrow> None | Some l \<Rightarrow> if l = UTC then None else Some (location_name l))"
  "map_of (format_options cfg) ''debug'' = (if cfg_Debug cfg then Some ''1'' else None)"
  "map_of (format_options cfg) ''enable_http_compression'' = (if cfg_GzipCompression cfg then Some ''1'' else None)"
  "map_of (format_options cfg) ''presign_allow_private'' = (if cfg_PresignAllowPrivate cfg then Some ''true'' else None)"
  "map_of (format_options cfg) ''presigned_url_disabled'' = (if cfg_PresignedURLDisabled cfg then Some ''1'' else None)"
  "map_of (format_options cfg) ''empty_field_as'' = Some (if cfg_EmptyFieldAs cfg \<noteq> [] then cfg_EmptyFieldAs cfg else ''string'')"
  "map_of (format_options cfg) ''tls_config'' = (if cfg_TLSConfig cfg \<noteq> [] then Some (cfg_TLSConfig cfg) else None)"
  "map_of (format_options cfg) ''tenant'' = (if cfg_Tenant cfg \<noteq> [] then Some (cfg_Tenant cfg) else None)"
  "map_of (format_options cfg) ''warehouse'' = (if cfg_Warehouse cfg \<noteq> [] then Some (cfg_Warehouse cfg) else None)"
  "map_of (format_options cfg) ''role'' = (if cfg_Role cfg \<noteq> [] then Some (cfg_Role cfg) else None)"
  "map_of (format_options cfg) ''access_token'' = (if cfg_AccessToken cfg \<noteq> [] then Some (cfg_AccessToken cfg) else None)"
  "map_of (format_options cfg) ''access_token_file'' = (if cfg_AccessTokenFile cfg \<noteq> [] then Some (cfg_AccessTokenFile cfg) else None)"
  "map_of (format_options cfg) ''sslmode'' = (if cfg_SSLMode cfg \<noteq> [] then Some (cfg_SSLMode cfg) else None)"
  "map_of (format_options cfg) ''enable_otel'' = (if cfg_EnableOpenTelemetry cfg then Some ''true'' else None)"
  "map_of (format_options cfg) ''login'' = (if effectiveLoginEnabled (Some cfg) then None else Some ''disable'')"
  "map_of (format_options cfg) ''query_result_format'' =
     (if cfg_QueryResultFormat cfg \<noteq> [] \<and> cfg_QueryResultFormat cfg \<noteq> QueryResultFormatJSON
      then Some (cfg_QueryResultFormat cfg) else None)"
  "map_of (format_options cfg) ''default_format'' = None"
  "map_of (format_options cfg) ''query'' = None"
  "map_of (format_options cfg) ''database'' = None"
  by (simp_all add: format_options_def Let_def set_when_lookup split: option.split)

lemma format_options_other: "k \<notin> set option_names \<Longrightarrow> map_of (format_options cfg) k = None"
  by (simp add: format_options_def Let_def set_when_lookup option_names_def)

lemma distinct_format_options: "distinct (map fst (format_options cfg))"
proof -
  have d: "distinct (map fst q) \<Longrightarrow> distinct (map fst (set_when b k v q))" for b k v q
    by (simp add: set_when_def distinct_update)
  show ?thesis unfolding format_options_def Let_def comp_apply by (intro d) simp
qed

lemma foldl_update:
  "distinct (map fst q) \<Longrightarrow> distinct (map fst (foldl (\<lambda>q (k, v). AList.update k v q) q ps))"
  "distinct (map fst ps) \<Longrightarrow> map_of (foldl (\<lambda>q (k, v). AList.update k v q) q ps) = map_of q ++ map_of ps"
proof (induction ps arbitrary: q)
  case (Cons kv ps)
  {
    case 1
    with Cons.IH(1) [of "AList.update (fst kv) (snd kv) q"] show ?case by (simp add: case_prod_beta distinct_update)
  next
    case 2
    then have "map_of ps (fst kv) = None" by (simp add: map_of_eq_None_iff)
    with 2 Cons.IH(2) [of "AList.update (fst kv) (snd kv) q"] show ?case
      by (auto simp: case_prod_beta update_conv' map_add_def fun_eq_iff split: option.split)
  }
qed simp_all

lemma format_query_facts:
  assumes "permutes_entries order" "distinct (map fst (params_of cfg))"
  shows "distinct (map fst (format_query order cfg))"
    "map_of (format_query order cfg) = map_of (format_options cfg) ++ map_of (params_of cfg)"
proof -
  have "mset (order (params_of cfg)) = mset (params_of cfg)" using assms(1) by (simp add: permutes_entries_def)
  note d = distinct_keys_mset [OF this assms(2)]
  from d(2) foldl_update(1) [OF distinct_format_options] foldl_update(2) [OF d(1), of "format_options cfg"]
  show "distinct (map fst (format_query order cfg))"
    "map_of (format_query order cfg) = map_of (format_options cfg) ++ map_of (params_of cfg)"
    by (simp_all add: format_query_def)
qed

text \<open>The options the query sets are accepted.\<close>

lemma accepted_simps:
  "accepted tz (''timeout'', v) \<longleftrightarrow> ParseDuration v \<noteq> None"
  "accepted tz (''wait_time_secs'', v) \<longleftrightarrow> is_ok (parse_int64 v)"
  "accepted tz (''max_rows_in_buffer'', v) \<longleftrightarrow> is_ok (parse_int64 v)"
  "accepted tz (''max_rows_per_page'', v) \<longleftrightarrow> is_ok (parse_int64 v)"
  "accepted tz (''location'', v) \<longleftrightarrow> is_ok (LoadLocation tz v)"
  "accepted tz (''debug'', v) \<longleftrightarrow> is_ok (parse_bool v)"
  "accepted tz (''enable_http_compression'', v) \<longleftrightarrow> is_ok (parse_bool v)"
  "accepted tz (''presign_allow_private'', v) \<longleftrightarrow> is_ok (parse_bool v)"
  "accepted tz (''presigned_url_disabled'', v) \<longleftrightarrow> is_ok (parse_bool v)"
  "accepted tz (''empty_field_as'', v)" "accepted tz (''tls_config'', v)" "accepted tz (''tenant'', v)"
  "accepted tz (''warehouse'', v)" "accepted tz (''role'', v)" "accepted tz (''access_token'', v)"
  "accepted tz (''access_token_file'', v)" "accepted tz (''sslmode'', v)"
  "accepted tz (''enable_otel'', v) \<longleftrightarrow> is_ok (parse_bool v)"
  "accepted tz (''login'', v) \<longleftrightarrow> to_lower (trim_space v) \<in> {[], ''enable'', ''disable''}"
  "accepted tz (''query_result_format'', v) \<longleftrightarrow> is_ok (normalizeQueryResultFormat v)"
  "k \<notin> set option_names \<Longrightarrow> accepted tz (k, v)"
  using parse_int64_no_panic [of v] parse_bool_no_panic [of v] LoadLocation_no_panic [of tz v]
  by (auto simp: accepted_def param_steps duration_param_def int_param_def bool_param_def location_param_def
      format_param_def normalizeQueryResultFormat_def NewConfig_def option_names_def is_ok_def is_panic_def
      split: option.splits outcome.splits if_splits)

text \<open>The query as \<open>AddParams\<close> sees it, with the alias of the location filled in.\<close>

lemma read_query:
  assumes "permutes_entries order" "expressible tz cfg"
  defines "q \<equiv> first_values (parse_query (values_encode (format_query order cfg)))"
  shows "distinct (map fst q)" "map_of q = map_of (format_options cfg) ++ map_of (params_of cfg)"
proof -
  have d: "distinct (map fst (params_of cfg))" using assms(2) by (simp add: expressible_def)
  note f = format_query_facts [OF assms(1) d]
  have "mset (sort_entries (format_query order cfg)) = mset (format_query order cfg)" by simp
  note s = distinct_keys_mset [OF this f(1)]
  have "q = sort_entries (format_query order cfg)"
    unfolding q_def parse_values_encode [OF format_query_nonempty] by (rule first_values_distinct [OF s(1)])
  with s f(2) show "distinct (map fst q)" "map_of q = map_of (format_options cfg) ++ map_of (params_of cfg)"
    by simp_all
qed

lemma no_option_in_params:
  assumes "expressible tz cfg" "k \<in> set option_names" "k \<noteq> ''enable_http_compression''"
  shows "map_of (params_of cfg) k = None"
proof -
  have "k \<notin> fst ` set (params_of cfg)"
    using assms by (auto simp: expressible_def is_setting_def list_all_iff)
  then show ?thesis by (simp add: map_of_eq_None_iff)
qed

lemma timezone_setting: "''timezone'' \<notin> set option_names"
  by (simp add: option_names_def)

lemma alias_query:
  assumes "expressible tz cfg" "map_of q = map_of (format_options cfg) ++ map_of (params_of cfg)"
    and "distinct (map fst q)"
  shows "\<exists>ps. alias_params q = Ok ps \<and> distinct (map fst ps)
    \<and> map_of ps = (map_of q)(''location'' := map_of (params_of cfg) ''timezone'')"
proof -
  have ls: "location_stable tz cfg" using assms(1) by (simp add: expressible_def)
  have l: "map_of q ''location'' = (case cfg_Location cfg of None \<Rightarrow> None | Some l \<Rightarrow> if l = UTC then None else Some (location_name l))"
    using no_option_in_params [OF assms(1), of "''location''"] assms(2)
    by (simp add: option_names_def map_add_def format_options_lookup)
  have t: "map_of q ''timezone'' = map_of (params_of cfg) ''timezone''"
    using assms(2) format_options_other [OF timezone_setting] by (simp add: map_add_def split: option.split)
  from ls l t obtain ps where ps: "alias_params q = Ok ps"
    "map_of ps = (map_of q)(''location'' := map_of (params_of cfg) ''timezone'')"
    by (cases "cfg_Location cfg"; cases "map_of (params_of cfg) ''timezone''")
      (auto simp: location_stable_def alias_params_def update_conv' fun_upd_idem split: if_splits location.splits)
  with alias_params_lookup(2) [OF ps(1) assms(3)] show ?thesis by blast
qed

lemma parse_bool_marks: "parse_bool ''1'' = Ok True" "parse_bool ''true'' = Ok True"
  by (simp_all add: parse_bool_def)

lemma login_mark: "to_lower (trim_space ''disable'') = ''disable''"
  by code_simp

lemma format_marks:
  "normalizeQueryResultFormat QueryResultFormatArrow = Ok QueryResultFormatArrow"
  by code_simp

lemma query_lookup:
  assumes "expressible tz cfg" "map_of q = map_of (format_options cfg) ++ map_of (params_of cfg)"
    and "map_of ps = (map_of q)(''location'' := map_of (params_of cfg) ''timezone'')"
  shows "k \<in> set option_names \<Longrightarrow> k \<notin> {''enable_http_compression'', ''location''} \<Longrightarrow> map_of ps k = map_of (format_options cfg) k"
    "map_of ps ''location'' = map_of (params_of cfg) ''timezone''"
    "k \<notin> set option_names \<Longrightarrow> map_of ps k = map_of (params_of cfg) k"
    "map_of ps ''enable_http_compression'' = map_of (params_of cfg) ''enable_http_compression''"
proof -
  show "k \<in> set option_names \<Longrightarrow> k \<notin> {''enable_http_compression'', ''location''} \<Longrightarrow> map_of ps k = map_of (format_options cfg) k"
    using no_option_in_params [OF assms(1)] assms(2,3) by (simp add: map_add_def)
  show "map_of ps ''location'' = map_of (params_of cfg) ''timezone''" using assms(3) by simp
  show "k \<notin> set option_names \<Longrightarrow> map_of ps k = map_of (params_of cfg) k"
    using format_options_other [of k cfg] assms(2,3) by (auto simp: option_names_def map_add_def split: option.split)
  have "map_of (params_of cfg) ''enable_http_compression'' = None \<Longrightarrow> \<not> cfg_GzipCompression cfg"
    using assms(1) by (simp add: expressible_def compression_stable_def)
  then show "map_of ps ''enable_http_compression'' = map_of (params_of cfg) ''enable_http_compression''"
    using assms(2,3) by (auto simp: map_add_def format_options_lookup split: option.split)
qed

lemma accepted_query:
  assumes "expressible tz cfg" "map_of q = map_of (format_options cfg) ++ map_of (params_of cfg)"
    and "map_of ps = (map_of q)(''location'' := map_of (params_of cfg) ''timezone'')" "distinct (map fst ps)"
  shows "list_all (accepted tz) ps"
proof -
  note look = query_lookup [OF assms(1-3)] and x = assms(1) [unfolded expressible_def]
  have opt: "list_all (\<lambda>n. \<forall>v. map_of ps n = Some v \<longrightarrow> accepted tz (n, v)) option_names"
  proof -
    have i: "in_int64 i \<Longrightarrow> is_ok (parse_int64 (format_int i))" for i
      using parse_int64_format_int [of i] by (simp add: in_int64_def)
    have d: "ParseDuration (duration_string (cfg_Timeout cfg)) \<noteq> None"
      using ParseDuration_string [of "cfg_Timeout cfg"] x by (simp add: in_int64_def)
    have l: "map_of (params_of cfg) ''timezone'' = Some v \<Longrightarrow> is_ok (LoadLocation tz v)" for v
      using x by (auto simp: location_stable_def split: option.splits location.splits)
    have c: "map_of (params_of cfg) ''enable_http_compression'' = Some v \<Longrightarrow> is_ok (parse_bool v)" for v
      using x by (auto simp: compression_stable_def split: option.splits)
    have f: "cfg_QueryResultFormat cfg \<noteq> QueryResultFormatJSON \<Longrightarrow>
        is_ok (normalizeQueryResultFormat (cfg_QueryResultFormat cfg))"
      using x format_marks by auto
    show ?thesis
      using i [of "cfg_WaitTimeSecs cfg"] i [of "cfg_MaxRowsInBuffer cfg"] i [of "cfg_MaxRowsPerPage cfg"]
        d l c f x look(1) look(2) look(4) login_mark
      by (simp add: option_names_def format_options_lookup accepted_simps parse_bool_marks split: if_splits)
  qed
  have "accepted tz (k, v)" if "map_of ps k = Some v" for k v
  proof (cases "k \<in> set option_names")
    case True
    with opt that show ?thesis by (auto simp: list_all_iff)
  qed (rule accepted_simps)
  with assms(4) show ?thesis by (auto simp: list_all_iff)
qed

lemma lookup_or_simps:
  "lookup_or ps k f d = (case map_of ps k of None \<Rightarrow> d | Some v \<Rightarrow> f v)"
  "(case (if b then Some v else None) of None \<Rightarrow> d | Some v \<Rightarrow> f v) = (if b then f v else d)"
  "(case (if b then None else Some v) of None \<Rightarrow> d | Some v \<Rightarrow> f v) = (if b then d else f v)"
  by (simp_all add: lookup_or_def)

lemma query_options:
  assumes "\<forall>k \<in> set option_names - {''enable_http_compression'', ''location''}.
    map_of ps k = map_of (format_options cfg) k"
  shows
    "lookup_or ps ''timeout'' f d = (if cfg_Timeout cfg \<noteq> 0 then f (duration_string (cfg_Timeout cfg)) else d)"
    "lookup_or ps ''wait_time_secs'' f d = (if cfg_WaitTimeSecs cfg \<noteq> 0 then f (format_int (cfg_WaitTimeSecs cfg)) else d)"
    "lookup_or ps ''max_rows_in_buffer'' f d = (if cfg_MaxRowsInBuffer cfg \<noteq> 0 then f (format_int (cfg_MaxRowsInBuffer cfg)) else d)"
    "lookup_or ps ''max_rows_per_page'' f d = (if cfg_MaxRowsPerPage cfg \<noteq> 0 then f (format_int (cfg_MaxRowsPerPage cfg)) else d)"
    "lookup_or ps ''debug'' g e = (if cfg_Debug cfg then g ''1'' else e)"
    "lookup_or ps ''presign_allow_private'' g e = (if cfg_PresignAllowPrivate cfg then g ''true'' else e)"
    "lookup_or ps ''presigned_url_disabled'' g e = (if cfg_PresignedURLDisabled cfg then g ''1'' else e)"
    "lookup_or ps ''empty_field_as'' h c = h (if cfg_EmptyFieldAs cfg \<noteq> [] then cfg_EmptyFieldAs cfg else ''string'')"
    "lookup_or ps ''tls_config'' h c = (if cfg_TLSConfig cfg \<noteq> [] then h (cfg_TLSConfig cfg) else c)"
    "lookup_or ps ''tenant'' h c = (if cfg_Tenant cfg \<noteq> [] then h (cfg_Tenant cfg) else c)"
    "lookup_or ps ''warehouse'' h c = (if cfg_Warehouse cfg \<noteq> [] then h (cfg_Warehouse cfg) else c)"
    "lookup_or ps ''role'' h c = (if cfg_Role cfg \<noteq> [] then h (cfg_Role cfg) else c)"
    "lookup_or ps ''access_token'' h c = (if cfg_AccessToken cfg \<noteq> [] then h (cfg_AccessToken cfg) else c)"
    "lookup_or ps ''access_token_file'' h c = (if cfg_AccessTokenFile cfg \<noteq> [] then h (cfg_AccessTokenFile cfg) else c)"
    "lookup_or ps ''sslmode'' h c = (if cfg_SSLMode cfg \<noteq> [] then h (cfg_SSLMode cfg) else c)"
    "lookup_or ps ''enable_otel'' g e = (if cfg_EnableOpenTelemetry cfg then g ''true'' else e)"
    "lookup_or ps ''login'' g e = (if effectiveLoginEnabled (Some cfg) then e else g ''disable'')"
    "lookup_or ps ''query_result_format'' h c =
       (if cfg_QueryResultFormat cfg \<noteq> [] \<and> cfg_QueryResultFormat cfg \<noteq> QueryResultFormatJSON
        then h (cfg_QueryResultFormat cfg) else c)"
  by (simp_all only: lookup_or_simps(1)) (subst assms [rule_format], simp add: option_names_def, simp, simp add: format_options_lookup)+

lemma config_of_query:
  assumes "expressible tz cfg" "map_of q = map_of (format_options cfg) ++ map_of (params_of cfg)"
    and "map_of ps = (map_of q)(''location'' := map_of (params_of cfg) ''timezone'')"
    and "base = NewConfig\<lparr>cfg_EmptyFieldAs := ''string'', cfg_User := cfg_User cfg,
      cfg_Password := cfg_Password cfg, cfg_Database := cfg_Database cfg\<rparr>"
  shows "(config_with tz ps base)\<lparr>cfg_Host := cfg_Host cfg\<rparr> = cfg\<lparr>cfg_Params := None\<rparr>"
proof -
  note look = query_lookup [OF assms(1-3)] and x = assms(1) [unfolded expressible_def]
  have n: "snd (int_param (\<lambda>s. s) (format_int i)) = i" if "in_int64 i" for i
    using parse_int64_format_int [of i] that by (simp add: int_param_def in_int64_def)
  have d: "snd (duration_param (\<lambda>s. s) (duration_string (cfg_Timeout cfg))) = cfg_Timeout cfg"
    using ParseDuration_string [of "cfg_Timeout cfg"] x by (simp add: duration_param_def in_int64_def)
  have b: "snd (bool_param (\<lambda>s. s) ''1'') = True" "snd (bool_param (\<lambda>s. s) ''true'') = True"
    by (simp_all add: bool_param_def parse_bool_marks)
  have f: "cfg_QueryResultFormat cfg \<noteq> QueryResultFormatJSON \<Longrightarrow>
      snd (format_param (cfg_QueryResultFormat cfg)) = cfg_QueryResultFormat cfg"
    using x format_marks by (auto simp: format_param_def)
  have loc: "lookup_or ps ''location'' (\<lambda>v. snd (location_param tz v)) (Some UTC) = cfg_Location cfg"
  proof -
    have "location_stable tz cfg" using x by simp
    then show ?thesis unfolding lookup_or_def look(2)
      by (cases "cfg_Location cfg"; cases "map_of (params_of cfg) ''timezone''")
        (auto simp: location_stable_def location_param_def split: location.splits)
  qed
  have gz: "lookup_or ps ''enable_http_compression'' (\<lambda>v. snd (bool_param (\<lambda>s. s) v)) False = cfg_GzipCompression cfg"
  proof -
    have "compression_stable cfg" using x by simp
    then show ?thesis unfolding lookup_or_def look(4)
      by (cases "map_of (params_of cfg) ''enable_http_compression''")
        (auto simp: compression_stable_def bool_param_def)
  qed
  have "\<forall>k \<in> set option_names - {''enable_http_compression'', ''location''}.
    map_of ps k = map_of (format_options cfg) k"
    using look(1) by blast
  note opts = query_options [OF this]
  have q: "cfg_QueryResultFormat cfg \<noteq> []"
    using x by (auto simp: QueryResultFormatJSON_def QueryResultFormatArrow_def)
  have simple: "cfg_AccessTokenLoader cfg = None" "\<not> cfg_StatsTracker cfg" "cfg_UserAgent cfg = []"
    "cfg_loginConfigured cfg" "cfg_EmptyFieldAs cfg \<noteq> []"
    using x by simp_all
  have ints: "in_int64 (cfg_WaitTimeSecs cfg)" "in_int64 (cfg_MaxRowsInBuffer cfg)" "in_int64 (cfg_MaxRowsPerPage cfg)"
    using x by simp_all
  show ?thesis
    unfolding assms(4)
    by (rule config.equality)
      (simp_all add: config_with_def Let_def NewConfig_def opts loc gz login_mark simple n [OF ints(1)] n [OF ints(2)]
        n [OF ints(3)] d b f q effectiveLoginEnabled_def)
qed

text \<open>C9: (DSN round trip) A configuration that a DSN can express survives printing and parsing: the
  DSN is accepted, and the parsed configuration has the same fields and the same session settings,
  in whatever order the maps are visited on either side.\<close>

theorem FormatDSN_ParseDSN:
  assumes "expressible tz cfg" "permutes_entries order" "permutes_entries order'"
  shows "\<exists>cfg'. ParseDSN quoted tz order' (FormatDSN order cfg) = Ok cfg' \<and> same_config_as cfg' cfg"
proof -
  note x = assms(1) [unfolded expressible_def]
  let ?q = "first_values (parse_query (values_encode (format_query order cfg)))"
  let ?base = "NewConfig\<lparr>cfg_User := cfg_User cfg, cfg_Password := cfg_Password cfg, cfg_Database := cfg_Database cfg\<rparr>"
  obtain raw where u: "url_parse (autoEncodeUserPassInDSN (FormatDSN order cfg)) =
      Ok (empty_url\<lparr>Scheme := ''lake'', User := format_user cfg, Host := cfg_Host cfg,
        Path := CHR ''/'' # cfg_Database cfg, RawPath := raw, RawQuery := values_encode (format_query order cfg)\<rparr>)"
    using FormatDSN_parses [of cfg order] x by blast
  note rq = read_query [OF assms(2,1)]
  obtain ps where ps: "alias_params ?q = Ok ps" "distinct (map fst ps)"
    "map_of ps = (map_of ?q)(''location'' := map_of (params_of cfg) ''timezone'')"
    using alias_query [OF assms(1) rq(2,1)] by blast
  note look = query_lookup [OF assms(1) rq(2) ps(3)]
  have base: "dsn_authority (empty_url\<lparr>Scheme := ''lake'', User := format_user cfg, Host := cfg_Host cfg,
        Path := CHR ''/'' # cfg_Database cfg, RawPath := raw, RawQuery := values_encode (format_query order cfg)\<rparr>)
      NewConfig = ?base"
    using x by (auto simp: dsn_authority_def format_user_def Let_def NewConfig_def intro!: config.equality)
  have mk: "makeDefaultConfigValue ?base = NewConfig\<lparr>cfg_EmptyFieldAs := ''string'', cfg_User := cfg_User cfg,
      cfg_Password := cfg_Password cfg, cfg_Database := cfg_Database cfg\<rparr>"
    by (simp add: makeDefaultConfigValue_def NewConfig_def QueryResultFormatJSON_def)
  have empty: "params_of ?base = []" "cfg_Params ?base \<noteq> None" by (simp_all add: NewConfig_def params_of_def)
  from AddParams_with [OF assms(3) empty(2) ps(1) accepted_query [OF assms(1) rq(2) ps(3,2)] ps(2), of quoted]
  obtain c where c: "AddParams quoted tz order' ?q ?base = (Ok (), c)"
    "c\<lparr>cfg_Params := None\<rparr> = config_with tz ps (makeDefaultConfigValue ?base)"
    "\<And>k. map_of (params_of c) k = (case map_of ps k of Some v \<Rightarrow> if is_setting k then Some v else map_of [] k | None \<Rightarrow> map_of [] k)"
    unfolding empty by blast
  have settings: "map_of (params_of c) = map_of (params_of cfg)"
  proof (rule ext)
    fix k show "map_of (params_of c) k = map_of (params_of cfg) k"
      using look(3) [of k] look(4) no_option_in_params [OF assms(1), of k]
      by (cases "k = ''enable_http_compression''"; cases "k \<in> set option_names")
        (auto simp: c(3) is_setting_def split: option.splits)
  qed
  have fields: "(c\<lparr>cfg_Host := cfg_Host cfg\<rparr>)\<lparr>cfg_Params := None\<rparr> = cfg\<lparr>cfg_Params := None\<rparr>"
    using config_of_query [OF assms(1) rq(2) ps(3) mk] c(2) by (metis config.update_convs(10,18) config.surjective)
  have host: "dsn_host (empty_url\<lparr>Scheme := ''lake'', User := format_user cfg, Host := cfg_Host cfg,
        Path := CHR ''/'' # cfg_Database cfg, RawPath := raw, RawQuery := values_encode (format_query order cfg)\<rparr>) c
      = c\<lparr>cfg_Host := cfg_Host cfg\<rparr>"
    using x by (auto simp: dsn_host_def host_stable_def split: option.split)
  have "ParseDSN quoted tz order' (FormatDSN order cfg) = Ok (c\<lparr>cfg_Host := cfg_Host cfg\<rparr>)"
    using c(1) base host
    by (simp add: ParseDSN_def u dsn_base_def http_schemes_def https_schemes_def plain_schemes_def)
  moreover have "same_config_as (c\<lparr>cfg_Host := cfg_Host cfg\<rparr>) cfg"
    using fields settings by (simp add: same_config_as_def params_of_def)
  ultimately show ?thesis by blast
qed

lemma FormatDSN_ParseDSN_witness:
  "\<exists>cfg'. ParseDSN (\<lambda>s. s) (\<lambda>_. None) rev (FormatDSN id
      (demo_config\<lparr>cfg_Params := Some [(''a'', ''x&y''), (''b'', '''')], cfg_Role := ''r'', cfg_MaxRowsPerPage := 10\<rparr>)) = Ok cfg'
    \<and> same_config_as cfg' (demo_config\<lparr>cfg_Params := Some [(''a'', ''x&y''), (''b'', '''')], cfg_Role := ''r'',
        cfg_MaxRowsPerPage := 10\<rparr>)"
proof (rule FormatDSN_ParseDSN)
  have "parse_host (url_escape encodeHost ''lake:443'') = Ok ''lake:443''" "SplitHostPort ''lake:443'' \<noteq> None"
    by code_simp+
  then show "expressible (\<lambda>_. None) (demo_config\<lparr>cfg_Params := Some [(''a'', ''x&y''), (''b'', '''')], cfg_Role := ''r'',
      cfg_MaxRowsPerPage := 10\<rparr>)"
    by (simp add: expressible_def demo_config_def NewConfig_def in_int64_def int64_min_def int64_max_def
        host_stable_def location_stable_def compression_stable_def params_of_def is_setting_def option_names_def)
qed (simp_all add: permutes_entries_def)

subsection \<open>Secrets\<close>

text \<open>\<open>APIClient.String\<close>.\<close>

definition client_string :: "client option \<Rightarrow> string" where
  "client_string c =
     (case c of
        None \<Rightarrow> ''APIClient<nil>''
      | Some k \<Rightarrow>
          ''APIClient{SessionID:'' @ SessionID k @ '' Host:'' @ c_host k @ '' Tenant:'' @ c_tenant k
          @ '' Warehouse:'' @ c_warehouse k @ '' User:'' @ c_user k
          @ '' Password:'' @ redacted (c_password k) @ ''}'')"



subsection \<open>IPv6 hosts without a port\<close>

text \<open>A bracketed IPv6 host without a port is bracketed once more when the default port is
  added, so the endpoint of the client does not parse to that host; with a port it is kept.\<close>

lemma ParseDSN_ipv6_brackets:
  "(case ParseDSN (\<lambda>s. s) (\<lambda>_. None) id ''lake://[::1]/db'' of
      Ok cfg \<Rightarrow> cfg_Host cfg = ''[[::1]]:443'' \<and> SplitHostPort (cfg_Host cfg) = None | _ \<Rightarrow> False)
   \<and> (case ParseDSN (\<lambda>s. s) (\<lambda>_. None) id ''lake://[::1]:443/db'' of
        Ok cfg \<Rightarrow> cfg_Host cfg = ''[::1]:443'' \<and> SplitHostPort (cfg_Host cfg) = Some (''::1'', ''443'') | _ \<Rightarrow> False)"
  by code_simp

end
