(* ===== verification/Interpolate.thy ===== *)
theory Interpolate
  imports Sql_Encoder "HOL-Library.Sublist"
begin

text \<open>
  \<open>interpolate.go\<close>: locating the \<open>?\<close> placeholders of a statement and splicing the encoded
  bind values in.

  The scanner of the source walks byte offsets; here a suffix of the query stands for the
  offset at which it starts (\<open>n - length suffix\<close>, \<open>n\<close> the length of the query), and each
  \<open>skip\<close> function returns the suffix at which the source's inner loop leaves off.
\<close>

subsection \<open>Regions that hold no placeholder\<close>

text \<open>A quoted string or identifier: the suffix after its closing quote.\<close>

fun skip_quoted :: "char \<Rightarrow> string \<Rightarrow> string" where
  "skip_quoted q [] = []"
| "skip_quoted q [c] = []"
| "skip_quoted q (c # d # cs) =
     (if c = CHR 0x5C \<and> q \<noteq> CHR 0x60 then skip_quoted q cs
      else if c = q then (if d = q then skip_quoted q cs else d # cs)
      else skip_quoted q (d # cs))"

text \<open>A line comment ends with a newline or a form feed, which is skipped too.\<close>

definition skip_line :: "string \<Rightarrow> string" where
  "skip_line cs = tl (dropWhile (\<lambda>c. c \<noteq> CHR 0x0A \<and> c \<noteq> CHR 0x0C) cs)"

definition stage_escapes :: "char list" where
  "stage_escapes = [CHR '' '', CHR 0x09, CHR 0x0D, CHR 0x0A, CHR 0x0C, CHR 0x0B, CHR 0x27, CHR 0x22,
     CHR 0x5C]"

definition stage_ends :: "char list" where
  "stage_ends = [CHR '' '', CHR 0x09, CHR 0x0D, CHR 0x0A, CHR 0x0C, CHR 0x0B, CHR '','', CHR 0x60,
     CHR '';'', CHR 0x22, CHR 0x27, CHR ''('', CHR '')'']"

text \<open>An unquoted stage location: the suffix at the byte that ends it.\<close>

fun skip_stage :: "string \<Rightarrow> string" where
  "skip_stage [] = []"
| "skip_stage [c] = (if c \<in> set stage_ends then [c] else [])"
| "skip_stage (c # d # cs) =
     (if c = CHR 0x5C \<and> d \<in> set stage_escapes then skip_stage cs
      else if c \<in> set stage_ends then c # d # cs
      else skip_stage (d # cs))"

lemma skip_quoted_length: "length (skip_quoted q cs) \<le> length cs"
  by (induction q cs rule: skip_quoted.induct) auto

lemma skip_line_length: "length (skip_line cs) \<le> length cs"
  using length_dropWhile_le [of "\<lambda>c. c \<noteq> CHR 0x0A \<and> c \<noteq> CHR 0x0C" cs]
  by (simp add: skip_line_def)

lemma skip_stage_length: "length (skip_stage cs) \<le> length cs"
  by (induction cs rule: skip_stage.induct) auto

definition is_quote :: "char \<Rightarrow> bool" where
  "is_quote c \<longleftrightarrow> c = CHR 0x27 \<or> c = CHR 0x22 \<or> c = CHR 0x60"

subsection \<open>Placeholders\<close>

function placeholders_from :: "nat \<Rightarrow> string \<Rightarrow> int list" where
  "placeholders_from n s =
     (case s of
        [] \<Rightarrow> []
      | c # cs \<Rightarrow>
          if is_quote c then placeholders_from n (skip_quoted c cs)
          else if c = CHR ''-'' then
            (if has_prefix cs ''-'' then placeholders_from n (skip_line (tl cs))
             else placeholders_from n cs)
          else if c = CHR ''/'' then
            (if has_prefix cs ''*'' then
               (case str_index (tl cs) ''*/'' of
                  None \<Rightarrow> []
                | Some e \<Rightarrow> placeholders_from n (drop (e + 3) cs))
             else placeholders_from n cs)
          else if c = CHR ''$'' then
            (if has_prefix cs ''$'' then
               (case str_index (tl cs) ''$$'' of
                  None \<Rightarrow> []
                | Some e \<Rightarrow> placeholders_from n (drop (e + 3) cs))
             else placeholders_from n cs)
          else if c = CHR ''@'' then placeholders_from n (skip_stage cs)
          else if c = CHR ''?'' then int (n - length s) # placeholders_from n cs
          else placeholders_from n cs)"
  by pat_completeness auto
termination
proof (relation "measure (\<lambda>(n, s). length s)", goal_cases)
qed (auto simp: skip_quoted_length skip_stage_length less_Suc_eq_le
      intro!: order_trans [OF skip_line_length])

declare placeholders_from.simps [simp del]

definition placeholders :: "string \<Rightarrow> int list" where
  "placeholders query = placeholders_from (length query) query"

subsection \<open>Splicing\<close>

text \<open>The copy loop: the text up to each placeholder, then the encoded parameter.\<close>

fun splice :: "string \<Rightarrow> nat \<Rightarrow> (int \<times> string) list \<Rightarrow> string" where
  "splice query i [] = drop i query"
| "splice query i ((idx, enc) # rest) =
     substr query i (nat idx) @ enc @ splice query (nat idx + 1) rest"

text \<open>The check of the offsets against the query.\<close>

fun offsets_valid :: "string \<Rightarrow> int \<Rightarrow> int list \<Rightarrow> bool" where
  "offsets_valid query previous [] = True"
| "offsets_valid query previous (offset # rest) =
     (\<not> (offset \<le> previous \<or> int (length query) \<le> offset \<or> query ! nat offset \<noteq> CHR ''?'')
      \<and> offsets_valid query offset rest)"

text \<open>A first parameter that is an empty slice short-cuts the whole substitution.\<close>

definition empty_slice :: "gval \<Rightarrow> bool" where
  "empty_slice v \<longleftrightarrow> v = GBytes '''' \<or> v = GSlice []"

fun encodeParams :: "fmt_env \<Rightarrow> nat \<Rightarrow> gval list \<Rightarrow> string list go" where
  "encodeParams E i [] = Ok []"
| "encodeParams E i (v # vs) =
     (case Encode E v of
        Ok b \<Rightarrow> go_bind (encodeParams E (Suc i) vs) (\<lambda>bs. Ok (b # bs))
      | Err e \<Rightarrow> Err (EWrap (''failed to encode parameter '' @ format_uint i) e)
      | Panic p \<Rightarrow> Panic p)"

definition interpolateParams2 :: "fmt_env \<Rightarrow> string \<Rightarrow> gval list \<Rightarrow> int list \<Rightarrow> string go" where
  "interpolateParams2 E query params index =
     (case params of
        [] \<Rightarrow> Ok query
      | p0 # _ \<Rightarrow>
          if empty_slice p0 then Ok query
          else if length index \<noteq> length params then Err (ESentinel ErrPlaceholderCount)
          else if \<not> offsets_valid query (- 1) index then Err (ESentinel ErrPlaceholderCount)
          else go_bind (encodeParams E 0 params) (\<lambda>encs. Ok (splice query 0 (zip index encs))))"

definition interpolateParams :: "fmt_env \<Rightarrow> string \<Rightarrow> gval list \<Rightarrow> string go" where
  "interpolateParams E query params = interpolateParams2 E query params (placeholders query)"

definition buildQuery :: "fmt_env \<Rightarrow> string \<Rightarrow> gval list \<Rightarrow> int list option \<Rightarrow> string go" where
  "buildQuery E query args phs =
     (case phs of
        Some ps \<Rightarrow>
          if length ps \<noteq> length args then
            Err (EMsg (''expect '' @ format_uint (length ps) @ '' args, got '' @ format_uint (length args)))
          else interpolateParams2 E query args ps
      | None \<Rightarrow>
          if 0 < length args then
            map_err (EWrap ''buildRequest: failed to interpolate params'') (interpolateParams E query args)
          else Ok query)"

subsection \<open>The token structure behind the scan\<close>

text \<open>
  \<open>lex\<close> is the reference reading of a statement: plain characters, whole regions (quoted
  text, comments, dollar strings, stage locations) and holes.  The scanner of the source
  must locate exactly the holes.
\<close>

datatype tok = TText char | TRegion string | THole

fun tok_text :: "tok \<Rightarrow> string" where
  "tok_text (TText c) = [c]"
| "tok_text (TRegion u) = u"
| "tok_text THole = ''?''"

definition toks_text :: "tok list \<Rightarrow> string" where
  "toks_text ts = concat (map tok_text ts)"

definition region :: "string \<Rightarrow> string \<Rightarrow> tok \<times> string" where
  "region s r = (TRegion (take (length s - length r) s), r)"

text \<open>The suffix after the region that opens at \<open>c\<close>, if one does.\<close>

definition region_rest :: "char \<Rightarrow> string \<Rightarrow> string option" where
  "region_rest c cs =
     (if is_quote c then Some (skip_quoted c cs)
      else if c = CHR ''-'' \<and> has_prefix cs ''-'' then Some (skip_line (tl cs))
      else if c = CHR ''/'' \<and> has_prefix cs ''*'' then
        Some (case str_index (tl cs) ''*/'' of None \<Rightarrow> [] | Some e \<Rightarrow> drop (e + 3) cs)
      else if c = CHR ''$'' \<and> has_prefix cs ''$'' then
        Some (case str_index (tl cs) ''$$'' of None \<Rightarrow> [] | Some e \<Rightarrow> drop (e + 3) cs)
      else if c = CHR ''@'' then Some (skip_stage cs)
      else None)"

definition lex_step :: "char \<Rightarrow> string \<Rightarrow> tok \<times> string" where
  "lex_step c cs =
     (case region_rest c cs of
        Some r \<Rightarrow> region (c # cs) r
      | None \<Rightarrow> if c = CHR ''?'' then (THole, cs) else (TText c, cs))"

lemma skip_quoted_suffix: "suffix (skip_quoted q cs) cs"
  by (induction q cs rule: skip_quoted.induct) (auto intro: suffix_ConsI)

lemma skip_stage_suffix: "suffix (skip_stage cs) cs"
  by (induction cs rule: skip_stage.induct) (auto intro: suffix_ConsI)

lemma suffix_tl: "suffix (tl xs) xs"
  by (cases xs) (auto intro: suffix_ConsI)

lemma skip_line_suffix: "suffix (skip_line cs) cs"
  unfolding skip_line_def
  by (rule suffix_order.trans [OF suffix_tl suffix_dropWhile])

lemma region_split:
  assumes "s = u @ r"
  shows "region s r = (TRegion u, r)"
  using assms by (simp add: region_def)

lemma region_text:
  assumes "suffix r cs"
  shows "\<exists>u. region (c # cs) r = (TRegion (c # u), r) \<and> c # cs = (c # u) @ r"
proof -
  obtain u where "cs = u @ r" using assms by (auto simp: suffix_def)
  then have "c # cs = (c # u) @ r" by simp
  then show ?thesis by (auto simp: region_split)
qed

lemma region_rest_suffix: "region_rest c cs = Some r \<Longrightarrow> suffix r cs"
  using skip_quoted_suffix [of c cs] skip_stage_suffix [of cs]
    suffix_order.trans [OF skip_line_suffix suffix_tl, of cs] suffix_drop [of _ cs]
  by (auto simp: region_rest_def split: if_splits option.splits)

lemma region_rest_hole: "region_rest c cs = Some r \<Longrightarrow> c \<noteq> CHR ''?''"
  by (auto simp: region_rest_def is_quote_def split: if_splits)

text \<open>The shape of a step: a region opens with its first byte, and the text is kept.\<close>

lemma lex_step_cases:
  assumes "lex_step c cs = (t, r)"
  obtains (plain) "t = TText c" "r = cs" "region_rest c cs = None" "c \<noteq> CHR ''?''"
  | (hole) "t = THole" "r = cs" "c = CHR ''?''" "region_rest c cs = None"
  | (reg) u where "t = TRegion (c # u)" "cs = u @ r" "region_rest c cs = Some r"
proof (cases "region_rest c cs")
  case None
  with assms plain hole show thesis by (auto simp: lex_step_def split: if_splits)
next
  case (Some r')
  with assms region_text [OF region_rest_suffix [OF Some], of c] reg show thesis
    by (auto simp: lex_step_def)
qed

lemma lex_step_text: "lex_step c cs = (t, r) \<Longrightarrow> c # cs = tok_text t @ r"
  by (erule lex_step_cases) auto

lemma lex_step_nonempty: "lex_step c cs = (t, r) \<Longrightarrow> length r \<le> length cs"
  by (erule lex_step_cases) (auto dest: arg_cong [of _ _ length])

function lex :: "string \<Rightarrow> tok list" where
  "lex [] = []"
| "lex (c # cs) = (case lex_step c cs of (t, r) \<Rightarrow> t # lex r)"
  by pat_completeness auto
termination
  by (relation "measure length") (auto dest!: lex_step_nonempty [OF sym])

lemma lex_text: "toks_text (lex s) = s"
proof (induction s rule: lex.induct)
  case (2 c cs)
  then show ?case
    by (auto simp: toks_text_def lex_step_text split: prod.splits)
qed (simp add: toks_text_def)

text \<open>The offsets of the holes.\<close>

fun hole_offsets :: "nat \<Rightarrow> tok list \<Rightarrow> int list" where
  "hole_offsets k [] = []"
| "hole_offsets k (t # ts) =
     (if t = THole then [int k] else []) @ hole_offsets (k + length (tok_text t)) ts"

lemma placeholders_from_Nil [simp]: "placeholders_from n [] = []"
  by (simp add: placeholders_from.simps)

lemma placeholders_from_Cons:
  "placeholders_from n (c # cs) =
     (case region_rest c cs of
        Some r \<Rightarrow> placeholders_from n r
      | None \<Rightarrow>
          if c = CHR ''?'' then int (n - length (c # cs)) # placeholders_from n cs
          else placeholders_from n cs)"
  by (subst placeholders_from.simps) (simp add: region_rest_def split: option.splits)

lemma placeholders_from_lex:
  "length s \<le> n \<Longrightarrow> placeholders_from n s = hole_offsets (n - length s) (lex s)"
proof (induction s rule: lex.induct)
  case 1
  then show ?case by simp
next
  case (2 c cs)
  obtain t r where tr: "lex_step c cs = (t, r)" by fastforce
  have len: "length (tok_text t) + length r = Suc (length cs)"
    using lex_step_text [OF tr] by (metis length_Cons length_append)
  have rest: "placeholders_from n r = hole_offsets (n - length r) (lex r)"
    using "2.IH" [OF tr [symmetric]] "2.prems" len by simp
  have off: "n - length (c # cs) + length (tok_text t) = n - length r"
    using "2.prems" len by simp
  have "placeholders_from n (c # cs)
      = (if t = THole then [int (n - length (c # cs))] else []) @ placeholders_from n r"
    using tr by (cases rule: lex_step_cases) (simp_all add: placeholders_from_Cons region_rest_hole)
  then show ?case
    using off by (cases "t = THole") (auto simp: tr rest)
qed

lemma placeholders_lex: "placeholders q = hole_offsets 0 (lex q)"
  by (simp add: placeholders_def placeholders_from_lex)

subsection \<open>Splicing fills the holes\<close>

text \<open>The reference result: the tokens' texts, with the holes replaced in order.\<close>

fun fill :: "tok list \<Rightarrow> string list \<Rightarrow> string" where
  "fill [] es = ''''"
| "fill (t # ts) es =
     (if t = THole then (case es of [] \<Rightarrow> ''?'' @ fill ts [] | e # es' \<Rightarrow> e @ fill ts es')
      else tok_text t @ fill ts es)"

definition holes :: "tok list \<Rightarrow> nat" where
  "holes ts = length (filter (\<lambda>t. t = THole) ts)"

lemma holes_simps [simp]:
  "holes [] = 0" "holes (t # ts) = (if t = THole then Suc (holes ts) else holes ts)"
  by (simp_all add: holes_def)

lemma toks_text_simps [simp]:
  "toks_text [] = []" "toks_text (t # ts) = tok_text t @ toks_text ts"
  by (simp_all add: toks_text_def)

lemma length_hole_offsets [simp]: "length (hole_offsets k ts) = holes ts"
  by (induction ts arbitrary: k) auto

lemma length_placeholders: "length (placeholders q) = holes (lex q)"
  by (simp add: placeholders_lex)

lemma substr_add: "a \<le> b \<Longrightarrow> b \<le> c \<Longrightarrow> substr s a c = substr s a b @ substr s b c"
proof -
  assume "a \<le> b" "b \<le> c"
  then have "c - a = (b - a) + (c - b)" and "b - a + a = b" by simp_all
  then show ?thesis
    unfolding substr_def
    by (metis (no_types) add.commute drop_drop take_add)
qed

text \<open>The invariant of the splice loop: \<open>p\<close> is the text already scanned, \<open>i\<close> the offset
  from which the next copy starts.\<close>

lemma splice_fill:
  assumes "q = p @ toks_text ts" "i \<le> length p" "length es = holes ts"
  shows "splice q i (zip (hole_offsets (length p) ts) es) = drop i p @ fill ts es"
  using assms
proof (induction ts arbitrary: p i es)
  case Nil
  then show ?case by simp
next
  case (Cons t ts)
  show ?case
  proof (cases "t = THole")
    case True
    with Cons.prems obtain e es' where es: "es = e # es'" by (cases es) auto
    have "splice q (length p + 1) (zip (hole_offsets (length (p @ ''?'')) ts) es')
        = drop (length p + 1) (p @ ''?'') @ fill ts es'"
      using Cons.prems True es by (intro Cons.IH) auto
    moreover have "substr q i (length p) = drop i p"
      using Cons.prems by (simp add: substr_def)
    ultimately show ?thesis using True es by simp
  next
    case False
    have "splice q i (zip (hole_offsets (length (p @ tok_text t)) ts) es)
        = drop i (p @ tok_text t) @ fill ts es"
      using Cons.prems False by (intro Cons.IH) auto
    with False Cons.prems show ?thesis by (simp add: add.commute)
  qed
qed

lemma hole_offsets_valid:
  assumes "q = p @ toks_text ts" "prev < int (length p)"
  shows "offsets_valid q prev (hole_offsets (length p) ts)"
  using assms
proof (induction ts arbitrary: p prev)
  case (Cons t ts)
  have IH: "offsets_valid q prev' (hole_offsets (length (p @ tok_text t)) ts)"
    if "prev' < int (length (p @ tok_text t))" for prev'
    using Cons.prems that by (intro Cons.IH) auto
  show ?case
    using IH [of prev] IH [of "int (length p)"] Cons.prems
    by (cases "t = THole") (auto simp: add.commute)
qed simp

lemma placeholders_valid: "offsets_valid q (- 1) (placeholders q)"
  unfolding placeholders_lex
  using hole_offsets_valid [of q "[]" "lex q" "- 1"] by (simp add: lex_text)

lemma splice_placeholders:
  "length es = holes (lex q) \<Longrightarrow> splice q 0 (zip (placeholders q) es) = fill (lex q) es"
  unfolding placeholders_lex
  using splice_fill [of q "[]" "lex q" 0 es] by (simp add: lex_text)

lemma encodeParams_length: "encodeParams E i vs = Ok es \<Longrightarrow> length es = length vs"
  by (induction vs arbitrary: i es) (auto simp: go_bind_eq_Ok split: outcome.splits)

text \<open>What the two passes of the source compute, in one equation.\<close>

lemma interpolateParams_fill:
  assumes "params = p0 # ps" "\<not> empty_slice p0" "length params = holes (lex q)"
  shows "interpolateParams E q params
           = go_bind (encodeParams E 0 params) (\<lambda>es. Ok (fill (lex q) es))"
proof -
  have "go_bind (encodeParams E 0 params) (\<lambda>es. Ok (splice q 0 (zip (placeholders q) es)))
      = go_bind (encodeParams E 0 params) (\<lambda>es. Ok (fill (lex q) es))"
    using assms(3) by (intro go_bind_cong) (auto simp: splice_placeholders dest!: encodeParams_length)
  then show ?thesis
    using assms
    by (simp add: interpolateParams_def interpolateParams2_def length_placeholders placeholders_valid)
qed

subsection \<open>Encoded values as tokens\<close>

text \<open>Bytes that mean nothing to the scanner.\<close>

definition inert :: "char \<Rightarrow> bool" where
  "inert c \<longleftrightarrow> \<not> is_quote c \<and> c \<notin> {CHR ''-'', CHR ''/'', CHR ''$'', CHR ''@'', CHR ''?''}"

lemma region_rest_inert: "inert c \<Longrightarrow> region_rest c cs = None"
  by (auto simp: inert_def region_rest_def)

text \<open>Reading an escaped string: the literal ends at its own closing quote, whatever the
  string holds, provided that no second quote follows.\<close>

lemma skip_quoted_escape:
  "\<not> has_prefix v [CHR 0x27] \<Longrightarrow> skip_quoted (CHR 0x27) (escape s @ CHR 0x27 # v) = v"
proof (induction s)
  case Nil
  then show ?case by (cases v) auto
next
  case (Cons c s)
  obtain d ds where d: "escape s @ CHR 0x27 # v = d # ds"
    by (cases "escape s") auto
  show ?case
    using Cons by (auto simp: d)
qed

text \<open>A literal in front of text that does not start with a quote is one region.\<close>

lemma lex_step_literal:
  assumes "\<not> has_prefix v [CHR 0x27]"
  shows "lex_step (CHR 0x27) (escape s @ CHR 0x27 # v) = (TRegion (quote (escape s)), v)"
  using skip_quoted_escape [OF assms, of s]
  by (simp add: lex_step_def region_rest_def is_quote_def region_def quote_def)

subsection \<open>Which tokens may stand next to each other\<close>

text \<open>
  \<open>accepts t v\<close>: read in front of \<open>v\<close>, the text of \<open>t\<close> is exactly the token \<open>t\<close>.
  A token list in which every token accepts the text behind it is read back unchanged.
\<close>

definition accepts :: "tok \<Rightarrow> string \<Rightarrow> bool" where
  "accepts t v \<longleftrightarrow>
     (case tok_text t of [] \<Rightarrow> False | c # u \<Rightarrow> lex_step c (u @ v) = (t, v))"

fun canon :: "tok list \<Rightarrow> bool" where
  "canon [] = True"
| "canon (t # ts) = (accepts t (toks_text ts) \<and> canon ts)"

lemma lex_canon: "canon ts \<Longrightarrow> lex (toks_text ts) = ts"
  by (induction ts) (auto simp: accepts_def split: list.splits)

lemma canon_lex: "canon (lex s)"
proof (induction s rule: lex.induct)
  case (2 c cs)
  obtain t r where tr: "lex_step c cs = (t, r)" by fastforce
  then have "accepts t r"
    by (cases rule: lex_step_cases) (use tr in \<open>auto simp: accepts_def\<close>)
  with 2 tr show ?case by (simp add: lex_text)
qed simp

text \<open>The text behind a token may change as long as its first byte stays, or is one that the
  token does not react to.\<close>

definition follows :: "tok \<Rightarrow> char \<Rightarrow> bool" where
  "follows t h \<longleftrightarrow>
     (case t of
        THole \<Rightarrow> True
      | TText c \<Rightarrow>
          \<not> (c = CHR ''-'' \<and> h = CHR ''-'' \<or> c = CHR ''/'' \<and> h = CHR ''*''
             \<or> c = CHR ''$'' \<and> h = CHR ''$'')
      | TRegion u \<Rightarrow> u \<noteq> [] \<and> hd u \<noteq> CHR ''@'' \<and> (is_quote (hd u) \<longrightarrow> h \<noteq> hd u))"

lemma skip_quoted_less: "cs \<noteq> [] \<Longrightarrow> length (skip_quoted q cs) < length cs"
  using skip_quoted_length
  by (induction q cs rule: skip_quoted.induct) (auto simp: less_Suc_eq_le le_SucI)

lemma skip_quoted_swap:
  assumes "skip_quoted q (b @ v) = v" "v \<noteq> []" "is_quote q"
    and "v' = [] \<or> hd v' \<noteq> q"
  shows "skip_quoted q (b @ v') = v'"
  using assms
proof (induction "length b" arbitrary: b rule: less_induct)
  case less
  note len = skip_quoted_length [of q]
  show ?case
  proof (cases b)
    case Nil
    with less.prems show ?thesis using skip_quoted_less [of v q] by simp
  next
    case (Cons x b1)
    note bx = Cons
    show ?thesis
    proof (cases b1)
      case Nil
      obtain d cs where v: "v = d # cs" using less.prems(2) by (cases v) auto
      have "x = q"
        using less.prems(1) bx Nil v len [of cs] skip_quoted_less [of v q]
        by (auto split: if_splits)
      with less.prems bx Nil show ?thesis
        by (cases v') (auto simp: is_quote_def)
    next
      case (Cons y b2)
      have IH1: "skip_quoted q (b2 @ v) = v \<Longrightarrow> skip_quoted q (b2 @ v') = v'"
        and IH2: "skip_quoted q (b1 @ v) = v \<Longrightarrow> skip_quoted q (b1 @ v') = v'"
        using less.hyps [of b2] less.hyps [of b1] less.prems bx Cons by auto
      have no: "y # b2 @ v \<noteq> v"
        by (metis append_Cons append_self_conv2 list.distinct(1))
      consider "x = CHR 0x5C \<and> q \<noteq> CHR 0x60" | "\<not> (x = CHR 0x5C \<and> q \<noteq> CHR 0x60)" "x = q" "y = q"
        | "\<not> (x = CHR 0x5C \<and> q \<noteq> CHR 0x60)" "x = q" "y \<noteq> q"
        | "\<not> (x = CHR 0x5C \<and> q \<noteq> CHR 0x60)" "x \<noteq> q"
        by blast
      then show ?thesis
        using less.prems(1) no IH1 IH2 unfolding bx Cons by cases auto
    qed
  qed
qed

lemma skip_line_swap:
  assumes "skip_line (b @ v) = v" "v \<noteq> []"
  shows "skip_line (b @ v') = v'"
proof -
  let ?P = "\<lambda>c. c \<noteq> CHR 0x0A \<and> c \<noteq> CHR 0x0C"
  have "\<exists>c\<in>set b. \<not> ?P c"
  proof (rule ccontr)
    assume "\<not> (\<exists>c\<in>set b. \<not> ?P c)"
    then have "skip_line (b @ v) = skip_line v"
      unfolding skip_line_def by (subst dropWhile_append2) auto
    moreover have "length (skip_line v) < length v"
      using length_dropWhile_le [of ?P v] assms(2) unfolding skip_line_def length_tl length_greater_0_conv [symmetric]
      by linarith
    ultimately show False using assms(1) by simp
  qed
  then obtain c where c: "c \<in> set b" "\<not> ?P c" by blast
  have app: "skip_line (b @ w) = tl (dropWhile ?P b) @ w" for w
    unfolding skip_line_def
    using c by (subst dropWhile_append1) (auto simp: tl_append split: list.splits)
  with assms(1) show ?thesis by simp
qed

lemma has_prefix_append_iff:
  "length p \<le> length u \<Longrightarrow> has_prefix (u @ v) p = has_prefix u p"
  by (induction u p rule: has_prefix.induct) auto

lemma str_index_swap:
  "str_index (b @ v) sub = Some e \<Longrightarrow> e + length sub \<le> length b \<Longrightarrow>
   str_index (b @ v') sub = Some e"
proof (induction b arbitrary: e)
  case Nil
  then show ?case by (cases v; cases v') (auto split: if_splits)
next
  case (Cons c b)
  show ?case
  proof (cases "length sub \<le> Suc (length b)")
    case True
    then have "has_prefix ((c # b) @ w) sub = has_prefix (c # b) sub" for w
      by (intro has_prefix_append_iff) simp
    with Cons show ?thesis by (auto split: if_splits)
  next
    case False
    with Cons.prems show ?thesis by auto
  qed
qed

lemma block_swap:
  assumes "Some r = map_option (\<lambda>e. drop (e + 3) (b @ v)) (str_index (tl (b @ v)) sub)"
    and "r = v" "b \<noteq> []" "length sub = 2"
  shows "map_option (\<lambda>e. drop (e + 3) (b @ v')) (str_index (tl (b @ v')) sub) = Some v'"
proof -
  obtain e where e: "str_index (tl (b @ v)) sub = Some e" "drop (e + 3) (b @ v) = v"
    using assms(1,2) by (cases "str_index (tl (b @ v)) sub") (auto simp del: drop_append)
  have bound: "e + 2 \<le> length (tl (b @ v))"
    using str_index_bound [OF e(1)] assms(4) by simp
  then have "e + 3 \<le> length b + length v" using assms(3) by (cases b) auto
  moreover have "length (drop (e + 3) (b @ v)) = length v" using e(2) by simp
  ultimately have lb: "length b = e + 3" by simp
  then have "str_index (tl b @ v') sub = Some e"
    using e(1) assms(3,4) str_index_swap [of "tl b" v sub e v'] by simp
  with lb assms(3) show ?thesis by simp
qed

lemma block_nonempty: "Some v = map_option (\<lambda>e. drop (e + 3) v) x \<Longrightarrow> v = []"
proof (cases x)
  case (Some e)
  assume "Some v = map_option (\<lambda>e. drop (e + 3) v) x"
  then have "length v = length (drop (e + 3) v)" using Some by simp
  then show ?thesis by (cases v) simp_all
qed simp

text \<open>The text behind a token may be exchanged.\<close>

lemma region_rest_swap:
  assumes "region_rest c (u @ v) = Some v" "v \<noteq> []" "v' \<noteq> []"
    and "c \<noteq> CHR ''@''" "is_quote c \<Longrightarrow> hd v' \<noteq> c"
  shows "region_rest c (u @ v') = Some v'"
proof -
  consider (q) "is_quote c" | (l) "c = CHR ''-''" | (b) "c = CHR ''/''" | (d) "c = CHR ''$''"
    using assms(1,4) by (auto simp: region_rest_def split: if_splits)
  then show ?thesis
  proof cases
    case q
    with assms show ?thesis by (auto simp: region_rest_def intro: skip_quoted_swap)
  next
    case l
    with assms(1) have p: "has_prefix (u @ v) ''-''" "skip_line (tl (u @ v)) = v"
      by (auto simp: region_rest_def is_quote_def split: if_splits)
    show ?thesis
    proof (cases u)
      case Nil
      have "length (skip_line (tl v)) < length v"
        using skip_line_length [of "tl v"] assms(2) by (cases v) auto
      with p Nil show ?thesis by simp
    next
      case (Cons x u')
      with p skip_line_swap [of u' v v'] assms(2) l show ?thesis
        by (simp add: region_rest_def is_quote_def)
    qed
  next
    case b
    with assms(1) have p: "has_prefix (u @ v) ''*''"
      "Some v = map_option (\<lambda>e. drop (e + 3) (u @ v)) (str_index (tl (u @ v)) ''*/'')"
      using assms(2) by (auto simp: region_rest_def is_quote_def split: if_splits option.splits)
    then have "u \<noteq> []"
      using block_nonempty [of v "str_index (tl v) ''*/''"] p(2) assms(2) by auto
    with block_swap [OF p(2) refl this, where v' = v'] p(1) b show ?thesis
      by (cases u) (auto simp: region_rest_def is_quote_def split: option.splits)
  next
    case d
    with assms(1) have p: "has_prefix (u @ v) ''$''"
      "Some v = map_option (\<lambda>e. drop (e + 3) (u @ v)) (str_index (tl (u @ v)) ''$$'')"
      using assms(2) by (auto simp: region_rest_def is_quote_def split: if_splits option.splits)
    then have "u \<noteq> []"
      using block_nonempty [of v "str_index (tl v) ''$$''"] p(2) assms(2) by auto
    with block_swap [OF p(2) refl this, where v' = v'] p(1) d show ?thesis
      by (cases u) (auto simp: region_rest_def is_quote_def split: option.splits)
  qed
qed

lemma region_rest_None_swap:
  assumes "region_rest c v = None" "v' \<noteq> []" "follows (TText c) (hd v')"
  shows "region_rest c v' = None"
  using assms by (cases v') (auto simp: region_rest_def follows_def split: if_splits)

lemma accepts_THole [simp]: "accepts THole v"
  by (simp add: accepts_def lex_step_def region_rest_def is_quote_def)

lemma accepts_TText: "accepts (TText c) v \<longleftrightarrow> region_rest c v = None \<and> c \<noteq> CHR ''?''"
  by (simp add: accepts_def lex_step_def region_def split: option.splits)

lemma accepts_TRegion: "accepts (TRegion (c # u)) v \<longleftrightarrow> region_rest c (u @ v) = Some v"
  by (auto simp: accepts_def lex_step_def region_def split: option.splits)

lemma accepts_TRegion_Nil [simp]: "\<not> accepts (TRegion []) v"
  by (simp add: accepts_def)

lemma accepts_swap:
  assumes "accepts t v" "v \<noteq> []" "v' \<noteq> []" "follows t (hd v')"
  shows "accepts t v'"
proof (cases t)
  case (TText c)
  then show ?thesis
    using assms region_rest_None_swap [of c v v'] by (simp add: accepts_TText)
next
  case (TRegion w)
  then obtain c u where w: "w = c # u" using assms(4) by (cases w) (auto simp: follows_def)
  show ?thesis
    using assms TRegion w region_rest_swap [of c u v v']
    by (simp add: accepts_TRegion follows_def)
qed simp

lemma skip_stage_swap:
  assumes "skip_stage (b @ v) = v" "v \<noteq> []" "v' \<noteq> []" "hd v' = hd v"
  shows "skip_stage (b @ v') = v'"
  using assms
proof (induction "length b" arbitrary: b rule: less_induct)
  case less
  have esc: "CHR 0x5C \<notin> set stage_ends" by (simp add: stage_ends_def)
  have at: "hd v \<in> set stage_ends" if "skip_stage v = v"
    using that less.prems(2) skip_stage_length [of "tl (tl v)"] skip_stage_length [of "tl v"]
    by (cases v rule: skip_stage.cases) (auto split: if_splits)
  have stop: "skip_stage v' = v'" if "skip_stage v = v"
    using at [OF that] less.prems(3,4) esc by (cases v' rule: skip_stage.cases) auto
  show ?case
  proof (cases b)
    case Nil
    with less.prems stop show ?thesis by simp
  next
    case bx: (Cons x b1)
    show ?thesis
    proof (cases b1)
      case Nil
      obtain d cs where v: "v = d # cs" using less.prems(2) by (cases v) auto
      obtain cs' where v': "v' = d # cs'" using less.prems(3,4) v by (cases v') auto
      have "\<not> (x = CHR 0x5C \<and> d \<in> set stage_escapes)" "x \<notin> set stage_ends" "skip_stage v = v"
        using less.prems(1) bx Nil v skip_stage_length [of cs] by (auto split: if_splits)
      with stop bx Nil v' show ?thesis by auto
    next
      case (Cons y b2)
      have no: "x # y # b2 @ v \<noteq> v"
        using arg_cong [of "x # y # b2 @ v" v length] by auto
      have IH1: "skip_stage (b2 @ v) = v \<Longrightarrow> skip_stage (b2 @ v') = v'"
        and IH2: "skip_stage (b1 @ v) = v \<Longrightarrow> skip_stage (b1 @ v') = v'"
        using less.hyps [of b2] less.hyps [of b1] less.prems bx Cons by auto
      show ?thesis
        using less.prems(1) no IH1 IH2 unfolding bx Cons by (auto split: if_splits)
    qed
  qed
qed

lemma skip_quoted_end: "skip_quoted q cs = v \<Longrightarrow> v \<noteq> [] \<Longrightarrow> hd v \<noteq> q"
  by (induction q cs rule: skip_quoted.induct) (auto split: if_splits)

lemma accepts_keep:
  assumes "accepts t v" "v \<noteq> []" "v' \<noteq> []" "hd v' = hd v"
  shows "accepts t v'"
proof (cases t)
  case (TText c)
  then have "follows t (hd v)"
    using assms(1,2) by (cases v) (auto simp: accepts_TText region_rest_def follows_def split: if_splits)
  with assms show ?thesis by (auto intro: accepts_swap)
next
  case (TRegion w)
  then obtain c u where w: "w = c # u" using assms(1) by (cases w) auto
  have r: "region_rest c (u @ v) = Some v" using assms(1) TRegion w by (simp add: accepts_TRegion)
  show ?thesis
  proof (cases "c = CHR ''@''")
    case True
    with r skip_stage_swap [of u v v'] assms(2-4) TRegion w show ?thesis
      by (simp add: accepts_TRegion region_rest_def is_quote_def)
  next
    case False
    with r have "follows t (hd v)"
      using TRegion w assms(2) skip_quoted_end [of c "u @ v" v]
      by (auto simp: follows_def region_rest_def)
    with assms show ?thesis by (auto intro: accepts_swap)
  qed
qed simp

lemma accepts_nonempty: "accepts t v \<Longrightarrow> tok_text t \<noteq> []"
  by (auto simp: accepts_def split: list.splits)

subsection \<open>Bound values that cannot change the statement\<close>

text \<open>An encoded value that is one string literal, or bytes the scanner ignores after an
  optional minus sign.\<close>

definition atomic :: "string \<Rightarrow> bool" where
  "atomic e \<longleftrightarrow>
     (\<exists>s. e = quote (escape s))
     \<or> (\<exists>b. b \<noteq> [] \<and> list_all inert b \<and> (e = b \<or> e = CHR ''-'' # b))"

lemma accepts_inert: "inert c \<Longrightarrow> accepts (TText c) v"
  by (auto simp: accepts_def lex_step_def region_rest_inert) (auto simp: inert_def)

lemma canon_inert:
  "list_all inert b \<Longrightarrow> canon ts \<Longrightarrow> canon (map TText b @ ts)"
  by (induction b) (auto simp: accepts_inert toks_text_def)

lemma toks_text_append [simp]: "toks_text (ts @ us) = toks_text ts @ toks_text us"
  by (simp add: toks_text_def)

lemma toks_text_map_TText [simp]: "toks_text (map TText b) = b"
  by (induction b) auto

lemma lex_inert: "list_all inert b \<Longrightarrow> lex b = map TText b"
  using lex_canon [OF canon_inert [of b "[]"]] by simp

lemma accepts_minus: "v = [] \<or> hd v \<noteq> CHR ''-'' \<Longrightarrow> accepts (TText CHR ''-'') v"
  by (cases v) (auto simp: accepts_def lex_step_def region_rest_def is_quote_def)

lemma inert_not_minus: "inert c \<Longrightarrow> c \<noteq> CHR ''-''"
  by (auto simp: inert_def)

lemma accepts_literal:
  "\<not> has_prefix v [CHR 0x27] \<Longrightarrow> accepts (TRegion (quote (escape s))) v"
  using lex_step_literal [of v s] by (simp add: accepts_def quote_def)

text \<open>The tokens of an atomic value stay what they are in front of text that does not start
  with a single quote.\<close>

lemma canon_atomic:
  assumes "atomic e" "canon ts" "\<not> has_prefix (toks_text ts) [CHR 0x27]"
  shows "canon (lex e @ ts) \<and> toks_text (lex e) = e"
proof -
  consider s where "e = quote (escape s)" | b where "b \<noteq> []" "list_all inert b" "e = b"
    | b where "b \<noteq> []" "list_all inert b" "e = CHR ''-'' # b"
    using assms(1) by (auto simp: atomic_def)
  then show ?thesis
  proof cases
    case (1 s)
    have "canon [TRegion e]" using accepts_literal [of "[]" s] 1 by simp
    from lex_canon [OF this] have "lex e = [TRegion e]" by simp
    then show ?thesis using assms 1 accepts_literal [OF assms(3), of s] by (simp add: lex_text)
  next
    case (2 b)
    then show ?thesis using assms by (simp add: lex_inert canon_inert)
  next
    case (3 b)
    then have b: "\<And>w. hd (b @ w) \<noteq> CHR ''-''"
      by (cases b) (auto dest: inert_not_minus)
    have "canon (map TText e @ us)" if "canon us" for us
      using 3 that canon_inert [of b us] accepts_minus [of "b @ toks_text us"] b by simp
    from this [OF assms(2)] lex_canon [OF this [of "[]"]]
    show ?thesis by simp
  qed
qed

text \<open>The tokens of the filled statement: every hole gives way to the tokens of its value.\<close>

fun fill_toks :: "tok list \<Rightarrow> string list \<Rightarrow> tok list" where
  "fill_toks [] es = []"
| "fill_toks (t # ts) es =
     (if t = THole then (case es of [] \<Rightarrow> THole # fill_toks ts [] | e # es' \<Rightarrow> lex e @ fill_toks ts es')
      else t # fill_toks ts es)"

text \<open>
  \<open>separated ts es\<close>: no hole touches a quoted literal or another hole that a string fills,
  and no hole that a negative number fills comes right after a minus sign.
\<close>

definition starts_clear :: "string \<Rightarrow> bool" where
  "starts_clear v \<longleftrightarrow> \<not> has_prefix v [CHR 0x27]"

fun separated :: "tok list \<Rightarrow> string list \<Rightarrow> bool" where
  "separated [] es = True"
| "separated (t # ts) es =
     (case es of
        [] \<Rightarrow> True
      | e # es' \<Rightarrow>
          if t = THole then starts_clear (fill ts es') \<and> separated ts es'
          else (case ts of [] \<Rightarrow> True | t' # _ \<Rightarrow> t' = THole \<longrightarrow> follows t (hd e)) \<and> separated ts es)"

lemma atomic_nonempty: "atomic e \<Longrightarrow> e \<noteq> []"
  by (auto simp: atomic_def quote_def)

lemma fill_toks_text:
  "list_all atomic es \<Longrightarrow> length es = holes ts \<Longrightarrow> toks_text (fill_toks ts es) = fill ts es"
  by (induction ts arbitrary: es) (auto simp: lex_text split: list.splits)

lemma fill_no_holes: "holes ts = 0 \<Longrightarrow> fill_toks ts es = ts"
  by (induction ts) (auto split: if_splits)

lemma canon_fill:
  assumes "canon ts" "length es = holes ts" "list_all atomic es" "separated ts es"
  shows "canon (fill_toks ts es)"
  using assms
proof (induction ts arbitrary: es)
  case Nil
  then show ?case by simp
next
  case (Cons t ts)
  show ?case
  proof (cases es)
    case Nil
    then have "fill_toks (t # ts) es = t # ts"
      using Cons.prems(2) by (intro fill_no_holes) simp
    with Cons.prems(1) show ?thesis by simp
  next
    case es: (Cons e es')
    show ?thesis
    proof (cases "t = THole")
      case True
      with Cons.prems es have "canon (fill_toks ts es')" by (intro Cons.IH) auto
      then show ?thesis
        using Cons.prems es True fill_toks_text [of es' ts] canon_atomic [of e "fill_toks ts es'"]
        by (simp add: starts_clear_def)
    next
      case False
      then have c: "canon (fill_toks ts es)"
        using Cons.prems es by (intro Cons.IH) auto
      obtain t' ts' where ts: "ts = t' # ts'" using Cons.prems es False by (cases ts) auto
      have tx: "toks_text (fill_toks ts es) = fill ts es"
        using Cons.prems False by (intro fill_toks_text) auto
      have ne: "toks_text ts \<noteq> []"
        using Cons.prems(1) ts accepts_nonempty by auto
      have "accepts t (fill ts es)"
      proof (cases "t' = THole")
        case True
        then have "follows t (hd (fill ts es))" "fill ts es \<noteq> []"
          using Cons.prems es False ts atomic_nonempty by auto
        then show ?thesis using Cons.prems(1) ne accepts_swap by auto
      next
        case t': False
        have same: "fill ts es = tok_text t' @ fill ts' es" "toks_text ts = tok_text t' @ toks_text ts'"
          using t' ts by simp_all
        have tt: "tok_text t' \<noteq> []" using Cons.prems(1) ts accepts_nonempty by auto
        show ?thesis
          using accepts_keep [of t "toks_text ts" "fill ts es"] Cons.prems(1) same tt by simp
      qed
      with c tx False show ?thesis by simp
    qed
  qed
qed

subsection \<open>What the substitution guarantees\<close>

text \<open>The scalar bind values, and what each of them becomes.\<close>

fun scalar_bind :: "gval \<Rightarrow> bool" where
  "scalar_bind GNil = True"
| "scalar_bind (GBool b) = True"
| "scalar_bind (GInt i) = True"
| "scalar_bind (GUint n) = True"
| "scalar_bind (GString s) = True"
| "scalar_bind v = False"

lemma Encode_scalar: "scalar_bind v \<Longrightarrow> Encode E v = Ok (encode_scalar E v)"
  by (cases v; subst Encode.simps) (simp_all add: encode_scalar_def)

lemma encodeParams_scalar:
  "list_all scalar_bind vs \<Longrightarrow> encodeParams E i vs = Ok (map (encode_scalar E) vs)"
  by (induction vs arbitrary: i) (auto simp: Encode_scalar)

lemma scalar_not_slice: "scalar_bind v \<Longrightarrow> \<not> empty_slice v"
  by (cases v) (auto simp: empty_slice_def)

lemma inert_digits: "list_all is_digit ds \<Longrightarrow> list_all inert ds"
  by (induction ds) (auto simp: inert_def is_quote_def is_digit_def)

lemma inert_format_uint [simp]: "list_all inert (format_uint n)"
  by (intro inert_digits format_uint_digits)

lemma atomic_inert: "b \<noteq> [] \<Longrightarrow> list_all inert b \<Longrightarrow> atomic b"
  by (auto simp: atomic_def)

lemma atomic_format_int: "atomic (format_int i)"
  unfolding atomic_def format_int_def
  using inert_format_uint format_uint_not_Nil by (metis (full_types))

lemma atomic_scalar: "scalar_bind v \<Longrightarrow> atomic (encode_scalar E v)"
proof (cases v)
  case (GString s)
  then show "atomic (encode_scalar E v)" by (auto simp: encode_scalar_def atomic_def)
qed (auto simp: encode_scalar_def atomic_format_int inert_def is_quote_def intro!: atomic_inert)

lemma encodeParams_not_sentinel: "encodeParams E i vs \<noteq> Err (ESentinel s)"
  by (induction vs arbitrary: i) (auto split: outcome.splits simp: go_bind_def)

text \<open>C33: (arity) With a first argument that is not an empty slice, \<open>interpolateParams\<close>
  reports \<open>ErrPlaceholderCount\<close> exactly when the number of arguments differs from the number of
  placeholders; the offsets that \<open>placeholders\<close> returns always pass the check of
  \<open>interpolateParams2\<close>.\<close>

theorem interpolateParams_arity:
  "interpolateParams E q params = Err (ESentinel ErrPlaceholderCount)
     \<longleftrightarrow> params \<noteq> [] \<and> \<not> empty_slice (hd params) \<and> length params \<noteq> length (placeholders q)"
  using encodeParams_not_sentinel [of E 0 params ErrPlaceholderCount] placeholders_valid [of q]
  by (cases params)
    (auto simp: interpolateParams_def interpolateParams2_def go_bind_def split: outcome.splits)

text \<open>C2: (no injection) Binding scalars changes no token of the statement. When every argument is a
  string, number, boolean or NULL, there is one argument for each placeholder, and the arguments are
  separated from the literals beside them, the interpolated text lexes to the tokens of the
  statement in which each placeholder is replaced by the tokens of its own value: no argument,
  whatever it holds, opens or closes a literal or a comment of the statement.\<close>

theorem interpolateParams_no_injection:
  assumes "params \<noteq> []" "list_all scalar_bind params" "length params = length (placeholders q)"
    and "separated (lex q) (map (encode_scalar E) params)"
  shows "\<exists>r. interpolateParams E q params = Ok r
           \<and> lex r = fill_toks (lex q) (map (encode_scalar E) params)"
proof -
  let ?es = "map (encode_scalar E) params"
  have at: "list_all atomic ?es"
    using assms(2) by (auto simp: list_all_iff atomic_scalar)
  have len: "length ?es = holes (lex q)" using assms(3) by (simp add: length_placeholders)
  from assms(1) obtain p0 ps where p: "params = p0 # ps" by (cases params) auto
  have "interpolateParams E q params = go_bind (encodeParams E 0 params) (\<lambda>es. Ok (fill (lex q) es))"
    using assms(2,3) p by (intro interpolateParams_fill [OF p]) (simp_all add: length_placeholders scalar_not_slice)
  then have "interpolateParams E q params = Ok (fill (lex q) ?es)"
    using encodeParams_scalar [OF assms(2)] by (simp del: encodeParams.simps)
  moreover have "lex (fill (lex q) ?es) = fill_toks (lex q) ?es"
    using lex_canon [OF canon_fill [OF canon_lex len at assms(4)]] fill_toks_text [OF at len] by simp
  ultimately show ?thesis by blast
qed

text \<open>A string that holds a quote, a comment sign and a statement separator stays one literal.\<close>

definition demo_env :: fmt_env where
  "demo_env = \<lparr>fe_tz = (\<lambda>_. None), fe_sprint = (\<lambda>_. [])\<rparr>"

definition demo_evil :: string where
  "demo_evil = [CHR 0x27] @ ''; drop table t --''"

lemma interpolateParams_no_injection_witness:
  "\<exists>r. interpolateParams demo_env ''select ? , 1'' [GString demo_evil] = Ok r
     \<and> lex r = fill_toks (lex ''select ? , 1'') (map (encode_scalar demo_env) [GString demo_evil])"
  by (rule interpolateParams_no_injection) code_simp+


text \<open>C25: Text between the placeholders is copied byte for byte, and each placeholder
  gives way to the encoding of its own argument, in order; a value that does not encode fails the
  whole statement.\<close>

theorem interpolateParams_fills_holes:
  assumes "params \<noteq> []" "\<not> empty_slice (hd params)" "length params = length (placeholders q)"
  shows "interpolateParams E q params
           = go_bind (encodeParams E 0 params) (\<lambda>es. Ok (fill (lex q) es))"
proof -
  from assms(1) obtain p0 ps where p: "params = p0 # ps" by (cases params) auto
  with assms show ?thesis by (intro interpolateParams_fill [OF p]) (simp_all add: length_placeholders)
qed

lemma interpolateParams_fills_holes_witness:
  "interpolateParams demo_env ''a ? b'' [GSlice [GInt 1, GBool True]]
     = go_bind (encodeParams demo_env 0 [GSlice [GInt 1, GBool True]]) (\<lambda>es. Ok (fill (lex ''a ? b'') es))"
  by (rule interpolateParams_fills_holes) (simp add: empty_slice_def, simp add: empty_slice_def, code_simp)

end
