(* ===== verification/Connection.thy ===== *)
theory Connection
  imports Dsn Interpolate
begin

text \<open>
  \<open>connection.go\<close>, \<open>rows.go\<close>, \<open>transaction.go\<close>, \<open>stmt.go\<close>, \<open>result.go\<close> and \<open>driver.go\<close>: a connection
  as \<open>database/sql\<close> drives it.

  \<open>conn\<close> is a \<open>LakeConn\<close> with the client it owns.  \<open>dc_rest\<close> says whether \<open>dc.rest\<close> is still set:
  the client's state outlives the pointer (its requests have been sent), but every method call on
  the nil pointer panics.  \<open>dc.ctx\<close> is the background context, \<open>dc.cancel\<close> is never set, and the
  loggers only print, so none of them is part of the state.
\<close>

subsection \<open>State\<close>

record conn =
  dc_cfg :: "config option"
  dc_closed :: bool
  dc_rest :: bool
  dc_st :: st
  dc_uuids :: nat

text \<open>What a new client finds: the requests sent and the random draws made before it.\<close>

record world =
  w_sent :: "request list"
  w_loads :: nat
  w_draws :: nat
  w_stats :: "(string \<times> query_stats) list"
  w_uuids :: nat

definition nil_deref :: string where "nil_deref = ''nil pointer dereference''"

text \<open>A method call on \<open>dc.rest\<close>.\<close>

definition with_rest :: "(st \<Rightarrow> 'a go \<times> st) \<Rightarrow> conn \<Rightarrow> 'a go \<times> conn" where
  "with_rest f dc =
     (if dc_rest dc then (case f (dc_st dc) of (r, s) \<Rightarrow> (r, dc\<lparr>dc_st := s\<rparr>))
      else (Panic nil_deref, dc))"

definition run_rest :: "(st \<Rightarrow> st) \<Rightarrow> conn \<Rightarrow> unit go \<times> conn" where
  "run_rest f = with_rest (\<lambda>s. (Ok (), f s))"

subsection \<open>Results (\<open>result.go\<close>)\<close>

datatype sql_result = NoResult | LakeResult int int

definition newLakeResult :: "int \<Rightarrow> int \<Rightarrow> sql_result" where
  "newLakeResult affectedRows insertId = LakeResult affectedRows insertId"

definition LastInsertId :: "sql_result \<Rightarrow> int \<times> go_error option" where
  "LastInsertId r =
     (case r of
        NoResult \<Rightarrow> (0, None)
      | LakeResult a i \<Rightarrow> (i, Some (EMsg ''LastInsertId is not supported'')))"

definition RowsAffected :: "sql_result \<Rightarrow> int \<times> go_error option" where
  "RowsAffected r = (case r of NoResult \<Rightarrow> (0, None) | LakeResult a i \<Rightarrow> (a, None))"

subsection \<open>Statements run to the end\<close>

text \<open>\<open>checkQueryID\<close>: a context without a query ID gets a fresh UUID without its dashes.\<close>

definition fresh_query_id :: "env \<Rightarrow> nat \<Rightarrow> string" where
  "fresh_query_id E n = filter (\<lambda>c. c \<noteq> CHR ''-'') (e_uuid E n)"

definition checkQueryID :: "env \<Rightarrow> go_context \<Rightarrow> conn \<Rightarrow> go_context \<times> conn" where
  "checkQueryID E ctx dc =
     (case cx_QueryID ctx of
        Some _ \<Rightarrow> (ctx, dc)
      | None \<Rightarrow>
          (ctx\<lparr>cx_QueryID := Some (fresh_query_id E (dc_uuids dc))\<rparr>, dc\<lparr>dc_uuids := Suc (dc_uuids dc)\<rparr>))"

text \<open>\<open>exec\<close>; with an error the result is \<open>emptyResult\<close>.\<close>

definition exec ::
  "env \<Rightarrow> fmt_env \<Rightarrow> go_context \<Rightarrow> string \<Rightarrow> int list option \<Rightarrow> gval list \<Rightarrow> conn
    \<Rightarrow> sql_result go \<times> conn" where
  "exec E F ctx0 query0 phs args dc0 =
     (let (ctx, dc) = checkQueryID E ctx0 dc0 in
      case buildQuery F query0 args phs of
        Err e \<Rightarrow> (Err e, dc)
      | Panic p \<Rightarrow> (Panic p, dc)
      | Ok query \<Rightarrow>
          (case with_rest (QuerySync E ctx query) dc of
             (Ok resp, dc') \<Rightarrow>
               (go_bind (parseAffectedRows (e_json E) resp) (\<lambda>n. Ok (newLakeResult n 0)), dc')
           | (Err e, dc') \<Rightarrow> (Err e, dc')
           | (Panic p, dc') \<Rightarrow> (Panic p, dc')))"

subsection \<open>Rows (\<open>rows.go\<close>)\<close>

record next_rows =
  nr_schema :: result_schema
  nr_closed :: bool
  nr_ctx :: go_context
  nr_resp :: "query_response option"

text \<open>The loop of \<open>waitForData\<close>, with \<open>e_pages\<close> as its fuel.\<close>

fun waitLoop :: "env \<Rightarrow> go_context \<Rightarrow> nat \<Rightarrow> query_response \<Rightarrow> conn \<Rightarrow> query_response go \<times> conn" where
  "waitLoop E ctx fuel response dc =
     (if ReadFinished response \<or> bufferedRowCount response \<noteq> 0 \<or> qr_Error response \<noteq> None
      then (Ok response, dc)
      else
        case fuel of
          0 \<Rightarrow> (Panic ''out of fuel'', dc)
        | Suc n \<Rightarrow>
            (case with_rest (PollQuery E ctx (qr_NextURI response)) dc of
               (Err e, dc1) \<Rightarrow>
                 (case run_rest (if errors_is e CtxCanceled then KillQuery E Background response
                                 else CloseQuery E ctx response) dc1 of
                    (Panic p, dc2) \<Rightarrow> (Panic p, dc2)
                  | (_, dc2) \<Rightarrow> (Err e, dc2))
             | (Panic p, dc1) \<Rightarrow> (Panic p, dc1)
             | (Ok None, dc1) \<Rightarrow> (Panic nil_deref, dc1)
             | (Ok (Some next), dc1) \<Rightarrow>
                 (case qr_Error next of
                    Some e \<Rightarrow>
                      (case run_rest (CloseQuery E ctx next) dc1 of
                         (Panic p, dc2) \<Rightarrow> (Panic p, dc2)
                       | (_, dc2) \<Rightarrow> (Err (EMsg (''query error: '' @ query_error_text e)), dc2))
                  | None \<Rightarrow> waitLoop E ctx n next dc1)))"

declare waitLoop.simps [simp del]

definition waitForData :: "env \<Rightarrow> go_context \<Rightarrow> query_response \<Rightarrow> conn \<Rightarrow> query_response go \<times> conn" where
  "waitForData E ctx response dc =
     (case qr_Error response of
        Some e \<Rightarrow> (Err (EQuery e), dc)
      | None \<Rightarrow> waitLoop E ctx (e_pages E) response dc)"

text \<open>\<open>columnTypeOptions\<close>: a closed connection has no configuration left.\<close>

definition columnTypeOptions :: "conn \<Rightarrow> location option \<Rightarrow> ColumnTypeOptions go" where
  "columnTypeOptions dc loc =
     (case dc_cfg dc of
        None \<Rightarrow>
          (case loc of
             None \<Rightarrow> Panic nil_deref
           | Some l \<Rightarrow> Ok (SetTimezone l defaultColumnTypeOptions))
      | Some cfg \<Rightarrow>
          let o1 = (case loc of
                      Some l \<Rightarrow> SetTimezone l defaultColumnTypeOptions
                    | None \<Rightarrow>
                        (case cfg_Location cfg of
                           Some l \<Rightarrow> SetTimezone l defaultColumnTypeOptions
                         | None \<Rightarrow> defaultColumnTypeOptions));
              o2 = (case map_of (params_of cfg) ''binary_output_format'' of
                      Some f \<Rightarrow> SetBinaryOutputFormat f o1 | None \<Rightarrow> o1)
          in Ok (case map_of (params_of cfg) ''http_json_result_mode'' of
                   Some m \<Rightarrow> SetHTTPJSONResultMode m o2 | None \<Rightarrow> o2))"

text \<open>Rows that do not fit the schema.\<close>

definition misfit :: "data_field list option \<Rightarrow> 'a list list \<Rightarrow> bool" where
  "misfit schema rows \<longleftrightarrow>
     (case rows of
        [] \<Rightarrow> False
      | row # _ \<Rightarrow> (case schema of None \<Rightarrow> True | Some fs \<Rightarrow> length fs \<noteq> length row))"

definition response_location :: "tzdb \<Rightarrow> query_response \<Rightarrow> location option go" where
  "response_location tz resp =
     (case qr_Settings resp of
        Some st \<Rightarrow>
          if TimeZone st \<noteq> [] then go_bind (LoadLocation tz (TimeZone st)) (\<lambda>l. Ok (Some l)) else Ok None
      | None \<Rightarrow> Ok None)"

definition newNextRows :: "env \<Rightarrow> go_context \<Rightarrow> query_response \<Rightarrow> conn \<Rightarrow> next_rows go" where
  "newNextRows E ctx resp0 dc =
     (if misfit (qr_Schema resp0) (qr_Data resp0) then
        Err (EMsg ''newNextRows: internal error, data and schema not match'')
      else
        go_bind (if qr_typedRows resp0 = None then materializeJSONQueryRows (e_tz E) resp0 else Ok resp0) (\<lambda>resp.
        if misfit (qr_Schema resp) (rows_of resp) then
          Err (EMsg ''newNextRows: internal error, typed data and schema not match'')
        else
          go_bind (response_location (e_tz E) resp) (\<lambda>loc.
          go_bind (columnTypeOptions dc loc) (\<lambda>opts.
          go_bind (parse_schema (qr_Schema resp) opts) (\<lambda>schema.
          Ok \<lparr>nr_schema = schema, nr_closed = False, nr_ctx = ctx, nr_resp = Some resp\<rparr>)))))"

definition Columns :: "next_rows \<Rightarrow> string list" where
  "Columns r = columns (nr_schema r)"

definition doClose :: "env \<Rightarrow> next_rows \<Rightarrow> conn \<Rightarrow> unit go \<times> next_rows \<times> conn" where
  "doClose E r dc =
     (if \<not> nr_closed r then
        let r1 = r\<lparr>nr_closed := True\<rparr> in
        case nr_resp r of
          Some resp \<Rightarrow>
            if qr_FinalURI resp \<noteq> [] then
              (case run_rest (CloseQuery E (WithoutCancel (nr_ctx r)) resp) dc of
                 (Panic p, dc1) \<Rightarrow> (Panic p, r1, dc1)
               | (_, dc1) \<Rightarrow> (Ok (), r1\<lparr>nr_resp := None\<rparr>, dc1))
            else (Ok (), r1, dc)
        | None \<Rightarrow> (Ok (), r1, dc)
      else (Ok (), r, dc))"

definition rows_Close :: "env \<Rightarrow> next_rows \<Rightarrow> conn \<Rightarrow> unit go \<times> next_rows \<times> conn" where
  "rows_Close = doClose"

text \<open>A row of texts, parsed cell by cell.\<close>

fun parse_cells :: "tzdb \<Rightarrow> column_type list \<Rightarrow> string option list \<Rightarrow> dvalue list go" where
  "parse_cells tz [] _ = Ok []"
| "parse_cells tz (t # ts) [] = Ok []"
| "parse_cells tz (t # ts) (None # cells) = go_bind (parse_cells tz ts cells) (\<lambda>vs. Ok (DNil # vs))"
| "parse_cells tz (t # ts) (Some v # cells) =
     go_bind (ct_Parse tz t v) (\<lambda>x. go_bind (parse_cells tz ts cells) (\<lambda>vs. Ok (x # vs)))"

text \<open>The next buffered row, taken out of the response.\<close>

definition take_row :: "query_response \<Rightarrow> string option list \<times> dvalue list \<times> query_response" where
  "take_row r =
     (let line = (case qr_Data r of [] \<Rightarrow> [] | l # _ \<Rightarrow> l);
          typed = (case rows_of r of [] \<Rightarrow> [] | t # _ \<Rightarrow> t)
      in (line, typed,
          r\<lparr>qr_Data := tl (qr_Data r),
            qr_typedRows := (if rows_of r = [] then qr_typedRows r else Some (tl (rows_of r)))\<rparr>))"

definition row_values :: "tzdb \<Rightarrow> result_schema \<Rightarrow> string option list \<Rightarrow> dvalue list \<Rightarrow> dvalue list go" where
  "row_values tz schema line typed =
     (if typed \<noteq> [] \<and> line \<noteq> [] then
        Err (EMsg ''query error: internal error, both typed and raw row data are set'')
      else if typed \<noteq> [] then
        (if length typed \<noteq> length (columns schema) then
           Err (EMsg ''query error: internal error, typed data and schema not match'')
         else Ok typed)
      else if length line \<noteq> length (columns schema) then
        Err (EMsg ''query error: internal error, data and schema not match'')
      else parse_cells tz (types schema) line)"

text \<open>\<open>Next\<close> with a destination of \<open>width\<close> values: the row, or an error (\<open>io.EOF\<close> at the end).\<close>

definition Next :: "env \<Rightarrow> nat \<Rightarrow> next_rows \<Rightarrow> conn \<Rightarrow> dvalue list go \<times> next_rows \<times> conn" where
  "Next E width r dc =
     (if width \<noteq> length (Columns r) then
        (Err (EMsg ''query error: Next dest must has same size as the Columns() are wide''), r, dc)
      else
        case (nr_closed r, nr_resp r) of
          (False, Some resp0) \<Rightarrow>
            (case (if bufferedRowCount resp0 = 0 then waitForData E (nr_ctx r) resp0 dc else (Ok resp0, dc)) of
               (Err e, dc1) \<Rightarrow> (Err e, r\<lparr>nr_resp := None\<rparr>, dc1)
             | (Panic p, dc1) \<Rightarrow> (Panic p, r, dc1)
             | (Ok resp, dc1) \<Rightarrow>
                 if bufferedRowCount resp = 0 then
                   (case doClose E (r\<lparr>nr_resp := Some resp\<rparr>) dc1 of
                      (Panic p, r2, dc2) \<Rightarrow> (Panic p, r2, dc2)
                    | (_, r2, dc2) \<Rightarrow> (Err (ESentinel IoEOF), r2, dc2))
                 else
                   (case take_row resp of
                      (line, typed, resp') \<Rightarrow>
                        (row_values (e_tz E) (nr_schema r) line typed, r\<lparr>nr_resp := Some resp'\<rparr>, dc1)))
        | _ \<Rightarrow> (Err (ESentinel IoEOF), r, dc))"

text \<open>\<open>query\<close>: an error after the statement has started closes it on the server.\<close>

definition query ::
  "env \<Rightarrow> fmt_env \<Rightarrow> go_context \<Rightarrow> string \<Rightarrow> int list option \<Rightarrow> gval list \<Rightarrow> conn
    \<Rightarrow> next_rows go \<times> conn" where
  "query E F ctx0 query0 phs args dc0 =
     (let (ctx, dc) = checkQueryID E ctx0 dc0 in
      case buildQuery F query0 args phs of
        Err e \<Rightarrow> (Err e, dc)
      | Panic p \<Rightarrow> (Panic p, dc)
      | Ok q \<Rightarrow>
          (case with_rest (StartQuery E ctx q) dc of
             (Err e, dc1) \<Rightarrow> (Err (EWrap ''query failed'' e), dc1)
           | (Panic p, dc1) \<Rightarrow> (Panic p, dc1)
           | (Ok None, dc1) \<Rightarrow> (Panic nil_deref, dc1)
           | (Ok (Some r0), dc1) \<Rightarrow>
               (case (case qr_Error r0 of
                        Some e \<Rightarrow> (Err (EMsg (''query error: '' @ query_error_text e)), dc1)
                      | None \<Rightarrow>
                          (case waitForData E ctx r0 dc1 of
                             (Ok response, dc2) \<Rightarrow> (newNextRows E ctx response dc2, dc2)
                           | (Err e, dc2) \<Rightarrow> (Err e, dc2)
                           | (Panic p, dc2) \<Rightarrow> (Panic p, dc2))) of
                  (Err e, dc2) \<Rightarrow>
                    (case run_rest (CloseQuery E ctx r0) dc2 of
                       (Panic p, dc3) \<Rightarrow> (Panic p, dc3)
                     | (_, dc3) \<Rightarrow> (Err e, dc3))
                | res \<Rightarrow> res)))"

subsection \<open>Column metadata\<close>

definition column_at :: "(column_type \<Rightarrow> 'a) \<Rightarrow> next_rows \<Rightarrow> nat \<Rightarrow> 'a go" where
  "column_at f r i =
     (if i < length (types (nr_schema r)) then Ok (f (types (nr_schema r) ! i))
      else Panic ''index out of range'')"

definition ColumnTypeScanType :: "next_rows \<Rightarrow> nat \<Rightarrow> scan_type go" where
  "ColumnTypeScanType = column_at ScanType"

definition ColumnTypeDatabaseTypeName :: "next_rows \<Rightarrow> nat \<Rightarrow> string go" where
  "ColumnTypeDatabaseTypeName = column_at DatabaseTypeName"

definition ColumnTypeNullable :: "next_rows \<Rightarrow> nat \<Rightarrow> (bool \<times> bool) go" where
  "ColumnTypeNullable = column_at ct_Nullable"

definition ColumnTypeLength :: "next_rows \<Rightarrow> nat \<Rightarrow> (int \<times> bool) go" where
  "ColumnTypeLength = column_at ct_Length"

definition ColumnTypePrecisionScale :: "next_rows \<Rightarrow> nat \<Rightarrow> (int \<times> int \<times> bool) go" where
  "ColumnTypePrecisionScale = column_at PrecisionScale"

subsection \<open>Transactions (\<open>transaction.go\<close>)\<close>

text \<open>A transaction is the context its \<open>COMMIT\<close> or \<open>ROLLBACK\<close> runs on; the connection is the one it
  was begun on.\<close>

definition txContext :: "go_context \<Rightarrow> go_context" where
  "txContext ctx = contextWithoutQueryID (WithoutCancel ctx)"

definition unit_result :: "'a go \<Rightarrow> unit go" where
  "unit_result r = go_bind r (\<lambda>_. Ok ())"

definition BeginTx :: "env \<Rightarrow> fmt_env \<Rightarrow> go_context \<Rightarrow> conn \<Rightarrow> go_context go \<times> conn" where
  "BeginTx E F ctx dc =
     (if \<not> dc_rest dc then (Err (ESentinel ErrBadConn), dc)
      else
        case exec E F ctx ''BEGIN'' None [] dc of
          (r, dc') \<Rightarrow> (go_bind r (\<lambda>_. Ok (txContext ctx)), dc'))"

definition Begin :: "env \<Rightarrow> fmt_env \<Rightarrow> conn \<Rightarrow> go_context go \<times> conn" where
  "Begin E F = BeginTx E F Background"

definition Commit :: "env \<Rightarrow> fmt_env \<Rightarrow> go_context \<Rightarrow> conn \<Rightarrow> unit go \<times> conn" where
  "Commit E F tx dc =
     (if \<not> dc_rest dc then (Err (ESentinel ErrBadConn), dc)
      else
        case sessionState (cl (dc_st dc)) of
          None \<Rightarrow> (Panic nil_deref, dc)
        | Some ss \<Rightarrow>
            if ss_TxnState ss \<noteq> [] then
              (case exec E F tx ''COMMIT'' None [] dc of (r, dc') \<Rightarrow> (unit_result r, dc'))
            else (Ok (), dc))"

definition Rollback :: "env \<Rightarrow> fmt_env \<Rightarrow> go_context \<Rightarrow> conn \<Rightarrow> unit go \<times> conn" where
  "Rollback E F tx dc =
     (if \<not> dc_rest dc then (Err (ESentinel ErrBadConn), dc)
      else case exec E F tx ''ROLLBACK'' None [] dc of (r, dc') \<Rightarrow> (unit_result r, dc'))"

subsection \<open>Statements (\<open>stmt.go\<close>)\<close>

record stmt =
  sm_query :: string
  sm_placeholders :: "int list"
  sm_closed :: bool

text \<open>\<open>driver.NamedValue\<close>: only the value is used.\<close>

type_synonym named_value = "string \<times> nat \<times> gval"

definition named_args :: "named_value list \<Rightarrow> gval list" where
  "named_args args = map (\<lambda>a. snd (snd a)) args"

definition prepare :: "env \<Rightarrow> go_context \<Rightarrow> string \<Rightarrow> conn \<Rightarrow> stmt go" where
  "prepare E ctx q dc =
     (if \<not> dc_rest dc then Err (ESentinel ErrBadConn)
      else Ok \<lparr>sm_query = q, sm_placeholders = placeholders q, sm_closed = False\<rparr>)"

definition PrepareContext :: "env \<Rightarrow> go_context \<Rightarrow> string \<Rightarrow> conn \<Rightarrow> stmt go \<times> conn" where
  "PrepareContext E ctx q dc0 =
     (let (ctx', dc) = checkQueryID E ctx dc0 in (prepare E ctx' q dc, dc))"

definition Prepare :: "env \<Rightarrow> string \<Rightarrow> conn \<Rightarrow> stmt go \<times> conn" where
  "Prepare E = PrepareContext E Background"

definition stmt_Close :: "stmt \<Rightarrow> unit go \<times> stmt" where
  "stmt_Close s = (Ok (), s\<lparr>sm_closed := True\<rparr>)"

definition NumInput :: "stmt \<Rightarrow> nat" where
  "NumInput s = length (sm_placeholders s)"

definition stmt_ExecContext ::
  "env \<Rightarrow> fmt_env \<Rightarrow> go_context \<Rightarrow> stmt \<Rightarrow> named_value list \<Rightarrow> conn \<Rightarrow> sql_result go \<times> conn" where
  "stmt_ExecContext E F ctx s args dc =
     (if sm_closed s then (Err (ESentinel ErrStmtClosed), dc)
      else exec E F ctx (sm_query s) (Some (sm_placeholders s)) (named_args args) dc)"

definition stmt_Exec :: "env \<Rightarrow> fmt_env \<Rightarrow> stmt \<Rightarrow> gval list \<Rightarrow> conn \<Rightarrow> sql_result go \<times> conn" where
  "stmt_Exec E F s args dc =
     (if sm_closed s then (Err (ESentinel ErrStmtClosed), dc)
      else exec E F Background (sm_query s) (Some (sm_placeholders s)) args dc)"

definition stmt_QueryContext ::
  "env \<Rightarrow> fmt_env \<Rightarrow> go_context \<Rightarrow> stmt \<Rightarrow> named_value list \<Rightarrow> conn \<Rightarrow> next_rows go \<times> conn" where
  "stmt_QueryContext E F ctx s args dc =
     (if sm_closed s then (Err (ESentinel ErrStmtClosed), dc)
      else query E F ctx (sm_query s) (Some (sm_placeholders s)) (named_args args) dc)"

definition stmt_Query :: "env \<Rightarrow> fmt_env \<Rightarrow> stmt \<Rightarrow> gval list \<Rightarrow> conn \<Rightarrow> next_rows go \<times> conn" where
  "stmt_Query E F s args dc =
     (if sm_closed s then (Err (ESentinel ErrStmtClosed), dc)
      else query E F Background (sm_query s) (Some (sm_placeholders s)) args dc)"

subsection \<open>The connection\<close>

definition ExecContext ::
  "env \<Rightarrow> fmt_env \<Rightarrow> go_context \<Rightarrow> string \<Rightarrow> named_value list \<Rightarrow> conn \<Rightarrow> sql_result go \<times> conn" where
  "ExecContext E F ctx q args = exec E F ctx q None (named_args args)"

definition QueryContext ::
  "env \<Rightarrow> fmt_env \<Rightarrow> go_context \<Rightarrow> string \<Rightarrow> named_value list \<Rightarrow> conn \<Rightarrow> next_rows go \<times> conn" where
  "QueryContext E F ctx q args = query E F ctx q None (named_args args)"

definition Ping :: "env \<Rightarrow> go_context \<Rightarrow> conn \<Rightarrow> unit go \<times> conn" where
  "Ping E ctx dc =
     (case with_rest (Verify E ctx) dc of (r, dc') \<Rightarrow> (map_err (EWrap ''ping failed'') r, dc'))"

definition cleanup :: "env \<Rightarrow> conn \<Rightarrow> unit go \<times> conn" where
  "cleanup E dc =
     (case with_rest (Logout E Background) dc of
        (Panic p, dc') \<Rightarrow> (Panic p, dc')
      | (_, dc') \<Rightarrow> (Ok (), dc'\<lparr>dc_rest := False, dc_cfg := None\<rparr>))"

definition conn_Close :: "env \<Rightarrow> conn \<Rightarrow> unit go \<times> conn" where
  "conn_Close E dc = (if \<not> dc_closed dc then cleanup E (dc\<lparr>dc_closed := True\<rparr>) else (Ok (), dc))"

text \<open>\<open>buildLakeConn\<close>: the new client, and the first call that may log in.\<close>

definition new_conn :: "env \<Rightarrow> config \<Rightarrow> world \<Rightarrow> conn" where
  "new_conn E cfg w =
     \<lparr>dc_cfg = Some cfg, dc_closed = False, dc_rest = True,
      dc_st = \<lparr>cl = NewAPIClientFromConfig cfg (e_uuid E (w_uuids w)) (randRouteHint E (w_draws w)),
               net = \<lparr>ns_Jar = NewAPIHttpClientFromConfig, ns_Sent = w_sent w\<rparr>,
               st_loads = w_loads w, st_draws = w_draws w + 16, st_stats = w_stats w\<rparr>,
      dc_uuids = Suc (w_uuids w)\<rparr>"

definition buildLakeConn :: "env \<Rightarrow> go_context \<Rightarrow> config \<Rightarrow> world \<Rightarrow> conn go \<times> conn" where
  "buildLakeConn E ctx cfg w =
     (case with_rest (initializeConnectionInfo E ctx) (new_conn E cfg w) of
        (Ok _, dc) \<Rightarrow> (Ok dc, dc)
      | (Err e, dc) \<Rightarrow>
          (case with_rest (Logout E Background) dc of
             (Panic p, dc') \<Rightarrow> (Panic p, dc')
           | (_, dc') \<Rightarrow> (Err e, dc'))
      | (Panic p, dc) \<Rightarrow> (Panic p, dc))"

subsection \<open>The driver (\<open>driver.go\<close>, \<open>Connect\<close> of \<open>dsn.go\<close>)\<close>

definition OpenWithConfig :: "env \<Rightarrow> go_context \<Rightarrow> config \<Rightarrow> world \<Rightarrow> conn go \<times> conn" where
  "OpenWithConfig = buildLakeConn"

definition OpenConnector :: "env \<Rightarrow> (strmap \<Rightarrow> strmap) \<Rightarrow> string \<Rightarrow> config go" where
  "OpenConnector E order dsn = ParseDSN (e_quoted E) (e_tz E) order dsn"

definition Connect :: "env \<Rightarrow> go_context \<Rightarrow> config \<Rightarrow> world \<Rightarrow> conn go \<times> conn" where
  "Connect E ctx cfg = OpenWithConfig E ctx cfg"

text \<open>\<open>Open\<close>: the connection, and the state it leaves if a client was made at all.\<close>

definition Open ::
  "env \<Rightarrow> (strmap \<Rightarrow> strmap) \<Rightarrow> string \<Rightarrow> world \<Rightarrow> conn go \<times> conn option" where
  "Open E order dsn w =
     (case ParseDSN (e_quoted E) (e_tz E) order dsn of
        Err e \<Rightarrow> (Err e, None)
      | Panic p \<Rightarrow> (Panic p, None)
      | Ok cfg \<Rightarrow> (case OpenWithConfig E Background cfg w of (r, dc) \<Rightarrow> (r, Some dc)))"

end
