(* ===== verification/Presign.thy ===== *)
theory Presign
  imports Query_Client
begin

text \<open>
  \<open>presign_security.go\<close>: which presigned URLs an upload may use, which addresses it may dial, and the
  upload itself.

  \<open>storage\<close> is the world of an upload: the resolver, the peers, and the order in which Go walks a map.
  It sees the events so far, so that it may answer differently every time it is asked (a rebinding name
  server is one of its instances).  An address is what the resolver returns, the bytes of a \<open>net.IP\<close> and
  a zone; its text form, which \<open>net.JoinHostPort\<close> makes and the dialer reads back, stands for the address
  itself.
\<close>

unbundle bit_operations_syntax

subsection \<open>Addresses (\<open>net/netip\<close>)\<close>

type_synonym ip = "8 word list"

datatype addr = V4 "32 word" | V6 "128 word"

definition AddrFromSlice :: "ip \<Rightarrow> addr option" where
  "AddrFromSlice bs =
     (if length bs = 4 then Some (V4 (word_rcat bs))
      else if length bs = 16 then Some (V6 (word_rcat bs)) else None)"

text \<open>\<open>::ffff:a.b.c.d\<close> is an IPv4 address.\<close>

definition Unmap :: "addr \<Rightarrow> addr" where
  "Unmap a = (case a of V6 w \<Rightarrow> if drop_bit 32 w = 0xFFFF then V4 (ucast w) else a | V4 _ \<Rightarrow> a)"

text \<open>The first \<open>n\<close> bits of two addresses of the same family agree.\<close>

definition in_prefix :: "addr \<Rightarrow> nat \<Rightarrow> addr \<Rightarrow> bool" where
  "in_prefix p n a =
     (case (p, a) of
        (V4 v, V4 w) \<Rightarrow> drop_bit (32 - n) (w XOR v) = 0
      | (V6 v, V6 w) \<Rightarrow> drop_bit (128 - n) (w XOR v) = 0
      | _ \<Rightarrow> False)"

definition IsLoopback :: "addr \<Rightarrow> bool" where
  "IsLoopback a = (case a of V4 w \<Rightarrow> drop_bit 24 w = 127 | V6 w \<Rightarrow> w = 1)"

definition IsMulticast :: "addr \<Rightarrow> bool" where
  "IsMulticast a = (case a of V4 w \<Rightarrow> drop_bit 24 w AND 0xF0 = 0xE0 | V6 w \<Rightarrow> drop_bit 120 w = 0xFF)"

definition IsLinkLocalUnicast :: "addr \<Rightarrow> bool" where
  "IsLinkLocalUnicast a =
     (case a of V4 w \<Rightarrow> drop_bit 16 w = 0xA9FE | V6 w \<Rightarrow> drop_bit 112 w AND 0xFFC0 = 0xFE80)"

definition IsPrivate :: "addr \<Rightarrow> bool" where
  "IsPrivate a =
     (case a of
        V4 w \<Rightarrow> drop_bit 24 w = 10 \<or> drop_bit 16 w AND 0xFFF0 = 0xAC10 \<or> drop_bit 16 w = 0xC0A8
      | V6 w \<Rightarrow> drop_bit 120 w AND 0xFE = 0xFC)"

definition IsGlobalUnicast :: "addr \<Rightarrow> bool" where
  "IsGlobalUnicast a \<longleftrightarrow>
     a \<noteq> V4 0 \<and> a \<noteq> V4 0xFFFFFFFF \<and> a \<noteq> V6 0
     \<and> \<not> IsLoopback a \<and> \<not> IsMulticast a \<and> \<not> IsLinkLocalUnicast a"

subsection \<open>\<open>publicPresignIP\<close>\<close>

definition ipv4 :: "nat \<Rightarrow> nat \<Rightarrow> nat \<Rightarrow> nat \<Rightarrow> addr" where
  "ipv4 a b c d = V4 (of_nat (((a * 256 + b) * 256 + c) * 256 + d))"

text \<open>The prefixes that are refused besides the ones the methods above tell.\<close>

definition presign_blocks :: "(addr \<times> nat) list" where
  "presign_blocks =
     [(ipv4 0 0 0 0, 8), (ipv4 100 64 0 0, 10), (ipv4 192 0 0 0, 24), (ipv4 192 0 2 0, 24),
      (ipv4 198 18 0 0, 15), (ipv4 198 51 100 0, 24), (ipv4 203 0 113 0, 24), (ipv4 240 0 0 0, 4),
      (V6 0x20010DB8000000000000000000000000, 32)]"

definition public_addr :: "addr \<Rightarrow> bool" where
  "public_addr a \<longleftrightarrow>
     \<not> (\<not> IsGlobalUnicast a \<or> IsPrivate a \<or> IsLoopback a \<or> IsLinkLocalUnicast a)
     \<and> list_all (\<lambda>(p, n). \<not> in_prefix p n a) presign_blocks"

definition publicPresignIP :: "ip \<Rightarrow> bool" where
  "publicPresignIP bs = (case AddrFromSlice bs of None \<Rightarrow> False | Some a \<Rightarrow> public_addr (Unmap a))"

subsection \<open>\<open>validatePresignURL\<close>\<close>

definition presign_url_error :: go_error where
  "presign_url_error = EMsg ''presigned URL requires HTTPS and a host without credentials or fragment''"

definition validatePresignURL :: "url \<Rightarrow> bool \<Rightarrow> go_error option" where
  "validatePresignURL u allowPrivate =
     (if hostname (Host u) = [] \<or> User u \<noteq> None \<or> Fragment u \<noteq> []
         \<or> Scheme u \<noteq> ''https'' \<and> \<not> (allowPrivate \<and> Scheme u = ''http'')
      then Some presign_url_error else None)"

subsection \<open>Dialling\<close>

record ipaddr =
  ia_IP :: ip
  ia_Zone :: string

text \<open>What an upload does to the outside: a lookup, a connection attempt, a request sent over the
  connection to an address, with the length it announces.\<close>

datatype storage_event =
    Lookup string
  | Dial ipaddr string
  | Upload ipaddr request int

type_synonym storage_log = "storage_event list"

record storage =
  sg_ascii :: "string \<Rightarrow> string"
  sg_lookup :: "storage_log \<Rightarrow> ipaddr list option"
  sg_connect :: "storage_log \<Rightarrow> bool"
  sg_answer :: "storage_log \<Rightarrow> int option"
  sg_order :: "strmap \<Rightarrow> strmap"

text \<open>The loop over the answers of the resolver: the first that accepts the connection.\<close>

fun dial_first :: "storage \<Rightarrow> string \<Rightarrow> ipaddr list \<Rightarrow> storage_log \<Rightarrow> ipaddr go \<times> storage_log" where
  "dial_first S port [] l = (Err (EMsg ''could not connect to storage address''), l)"
| "dial_first S port (ip # ips) l =
     (let l' = l @ [Dial ip port]
      in if sg_connect S l' then (Ok ip, l') else dial_first S port ips l')"

definition non_public :: string where
  "non_public = ''storage resolves to a non-public address; trusted private storage requires presign_allow_private=true''"

text \<open>\<open>DialContext\<close> of \<open>newPresignTransport\<close>.\<close>

definition presign_dial :: "storage \<Rightarrow> bool \<Rightarrow> string \<Rightarrow> storage_log \<Rightarrow> ipaddr go \<times> storage_log" where
  "presign_dial S allowPrivate address l =
     (case SplitHostPort address of
        None \<Rightarrow> (Err (EMsg ''invalid storage address''), l)
      | Some (host, port) \<Rightarrow>
          let l1 = l @ [Lookup host] in
          (case sg_lookup S l1 of
             None \<Rightarrow> (Err (EMsg ''could not resolve storage address''), l1)
           | Some ips \<Rightarrow>
               if ips = [] then (Err (EMsg ''could not resolve storage address''), l1)
               else if list_ex (\<lambda>ip. \<not> allowPrivate \<and> \<not> publicPresignIP (ia_IP ip)) ips then
                 (Err (EMsg non_public), l1)
               else dial_first S port ips l1))"

subsection \<open>\<open>Do\<close> of the upload client\<close>

text \<open>\<open>URL.Port\<close>, and the address the transport dials.\<close>

definition url_port :: "string \<Rightarrow> string" where
  "url_port hostport =
     (case last_index hostport CHR '':'' of
        Some i \<Rightarrow> if valid_optional_port (drop i hostport) then drop (i + 1) hostport else []
      | None \<Rightarrow> [])"

definition dial_address :: "storage \<Rightarrow> url \<Rightarrow> string" where
  "dial_address S u =
     (let host = hostname (Host u);
          port = (if url_port (Host u) \<noteq> [] then url_port (Host u)
                  else if Scheme u = ''https'' then ''443'' else if Scheme u = ''http'' then ''80'' else [])
      in JoinHostPort (if list_all (\<lambda>c. of_char c < (128 :: nat)) host then host else sg_ascii S host) port)"

text \<open>The transport refuses a header that is not a token, or a value with a control character.\<close>

definition token_char :: "char \<Rightarrow> bool" where
  "token_char c \<longleftrightarrow> is_alpha c \<or> is_digit c \<or> c \<in> set ''!#$%&*+-.^_`|~'' \<or> c = CHR 0x27"

definition valid_field :: "string \<times> string \<Rightarrow> bool" where
  "valid_field f \<longleftrightarrow>
     fst f \<noteq> [] \<and> list_all token_char (fst f)
     \<and> list_all (\<lambda>c. (32 \<le> (of_char c :: nat) \<and> (of_char c :: nat) \<noteq> 127) \<or> c = CHR 0x09) (snd f)"

text \<open>One request, because redirects are not followed (\<open>ErrUseLastResponse\<close>): the status it is
  answered with, or nothing.\<close>

definition presign_do ::
  "storage \<Rightarrow> bool \<Rightarrow> bool \<Rightarrow> request \<Rightarrow> int \<Rightarrow> storage_log \<Rightarrow> int option \<times> storage_log" where
  "presign_do S allowPrivate cancelled req len l =
     (if \<not> list_all valid_field (rq_Header req) \<or> cancelled then (None, l)
      else
        case presign_dial S allowPrivate (dial_address S (rq_URL req)) l of
          (Ok ip, l1) \<Rightarrow> (let l2 = l1 @ [Upload ip req len] in (sg_answer S l2, l2))
        | (_, l1) \<Rightarrow> (None, l1))"

end
