(* ===== verification/Stage.thy ===== *)
theory Stage
  imports Presign
begin

text \<open>
  Stages (\<open>client.go\<close>): uploading a file to a stage, over a presigned URL or through the API, and the
  \<open>INSERT\<close> that reads it from there.

  The state is the client's \<open>st\<close> with the log of what its uploads did to the storage.  The input is the
  text that the reader yields; a reader that fails is not modelled.
\<close>

subsection \<open>Stage locations and default options\<close>

record stage_location =
  sl_Name :: string
  sl_Path :: string

definition stage_String :: "stage_location \<Rightarrow> string" where
  "stage_String sl = ''@'' @ sl_Name sl @ ''/'' @ sl_Path sl"

definition EMPTY_FIELD_AS :: string where "EMPTY_FIELD_AS = ''empty_field_as''"
definition PURGE :: string where "PURGE = ''purge''"

definition NewDefaultCSVFormatOptions :: "client \<Rightarrow> strmap" where
  "NewDefaultCSVFormatOptions c =
     [(''type'', ''CSV''), (''field_delimiter'', '',''), (''record_delimiter'', [CHR 0x0A]),
      (''skip_header'', ''0''), (EMPTY_FIELD_AS, EmptyFieldAs c)]"

definition NewDefaultCopyOptions :: strmap where
  "NewDefaultCopyOptions = [(PURGE, ''true'')]"

text \<open>\<open>NextQuery\<close>: \<open>c.rows\<close> is never set.\<close>

definition NextQuery :: "client \<Rightarrow> client" where
  "NextQuery c = c\<lparr>QuerySeq := QuerySeq c + 1\<rparr>"

subsection \<open>\<open>InsertWithStage\<close>\<close>

definition stageRequest ::
  "client \<Rightarrow> string \<Rightarrow> stage_location \<Rightarrow> strmap option \<Rightarrow> strmap option \<Rightarrow> query_request" where
  "stageRequest c sql stage fileFormatOptions copyOptions =
     \<lparr>rq_Session = sessionStateRaw c, rq_SQL = sql, rq_Pagination = getPaginationConfig c,
      rq_ArrowResultVersionMax = None,
      rq_StageAttachment = Some
        \<lparr>sa_Location = stage_String stage,
         sa_FileFormatOptions = (case fileFormatOptions of None \<Rightarrow> Some (NewDefaultCSVFormatOptions c) | m \<Rightarrow> m),
         sa_CopyOptions = (case copyOptions of None \<Rightarrow> Some NewDefaultCopyOptions | m \<Rightarrow> m)\<rparr>\<rparr>"

definition InsertWithStage ::
  "env \<Rightarrow> go_context \<Rightarrow> string \<Rightarrow> stage_location option \<Rightarrow> strmap option \<Rightarrow> strmap option \<Rightarrow> st
    \<Rightarrow> query_response go \<times> st" where
  "InsertWithStage E ctx sql stage fileFormatOptions copyOptions s =
     (case stage of
        None \<Rightarrow> (Err (EMsg ''stage location required for insert with stage''), s)
      | Some sl \<Rightarrow>
          st_bind
            (startQueryRequestWithTransport E ctx (stageRequest (cl s) sql sl fileFormatOptions copyOptions) TransportAuto)
            (finishQuery E ctx TransportAuto (\<lambda>e. EWrap ''query error:'' (EQuery e))) s)"

subsection \<open>Uploading over a presigned URL\<close>

record presigned_response =
  pr_Method :: string
  pr_Headers :: strmap
  pr_URL :: string

definition presign_invalid :: go_error where
  "presign_invalid = EMsg ''generate presign url invalid response''"

text \<open>The answer of the server: a method, the headers as a JSON object, and the URL.\<close>

definition presigned_of :: "env \<Rightarrow> query_response \<Rightarrow> presigned_response go" where
  "presigned_of E resp =
     (case (cellString resp 0 0, cellString resp 0 1, cellString resp 0 2) of
        (Some method, Some headersText, Some url) \<Rightarrow>
          (case unmarshal (e_json E) dec_map headersText (Some []) of
             (headers, None) \<Rightarrow>
               Ok \<lparr>pr_Method = method, pr_Headers = (case headers of Some m \<Rightarrow> m | None \<Rightarrow> []), pr_URL = url\<rparr>
           | (_, Some e) \<Rightarrow> Err (EWrap ''failed to unmarshal headers'' e))
      | _ \<Rightarrow> Err presign_invalid)"

definition GetPresignedURL :: "env \<Rightarrow> go_context \<Rightarrow> stage_location \<Rightarrow> st \<Rightarrow> presigned_response go \<times> st" where
  "GetPresignedURL E ctx stage s =
     (case QuerySync E ctx (''PRESIGN UPLOAD '' @ stage_String stage) s of
        (Err e, s') \<Rightarrow> (Err (EWrap ''failed to query presign url'' e), s')
      | (Panic p, s') \<Rightarrow> (Panic p, s')
      | (Ok resp, s') \<Rightarrow> (presigned_of E resp, s'))"

text \<open>The request of the upload: \<open>NewRequestWithContext\<close> and the presigned headers, in map order.\<close>

definition presignRequest :: "storage \<Rightarrow> presigned_response \<Rightarrow> string \<Rightarrow> request option" where
  "presignRequest S presigned input =
     (case url_parse (pr_URL presigned) of
        Ok u \<Rightarrow>
          Some \<lparr>rq_Method = ''PUT'', rq_URL = u\<lparr>Host := removeEmptyPort (Host u)\<rparr>,
                rq_Host = removeEmptyPort (Host u),
                rq_Header = foldl (\<lambda>h (k, v). header_set k v h) [] (sg_order S (pr_Headers presigned)),
                rq_Cookies = [], rq_Body = UploadBody input\<rparr>
      | _ \<Rightarrow> None)"

definition UploadToStageByPresignURL ::
  "env \<Rightarrow> storage \<Rightarrow> go_context \<Rightarrow> stage_location \<Rightarrow> string \<Rightarrow> int \<Rightarrow> st \<times> storage_log
    \<Rightarrow> unit go \<times> st \<times> storage_log" where
  "UploadToStageByPresignURL E S ctx stage input len sl =
     (case sl of (s, l) \<Rightarrow>
        (case GetPresignedURL E ctx stage s of
           (Err e, s') \<Rightarrow> (Err (EWrap ''failed to get presigned url'' e), s', l)
         | (Panic p, s') \<Rightarrow> (Panic p, s', l)
         | (Ok presigned, s') \<Rightarrow>
             (case presignRequest S presigned input of
                None \<Rightarrow> (Err (EMsg ''invalid presigned upload request''), s', l)
              | Some req \<Rightarrow>
                  (case validatePresignURL (rq_URL req) (PresignAllowPrivate (cl s')) of
                     Some e \<Rightarrow> (Err e, s', l)
                   | None \<Rightarrow>
                       (case presign_do S (PresignAllowPrivate (cl s')) (cx_Done ctx (now s') \<noteq> None) req len l of
                          (None, l') \<Rightarrow> (Err (EMsg ''failed to upload to stage by presigned URL''), s', l')
                        | (Some status, l') \<Rightarrow>
                            if status < 200 \<or> 300 \<le> status then
                              (Err (EMsg (''presigned upload refused HTTP status '' @ format_int status)), s', l')
                            else (Ok (), s', l'))))))"

subsection \<open>Uploading through the API\<close>

text \<open>\<open>mime/multipart\<close> with one file part.  The boundary is random; quotes and backslashes of the file
  name are escaped.\<close>

fun escapeQuotes :: "string \<Rightarrow> string" where
  "escapeQuotes [] = []"
| "escapeQuotes (c # s) =
     (if c = CHR 0x5C then [CHR 0x5C, CHR 0x5C] @ escapeQuotes s
      else if c = CHR 0x22 then [CHR 0x5C, CHR 0x22] @ escapeQuotes s
      else c # escapeQuotes s)"

definition crlf :: string where "crlf = [CHR 0x0D, CHR 0x0A]"
definition dquote :: string where "dquote = [CHR 0x22]"

definition multipart_file :: "string \<Rightarrow> string \<Rightarrow> string \<Rightarrow> string" where
  "multipart_file boundary path content =
     ''--'' @ boundary @ crlf
     @ ''Content-Disposition: form-data; name='' @ dquote @ ''upload'' @ dquote
     @ ''; filename='' @ dquote @ escapeQuotes path @ dquote @ crlf
     @ ''Content-Type: application/octet-stream'' @ crlf @ crlf
     @ content @ crlf @ ''--'' @ boundary @ ''--'' @ crlf"

definition uploadRequest :: "string \<Rightarrow> stage_location \<Rightarrow> header \<Rightarrow> request \<Rightarrow> request" where
  "uploadRequest boundary stage h req =
     req\<lparr>rq_Header :=
          header_set contentType (''multipart/form-data; boundary='' @ boundary)
            (header_set ''stage_name'' (sl_Name stage) h)\<rparr>"

definition uploadOutcome :: "env \<Rightarrow> response \<Rightarrow> string \<Rightarrow> unit go" where
  "uploadOutcome E resp respBody =
     (let status = rs_StatusCode resp in
      if status = 401 then Err (NewAPIError (e_json E) ''please check your user/password.'' status respBody)
      else if 500 \<le> status then Err (NewAPIError (e_json E) ''please retry again later.'' status respBody)
      else if 400 \<le> status then Err (NewAPIError (e_json E) ''please check your arguments.'' status respBody)
      else Ok ())"

text \<open>The context only gives the headers: the request is made without it.  The client of the upload has
  no cookie jar.\<close>

definition UploadToStageByAPI ::
  "env \<Rightarrow> string \<Rightarrow> go_context \<Rightarrow> stage_location \<Rightarrow> string \<Rightarrow> st \<Rightarrow> unit go \<times> st" where
  "UploadToStageByAPI E boundary ctx stage input s =
     (case makeURL (e_quoted E) (apiEndpoint (cl s)) ''/v1/upload_to_stage'' of
        Err e \<Rightarrow> (Err e, s)
      | Panic p \<Rightarrow> (Panic p, s)
      | Ok reqURL \<Rightarrow>
          (case newRequest E (cl s) ''PUT'' reqURL (UploadBody (multipart_file boundary (sl_Path stage) input)) [] of
             Err e \<Rightarrow> (Err e, s)
           | Panic p \<Rightarrow> (Panic p, s)
           | Ok req \<Rightarrow>
               (case makeHeaders E ctx s of
                  (Err e, s1) \<Rightarrow> (Err (EWrap ''failed to make headers'' e), s1)
                | (Panic p, s1) \<Rightarrow> (Panic p, s1)
                | (Ok h, s1) \<Rightarrow>
                    (case client_do E False (uploadRequest boundary stage h req) s1 of
                       (Err e, s2) \<Rightarrow> (Err (EWrap ''failed http do request'' e), s2)
                     | (Panic p, s2) \<Rightarrow> (Panic p, s2)
                     | (Ok resp, s2) \<Rightarrow>
                         (case rs_Body resp of
                            Ok text \<Rightarrow> (uploadOutcome E resp text, s2)
                          | Err m \<Rightarrow> (Err (EWrap ''failed to read http response body'' (EMsg m)), s2)
                          | Panic p \<Rightarrow> (Panic p, s2))))))"

definition UploadToStage ::
  "env \<Rightarrow> storage \<Rightarrow> string \<Rightarrow> go_context \<Rightarrow> stage_location \<Rightarrow> string \<Rightarrow> int \<Rightarrow> st \<times> storage_log
    \<Rightarrow> unit go \<times> st \<times> storage_log" where
  "UploadToStage E S boundary ctx stage input len sl =
     (if PresignedURLDisabled (cl (fst sl)) then
        (case UploadToStageByAPI E boundary ctx stage input (fst sl) of (r, s') \<Rightarrow> (r, s', snd sl))
      else UploadToStageByPresignURL E S ctx stage input len sl)"

end
