(* ===== verification/Go_Runes.thy ===== *)
theory Go_Runes
  imports Go_Strings
begin

text \<open>
  Runes, UTF-8, and the \<open>io.RuneScanner\<close> that \<open>tokenizer.go\<close> and \<open>valueparser.go\<close> read from.  A
  scanner over a text in memory (\<open>strings.Reader\<close>, \<open>bytes.Buffer\<close>) is the rune that \<open>UnreadRune\<close> would
  give back and the runes that are still to be read; its only read error is \<open>io.EOF\<close>.
\<close>

type_synonym rune = nat

definition ch :: "char \<Rightarrow> rune" where "ch c = of_char c"

subsection \<open>UTF-8\<close>

text \<open>\<open>utf8.AppendRune\<close> for the code points up to \<open>U+10FFFF\<close>.\<close>

definition encode_rune :: "rune \<Rightarrow> string" where
  "encode_rune r =
     (let low = (\<lambda>k. char_of (128 + r div 64 ^ k mod 64)) in
      if r < 128 then [char_of r]
      else if r < 2048 then [char_of (192 + r div 64), low 0]
      else if r < 65536 then [char_of (224 + r div 4096), low 1, low 0]
      else [char_of (240 + r div 262144), low 2, low 1, low 0])"

definition utf8 :: "rune list \<Rightarrow> string" where
  "utf8 rs = concat (map encode_rune rs)"

definition RuneError :: rune where "RuneError = 65533"

text \<open>The number of continuation bytes behind a first byte, and the range of the first of them.\<close>

definition lead_byte :: "nat \<Rightarrow> (nat \<times> nat \<times> nat) option" where
  "lead_byte b =
     (if 194 \<le> b \<and> b < 224 then Some (1, 128, 191)
      else if b = 224 then Some (2, 160, 191)
      else if b = 237 then Some (2, 128, 159)
      else if 225 \<le> b \<and> b < 240 then Some (2, 128, 191)
      else if b = 240 then Some (3, 144, 191)
      else if 241 \<le> b \<and> b < 244 then Some (3, 128, 191)
      else if b = 244 then Some (3, 128, 143)
      else None)"

text \<open>\<open>utf8.DecodeRuneInString\<close>: a byte that starts no code point is \<open>RuneError\<close> of width 1.\<close>

definition decode_rune :: "string \<Rightarrow> rune \<times> nat" where
  "decode_rune s =
     (let b = (\<lambda>i. of_char (s ! i) :: nat) in
      if b 0 < 128 then (b 0, 1)
      else case lead_byte (b 0) of
        None \<Rightarrow> (RuneError, 1)
      | Some (n, lo, hi) \<Rightarrow>
          if length s \<le> n \<or> b 1 < lo \<or> hi < b 1 \<or> (\<exists>i \<in> {2..n}. b i < 128 \<or> 191 < b i) then (RuneError, 1)
          else (foldl (\<lambda>r i. r * 64 + b i mod 64) (b 0 mod 2 ^ (6 - n)) [1..<Suc n], Suc n))"

function runes_of :: "string \<Rightarrow> rune list" where
  "runes_of s =
     (if s = [] then [] else case decode_rune s of (r, n) \<Rightarrow> r # runes_of (drop (max n 1) s))"
  by pat_completeness auto
termination by (relation "measure length") auto

declare runes_of.simps [simp del]

lemma runes_of_Nil [simp]: "runes_of [] = []"
  by (simp add: runes_of.simps)

lemma runes_of_Cons: "ch c < 128 \<Longrightarrow> runes_of (c # s) = ch c # runes_of s"
  by (subst runes_of.simps) (simp add: decode_rune_def ch_def)

lemma runes_of_ascii: "list_all (\<lambda>c. ch c < 128) s \<Longrightarrow> runes_of s = map ch s"
  by (induction s) (simp_all add: runes_of_Cons)

lemma utf8_ascii: "list_all (\<lambda>c. ch c < 128) s \<Longrightarrow> utf8 (map ch s) = s"
  by (induction s) (simp_all add: utf8_def encode_rune_def ch_def Let_def)

subsection \<open>Scanners\<close>

type_synonym scanner = "rune option \<times> rune list"

definition new_scanner :: "rune list \<Rightarrow> scanner" where
  "new_scanner rs = (None, rs)"

definition ReadRune :: "scanner \<Rightarrow> rune option \<times> scanner" where
  "ReadRune s = (case snd s of [] \<Rightarrow> (None, (None, [])) | r # rs \<Rightarrow> (Some r, (Some r, rs)))"

text \<open>\<open>UnreadRune\<close> fails, and does nothing, unless the last operation was a successful \<open>ReadRune\<close>.\<close>

definition UnreadRune :: "scanner \<Rightarrow> scanner" where
  "UnreadRune s = (case fst s of Some r \<Rightarrow> (None, r # snd s) | None \<Rightarrow> s)"

abbreviation left :: "scanner \<Rightarrow> nat" where
  "left s \<equiv> length (snd s)"

end
