(* ===== verification/Batch.thy ===== *)
theory Batch
  imports Connection Stage Go_Runes
begin

text \<open>
  \<open>batch.go\<close> and \<open>ExecBatch\<close> (\<open>connection.go\<close>): a batch of rows is written to a temporary CSV file, uploaded
  to the user stage, and inserted from there.

  The state is the connection, the disk, and the log of the storage.  The disk is a map from paths to
  contents; \<open>disk_env\<close> says which of its operations fail, by their number.  A failing write may leave a
  part of the line in the file.
\<close>

subsection \<open>The statement pattern\<close>

text \<open>A matcher gives the rests of the runes after each of its matches.\<close>

type_synonym matcher = "rune list \<Rightarrow> rune list list"

definition re_class :: "(rune \<Rightarrow> bool) \<Rightarrow> matcher" where
  "re_class p rs = (case rs of [] \<Rightarrow> [] | r # rest \<Rightarrow> if p r then [rest] else [])"

definition re_seq :: "matcher \<Rightarrow> matcher \<Rightarrow> matcher" where
  "re_seq m n rs = concat (map n (m rs))"

definition re_alt :: "matcher \<Rightarrow> matcher \<Rightarrow> matcher" where
  "re_alt m n rs = m rs @ n rs"

definition re_opt :: "matcher \<Rightarrow> matcher" where
  "re_opt m rs = m rs @ [rs]"

fun re_star :: "(rune \<Rightarrow> bool) \<Rightarrow> matcher" where
  "re_star p [] = [[]]"
| "re_star p (r # rs) = (if p r then re_star p rs @ [r # rs] else [r # rs])"

definition re_plus :: "(rune \<Rightarrow> bool) \<Rightarrow> matcher" where
  "re_plus p = re_seq (re_class p) (re_star p)"

text \<open>Case folding: the long s and the Kelvin sign fold to ASCII letters.\<close>

definition folds_to :: "char \<Rightarrow> rune \<Rightarrow> bool" where
  "folds_to c r \<longleftrightarrow>
     r = ch (upper_byte c) \<or> r = ch (lower_byte c)
     \<or> upper_byte c = CHR ''S'' \<and> r = 0x17F \<or> upper_byte c = CHR ''K'' \<and> r = 0x212A"

fun re_word :: "string \<Rightarrow> matcher" where
  "re_word [] rs = [rs]"
| "re_word (c # cs) rs = re_seq (re_class (folds_to c)) (re_word cs) rs"

definition re_space :: "rune \<Rightarrow> bool" where
  "re_space r \<longleftrightarrow> r \<in> {9, 10, 12, 13, 32}"

definition word_rune :: "rune \<Rightarrow> bool" where
  "word_rune r \<longleftrightarrow>
     48 \<le> r \<and> r \<le> 57 \<or> 65 \<le> r \<and> r \<le> 90 \<or> 97 \<le> r \<and> r \<le> 122 \<or> r \<in> {95, 0x17F, 0x212A}"

definition table_rune :: "rune \<Rightarrow> bool" where
  "table_rune r \<longleftrightarrow> word_rune r \<or> r \<in> {ch CHR ''.'', ch CHR ''^'', ch CHR ''(''}"

definition backtick :: matcher where
  "backtick = re_opt (re_class (\<lambda>r. r = 0x60))"

text \<open>\<open>\s*\([^\)]*\)\<close>: a list in parentheses.\<close>

definition re_parens :: matcher where
  "re_parens =
     re_seq (re_star re_space) (re_seq (re_class (\<lambda>r. r = ch CHR ''(''))
       (re_seq (re_star (\<lambda>r. r \<noteq> ch CHR '')'')) (re_class (\<lambda>r. r = ch CHR '')''))))"

definition httpInsertRe :: matcher where
  "httpInsertRe =
     re_seq (re_star re_space) (re_seq (re_alt (re_word ''INSERT'') (re_word ''REPLACE''))
       (re_seq (re_word '' INTO'') (re_seq (re_plus re_space)
       (re_seq backtick (re_seq (re_plus table_rune) (re_seq backtick
       (re_seq (re_opt re_parens)
       (re_seq (re_opt (re_seq (re_plus re_space) (re_seq (re_word ''ON'') re_parens)))
       (re_seq (re_opt re_parens) (re_seq (re_plus re_space) (re_word ''VALUES'')))))))))))"

definition matches_insert :: "string \<Rightarrow> bool" where
  "matches_insert sql \<longleftrightarrow> httpInsertRe (runes_of sql) \<noteq> []"

subsection \<open>CSV (\<open>encoding/csv\<close>)\<close>

definition fieldNeedsQuotes :: "string \<Rightarrow> bool" where
  "fieldNeedsQuotes field \<longleftrightarrow>
     field \<noteq> []
     \<and> (field = [CHR 0x5C, CHR ''.''] \<or> list_ex (\<lambda>c. c \<in> {CHR 0x0A, CHR 0x0D, CHR 0x22, CHR '',''}) field
        \<or> space_len wide_spaces field \<noteq> 0)"

fun csv_escape :: "string \<Rightarrow> string" where
  "csv_escape [] = []"
| "csv_escape (c # s) = (if c = CHR 0x22 then [CHR 0x22, CHR 0x22] else [c]) @ csv_escape s"

definition csv_field :: "string \<Rightarrow> string" where
  "csv_field field =
     (if fieldNeedsQuotes field then [CHR 0x22] @ csv_escape field @ [CHR 0x22] else field)"

definition csv_line :: "string list \<Rightarrow> string" where
  "csv_line record = join '','' (map csv_field record) @ [CHR 0x0A]"

subsection \<open>The disk\<close>

record disk =
  dk_Files :: "string \<rightharpoonup> string"
  dk_Ops :: nat

datatype write_result =
    Written
  | WriteFailed nat go_error bool    \<comment> \<open>bytes written, error, and whether it came before the last flush\<close>

record disk_env =
  de_TempDir :: string
  de_Fails :: "nat \<Rightarrow> go_error option"
  de_Write :: "nat \<Rightarrow> write_result"

definition disk_op :: "disk \<Rightarrow> disk" where
  "disk_op d = d\<lparr>dk_Ops := Suc (dk_Ops d)\<rparr>"

text \<open>\<open>os.OpenFile\<close> with \<open>O_APPEND\<close> and \<open>O_CREATE\<close>.\<close>

definition OpenFile :: "disk_env \<Rightarrow> string \<Rightarrow> disk \<Rightarrow> unit go \<times> disk" where
  "OpenFile D name d =
     (case de_Fails D (dk_Ops d) of
        Some e \<Rightarrow> (Err e, disk_op d)
      | None \<Rightarrow>
          (Ok (), disk_op (case dk_Files d name of Some _ \<Rightarrow> d
                                                | None \<Rightarrow> d\<lparr>dk_Files := (dk_Files d)(name \<mapsto> [])\<rparr>)))"

definition append_file :: "string \<Rightarrow> string \<Rightarrow> disk \<Rightarrow> disk" where
  "append_file name text d =
     d\<lparr>dk_Files := (dk_Files d)(name \<mapsto> (case dk_Files d name of Some old \<Rightarrow> old | None \<Rightarrow> []) @ text)\<rparr>"

text \<open>\<open>Write\<close> and \<open>Flush\<close> of the CSV writer, whose buffer takes 4096 bytes: a shorter line reaches the file
  only with the flush, and the error of a flush is not asked for.\<close>

definition csv_buffer :: nat where "csv_buffer = 4096"

definition WriteLine :: "disk_env \<Rightarrow> string \<Rightarrow> string \<Rightarrow> disk \<Rightarrow> unit go \<times> disk" where
  "WriteLine D name line d =
     (case de_Write D (dk_Ops d) of
        Written \<Rightarrow> (Ok (), disk_op (append_file name line d))
      | WriteFailed n e early \<Rightarrow>
          (if early \<and> csv_buffer < length line then Err e else Ok (), disk_op (append_file name (take n line) d)))"

text \<open>\<open>os.Stat\<close> and \<open>os.Open\<close>: the content, whose length is the size.\<close>

definition ReadFile :: "disk_env \<Rightarrow> string \<Rightarrow> string \<Rightarrow> disk \<Rightarrow> string go \<times> disk" where
  "ReadFile D what name d =
     (case de_Fails D (dk_Ops d) of
        Some e \<Rightarrow> (Err e, disk_op d)
      | None \<Rightarrow>
          (case dk_Files d name of
             Some text \<Rightarrow> (Ok text, disk_op d)
           | None \<Rightarrow> (Err (EMsg (what @ '' '' @ name @ '': no such file or directory'')), disk_op d)))"

definition RemoveAll :: "disk_env \<Rightarrow> string \<Rightarrow> disk \<Rightarrow> disk" where
  "RemoveAll D name d =
     (case de_Fails D (dk_Ops d) of
        Some e \<Rightarrow> disk_op d
      | None \<Rightarrow> disk_op (d\<lparr>dk_Files := (dk_Files d)(name := None)\<rparr>))"

subsection \<open>\<open>httpBatch\<close>\<close>

record batch_state =
  bs_conn :: conn
  bs_disk :: disk
  bs_log :: storage_log

record httpBatch =
  hb_query :: string
  hb_ctx :: go_context
  hb_batchFile :: string

record batch_env =
  be_disk :: disk_env
  be_storage :: storage
  be_unix :: "nat \<Rightarrow> int"
  be_boundary :: "nat \<Rightarrow> string"

definition prepareBatch ::
  "env \<Rightarrow> batch_env \<Rightarrow> go_context \<Rightarrow> string \<Rightarrow> batch_state \<Rightarrow> httpBatch go \<times> batch_state" where
  "prepareBatch E B ctx sql bs =
     (if \<not> matches_insert sql then (Err (EMsg ''PrepareBatch only support INSERT/REPLACE''), bs)
      else
        let dc = bs_conn bs;
            name = de_TempDir (be_disk B) @ ''/'' @ e_uuid E (dc_uuids dc) @ ''.csv'';
            bs1 = bs\<lparr>bs_conn := dc\<lparr>dc_uuids := Suc (dc_uuids dc)\<rparr>\<rparr>
        in case OpenFile (be_disk B) name (bs_disk bs1) of
             (r, d) \<Rightarrow>
               (go_bind r (\<lambda>_. Ok \<lparr>hb_query = sql, hb_ctx = ctx, hb_batchFile = name\<rparr>), bs1\<lparr>bs_disk := d\<rparr>))"

text \<open>A value as a CSV field: strings, times and dates as they are, anything else as SQL text.\<close>

definition csv_value :: "fmt_env \<Rightarrow> gval \<Rightarrow> string go" where
  "csv_value F v =
     (case v of
        GString s \<Rightarrow> Ok s
      | GTime t \<Rightarrow> Ok (time_format (fe_tz F) timeFormat t)
      | GDate t \<Rightarrow> Ok (time_format (fe_tz F) dateFormat t)
      | _ \<Rightarrow> Encode F v)"

definition AppendToFile :: "fmt_env \<Rightarrow> disk_env \<Rightarrow> httpBatch \<Rightarrow> gval list \<Rightarrow> disk \<Rightarrow> unit go \<times> disk" where
  "AppendToFile F D b row d =
     (case OpenFile D (hb_batchFile b) d of
        (Ok _, d1) \<Rightarrow>
          (case go_mapM (csv_value F) row of
             Ok lineData \<Rightarrow> WriteLine D (hb_batchFile b) (csv_line lineData) d1
           | Err e \<Rightarrow> (Err e, d1)
           | Panic p \<Rightarrow> (Panic p, d1))
      | (Err e, d1) \<Rightarrow> (Err e, d1)
      | (Panic p, d1) \<Rightarrow> (Panic p, d1))"

definition batch_stage :: "batch_env \<Rightarrow> httpBatch \<Rightarrow> nat \<Rightarrow> stage_location" where
  "batch_stage B b n =
     \<lparr>sl_Name = ''~'',
      sl_Path = ''batch/'' @ format_int (be_unix B n) @ ''-'' @ path_Base (hb_batchFile b)\<rparr>"

text \<open>\<open>UploadToStage\<close> of the batch, with the query ID it makes for itself.\<close>

definition batch_Upload ::
  "env \<Rightarrow> batch_env \<Rightarrow> httpBatch \<Rightarrow> go_context \<Rightarrow> batch_state \<Rightarrow> stage_location go \<times> batch_state" where
  "batch_Upload E B b ctx0 bs =
     (let (ctx, dc) = checkQueryID E ctx0 (bs_conn bs);
          bs0 = bs\<lparr>bs_conn := dc\<rparr>; D = be_disk B; name = hb_batchFile b
      in case ReadFile D ''stat'' name (bs_disk bs0) of
           (Err e, d1) \<Rightarrow> (Err (EWrap ''get batch file size failed'' e), bs0\<lparr>bs_disk := d1\<rparr>)
         | (Panic p, d1) \<Rightarrow> (Panic p, bs0\<lparr>bs_disk := d1\<rparr>)
         | (Ok stat, d1) \<Rightarrow>
             (case ReadFile D ''open'' name d1 of
                (Err e, d2) \<Rightarrow> (Err (EWrap ''open batch file failed'' e), bs0\<lparr>bs_disk := d2\<rparr>)
              | (Panic p, d2) \<Rightarrow> (Panic p, bs0\<lparr>bs_disk := d2\<rparr>)
              | (Ok input, d2) \<Rightarrow>
                  let bs2 = bs0\<lparr>bs_disk := d2\<rparr>; n = dk_Ops d2; stage = batch_stage B b n in
                  if \<not> dc_rest dc then (Panic nil_deref, bs2)
                  else
                    (case UploadToStage E (be_storage B) (be_boundary B n) ctx stage input (int (length stat))
                            (dc_st dc, bs_log bs2) of
                       (r, s', l') \<Rightarrow>
                         (go_bind r (\<lambda>_. Ok stage), bs2\<lparr>bs_conn := dc\<lparr>dc_st := s'\<rparr>, bs_log := l'\<rparr>))))"

text \<open>\<open>BatchInsert\<close> removes the file at its end, whatever the outcome.\<close>

definition BatchInsert :: "env \<Rightarrow> batch_env \<Rightarrow> httpBatch \<Rightarrow> batch_state \<Rightarrow> unit go \<times> batch_state" where
  "BatchInsert E B b bs =
     (let (r, bs') =
        (case batch_Upload E B b Background bs of
           (Err e, bs1) \<Rightarrow> (Err (EWrap ''upload to stage failed'' e), bs1)
         | (Panic p, bs1) \<Rightarrow> (Panic p, bs1)
         | (Ok stage, bs1) \<Rightarrow>
             (case with_rest (InsertWithStage E (hb_ctx b) (hb_query b) (Some stage) None None) (bs_conn bs1) of
                (Err e, dc) \<Rightarrow> (Err (EWrap ''insert with stage failed'' e), bs1\<lparr>bs_conn := dc\<rparr>)
              | (Panic p, dc) \<Rightarrow> (Panic p, bs1\<lparr>bs_conn := dc\<rparr>)
              | (Ok _, dc) \<Rightarrow> (Ok (), bs1\<lparr>bs_conn := dc\<rparr>)))
      in (r, bs'\<lparr>bs_disk := RemoveAll (be_disk B) (hb_batchFile b) (bs_disk bs')\<rparr>))"

subsection \<open>\<open>ExecBatch\<close>\<close>

fun append_rows :: "fmt_env \<Rightarrow> disk_env \<Rightarrow> httpBatch \<Rightarrow> gval list list \<Rightarrow> disk \<Rightarrow> unit go \<times> disk" where
  "append_rows F D b [] d = (Ok (), d)"
| "append_rows F D b (row # rows) d =
     (case AppendToFile F D b row d of
        (Ok _, d1) \<Rightarrow> append_rows F D b rows d1
      | (r, d1) \<Rightarrow> (r, d1))"

definition ExecBatch ::
  "env \<Rightarrow> fmt_env \<Rightarrow> batch_env \<Rightarrow> go_context \<Rightarrow> string \<Rightarrow> gval list list \<Rightarrow> batch_state
    \<Rightarrow> sql_result go \<times> batch_state" where
  "ExecBatch E F B ctx sql rows bs =
     (case prepareBatch E B ctx sql bs of
        (Err e, bs1) \<Rightarrow> (Err e, bs1)
      | (Panic p, bs1) \<Rightarrow> (Panic p, bs1)
      | (Ok b, bs1) \<Rightarrow>
          (case append_rows F (be_disk B) b rows (bs_disk bs1) of
             (Err e, d) \<Rightarrow> (Err e, bs1\<lparr>bs_disk := d\<rparr>)
           | (Panic p, d) \<Rightarrow> (Panic p, bs1\<lparr>bs_disk := d\<rparr>)
           | (Ok _, d) \<Rightarrow>
               (case BatchInsert E B b (bs1\<lparr>bs_disk := d\<rparr>) of
                  (r, bs2) \<Rightarrow> (go_bind r (\<lambda>_. Ok (newLakeResult (int (length rows)) 0)), bs2))))"

text \<open>\<open>BatchStmt\<close>: the statement is not looked at before it runs.\<close>

record batch_stmt = bt_query :: string

definition PrepareBatch :: "string \<Rightarrow> batch_stmt go" where
  "PrepareBatch sql = Ok \<lparr>bt_query = sql\<rparr>"

definition BatchStmt_ExecBatch ::
  "env \<Rightarrow> fmt_env \<Rightarrow> batch_env \<Rightarrow> go_context \<Rightarrow> batch_stmt \<Rightarrow> gval list list \<Rightarrow> batch_state
    \<Rightarrow> sql_result go \<times> batch_state" where
  "BatchStmt_ExecBatch E F B ctx bt rows = ExecBatch E F B ctx (bt_query bt) rows"

end
