(* ===== verification/Stage_Invariant.thy ===== *)
theory Stage_Invariant
  imports Stage Client_Invariant
begin

text \<open>
  The invariants of the client over the operations on stages: whatever the contract \<open>client_invariant\<close>
  is interpreted for also holds after an upload to a stage and after an \<open>INSERT\<close> from it.
\<close>

lemma canonical_stage_name [simp]: "canonical_key ''stage_name'' = ''Stage_name''"
  by code_simp

lemma stageRequest_sql [simp]: "rq_SQL (stageRequest c sql sl ff co) = sql"
  by (simp add: stageRequest_def)

context client_invariant
begin

lemma InsertWithStage_inv:
  assumes "retry_documented (e_retry E)" "\<And>p. admitted p" "I s" "ctx_ok ctx" "sql_ok sql"
  shows "I (snd (InsertWithStage E ctx sql stage ff co s))"
  using assms
  by (auto simp: InsertWithStage_def split: option.split intro!: st_bind_inv startQueryRequest_inv finishQuery_inv)

lemma GetPresignedURL_inv:
  assumes "retry_documented (e_retry E)" "\<And>p. admitted p" "I s" "ctx_ok ctx" "\<And>q. sql_ok q"
    and "GetPresignedURL E ctx stage s = (r, s')"
  shows "I s'"
  using QuerySync_inv [OF assms(1-5), of "''PRESIGN UPLOAD '' @ stage_String stage"] assms(6)
  by (auto simp: GetPresignedURL_def split: prod.splits outcome.splits)

lemma UploadToStageByPresignURL_inv:
  assumes "retry_documented (e_retry E)" "\<And>p. admitted p" "I s" "ctx_ok ctx" "\<And>q. sql_ok q"
    and "UploadToStageByPresignURL E S ctx stage input len (s, l) = (r, s', l')"
  shows "I s'"
  using assms(6)
  by (auto simp: UploadToStageByPresignURL_def split: prod.splits outcome.splits option.splits if_splits
      dest: GetPresignedURL_inv [OF assms(1-5)])

lemma UploadToStageByAPI_inv:
  assumes "I s" "ctx_ok ctx" "UploadToStageByAPI E bd ctx stage input s = (r, s')"
  shows "I s'"
proof -
  have sent: "I (snd (client_do E False (uploadRequest bd stage h req) s1))"
    if url: "makeURL (e_quoted E) (apiEndpoint (cl s)) ''/v1/upload_to_stage'' = Ok reqURL"
      and req: "newRequest E (cl s) ''PUT'' reqURL (UploadBody u) [] = Ok req" and h: "makeHeaders E ctx s = (Ok h, s1)"
    for reqURL u req h s1
  proof -
    let ?h = "header_set contentType (''multipart/form-data; boundary='' @ bd) (header_set ''stage_name'' (sl_Name stage) h)"
    have k: "cl s1 = cl s" using makeHeaders_keeps [of E ctx s] h by simp
    have i: "I s1" using step [OF assms(1) silent_makeHeaders, of E ctx] h by simp
    have "header_lookup ?h k = header_lookup h k" if "k \<in> {Authorization, LakeQueryIDHeader}" for k
      using that by auto
    then have st: "stamped ctx (cl s1) ?h"
      using authorized_makeHeaders [OF h] makeHeaders_query_id [OF h] k by (simp add: stamped_def authorized_def)
    have "newRequest E (cl s1) ''PUT'' reqURL (UploadBody u) ?h = Ok (uploadRequest bd stage h req)"
      using req k by (auto simp: newRequest_def uploadRequest_def split: outcome.splits)
    from send [OF i _ fixed(5) st assms(2) bodies(3) this] url k show ?thesis by simp
  qed
  have "I s1" if "makeHeaders E ctx s = (x, s1)" for x s1
    using step [OF assms(1) silent_makeHeaders, of E ctx] that by simp
  with assms(1,3) show ?thesis
    by (auto simp: UploadToStageByAPI_def split: outcome.splits prod.splits dest!: sent)
qed

lemma UploadToStage_inv:
  assumes "retry_documented (e_retry E)" "\<And>p. admitted p" "I s" "ctx_ok ctx" "\<And>q. sql_ok q"
    and "UploadToStage E S bd ctx stage input len (s, l) = (r, s', l')"
  shows "I s'"
  using assms(6) UploadToStageByPresignURL_inv [OF assms(1-5)] UploadToStageByAPI_inv [OF assms(3,4)]
  by (auto simp: UploadToStage_def split: if_splits prod.splits)

end

end
