(* ===== verification/Connection_Invariant.thy ===== *)
theory Connection_Invariant
  imports Batch Stage_Invariant Client_Props
begin

text \<open>
  Invariants of a connection over any sequence of driver calls.  \<open>conn_invariant\<close> lifts an invariant
  of the client to the operations of a connection; the step relation \<open>conn_step\<close> is one call of
  \<open>database/sql\<close>, with any context that the invariant admits, and \<open>reachable\<close> are the connections
  that some sequence of calls leads to.
\<close>

subsection \<open>Lifting client invariants\<close>

lemma with_rest_st:
  "(\<And>s. P s \<Longrightarrow> P (snd (f s))) \<Longrightarrow> P (dc_st dc) \<Longrightarrow> P (dc_st (snd (with_rest f dc)))"
  by (auto simp: with_rest_def split: prod.split) (metis snd_conv)

lemma run_rest_st: "(\<And>s. P s \<Longrightarrow> P (f s)) \<Longrightarrow> P (dc_st dc) \<Longrightarrow> P (dc_st (snd (run_rest f dc)))"
  by (simp add: run_rest_def with_rest_def)

text \<open>What a call never changes: the pointer, the flag and the configuration are the business of
  \<open>Close\<close>; the UUID counter only grows.\<close>

definition same_shell :: "conn \<Rightarrow> conn \<Rightarrow> bool" where
  "same_shell dc dc' \<longleftrightarrow>
     dc_cfg dc' = dc_cfg dc \<and> dc_closed dc' = dc_closed dc \<and> dc_rest dc' = dc_rest dc
     \<and> dc_uuids dc \<le> dc_uuids dc' \<and> (\<not> dc_rest dc \<longrightarrow> dc_st dc' = dc_st dc)"

lemma same_shell_refl [simp]: "same_shell dc dc"
  by (simp add: same_shell_def)

lemma same_shell_trans: "same_shell a b \<Longrightarrow> same_shell b c \<Longrightarrow> same_shell a c"
  by (auto simp: same_shell_def)

lemma same_shell_rest [simp]: "same_shell dc (snd (with_rest f dc))" "same_shell dc (snd (run_rest g dc))"
  by (auto simp: same_shell_def with_rest_def run_rest_def split: prod.split)

lemma same_shell_restD:
  "with_rest f dc = (r, dc') \<Longrightarrow> same_shell dc dc'" "run_rest g dc = (u, dc') \<Longrightarrow> same_shell dc dc'"
  using same_shell_rest(1) [of dc f] same_shell_rest(2) [of dc g] by auto

lemma same_shell_check: "checkQueryID E ctx dc = (ctx', dc') \<Longrightarrow> same_shell dc dc'"
  by (auto simp: checkQueryID_def same_shell_def split: option.splits)

locale conn_invariant = client_invariant +
  assumes everywhere: "admitted p"
    and detached: "ctx_ok ctx \<Longrightarrow> ctx_ok (WithoutCancel ctx)"
begin

abbreviation J :: "conn \<Rightarrow> bool" where "J dc \<equiv> I (dc_st dc)"

lemma rest_inv: "(\<And>s. I s \<Longrightarrow> I (snd (f s))) \<Longrightarrow> with_rest f dc = (r, dc') \<Longrightarrow> J dc \<Longrightarrow> J dc'"
  using with_rest_st [of I f dc] by auto

lemma run_inv: "(\<And>s. I s \<Longrightarrow> I (f s)) \<Longrightarrow> run_rest f dc = (r, dc') \<Longrightarrow> J dc \<Longrightarrow> J dc'"
  using run_rest_st [of I f dc] by auto

lemma check_inv: "checkQueryID E ctx dc = (ctx', dc') \<Longrightarrow> J dc \<Longrightarrow> J dc'"
  by (auto simp: checkQueryID_def split: option.splits)

lemma sync_inv:
  assumes "retry_documented (e_retry E)" "ctx_ok ctx" "with_rest (QuerySync E ctx q) dc = (r, dc')" "J dc"
    and "sql_ok q"
  shows "J dc'"
  using QuerySync_inv [OF assms(1) everywhere _ assms(2,5)] by (rule rest_inv [OF _ assms(3,4)])

lemma start_inv:
  assumes "retry_documented (e_retry E)" "ctx_ok ctx" "with_rest (StartQuery E ctx q) dc = (r, dc')" "J dc"
    and "sql_ok q"
  shows "J dc'"
  using StartQuery_inv [OF assms(1) _ assms(2,5)] by (rule rest_inv [OF _ assms(3,4)])

lemma poll_inv:
  assumes "retry_documented (e_retry E)" "ctx_ok ctx" "with_rest (PollQuery E ctx p) dc = (r, dc')" "J dc"
  shows "J dc'"
  using PollQuery_inv [OF assms(1) _ everywhere assms(2)] by (rule rest_inv [OF _ assms(3,4)])

lemma exec_inv:
  assumes "retry_documented (e_retry E)" "exec E F ctx q phs args dc = (r, dc')" "J dc"
    and "ctx_ok (fst (checkQueryID E ctx dc))" "\<And>s. buildQuery F q args phs = Ok s \<Longrightarrow> sql_ok s"
  shows "J dc'"
proof -
  obtain ctx1 dc1 where c: "checkQueryID E ctx dc = (ctx1, dc1)" by fastforce
  with assms(4) have ok: "ctx_ok ctx1" by simp
  from assms(2) c check_inv [OF c assms(3)] show ?thesis
    by (auto simp: exec_def Let_def dest: sync_inv [OF assms(1) ok _ _ assms(5)] split: outcome.splits prod.splits)
qed

lemma finish_inv:
  assumes "retry_documented (e_retry E)" "ctx_ok ctx" "run_rest (CloseQuery E ctx r) dc = (x, dc')" "J dc"
  shows "J dc'"
  using CloseQuery_inv [OF assms(1) _ everywhere assms(2)] by (rule run_inv [OF _ assms(3,4)])

lemma kill_inv:
  assumes "retry_documented (e_retry E)" "run_rest (KillQuery E Background r) dc = (x, dc')" "J dc"
  shows "J dc'"
  using KillQuery_inv [OF assms(1) _ everywhere contexts(1)] by (rule run_inv [OF _ assms(2,3)])

lemma waitLoop_inv:
  assumes "retry_documented (e_retry E)" "ctx_ok ctx"
  shows "waitLoop E ctx n r dc = (x, dc') \<Longrightarrow> J dc \<Longrightarrow> J dc'"
proof (induction n arbitrary: r dc)
  case 0
  then show ?case by (subst (asm) waitLoop.simps) (auto split: if_splits)
next
  case (Suc n)
  obtain y dc1 where p: "with_rest (PollQuery E ctx (qr_NextURI r)) dc = (y, dc1)" by fastforce
  have "J dc1" by (rule poll_inv [OF assms p Suc.prems(2)])
  with Suc p show ?case
    by (subst (asm) waitLoop.simps)
      (auto split: if_splits outcome.splits option.splits prod.splits dest: finish_inv [OF assms] kill_inv [OF assms(1)])
qed

lemma waitForData_inv:
  "retry_documented (e_retry E) \<Longrightarrow> ctx_ok ctx \<Longrightarrow> waitForData E ctx r dc = (x, dc') \<Longrightarrow> J dc \<Longrightarrow> J dc'"
  by (auto simp: waitForData_def dest: waitLoop_inv split: option.splits)

lemma doClose_inv:
  assumes "retry_documented (e_retry E)" "ctx_ok (nr_ctx r)" "doClose E r dc = (x, r', dc')" "J dc"
  shows "J dc'"
  using assms(3,4) finish_inv [OF assms(1) detached [OF assms(2)]]
  by (auto simp: doClose_def Let_def split: if_splits option.splits prod.splits outcome.splits)

lemma Next_inv:
  assumes "retry_documented (e_retry E)" "ctx_ok (nr_ctx r)" "Next E w r dc = (x, r', dc')" "J dc"
  shows "J dc'"
proof -
  have c: "J d'" if "doClose E (r\<lparr>nr_resp := z\<rparr>) d = (y, r2, d')" "J d" for z y d r2 d'
    using doClose_inv [OF assms(1) _ that] assms(2) by simp
  show ?thesis
  proof (cases "w = length (Columns r) \<and> \<not> nr_closed r \<and> nr_resp r \<noteq> None")
    case True
    then obtain resp0 where r: "w = length (Columns r)" "\<not> nr_closed r" "nr_resp r = Some resp0" by auto
    obtain y d where y: "(if bufferedRowCount resp0 = 0 then waitForData E (nr_ctx r) resp0 dc else (Ok resp0, dc)) = (y, d)"
      by fastforce
    then have "J d" using waitForData_inv [OF assms(1,2)] assms(4) by (auto split: if_splits)
    with r y assms(3) show ?thesis
      by (auto simp: Next_def split: outcome.splits if_splits prod.splits dest: c)
  next
    case False
    with assms(3,4) show ?thesis by (auto simp: Next_def split: if_splits bool.splits option.splits)
  qed
qed

lemma query_inv:
  assumes "retry_documented (e_retry E)" "query E F ctx q phs args dc = (r, dc')" "J dc"
    and "ctx_ok (fst (checkQueryID E ctx dc))" "\<And>s. buildQuery F q args phs = Ok s \<Longrightarrow> sql_ok s"
  shows "J dc'"
proof -
  obtain ctx1 dc1 where c: "checkQueryID E ctx dc = (ctx1, dc1)" by fastforce
  with assms(4) have ok: "ctx_ok ctx1" by simp
  from assms(2) c check_inv [OF c assms(3)] show ?thesis
    by (auto simp: query_def Let_def split: outcome.splits prod.splits option.splits
        dest!: start_inv [OF assms(1) ok _ _ assms(5)] waitForData_inv [OF assms(1) ok] finish_inv [OF assms(1) ok])
qed

lemma Ping_inv: "Ping E ctx dc = (r, dc') \<Longrightarrow> J dc \<Longrightarrow> ctx_ok ctx \<Longrightarrow> J dc'"
proof -
  assume ok: "ctx_ok ctx"
  have "J d" if "with_rest (Verify E ctx) dc = (y, d)" "J dc" for y d
    using Verify_inv [OF _ ok] by (rule rest_inv [OF _ that])
  then show "Ping E ctx dc = (r, dc') \<Longrightarrow> J dc \<Longrightarrow> J dc'" by (auto simp: Ping_def split: prod.splits)
qed

lemma conn_Close_inv: "conn_Close E dc = (r, dc') \<Longrightarrow> J dc \<Longrightarrow> J dc'"
  using Logout_inv [OF _ contexts(1), of _ E] with_rest_st [of I "Logout E Background" "dc\<lparr>dc_closed := True\<rparr>"]
  by (auto simp: conn_Close_def cleanup_def split: if_splits prod.splits outcome.splits)

lemma buildLakeConn_inv:
  assumes "buildLakeConn E ctx cfg w = (r, dc)" "I (dc_st (new_conn E cfg w))" "ctx_ok ctx"
  shows "J dc"
proof -
  obtain y d where d: "with_rest (initializeConnectionInfo E ctx) (new_conn E cfg w) = (y, d)" by fastforce
  have "J d" using initializeConnectionInfo_inv [OF _ assms(3)] by (rule rest_inv [OF _ d assms(2)])
  moreover have "J d'" if "with_rest (Logout E Background) d = (z, d')" "J d" for z d'
    using Logout_inv [OF _ contexts(1)] by (rule rest_inv [OF _ that])
  ultimately show ?thesis
    using assms(1) d by (auto simp: buildLakeConn_def split: outcome.splits prod.splits)
qed

lemma batch_Upload_inv:
  assumes "retry_documented (e_retry E)" "\<And>ctx. ctx_ok ctx" "\<And>q. sql_ok q" "batch_Upload E B b ctx bs = (r, bs')" "J (bs_conn bs)"
  shows "J (bs_conn bs')"
proof -
  obtain ctx1 dc1 where c: "checkQueryID E ctx (bs_conn bs) = (ctx1, dc1)" by fastforce
  have "I s'" if "UploadToStage E (be_storage B) bd ctx1 sl i n (dc_st dc1, l) = (x, s', l')" for bd sl i n l x s' l'
    using UploadToStage_inv [OF assms(1) everywhere check_inv [OF c assms(5)] assms(2,3) that] .
  with assms(4) c check_inv [OF c assms(5)] show ?thesis
    by (auto simp: batch_Upload_def Let_def split: prod.splits outcome.splits if_splits)
qed

lemma BatchInsert_inv:
  assumes "retry_documented (e_retry E)" "\<And>ctx. ctx_ok ctx" "\<And>q. sql_ok q" "BatchInsert E B b bs = (r, bs')" "J (bs_conn bs)"
  shows "J (bs_conn bs')"
proof -
  have i: "J d'" if "with_rest (InsertWithStage E ctx q sl ff co) d = (x, d')" "J d" for ctx q sl ff co d x d'
    using InsertWithStage_inv [OF assms(1) everywhere _ assms(2,3)] by (rule rest_inv [OF _ that])
  show ?thesis
    using assms(4,5)
    by (auto simp: BatchInsert_def Let_def split: prod.splits outcome.splits
        dest!: batch_Upload_inv [OF assms(1-3)] i)
qed

lemma ExecBatch_inv:
  assumes "retry_documented (e_retry E)" "\<And>ctx. ctx_ok ctx" "\<And>q. sql_ok q" "ExecBatch E F B ctx q rows bs = (r, bs')" "J (bs_conn bs)"
  shows "J (bs_conn bs')"
proof -
  have "J (bs_conn bs1)" if "prepareBatch E B ctx q bs = (x, bs1)" for x bs1
    using that assms(5) by (auto simp: prepareBatch_def Let_def split: if_splits prod.splits)
  with assms(4) show ?thesis
    by (auto simp: ExecBatch_def split: prod.splits outcome.splits dest!: BatchInsert_inv [OF assms(1-3)])
qed

end

subsection \<open>Sessions\<close>

text \<open>One call on the connection: a statement, a query, a row of any result set, closing one, a ping,
  the statements of a transaction, a batch of rows, or the end of the connection.\<close>

inductive conn_step :: "env \<Rightarrow> fmt_env \<Rightarrow> conn \<Rightarrow> conn \<Rightarrow> bool" for E F where
  Exec: "exec E F ctx q phs args dc = (r, dc') \<Longrightarrow> conn_step E F dc dc'"
| Query: "query E F ctx q phs args dc = (rs, dc') \<Longrightarrow> conn_step E F dc dc'"
| Row: "Next E w rows dc = (v, rows', dc') \<Longrightarrow> conn_step E F dc dc'"
| RowsDone: "rows_Close E rows dc = (u, rows', dc') \<Longrightarrow> conn_step E F dc dc'"
| Prep: "PrepareContext E ctx q dc = (p, dc') \<Longrightarrow> conn_step E F dc dc'"
| Pinged: "Ping E ctx dc = (u, dc') \<Longrightarrow> conn_step E F dc dc'"
| Begun: "BeginTx E F ctx dc = (t, dc') \<Longrightarrow> conn_step E F dc dc'"
| Committed: "Commit E F tx dc = (u, dc') \<Longrightarrow> conn_step E F dc dc'"
| RolledBack: "Rollback E F tx dc = (u, dc') \<Longrightarrow> conn_step E F dc dc'"
| Batched: "ExecBatch E F B ctx q rows bs = (r, bs') \<Longrightarrow> conn_step E F (bs_conn bs) (bs_conn bs')"
| Closed: "conn_Close E dc = (u, dc') \<Longrightarrow> conn_step E F dc dc'"

inductive_cases conn_stepE [elim]: "conn_step E F dc dc'"

inductive reachable :: "env \<Rightarrow> fmt_env \<Rightarrow> conn \<Rightarrow> conn \<Rightarrow> bool" for E F dc where
  Start: "reachable E F dc dc"
| Step: "reachable E F dc dc1 \<Longrightarrow> conn_step E F dc1 dc2 \<Longrightarrow> reachable E F dc dc2"

context conn_invariant
begin

lemma conn_step_inv:
  assumes "conn_step E F dc dc'" "retry_documented (e_retry E)" "J dc" "\<And>ctx. ctx_ok ctx" "\<And>q. sql_ok q"
  shows "J dc'"
proof -
  have e: "exec E F ctx q phs args d = (r, d') \<Longrightarrow> J d \<Longrightarrow> J d'" for ctx q phs args d r d'
    using exec_inv [OF assms(2) _ _ assms(4,5)] by blast
  from assms(1) show ?thesis
  proof cases
    case Exec
    with e assms(3) show ?thesis by blast
  next
    case Query
    with query_inv [OF assms(2) _ _ assms(4,5)] assms(3) show ?thesis by blast
  next
    case Row
    with Next_inv [OF assms(2,4)] assms(3) show ?thesis by blast
  next
    case RowsDone
    with doClose_inv [OF assms(2,4)] assms(3) show ?thesis by (auto simp: rows_Close_def)
  next
    case Prep
    with check_inv assms(3) show ?thesis by (auto simp: PrepareContext_def split: prod.splits)
  next
    case Pinged
    with Ping_inv assms(3,4) show ?thesis by blast
  next
    case Begun
    with e assms(3) show ?thesis by (auto simp: BeginTx_def split: if_splits prod.splits)
  next
    case Committed
    with e assms(3) show ?thesis by (auto simp: Commit_def split: if_splits prod.splits option.splits)
  next
    case RolledBack
    with e assms(3) show ?thesis by (auto simp: Rollback_def split: if_splits prod.splits)
  next
    case Batched
    with ExecBatch_inv [OF assms(2,4,5)] assms(3) show ?thesis by blast
  next
    case Closed
    with conn_Close_inv assms(3) show ?thesis by blast
  qed
qed

lemma reachable_inv:
  assumes "reachable E F dc dc'" "retry_documented (e_retry E)" "J dc" "\<And>ctx. ctx_ok ctx" "\<And>q. sql_ok q"
  shows "J dc'"
  using assms(1) by induction (use assms conn_step_inv in blast)+

end

interpretation conn_config: conn_invariant "\<lambda>s. same_config c0 (cl s)" "\<lambda>_. True" "\<lambda>_. True" "\<lambda>_. True" "\<lambda>_. True"
  by unfold_locales simp_all

interpretation conn_log: conn_invariant "\<lambda>s. prefix sent0 (ns_Sent (net s))" "\<lambda>_. True" "\<lambda>_. True"
  "\<lambda>_. True" "\<lambda>_. True"
  by unfold_locales simp_all

text \<open>A request that does not reuse the query ID \<open>q\<close>, an ID without a dot: the IDs that the client
  makes itself have one.\<close>

definition other_id :: "string \<Rightarrow> header \<Rightarrow> bool" where
  "other_id q h \<longleftrightarrow> CHR ''.'' \<in> set q \<or> header_lookup h LakeQueryIDHeader \<noteq> Some q"

definition sent_after :: "request list \<Rightarrow> (header \<Rightarrow> bool) \<Rightarrow> st \<Rightarrow> bool" where
  "sent_after sent0 P s \<longleftrightarrow> (\<exists>rs. ns_Sent (net s) = sent0 @ rs \<and> list_all (\<lambda>r. P (rq_Header r)) rs)"

lemma client_do_sent_after:
  assumes "sent_after sent0 P s" "P (rq_Header req)"
  shows "sent_after sent0 P (snd (client_do E usejar req s))"
proof -
  from assms(1) obtain rs where "ns_Sent (net s) = sent0 @ rs" "list_all (\<lambda>r. P (rq_Header r)) rs"
    by (auto simp: sent_after_def)
  moreover obtain rs' where "ns_Sent (net (snd (client_do E usejar req s))) = ns_Sent (net s) @ rs'"
    "list_all (\<lambda>r. rq_Header r = rq_Header req) rs'"
    using client_do_same_header [of E usejar req s] by blast
  ultimately show ?thesis
    using assms(2) unfolding sent_after_def by (intro exI [of _ "rs @ rs'"]) (auto simp: list_all_iff)
qed

interpretation conn_credentials: conn_invariant
  "\<lambda>s. same_config c0 (cl s) \<and> sent_after sent0 (authorized c0) s" "\<lambda>_. True" "\<lambda>_. True" "\<lambda>_. True" "\<lambda>_. True"
proof (unfold_locales, goal_cases)
  case (1 s s')
  then show ?case by (auto simp: silent_def same_config_def sent_after_def)
next
  case (2 s E path reqURL ctx h b m req usejar)
  then have "authorized c0 h" using authorized_same_config [of c0 "cl s" h] by (simp add: stamped_def)
  with 2 client_do_sent_after [of sent0 "authorized c0" s req E usejar] show ?case by (simp add: newRequest_header)
qed simp_all

lemma stamped_other_id: "stamped ctx c h \<Longrightarrow> cx_QueryID ctx \<noteq> Some q \<Longrightarrow> other_id q h"
  by (auto simp: stamped_def other_id_def query_id_def GetQueryID_def split: option.splits)

interpretation conn_fresh: conn_invariant
  "sent_after sent0 (other_id q)" "\<lambda>_. True" "\<lambda>ctx. cx_QueryID ctx \<noteq> Some q" "\<lambda>_. True" "\<lambda>_. True"
proof (unfold_locales, goal_cases)
  case (1 s s')
  then show ?case by (simp add: silent_def sent_after_def)
next
  case (2 s E path reqURL ctx h b m req usejar)
  then have "other_id q h" by (intro stamped_other_id)
  with 2 client_do_sent_after [of sent0 "other_id q" s req E usejar] show ?case by (simp add: newRequest_header)
qed (simp_all add: Background_def contextWithoutQueryID_def WithTimeout_def WithoutCancel_def)

subsection \<open>What only \<open>Close\<close> changes\<close>

lemma exec_shell: "exec E F ctx q phs args dc = (r, dc') \<Longrightarrow> same_shell dc dc'"
  by (auto simp: exec_def Let_def split: prod.splits outcome.splits
      dest!: same_shell_check same_shell_restD(1) intro: same_shell_trans)

lemma waitLoop_shell: "waitLoop E ctx n r dc = (x, dc') \<Longrightarrow> same_shell dc dc'"
proof (induction n arbitrary: r dc)
  case 0
  then show ?case by (subst (asm) waitLoop.simps) (auto split: if_splits)
next
  case (Suc n)
  then show ?case
    by (subst (asm) waitLoop.simps)
      (auto split: if_splits outcome.splits option.splits prod.splits
        dest!: same_shell_restD intro: same_shell_trans)
qed

lemma waitForData_shell: "waitForData E ctx r dc = (x, dc') \<Longrightarrow> same_shell dc dc'"
  by (auto simp: waitForData_def dest: waitLoop_shell split: option.splits)

lemma query_shell: "query E F ctx q phs args dc = (r, dc') \<Longrightarrow> same_shell dc dc'"
  by (auto simp: query_def Let_def split: prod.splits outcome.splits option.splits
      dest!: same_shell_check same_shell_restD waitForData_shell intro: same_shell_trans)

lemma doClose_shell: "doClose E r dc = (x, r', dc') \<Longrightarrow> same_shell dc dc'"
  by (auto simp: doClose_def Let_def split: if_splits option.splits prod.splits outcome.splits
      dest: same_shell_restD)

lemma Next_shell: "Next E w r dc = (x, r', dc') \<Longrightarrow> same_shell dc dc'"
  by (auto simp: Next_def split: if_splits bool.splits option.splits prod.splits outcome.splits
      dest!: waitForData_shell doClose_shell intro: same_shell_trans)

lemma Ping_shell: "Ping E ctx dc = (r, dc') \<Longrightarrow> same_shell dc dc'"
  by (auto simp: Ping_def split: prod.splits dest: same_shell_restD(1))

lemma ExecBatch_shell: "ExecBatch E F B ctx q rows bs = (r, bs') \<Longrightarrow> same_shell (bs_conn bs) (bs_conn bs')"
proof -
  have u: "same_shell (bs_conn bs) (bs_conn bs1)" if "batch_Upload E B b ctx bs = (x, bs1)" for b ctx bs x bs1
  proof -
    obtain ctx1 dc1 where c: "checkQueryID E ctx (bs_conn bs) = (ctx1, dc1)" by fastforce
    have "same_shell (bs_conn bs) (dc1\<lparr>dc_st := s\<rparr>)" if "dc_rest dc1" for s
      using same_shell_check [OF c] that by (simp add: same_shell_def)
    with that c same_shell_check [OF c] show ?thesis
      by (auto simp: batch_Upload_def Let_def split: prod.splits outcome.splits if_splits)
  qed
  have b: "same_shell (bs_conn bs) (bs_conn bs1)" if "BatchInsert E B b bs = (x, bs1)" for b bs x bs1
    using that by (auto simp: BatchInsert_def Let_def split: prod.splits outcome.splits
        dest!: u same_shell_restD(1) intro: same_shell_trans)
  have p: "same_shell (bs_conn bs) (bs_conn bs1)" if "prepareBatch E B ctx q bs = (x, bs1)" for x bs1
    using that by (auto simp: prepareBatch_def Let_def same_shell_def split: if_splits prod.splits)
  show "ExecBatch E F B ctx q rows bs = (r, bs') \<Longrightarrow> same_shell (bs_conn bs) (bs_conn bs')"
    by (auto simp: ExecBatch_def split: prod.splits outcome.splits dest!: p b intro: same_shell_trans)
qed

lemma step_shell:
  assumes "conn_step E F dc dc'" "\<And>u. conn_Close E dc \<noteq> (u, dc')"
  shows "same_shell dc dc'"
  using assms
  by cases (auto simp: rows_Close_def PrepareContext_def BeginTx_def Commit_def Rollback_def
      split: if_splits prod.splits option.splits
      dest: exec_shell query_shell Next_shell doClose_shell same_shell_check Ping_shell ExecBatch_shell)

text \<open>Connections as the driver makes and closes them.\<close>

definition well_formed :: "conn \<Rightarrow> bool" where
  "well_formed dc \<longleftrightarrow>
     (dc_rest dc \<longrightarrow> dc_cfg dc \<noteq> None) \<and> (\<not> dc_rest dc \<longrightarrow> dc_closed dc \<and> dc_cfg dc = None)"

lemma conn_Close_shell:
  "conn_Close E dc = (u, dc') \<Longrightarrow> well_formed dc \<Longrightarrow>
     well_formed dc' \<and> dc_closed dc' \<and> (\<not> dc_rest dc \<longrightarrow> dc' = dc)"
  by (auto simp: conn_Close_def cleanup_def well_formed_def with_rest_def split: if_splits prod.splits outcome.splits)

lemma conn_step_well_formed: "conn_step E F dc dc' \<Longrightarrow> well_formed dc \<Longrightarrow> well_formed dc'"
  using step_shell [of E F dc dc'] conn_Close_shell [of E dc _ dc']
  by (cases "\<exists>u. conn_Close E dc = (u, dc')") (auto simp: same_shell_def well_formed_def)

lemma conn_step_dead: "conn_step E F dc dc' \<Longrightarrow> \<not> dc_rest dc \<Longrightarrow> well_formed dc \<Longrightarrow> dc_st dc' = dc_st dc \<and> \<not> dc_rest dc'"
  using step_shell [of E F dc dc'] conn_Close_shell [of E dc _ dc']
  by (cases "\<exists>u. conn_Close E dc = (u, dc')") (auto simp: same_shell_def)

lemma reachable_well_formed: "reachable E F dc dc' \<Longrightarrow> well_formed dc \<Longrightarrow> well_formed dc'"
  by (induction rule: reachable.induct) (auto dest: conn_step_well_formed)

lemma reachable_dead:
  "reachable E F dc dc' \<Longrightarrow> \<not> dc_rest dc \<Longrightarrow> well_formed dc \<Longrightarrow> dc_st dc' = dc_st dc \<and> \<not> dc_rest dc'"
  by (induction rule: reachable.induct) (auto dest: conn_step_dead reachable_well_formed)

end
