(* ===== verification/Connection_Props.thy ===== *)
theory Connection_Props
  imports Connection_Invariant
begin

text \<open>
  Properties of connections, transactions, statements and result sets, over the session invariants of
  \<open>Connection_Invariant\<close>.
\<close>

subsection \<open>Sessions\<close>

lemma new_conn_facts:
  "well_formed (new_conn E cfg w)" "ns_Sent (net (dc_st (new_conn E cfg w))) = w_sent w"
  "apiEndpoint (cl (dc_st (new_conn E cfg w))) = api_scheme cfg @ ''://'' @ cfg_Host cfg"
  by (simp_all add: new_conn_def well_formed_def NewAPIClientFromConfig_def)

lemma buildLakeConn_shell:
  "buildLakeConn E ctx cfg w = (Ok dc, dc') \<Longrightarrow> dc' = dc \<and> same_shell (new_conn E cfg w) dc"
  by (auto simp: buildLakeConn_def split: outcome.splits prod.splits dest: same_shell_restD(1))


definition demo_world :: world where
  "demo_world = \<lparr>w_sent = [], w_loads = 0, w_draws = 0, w_stats = [], w_uuids = 0\<rparr>"

text \<open>A server that knows no login, and refuses everything else.\<close>

definition no_login :: env where
  "no_login = demo\<lparr>e_net := (\<lambda>_. NetReply 404 [] [] (Ok []))\<rparr>"

definition demo_fmt :: fmt_env where
  "demo_fmt = \<lparr>fe_tz = (\<lambda>_. None), fe_sprint = (\<lambda>_. [])\<rparr>"

definition user_config :: config where
  "user_config = NewConfig\<lparr>cfg_User := ''u'', cfg_Password := ''p''\<rparr>"

definition opened :: conn where
  "opened = snd (buildLakeConn no_login Background user_config demo_world)"

lemma opened_ok: "buildLakeConn no_login Background user_config demo_world = (Ok opened, opened)"
proof -
  have "is_ok (fst (buildLakeConn no_login Background user_config demo_world))" by code_simp
  then show ?thesis
    using buildLakeConn_shell [of no_login Background user_config demo_world]
    by (cases "buildLakeConn no_login Background user_config demo_world") (auto simp: opened_def is_ok_iff)
qed

lemma retry_documented_no_login [simp]: "retry_documented (e_retry no_login)"
  using retry_documented_demo by (simp add: no_login_def)

lemma reachable_exec: "reachable E F dc (snd (exec E F ctx q phs args dc))"
  by (rule Step [OF Start Exec, of _ _ ctx q phs args _ "fst (exec E F ctx q phs args dc)"]) simp


text \<open>C13: (closing) Closing a connection ends it: whatever a program still calls on it, nothing more is
  sent and the client is not touched, closing again does nothing, a new transaction, statement, commit
  or rollback is refused with \<open>driver.ErrBadConn\<close>.\<close>

theorem close_is_final:
  assumes "well_formed dc" "\<not> dc_closed dc" "conn_Close E dc = (Ok (), dc1)" "reachable E F dc1 dc2"
  shows "dc_st dc2 = dc_st dc1 \<and> conn_Close E dc2 = (Ok (), dc2)
    \<and> BeginTx E F ctx dc2 = (Err (ESentinel ErrBadConn), dc2)
    \<and> Commit E F tx dc2 = (Err (ESentinel ErrBadConn), dc2)
    \<and> Rollback E F tx dc2 = (Err (ESentinel ErrBadConn), dc2)
    \<and> prepare E ctx q dc2 = Err (ESentinel ErrBadConn)"
proof -
  have "\<not> dc_rest dc1"
    using assms(2,3) by (auto simp: conn_Close_def cleanup_def split: prod.splits outcome.splits)
  moreover have wf: "well_formed dc1" using conn_Close_shell [OF assms(3,1)] by simp
  ultimately have "dc_st dc2 = dc_st dc1" "\<not> dc_rest dc2" using reachable_dead [OF assms(4)] by simp_all
  moreover from this(2) have "dc_closed dc2"
    using reachable_well_formed [OF assms(4) wf] by (simp add: well_formed_def)
  ultimately show ?thesis
    by (simp add: conn_Close_def BeginTx_def Commit_def Rollback_def prepare_def)
qed

lemma opened_well_formed: "well_formed opened" "\<not> dc_closed opened"
  using buildLakeConn_shell [OF opened_ok] new_conn_facts(1) [of no_login user_config demo_world]
  by (auto simp: same_shell_def well_formed_def new_conn_def)

lemma opened_closes: "fst (conn_Close no_login opened) = Ok ()"
  by code_simp

lemma close_is_final_witness:
  "dc_st (snd (exec no_login demo_fmt Background ''select 1'' None [] (snd (conn_Close no_login opened))))
      = dc_st (snd (conn_Close no_login opened))
    \<and> conn_Close no_login (snd (exec no_login demo_fmt Background ''select 1'' None [] (snd (conn_Close no_login opened))))
      = (Ok (), snd (exec no_login demo_fmt Background ''select 1'' None [] (snd (conn_Close no_login opened))))"
  using close_is_final [OF opened_well_formed _ reachable_exec, of no_login "snd (conn_Close no_login opened)"]
    opened_closes by (metis prod.collapse)

subsection \<open>Transactions\<close>

text \<open>The query ID that a statement on \<open>ctx\<close> is sent with.\<close>

definition statement_id :: "env \<Rightarrow> go_context \<Rightarrow> conn \<Rightarrow> string" where
  "statement_id E ctx dc =
     (case cx_QueryID ctx of Some q \<Rightarrow> q | None \<Rightarrow> fresh_query_id E (dc_uuids dc))"

lemma checkQueryID_id: "cx_QueryID (fst (checkQueryID E ctx dc)) = Some (statement_id E ctx dc)"
  by (simp add: checkQueryID_def statement_id_def split: option.split)

lemma exec_other_id:
  assumes "retry_documented (e_retry E)" "statement_id E ctx dc \<noteq> b"
  shows "sent_after (ns_Sent (net (dc_st dc))) (other_id b) (dc_st (snd (exec E F ctx q phs args dc)))"
proof -
  obtain r dc' where e: "exec E F ctx q phs args dc = (r, dc')" by fastforce
  have "sent_after (ns_Sent (net (dc_st dc))) (other_id b) (dc_st dc')"
    by (rule conn_fresh.exec_inv [OF assms(1) e]) (use assms(2) in \<open>simp_all add: sent_after_def checkQueryID_id\<close>)
  with e show ?thesis by simp
qed

lemma sent_after_mono: "sent_after s0 P s \<Longrightarrow> (\<And>h. P h \<Longrightarrow> Q h) \<Longrightarrow> sent_after s0 Q s"
  by (auto simp: sent_after_def list_all_iff)

text \<open>C12: (transactions) The server takes a repeated query ID for a retry, so the end of a transaction must
  not reuse the ID of its beginning. It does not: \<open>Commit\<close> and \<open>Rollback\<close> of a transaction that was
  begun with the ID \<open>b\<close>, the caller's or a fresh one, send no request with that ID, if \<open>b\<close> is not one
  of the dotted IDs of the client and the next UUID is different from it; and they run on a context
  that the cancellation of the caller's context does not reach.\<close>

theorem tx_end_uses_new_id:
  assumes "retry_documented (e_retry E)" "BeginTx E F ctx dc0 = (Ok tx, dc1)"
    and "b = statement_id E ctx dc0" "CHR ''.'' \<notin> set b" "fresh_query_id E (dc_uuids dc2) \<noteq> b"
  shows "sent_after (ns_Sent (net (dc_st dc2))) (\<lambda>h. header_lookup h LakeQueryIDHeader \<noteq> Some b)
      (dc_st (snd (Commit E F tx dc2)))
    \<and> sent_after (ns_Sent (net (dc_st dc2))) (\<lambda>h. header_lookup h LakeQueryIDHeader \<noteq> Some b)
      (dc_st (snd (Rollback E F tx dc2)))
    \<and> (\<forall>t. cx_Done tx t = None)"
proof -
  have tx: "tx = txContext ctx"
    using assms(2) by (auto simp: BeginTx_def go_bind_eq_Ok split: if_splits prod.splits)
  have "statement_id E tx dc2 \<noteq> b"
    using assms(5) by (simp add: tx txContext_def contextWithoutQueryID_def WithoutCancel_def statement_id_def)
  note e = exec_other_id [OF assms(1) this, of F]
  have other: "other_id b h \<Longrightarrow> header_lookup h LakeQueryIDHeader \<noteq> Some b" for h
    using assms(4) by (simp add: other_id_def)
  have none: "sent_after (ns_Sent (net (dc_st dc2))) (other_id b) (dc_st dc2)" by (simp add: sent_after_def)
  have "sent_after (ns_Sent (net (dc_st dc2))) (other_id b) (dc_st (snd (Commit E F tx dc2)))"
    using e [of "''COMMIT''" None "[]"] none by (simp add: Commit_def case_prod_beta split: option.split)
  moreover have "sent_after (ns_Sent (net (dc_st dc2))) (other_id b) (dc_st (snd (Rollback E F tx dc2)))"
    using e [of "''ROLLBACK''" None "[]"] none by (simp add: Rollback_def case_prod_beta)
  moreover have "\<forall>t. cx_Done tx t = None"
    by (simp add: tx txContext_def contextWithoutQueryID_def WithoutCancel_def)
  ultimately show ?thesis using other by (blast intro: sent_after_mono)
qed

text \<open>A server that answers every statement with an empty result.\<close>

definition tx_server :: env where
  "tx_server =
     demo\<lparr>e_net := (\<lambda>_. NetReply 200 [(''Content-Type'', ''application/json'')] [] (Ok ''{}'')),
          e_json := (\<lambda>_. Some (JObj [])), e_uuid := (\<lambda>n. ''id-'' @ format_uint n)\<rparr>"

definition tx_conn :: conn where
  "tx_conn = new_conn tx_server (user_config\<lparr>cfg_LoginEnabled := False\<rparr>) demo_world"

lemma tx_begun: "fst (BeginTx tx_server demo_fmt Background tx_conn) = Ok (txContext Background)"
proof -
  have "is_ok (fst (BeginTx tx_server demo_fmt Background tx_conn))" by code_simp
  then show ?thesis
    by (auto simp: is_ok_iff BeginTx_def go_bind_eq_Ok split: if_splits prod.splits)
qed

lemma tx_end_uses_new_id_witness:
  "sent_after (ns_Sent (net (dc_st (tx_conn\<lparr>dc_uuids := 7\<rparr>)))) (\<lambda>h. header_lookup h LakeQueryIDHeader \<noteq> Some ''id1'')
      (dc_st (snd (Commit tx_server demo_fmt (txContext Background) (tx_conn\<lparr>dc_uuids := 7\<rparr>))))
    \<and> sent_after (ns_Sent (net (dc_st (tx_conn\<lparr>dc_uuids := 7\<rparr>)))) (\<lambda>h. header_lookup h LakeQueryIDHeader \<noteq> Some ''id1'')
      (dc_st (snd (Rollback tx_server demo_fmt (txContext Background) (tx_conn\<lparr>dc_uuids := 7\<rparr>))))
    \<and> (\<forall>t. cx_Done (txContext Background) t = None)"
proof (rule tx_end_uses_new_id)
  show "retry_documented (e_retry tx_server)" using retry_documented_demo by (simp add: tx_server_def)
  show "BeginTx tx_server demo_fmt Background tx_conn =
      (Ok (txContext Background), snd (BeginTx tx_server demo_fmt Background tx_conn))"
    using tx_begun by (metis prod.collapse)
  show "''id1'' = statement_id tx_server Background tx_conn" by code_simp
  show "fresh_query_id tx_server (dc_uuids (tx_conn\<lparr>dc_uuids := 7\<rparr>)) \<noteq> ''id1''"
    by code_simp
qed simp

subsection \<open>Statements\<close>

text \<open>C31: (statements) A prepared statement counts its placeholders, runs only with as many arguments, and
  not at all once it is closed: in both cases the call fails and nothing is sent.\<close>

theorem stmt_guards:
  assumes "prepare E ctx0 q dc0 = Ok s"
  shows "NumInput s = length (placeholders q) \<and> \<not> sm_closed s
    \<and> (length args \<noteq> NumInput s \<longrightarrow>
        (\<exists>e. fst (stmt_ExecContext E F ctx s args dc) = Err e \<and> fst (stmt_QueryContext E F ctx s args dc) = Err e)
        \<and> dc_st (snd (stmt_ExecContext E F ctx s args dc)) = dc_st dc
        \<and> dc_st (snd (stmt_QueryContext E F ctx s args dc)) = dc_st dc)
    \<and> stmt_ExecContext E F ctx (snd (stmt_Close s)) args dc = (Err (ESentinel ErrStmtClosed), dc)
    \<and> stmt_QueryContext E F ctx (snd (stmt_Close s)) args dc = (Err (ESentinel ErrStmtClosed), dc)"
proof -
  have s: "s = \<lparr>sm_query = q, sm_placeholders = placeholders q, sm_closed = False\<rparr>"
    using assms by (auto simp: prepare_def split: if_splits)
  have st: "dc_st (snd (checkQueryID E ctx dc)) = dc_st dc"
    by (simp add: checkQueryID_def split: option.split)
  show ?thesis
    using st
    by (auto simp: s NumInput_def stmt_Close_def stmt_ExecContext_def stmt_QueryContext_def exec_def query_def
        buildQuery_def named_args_def Let_def case_prod_beta)
qed

lemma stmt_guards_witness:
  "NumInput \<lparr>sm_query = ''select ?'', sm_placeholders = placeholders ''select ?'', sm_closed = False\<rparr> = length (placeholders ''select ?'')
    \<and> stmt_ExecContext no_login demo_fmt Background
        (snd (stmt_Close \<lparr>sm_query = ''select ?'', sm_placeholders = placeholders ''select ?'', sm_closed = False\<rparr>)) [] tx_conn
      = (Err (ESentinel ErrStmtClosed), tx_conn)"
  using stmt_guards [of no_login Background "''select ?''" tx_conn
      "\<lparr>sm_query = ''select ?'', sm_placeholders = placeholders ''select ?'', sm_closed = False\<rparr>" "[]" demo_fmt Background tx_conn]
  by (simp add: prepare_def tx_conn_def new_conn_def)

end
