(* ===== verification/Rows_Props.thy ===== *)
theory Rows_Props
  imports Connection_Props
begin

text \<open>
  The result set as a cursor: \<open>feeds\<close> is the abstraction of a result set to the list of the rows that
  are still to come (those buffered, then those of the pages the server goes on to serve), and \<open>Next\<close>
  refines taking the head of that list.
\<close>

subsection \<open>The pages behind a response\<close>

text \<open>A page whose rows are materialised, each as wide as the schema.\<close>

definition page_of :: "nat \<Rightarrow> query_response \<Rightarrow> bool" where
  "page_of w p \<longleftrightarrow>
     qr_Error p = None \<and> qr_Data p = [] \<and> qr_typedRows p \<noteq> None \<and> list_all (\<lambda>r. length r = w) (rows_of p)"

text \<open>The pages that the server serves from \<open>resp\<close> on, up to the last one.\<close>

inductive page_stream ::
  "env \<Rightarrow> go_context \<Rightarrow> nat \<Rightarrow> query_response \<Rightarrow> conn \<Rightarrow> query_response list \<Rightarrow> query_response \<Rightarrow> conn \<Rightarrow> bool"
  for E ctx w
where
  End: "ReadFinished r \<Longrightarrow> page_stream E ctx w r dc [] r dc"
| More: "\<not> ReadFinished r \<Longrightarrow> with_rest (PollQuery E ctx (qr_NextURI r)) dc = (Ok (Some p), dc1)
    \<Longrightarrow> page_of w p \<Longrightarrow> page_stream E ctx w p dc1 ps l dc2 \<Longrightarrow> page_stream E ctx w r dc (p # ps) l dc2"

inductive_cases page_stream_NilE [elim]: "page_stream E ctx w r dc [] l dc2"
inductive_cases page_stream_ConsE [elim]: "page_stream E ctx w r dc (p # ps) l dc2"

lemma page_of_count: "page_of w p \<Longrightarrow> bufferedRowCount p = length (rows_of p)"
  by (auto simp: page_of_def bufferedRowCount_def rows_of_def split: option.splits)

text \<open>Taking rows out of a page does not change what follows it.\<close>

definition same_links :: "query_response \<Rightarrow> query_response \<Rightarrow> bool" where
  "same_links r r' \<longleftrightarrow> qr_NextURI r' = qr_NextURI r \<and> qr_FinalURI r' = qr_FinalURI r"

lemma page_stream_links:
  "page_stream E ctx w r dc ps l dc2 \<Longrightarrow> same_links r r' \<Longrightarrow>
     \<exists>l'. page_stream E ctx w r' dc ps l' dc2 \<and> qr_FinalURI l' = qr_FinalURI l"
proof (induction rule: page_stream.cases)
  case (End r dc)
  then show ?case
    by (intro exI [of _ r']) (auto simp: same_links_def ReadFinished_def intro: page_stream.End)
next
  case (More r dc p dc1 ps l dc2)
  then show ?case by (intro exI [of _ l]) (auto simp: same_links_def ReadFinished_def intro: page_stream.More)
qed

text \<open>Waiting skips the empty pages.\<close>

lemma waitLoop_stream:
  "page_stream E ctx w r dc ps l dc2 \<Longrightarrow> page_of w r \<Longrightarrow> rows_of r = [] \<Longrightarrow> length ps \<le> n \<Longrightarrow>
   \<exists>p ps' d. waitLoop E ctx n r dc = (Ok p, d) \<and> page_stream E ctx w p d ps' l dc2 \<and> page_of w p
     \<and> length ps' \<le> length ps \<and> rows_of p @ concat (map rows_of ps') = concat (map rows_of ps)
     \<and> (rows_of p = [] \<longrightarrow> ps' = [])"
proof (induction arbitrary: n rule: page_stream.induct)
  case (End r dc)
  then show ?case
    by (subst waitLoop.simps) (auto intro!: exI [of _ r] exI [of _ "[]"] exI [of _ dc] page_stream.End)
next
  case (More r dc p dc1 ps l dc2)
  then obtain m where m: "n = Suc m" "length ps \<le> m" by (cases n) auto
  have step: "waitLoop E ctx n r dc = waitLoop E ctx m p dc1"
    using More.hyps(1-3) More.prems page_of_count [OF More.prems(1)] m(1)
    by (subst waitLoop.simps) (simp add: page_of_def)
  show ?case
  proof (cases "rows_of p = []")
    case True
    from More.IH [OF More.hyps(3) True m(2)] show ?thesis
      unfolding step using True by fastforce
  next
    case False
    then have "waitLoop E ctx m p dc1 = (Ok p, dc1)"
      using page_of_count [OF More.hyps(3)] by (subst waitLoop.simps) simp
    with False More.hyps(3,4) show ?thesis
      unfolding step by (intro exI [of _ p] exI [of _ ps] exI [of _ dc1]) simp
  qed
qed

subsection \<open>The cursor\<close>

text \<open>The result set \<open>r\<close> on \<open>dc\<close> still has the rows \<open>vs\<close>; behind them the server is left in the state
  of \<open>dc2\<close>, and \<open>uri\<close> is the final URI of the last page.\<close>

definition feeds :: "env \<Rightarrow> nat \<Rightarrow> next_rows \<Rightarrow> conn \<Rightarrow> string \<Rightarrow> conn \<Rightarrow> dvalue list list \<Rightarrow> bool" where
  "feeds E w r dc uri dc2 vs \<longleftrightarrow>
     (\<exists>resp ps l. nr_resp r = Some resp \<and> \<not> nr_closed r \<and> length (Columns r) = w \<and> page_of w resp
        \<and> page_stream E (nr_ctx r) w resp dc ps l dc2 \<and> qr_FinalURI l = uri \<and> length ps \<le> e_pages E
        \<and> vs = rows_of resp @ concat (map rows_of ps))"

text \<open>The connection after the statement has been closed on the server.\<close>

definition finalized :: "env \<Rightarrow> go_context \<Rightarrow> string \<Rightarrow> conn \<Rightarrow> conn" where
  "finalized E ctx uri dc =
     dc\<lparr>dc_st := CloseQuery E (WithoutCancel ctx) (empty_response\<lparr>qr_FinalURI := uri\<rparr>) (dc_st dc)\<rparr>"

lemma page_stream_rest: "page_stream E ctx w r dc ps l dc2 \<Longrightarrow> dc_rest dc2 = dc_rest dc"
  by (induction rule: page_stream.induct) (auto dest: same_shell_restD(1) simp: same_shell_def)

lemma CloseQuery_uri: "qr_FinalURI a = qr_FinalURI b \<Longrightarrow> CloseQuery E ctx a s = CloseQuery E ctx b s"
  by (simp add: CloseQuery_def)

lemma doClose_finalizes:
  assumes "nr_resp r = Some l" "\<not> nr_closed r" "dc_rest dc"
  shows "\<exists>r'. doClose E r dc = (Ok (), r', finalized E (nr_ctx r) (qr_FinalURI l) dc)
    \<and> nr_closed r' \<and> Columns r' = Columns r"
proof (cases "qr_FinalURI l = []")
  case True
  then have "finalized E (nr_ctx r) (qr_FinalURI l) dc = dc"
    by (simp add: finalized_def CloseQuery_def endQuery_def empty_response_def)
  with True assms show ?thesis by (simp add: doClose_def Columns_def)
next
  case False
  have "CloseQuery E (WithoutCancel (nr_ctx r)) l (dc_st dc)
      = CloseQuery E (WithoutCancel (nr_ctx r)) (empty_response\<lparr>qr_FinalURI := qr_FinalURI l\<rparr>) (dc_st dc)"
    by (rule CloseQuery_uri) simp
  with False assms show ?thesis
    by (simp add: doClose_def run_rest_def with_rest_def finalized_def Columns_def Let_def)
qed

lemma take_row_page:
  assumes "page_of w p" "rows_of p = v # vs"
  shows "\<exists>p'. take_row p = ([], v, p') \<and> page_of w p' \<and> rows_of p' = vs \<and> same_links p p'"
  using assms by (auto simp: take_row_def page_of_def same_links_def rows_of_def split: option.splits)

lemma Next_buffered:
  assumes "page_of w p" "rows_of p = v # vs" "0 < w" "length (Columns r) = w"
  shows "\<exists>p'. take_row p = ([], v, p') \<and> row_values tz (nr_schema r) [] v = Ok v \<and> page_of w p'
    \<and> rows_of p' = vs \<and> same_links p p'"
proof -
  have "length v = w" using assms(1,2) by (simp add: page_of_def)
  with assms(3,4) have "row_values tz (nr_schema r) [] v = Ok v"
    by (auto simp: row_values_def Columns_def)
  with take_row_page [OF assms(1,2)] show ?thesis by blast
qed

lemma Next_row:
  assumes "feeds E w r dc uri dc2 (v # vs)" "0 < w"
  shows "\<exists>r1 dc1. Next E w r dc = (Ok v, r1, dc1) \<and> feeds E w r1 dc1 uri dc2 vs"
proof -
  from assms(1) obtain resp ps l where f: "nr_resp r = Some resp" "\<not> nr_closed r" "length (Columns r) = w"
    "page_of w resp" "page_stream E (nr_ctx r) w resp dc ps l dc2" "qr_FinalURI l = uri" "length ps \<le> e_pages E"
    "v # vs = rows_of resp @ concat (map rows_of ps)"
    by (auto simp: feeds_def)
  obtain p ps' d where p: "(if bufferedRowCount resp = 0 then waitForData E (nr_ctx r) resp dc else (Ok resp, dc)) = (Ok p, d)"
    "page_stream E (nr_ctx r) w p d ps' l dc2" "page_of w p" "length ps' \<le> e_pages E"
    "rows_of p @ concat (map rows_of ps') = v # vs" "rows_of p \<noteq> []"
  proof (cases "rows_of resp = []")
    case True
    have "waitForData E (nr_ctx r) resp dc = waitLoop E (nr_ctx r) (e_pages E) resp dc"
      using f(4) by (simp add: waitForData_def page_of_def)
    moreover obtain p ps' d where *: "waitLoop E (nr_ctx r) (e_pages E) resp dc = (Ok p, d)"
      "page_stream E (nr_ctx r) w p d ps' l dc2" "page_of w p" "length ps' \<le> length ps"
      "rows_of p @ concat (map rows_of ps') = concat (map rows_of ps)" "rows_of p = [] \<longrightarrow> ps' = []"
      using waitLoop_stream [OF f(5,4) True f(7)] by blast
    moreover have "rows_of p @ concat (map rows_of ps') = v # vs" using *(5) f(8) True by simp
    moreover from this *(6) have "rows_of p \<noteq> []" by auto
    ultimately show thesis
      using that [of p d ps'] True page_of_count [OF f(4)] f(7) by simp
  next
    case False
    with page_of_count [OF f(4)] f that [of resp dc ps] show thesis by simp
  qed
  then obtain ws where ws: "rows_of p = v # ws" "vs = ws @ concat (map rows_of ps')"
    by (cases "rows_of p") auto
  obtain p' where p': "take_row p = ([], v, p')" "row_values (e_tz E) (nr_schema r) [] v = Ok v" "page_of w p'"
    "rows_of p' = ws" "same_links p p'"
    using Next_buffered [OF p(3) ws(1) assms(2) f(3)] by blast
  have "bufferedRowCount p \<noteq> 0" using page_of_count [OF p(3)] ws(1) by simp
  with f(1-3) p(1) p'(1,2) have "Next E w r dc = (Ok v, r\<lparr>nr_resp := Some p'\<rparr>, d)"
    by (simp add: Next_def)
  moreover from page_stream_links [OF p(2) p'(5)] obtain l' where
    "page_stream E (nr_ctx r) w p' d ps' l' dc2" "qr_FinalURI l' = uri" using f(6) by auto
  then have "feeds E w (r\<lparr>nr_resp := Some p'\<rparr>) d uri dc2 vs"
    using f(2,3) p(4) p'(3,4) ws(2) by (auto simp: feeds_def Columns_def)
  ultimately show ?thesis by blast
qed

lemma Next_end:
  assumes "feeds E w r dc uri dc2 []" "dc_rest dc"
  shows "\<exists>r1. Next E w r dc = (Err (ESentinel IoEOF), r1, finalized E (nr_ctx r) uri dc2) \<and> nr_closed r1
    \<and> length (Columns r1) = w"
proof -
  from assms(1) obtain resp ps l where f: "nr_resp r = Some resp" "\<not> nr_closed r" "length (Columns r) = w"
    "page_of w resp" "page_stream E (nr_ctx r) w resp dc ps l dc2" "qr_FinalURI l = uri" "length ps \<le> e_pages E"
    "rows_of resp = []" "concat (map rows_of ps) = []"
    by (auto simp: feeds_def)
  have "waitForData E (nr_ctx r) resp dc = waitLoop E (nr_ctx r) (e_pages E) resp dc"
    using f(4) by (simp add: waitForData_def page_of_def)
  moreover obtain p ps' d where *: "waitLoop E (nr_ctx r) (e_pages E) resp dc = (Ok p, d)"
    "page_stream E (nr_ctx r) w p d ps' l dc2" "page_of w p"
    "rows_of p @ concat (map rows_of ps') = concat (map rows_of ps)" "rows_of p = [] \<longrightarrow> ps' = []"
    using waitLoop_stream [OF f(5,4,8,7)] by blast
  ultimately have
    p: "waitForData E (nr_ctx r) resp dc = (Ok p, d)" "page_stream E (nr_ctx r) w p d [] l dc2" "page_of w p"
    "rows_of p = []"
    using f(9) by auto
  then have pl: "p = l" "d = dc2" by auto
  have rest: "dc_rest dc2" using page_stream_rest [OF f(5)] assms(2) by simp
  from doClose_finalizes [of "r\<lparr>nr_resp := Some l\<rparr>" l dc2 E] f(2) rest obtain r' where
    "doClose E (r\<lparr>nr_resp := Some l\<rparr>) dc2 = (Ok (), r', finalized E (nr_ctx r) (qr_FinalURI l) dc2)"
    "nr_closed r'" "Columns r' = Columns r"
    by (auto simp: Columns_def)
  moreover have "Next E w r dc = (case doClose E (r\<lparr>nr_resp := Some l\<rparr>) dc2 of
      (Panic q, r2, dc3) \<Rightarrow> (Panic q, r2, dc3) | (_, r2, dc3) \<Rightarrow> (Err (ESentinel IoEOF), r2, dc3))"
    using f(1-3) p(1) pl page_of_count [OF f(4)] page_of_count [OF p(3)] f(8) p(4) unfolding Next_def by simp
  ultimately show ?thesis using f(3,6) by simp
qed

text \<open>Reading to the end.\<close>

inductive drained :: "env \<Rightarrow> nat \<Rightarrow> next_rows \<Rightarrow> conn \<Rightarrow> dvalue list list \<Rightarrow> next_rows \<Rightarrow> conn \<Rightarrow> bool" for E w where
  Eof: "Next E w r dc = (Err (ESentinel IoEOF), r', dc') \<Longrightarrow> drained E w r dc [] r' dc'"
| Row: "Next E w r dc = (Ok v, r1, dc1) \<Longrightarrow> drained E w r1 dc1 vs r' dc' \<Longrightarrow> drained E w r dc (v # vs) r' dc'"

lemma doClose_ctx: "doClose E r dc = (x, r', dc') \<Longrightarrow> nr_ctx r' = nr_ctx r"
  by (auto simp: doClose_def Let_def split: if_splits option.splits prod.splits outcome.splits)

lemma Next_keeps: "Next E w r dc = (x, r', dc') \<Longrightarrow> nr_ctx r' = nr_ctx r"
  by (auto simp: Next_def split: if_splits bool.splits option.splits prod.splits outcome.splits dest!: doClose_ctx)

lemma feeds_drained:
  "feeds E w r dc uri dc2 vs \<Longrightarrow> 0 < w \<Longrightarrow> dc_rest dc \<Longrightarrow>
     \<exists>r'. drained E w r dc vs r' (finalized E (nr_ctx r) uri dc2) \<and> nr_closed r' \<and> length (Columns r') = w"
proof (induction vs arbitrary: r dc)
  case Nil
  from Next_end [OF Nil.prems(1,3)] show ?case by (auto intro: drained.Eof)
next
  case (Cons v vs)
  from Next_row [OF Cons.prems(1,2)] obtain r1 dc1 where
    n: "Next E w r dc = (Ok v, r1, dc1)" "feeds E w r1 dc1 uri dc2 vs" by blast
  have "dc_rest dc1" using Next_shell [OF n(1)] Cons.prems(3) by (simp add: same_shell_def)
  from Cons.IH [OF n(2) Cons.prems(2) this] n(1) Next_keeps [OF n(1)] show ?case by (auto intro: drained.Row)
qed

subsection \<open>A whole query\<close>

lemma newNextRows_feeds:
  assumes "newNextRows E ctx p dc = Ok r" "qr_typedRows p \<noteq> None"
  shows "nr_resp r = Some p \<and> \<not> nr_closed r \<and> nr_ctx r = ctx"
  using assms by (auto simp: newNextRows_def go_bind_eq_Ok split: if_splits)

lemma query_buffered:
  assumes "checkQueryID E ctx0 dc0 = (ctx, dc)" "buildQuery F q args phs = Ok sql"
    and "with_rest (StartQuery E ctx sql) dc = (Ok (Some r0), dc1)"
    and "page_of w r0" "waitForData E ctx r0 dc1 = (Ok p, d)" "newNextRows E ctx p d = Ok r"
  shows "query E F ctx0 q phs args dc0 = (Ok r, d)"
  using assms by (simp add: query_def page_of_def)

lemma waitForData_buffered:
  "page_of w r \<Longrightarrow> rows_of r \<noteq> [] \<Longrightarrow> waitForData E ctx r dc = (Ok r, dc)"
  using page_of_count [of w r] by (simp add: waitForData_def page_of_def waitLoop.simps)

lemma query_feeds:
  assumes "checkQueryID E ctx0 dc0 = (ctx, dc)" "buildQuery F q args phs = Ok sql"
    and start: "with_rest (StartQuery E ctx sql) dc = (Ok (Some r0), dc1)"
    and pages: "page_of w r0" "page_stream E ctx w r0 dc1 ps l dc2" "length ps \<le> e_pages E"
    and run: "query E F ctx0 q phs args dc0 = (Ok r, dc3)" "length (Columns r) = w"
  shows "feeds E w r dc3 (qr_FinalURI l) dc2 (rows_of r0 @ concat (map rows_of ps)) \<and> nr_ctx r = ctx"
proof -
  obtain p ps' d where p: "waitForData E ctx r0 dc1 = (Ok p, d)" "page_stream E ctx w p d ps' l dc2" "page_of w p"
    "length ps' \<le> length ps" "rows_of p @ concat (map rows_of ps') = rows_of r0 @ concat (map rows_of ps)"
  proof (cases "rows_of r0 = []")
    case True
    with waitLoop_stream [OF pages(2,1) True pages(3)] that pages(1) show thesis
      by (auto simp: waitForData_def page_of_def)
  next
    case False
    with waitForData_buffered [OF pages(1) False] pages that show thesis by blast
  qed
  have "query E F ctx0 q phs args dc0 =
      (case (newNextRows E ctx p d, d) of
         (Err e, dc2) \<Rightarrow> (case run_rest (CloseQuery E ctx r0) dc2 of (Panic p, dc3) \<Rightarrow> (Panic p, dc3) | (_, dc3) \<Rightarrow> (Err e, dc3))
       | res \<Rightarrow> res)"
    using assms(1-3) p(1) pages(1) by (simp add: query_def page_of_def)
  with run(1) have n: "newNextRows E ctx p d = Ok r" "d = dc3"
    by (auto split: outcome.splits prod.splits)
  from newNextRows_feeds [OF n(1)] p(3) have f: "nr_resp r = Some p" "\<not> nr_closed r" "nr_ctx r = ctx"
    by (auto simp: page_of_def)
  then have "feeds E w r dc3 (qr_FinalURI l) dc2 (rows_of r0 @ concat (map rows_of ps))"
    unfolding feeds_def using p pages(3) run(2) n(2)
    by (intro exI [of _ p] exI [of _ ps'] exI [of _ l]) auto
  with f(3) show ?thesis by simp
qed

lemma query_rest: "query E F ctx q phs args dc = (r, dc') \<Longrightarrow> dc_rest dc' = dc_rest dc"
  by (auto dest: query_shell simp: same_shell_def)


text \<open>A server that serves a query in two pages of one row.\<close>

definition two_pages :: env where
  "two_pages =
     tx_server\<lparr>e_net := (\<lambda>rs. NetReply 200 [(''Content-Type'', ''application/json'')] []
                              (Ok (if rq_Method (last rs) = ''POST'' then ''first'' else ''last''))),
               e_json := (\<lambda>t. Some (JObj ([(''schema'', JArr [JObj [(''name'', JStr ''a''), (''type'', JStr ''String'')]]),
                                          (''data'', JArr [JArr [JStr t]])]
                                    @ (if t = ''first'' then [(''next_uri'', JStr ''/v1/query/1/page/1'')] else [(''final_uri'', JStr ''/v1/query/1/final'')]))))\<rparr>"

definition pages_conn :: conn where
  "pages_conn = new_conn two_pages (user_config\<lparr>cfg_LoginEnabled := False\<rparr>) demo_world"

definition pages_run :: "(query_response \<times> conn \<times> query_response \<times> conn \<times> next_rows) option" where
  "pages_run =
     (let (ctx, dc) = checkQueryID two_pages Background pages_conn in
      case with_rest (StartQuery two_pages ctx ''select 1'') dc of
        (Ok (Some r0), dc1) \<Rightarrow>
          (case (with_rest (PollQuery two_pages ctx (qr_NextURI r0)) dc1, newNextRows two_pages ctx r0 dc1) of
             ((Ok (Some p), dc2), Ok r) \<Rightarrow> Some (r0, dc1, p, dc2, r)
           | _ \<Rightarrow> None)
      | _ \<Rightarrow> None)"

lemma pages_run_ok:
  "(case pages_run of
      Some (r0, dc1, p, dc2, r) \<Rightarrow>
        rows_of r0 = [[DString ''first'']] \<and> rows_of p = [[DString ''last'']]
        \<and> qr_Error r0 = None \<and> qr_Error p = None \<and> qr_Data r0 = [] \<and> qr_Data p = []
        \<and> \<not> ReadFinished r0 \<and> ReadFinished p \<and> qr_FinalURI p = ''/v1/query/1/final'' \<and> length (Columns r) = 1
    | None \<Rightarrow> False)"
  by code_simp

lemma pages_run_case:
  obtains r0 dc1 p dc2 r ctx dc where
    "checkQueryID two_pages Background pages_conn = (ctx, dc)"
    "with_rest (StartQuery two_pages ctx ''select 1'') dc = (Ok (Some r0), dc1)"
    "with_rest (PollQuery two_pages ctx (qr_NextURI r0)) dc1 = (Ok (Some p), dc2)"
    "newNextRows two_pages ctx r0 dc1 = Ok r" "pages_run = Some (r0, dc1, p, dc2, r)"
proof -
  obtain ctx dc where c: "checkQueryID two_pages Background pages_conn = (ctx, dc)" by fastforce
  obtain r0 dc1 p dc2 r where "pages_run = Some (r0, dc1, p, dc2, r)"
    using pages_run_ok by (auto split: option.splits)
  with c that show thesis
    by (auto simp: pages_run_def split: prod.splits outcome.splits option.splits)
qed


end
