(* ===== verification/Go_Float.thy ===== *)
theory Go_Float
  imports Go_Duration
begin

text \<open>
  \<open>strconv.ParseFloat\<close> and the conversions of a float to an integer type.  A finite float is
  \<open>(-1)^s * m * 2^e\<close> with its mantissa of 53 or 24 bits; the text is read as an exact fraction, which is
  then rounded to the nearest float, ties to even.
\<close>

datatype float_value = FFin bool nat int | FInf bool | FNaN

subsection \<open>Rounding\<close>

fun bit_length :: "nat \<Rightarrow> nat" where
  "bit_length n = (if n = 0 then 0 else Suc (bit_length (n div 2)))"

declare bit_length.simps [simp del]

text \<open>\<open>round_float p lo hi s n d\<close> is \<open>n / d\<close> with \<open>p\<close> bits and an exponent between \<open>lo\<close> and \<open>hi\<close>; the flag
  is set when it is too large.\<close>

definition exponent_for :: "nat \<Rightarrow> nat \<Rightarrow> nat \<Rightarrow> int" where
  "exponent_for p n d =
     (let k = int (bit_length n) - int (bit_length d)
      in if d * 2 ^ nat k \<le> n * 2 ^ nat (- k) then k + 1 - int p else k - int p)"

definition round_float :: "nat \<Rightarrow> int \<Rightarrow> int \<Rightarrow> bool \<Rightarrow> nat \<Rightarrow> nat \<Rightarrow> float_value \<times> bool" where
  "round_float p lo hi s n d =
     (if n = 0 then (FFin s 0 0, False)
      else
        let e = max (exponent_for p n d) lo;
            m = round_even (n * 2 ^ nat (- e)) (d * 2 ^ nat e);
            (m, e) = (if m = 2 ^ p then (2 ^ (p - 1), e + 1) else (m, e))
        in if hi < e then (FInf s, True) else if m = 0 then (FFin s 0 0, False) else (FFin s m e, False))"

definition to_float :: "nat \<Rightarrow> bool \<Rightarrow> nat \<Rightarrow> nat \<Rightarrow> float_value \<times> bool" where
  "to_float bits s n d =
     (if bits = 32 then round_float 24 (- 149) 104 s n d else round_float 53 (- 1074) 971 s n d)"

subsection \<open>Syntax\<close>

definition is_hex :: "char \<Rightarrow> bool" where
  "is_hex c \<longleftrightarrow> is_digit c \<or> lower_byte c \<in> set ''abcdef''"

definition hex_digit :: "char \<Rightarrow> nat" where
  "hex_digit c = (if is_digit c then digit_val c else of_char (lower_byte c) - 87)"

text \<open>The digits: the number they make, how many are behind the point, whether there are any, whether
  a point and whether an underscore was seen, and the rest.\<close>

fun read_digits ::
  "bool \<Rightarrow> string \<Rightarrow> nat \<times> nat \<times> bool \<times> bool \<times> bool \<Rightarrow> (nat \<times> nat \<times> bool \<times> bool \<times> bool) \<times> string" where
  "read_digits hex [] st = (st, [])"
| "read_digits hex (c # cs) (n, frac, digits, point, us) =
     (if c = CHR ''_'' then read_digits hex cs (n, frac, digits, point, True)
      else if c = CHR ''.'' then
        if point then ((n, frac, digits, point, us), c # cs)
        else read_digits hex cs (n, frac, digits, True, us)
      else if is_digit c \<or> hex \<and> is_hex c then
        read_digits hex cs (n * (if hex then 16 else 10) + hex_digit c, (if point then frac + 1 else frac), True, point, us)
      else ((n, frac, digits, point, us), c # cs))"

text \<open>The exponent's digits; digits after a value of 10000 no longer count.\<close>

fun read_exponent :: "string \<Rightarrow> nat \<Rightarrow> bool \<Rightarrow> nat \<times> bool \<times> string" where
  "read_exponent [] e us = (e, us, [])"
| "read_exponent (c # cs) e us =
     (if c = CHR ''_'' then read_exponent cs e True
      else if is_digit c then read_exponent cs (if e < 10000 then e * 10 + digit_val c else e) us
      else (e, us, c # cs))"

text \<open>\<open>underscoreOK\<close>: an underscore stands between digits.\<close>

fun underscores_ok :: "bool \<Rightarrow> char \<Rightarrow> string \<Rightarrow> bool" where
  "underscores_ok hex saw [] = (saw \<noteq> CHR ''_'')"
| "underscores_ok hex saw (c # cs) =
     (if is_digit c \<or> hex \<and> is_hex c then underscores_ok hex CHR ''0'' cs
      else if c = CHR ''_'' then saw = CHR ''0'' \<and> underscores_ok hex CHR ''_'' cs
      else saw \<noteq> CHR ''_'' \<and> underscores_ok hex CHR ''!'' cs)"

definition underscoreOK :: "string \<Rightarrow> bool" where
  "underscoreOK s =
     (if 2 \<le> length s \<and> s ! 0 = CHR ''0'' \<and> lower_byte (s ! 1) \<in> set ''box''
      then underscores_ok (lower_byte (s ! 1) = CHR ''x'') CHR ''0'' (drop 2 s)
      else underscores_ok False CHR ''^'' s)"

text \<open>\<open>readFloat\<close> without the sign, on the whole text: numerator and denominator.\<close>

definition read_unsigned :: "string \<Rightarrow> (nat \<times> nat) option" where
  "read_unsigned s =
     (let hex = (2 < length s \<and> s ! 0 = CHR ''0'' \<and> lower_byte (s ! 1) = CHR ''x'') in
      case read_digits hex (if hex then drop 2 s else s) (0, 0, False, False, False) of
        ((n, frac, digits, point, us), rest) \<Rightarrow>
          let fraction = (\<lambda>e. (n * (if hex then 2 else 10) ^ nat e,
                               (if hex then 16 else 10) ^ frac * (if hex then 2 else 10) ^ nat (- e)));
              finish = (\<lambda>e us rest. if rest \<noteq> [] \<or> us \<and> \<not> underscoreOK s then None else Some (fraction e))
          in if \<not> digits then None
             else if rest \<noteq> [] \<and> lower_byte (hd rest) = (if hex then CHR ''p'' else CHR ''e'') then
               (let t = tl rest; neg = has_prefix t ''-''; t' = (if neg \<or> has_prefix t ''+'' then tl t else t) in
                if t' = [] \<or> \<not> is_digit (hd t') then None
                else case read_exponent t' 0 us of
                  (e, us', rest') \<Rightarrow> finish (if neg then - int e else int e) us' rest')
             else if hex then None
             else finish 0 us rest)"

text \<open>\<open>ParseFloat\<close>: the value, and the error with it.\<close>

definition split_sign :: "string \<Rightarrow> bool \<times> string" where
  "split_sign s = (if has_prefix s ''-'' then (True, tl s) else if has_prefix s ''+'' then (False, tl s) else (False, s))"

definition ParseFloat :: "nat \<Rightarrow> string \<Rightarrow> float_value \<times> num_error option" where
  "ParseFloat bits s =
     (case split_sign s of
        (neg, t) \<Rightarrow>
          if map lower_byte t \<in> {''inf'', ''infinity''} then (FInf neg, None)
          else if map lower_byte s = ''nan'' then (FNaN, None)
          else case read_unsigned t of
            None \<Rightarrow> (FFin False 0 0, Some ErrSyntax)
          | Some (n, d) \<Rightarrow>
              (case to_float bits neg n d of (f, over) \<Rightarrow> (f, if over then Some ErrRange else None)))"

subsection \<open>Conversion to an integer type\<close>

definition f_trunc :: "bool \<Rightarrow> nat \<Rightarrow> int \<Rightarrow> int" where
  "f_trunc s m e = (let k = m * 2 ^ nat e div 2 ^ nat (- e) in if s then - int k else int k)"

definition int_range :: "bool \<Rightarrow> nat \<Rightarrow> int \<Rightarrow> bool" where
  "int_range signed bits i \<longleftrightarrow>
     (if signed then - (2 ^ (bits - 1)) \<le> i \<and> i < 2 ^ (bits - 1) else 0 \<le> i \<and> i < 2 ^ bits)"

text \<open>What Go does not define, the result for a value that does not fit, is the parameter \<open>outside\<close>.\<close>

type_synonym int_conversion = "bool \<Rightarrow> nat \<Rightarrow> float_value \<Rightarrow> int"

definition float_to_int :: "int_conversion \<Rightarrow> bool \<Rightarrow> nat \<Rightarrow> float_value \<Rightarrow> int" where
  "float_to_int outside signed bits f =
     (case f of
        FFin s m e \<Rightarrow> if int_range signed bits (f_trunc s m e) then f_trunc s m e else outside signed bits f
      | _ \<Rightarrow> outside signed bits f)"

end
