(* ===== verification/Value_Parser.thy ===== *)
theory Value_Parser
  imports Go_Runes Go_Float Sql_Encoder Type_Parser
begin

text \<open>
  \<open>tokenizer.go\<close> and \<open>valueparser.go\<close>: the parsers that \<open>NewDataParser\<close> builds from a type descriptor
  for the text form of values.

  A parser is a value of \<open>data_parser\<close>, one constructor per struct of the source; \<open>Parse\<close> runs it on a
  scanner and leaves the scanner where it stopped, and \<open>parser_type\<close> is its \<open>Type()\<close> method.  The
  \<open>reflect\<close> types and values it builds are \<open>rtype\<close> and \<open>pvalue\<close>; a use of \<open>reflect\<close> that panics is a
  \<open>Panic\<close>.  The loop over the elements of an array or a map takes fuel; what it needs is one more than the
  runes that are left, which is proved to be enough for every parser that \<open>NewDataParser\<close> makes.
\<close>

subsection \<open>\<open>tokenizer.go\<close>\<close>

definition eof :: rune where "eof = 0"

definition read :: "scanner \<Rightarrow> rune \<times> scanner" where
  "read s = (case ReadRune s of (Some r, s') \<Rightarrow> (r, s') | (None, s') \<Rightarrow> (eof, s'))"

definition readEscaped :: "scanner \<Rightarrow> rune go \<times> scanner" where
  "readEscaped s =
     (case read s of
        (r, s') \<Rightarrow>
          (if r = eof then Err (EMsg ''unexpected eof in escaped char'')
           else if r = ch CHR ''b'' then Ok 8
           else if r = ch CHR ''f'' then Ok 12
           else if r = ch CHR ''r'' then Ok 13
           else if r = ch CHR ''n'' then Ok 10
           else if r = ch CHR ''t'' then Ok 9
           else if r = ch CHR ''0'' then Ok 0
           else Ok r, s'))"

text \<open>The loop of \<open>readRaw\<close> over the runes that are left.\<close>

fun raw_loop :: "rune list \<Rightarrow> rune list \<Rightarrow> rune list \<times> scanner" where
  "raw_loop data [] = (data, (None, []))"
| "raw_loop data (r # rs) = (if r = eof then (data, (Some r, rs)) else raw_loop (data @ [r]) rs)"

definition readRaw :: "scanner \<Rightarrow> rune list \<times> scanner" where
  "readRaw s = raw_loop [] (snd s)"

subsection \<open>Reading numbers and strings\<close>

definition number_ends :: "rune list" where
  "number_ends = [ch CHR '','', ch CHR '']'', ch CHR '')'']"

fun number_loop :: "rune list \<Rightarrow> rune list \<Rightarrow> rune list \<times> scanner" where
  "number_loop b [] = (b, (None, []))"
| "number_loop b (r # rs) =
     (if r = eof then (b, (Some r, rs))
      else if r \<in> set number_ends then (b, UnreadRune (Some r, rs))
      else number_loop (b @ [r]) rs)"

definition readNumber :: "scanner \<Rightarrow> rune list \<times> scanner" where
  "readNumber s = number_loop [] (snd s)"

text \<open>\<open>readUnquoted\<close>; a length of 0 reads to the end.\<close>

definition unquoted_result :: "int \<Rightarrow> rune list \<Rightarrow> int \<Rightarrow> rune list go" where
  "unquoted_result len b n =
     (if len \<noteq> 0 \<and> n \<noteq> len then
        Err (EMsg (''unexpected string length '' @ format_int n @ '', expected '' @ format_int len))
      else Ok b)"

lemma left_read: "left (snd (read s)) \<le> left s"
  by (auto simp: read_def ReadRune_def split: list.split)

lemma left_readEscaped: "left (snd (readEscaped s)) \<le> left s"
  using left_read [of s] by (auto simp: readEscaped_def split: prod.splits)

lemma left_readEscaped_le: "readEscaped s = (r, s') \<Longrightarrow> left s' \<le> left s"
  using left_readEscaped [of s] by simp

function unquoted_loop :: "int \<Rightarrow> rune list \<Rightarrow> int \<Rightarrow> scanner \<Rightarrow> rune list go \<times> scanner" where
  "unquoted_loop len b n s =
     (if \<not> (len = 0 \<or> n < len) then (unquoted_result len b n, s)
      else case ReadRune s of
        (None, s') \<Rightarrow> (unquoted_result len b n, s')
      | (Some r, s') \<Rightarrow>
          if r = eof then (unquoted_result len b n, s')
          else if r = ch CHR 0x5C then
            (case readEscaped s' of
               (Ok e, s'') \<Rightarrow> unquoted_loop len (b @ [e]) (n + 1) s''
             | (Err e, s'') \<Rightarrow> (Err (EMsg (''incorrect escaping in string: '' @ error_text e)), s'')
             | (Panic p, s'') \<Rightarrow> (Panic p, s''))
          else unquoted_loop len (b @ [r]) (n + 1) s')"
  by pat_completeness auto
termination
  by (relation "measure (\<lambda>(len, b, n, s). left s)")
    (auto simp: ReadRune_def less_Suc_eq_le split: list.splits dest: left_readEscaped_le [OF sym])

declare unquoted_loop.simps [simp del]

definition readUnquoted :: "scanner \<Rightarrow> int \<Rightarrow> rune list go \<times> scanner" where
  "readUnquoted s len = unquoted_loop len [] 0 s"

definition quote_mark :: rune where "quote_mark = ch CHR 0x27"

definition readString :: "scanner \<Rightarrow> int \<Rightarrow> bool \<Rightarrow> rune list go \<times> scanner" where
  "readString s len unquote =
     (let quoted = (\<lambda>s k. case read s of
            (r, s') \<Rightarrow> if r \<noteq> quote_mark then (Err (EMsg ''unexpected character instead of a quote''), s') else k s');
          body = (\<lambda>s k. case readUnquoted s len of
            (Ok str, s') \<Rightarrow> k str s'
          | (Err e, s') \<Rightarrow> (Err (EMsg ''failed to read string''), s')
          | (Panic p, s') \<Rightarrow> (Panic p, s'))
      in if unquote then quoted s (\<lambda>s. body s (\<lambda>str s. quoted s (\<lambda>s. (Ok str, s))))
         else body s (\<lambda>str s. (Ok str, s)))"

text \<open>\<open>peakNull\<close>: only the last \<open>ReadRune\<close> can be undone.\<close>

definition unread_times :: "nat \<Rightarrow> scanner \<Rightarrow> scanner" where
  "unread_times n s = (UnreadRune ^^ n) s"

definition peakNull :: "scanner \<Rightarrow> bool \<times> scanner" where
  "peakNull s =
     (case read s of (r1, s1) \<Rightarrow> if r1 \<noteq> ch CHR ''N'' then (False, unread_times 1 s1) else
      case read s1 of (r2, s2) \<Rightarrow> if r2 \<noteq> ch CHR ''U'' then (False, unread_times 2 s2) else
      case read s2 of (r3, s3) \<Rightarrow> if r3 \<noteq> ch CHR ''L'' then (False, unread_times 3 s3) else
      case read s3 of (r4, s4) \<Rightarrow> if r4 \<noteq> ch CHR ''L'' then (False, unread_times 4 s4) else
      case read s4 of (r5, s5) \<Rightarrow> if r5 \<noteq> eof then (False, unread_times 5 s5) else (True, s5))"

subsection \<open>Types and values of \<open>reflect\<close>\<close>

datatype rtype =
    RString | RBool | RTime | REmptyStruct
  | RInt bool nat
  | RFloat nat
  | RStruct "rtype list"
  | RSlice rtype
  | RMap rtype rtype

datatype pvalue =
    PNil
  | PString string
  | PBool bool
  | PTime gtime
  | PInt bool nat int
  | PFloat nat float_value
  | PStruct "pvalue list"
  | PSlice "pvalue list"
  | PMap "(pvalue \<times> pvalue) list"

text \<open>A type that \<open>reflect.MapOf\<close> accepts for keys.\<close>

fun comparable :: "rtype \<Rightarrow> bool" where
  "comparable (RSlice t) = False"
| "comparable (RMap k v) = False"
| "comparable (RStruct ts) = list_all comparable ts"
| "comparable t = True"

text \<open>Go's \<open>==\<close> on keys: no NaN equals itself, and the two zeros are equal.\<close>

definition float_eq :: "float_value \<Rightarrow> float_value \<Rightarrow> bool" where
  "float_eq x y =
     (case (x, y) of
        (FNaN, _) \<Rightarrow> False
      | (_, FNaN) \<Rightarrow> False
      | (FFin s m e, FFin s' m' e') \<Rightarrow> m = 0 \<and> m' = 0 \<or> x = y
      | _ \<Rightarrow> x = y)"

fun key_eq :: "pvalue \<Rightarrow> pvalue \<Rightarrow> bool" where
  "key_eq (PFloat b x) y = (case y of PFloat c z \<Rightarrow> b = c \<and> float_eq x z | _ \<Rightarrow> False)"
| "key_eq (PStruct vs) y = (case y of PStruct ws \<Rightarrow> list_all2 key_eq vs ws | _ \<Rightarrow> False)"
| "key_eq x y = (x = y)"

text \<open>\<open>SetMapIndex\<close>: a zero \<open>Value\<close> for the element deletes the key, one for the key panics.\<close>

fun map_delete :: "pvalue \<Rightarrow> (pvalue \<times> pvalue) list \<Rightarrow> (pvalue \<times> pvalue) list" where
  "map_delete k [] = []"
| "map_delete k ((k', v) # m) = (if key_eq k' k then m else (k', v) # map_delete k m)"

fun map_store :: "pvalue \<Rightarrow> pvalue \<Rightarrow> (pvalue \<times> pvalue) list \<Rightarrow> (pvalue \<times> pvalue) list" where
  "map_store k v [] = [(k, v)]"
| "map_store k v ((k', v') # m) = (if key_eq k' k then (k, v) # m else (k', v') # map_store k v m)"

definition zero_value :: string where "zero_value = ''reflect: call on zero Value''"

definition SetMapIndex :: "pvalue \<Rightarrow> pvalue \<Rightarrow> (pvalue \<times> pvalue) list \<Rightarrow> (pvalue \<times> pvalue) list go" where
  "SetMapIndex k v m =
     (if k = PNil then Panic zero_value
      else if v = PNil then Ok (map_delete k m) else Ok (map_store k v m))"

subsection \<open>The parsers\<close>

datatype data_parser =
    NullParser data_parser
  | StringParser bool int
  | BooleanParser int
  | DateTimeParser bool "chunk list" location int
  | TupleParser "data_parser list"
  | ArrayParser data_parser
  | MapParser data_parser data_parser
  | IntParser bool nat
  | FloatParser nat
  | NothingParser
  | NullableParser data_parser string

definition unsupported_bits :: string where "unsupported_bits = ''unsupported bit size''"

definition int_type :: "bool \<Rightarrow> nat \<Rightarrow> rtype go" where
  "int_type sg bits = (if bits \<in> {8, 16, 32, 64} then Ok (RInt sg bits) else Panic unsupported_bits)"

definition float_type :: "nat \<Rightarrow> rtype go" where
  "float_type bits = (if bits \<in> {32, 64} then Ok (RFloat bits) else Panic unsupported_bits)"

fun parser_type :: "data_parser \<Rightarrow> rtype go" where
  "parser_type (NullParser p) = parser_type p"
| "parser_type (StringParser u l) = Ok RString"
| "parser_type (BooleanParser l) = Ok RBool"
| "parser_type (DateTimeParser u f loc pr) = Ok RTime"
| "parser_type (TupleParser ps) = go_bind (go_mapM parser_type ps) (\<lambda>ts. Ok (RStruct ts))"
| "parser_type (ArrayParser p) = go_bind (parser_type p) (\<lambda>t. Ok (RSlice t))"
| "parser_type (MapParser k v) =
     go_bind (parser_type k) (\<lambda>kt. go_bind (parser_type v) (\<lambda>vt.
       if comparable kt then Ok (RMap kt vt) else Panic ''reflect.MapOf: invalid key type''))"
| "parser_type (IntParser sg bits) = int_type sg bits"
| "parser_type (FloatParser bits) = float_type bits"
| "parser_type NothingParser = Ok REmptyStruct"
| "parser_type (NullableParser p n) = parser_type p"

fun parser_nullable :: "data_parser \<Rightarrow> bool" where
  "parser_nullable (NullParser p) = parser_nullable p"
| "parser_nullable NothingParser = True"
| "parser_nullable (NullableParser p n) = True"
| "parser_nullable p = False"

subsection \<open>Parsing\<close>

record parse_env =
  pe_tz :: tzdb
  pe_quoted :: "string \<Rightarrow> string"
  pe_outside :: int_conversion

text \<open>The result of a parser, with the \<open>Err\<close> branches of the callers.\<close>

type_synonym 'a parse_result = "'a go \<times> scanner"

definition p_bind :: "'a parse_result \<Rightarrow> (go_error \<Rightarrow> go_error) \<Rightarrow> ('a \<Rightarrow> scanner \<Rightarrow> 'b parse_result) \<Rightarrow> 'b parse_result" where
  "p_bind m wrap k =
     (case m of (Ok v, s) \<Rightarrow> k v s | (Err e, s) \<Rightarrow> (Err (wrap e), s) | (Panic p, s) \<Rightarrow> (Panic p, s))"

definition p_go :: "'a go \<Rightarrow> scanner \<Rightarrow> 'a parse_result" where
  "p_go r s = (r, s)"

definition unexpected_char :: "rune \<Rightarrow> string \<Rightarrow> go_error" where
  "unexpected_char r what =
     EMsg (''unexpected character '' @ [CHR 0x27] @ encode_rune r @ [CHR 0x27] @ '', expected '' @ what)"

text \<open>A character that must come next.\<close>

definition expect :: "char \<Rightarrow> string \<Rightarrow> scanner \<Rightarrow> (scanner \<Rightarrow> 'a parse_result) \<Rightarrow> 'a parse_result" where
  "expect c what s k =
     (case read s of
        (r, s') \<Rightarrow>
          if r \<noteq> ch c then
            (Err (unexpected_char r ([CHR 0x27] @ [c] @ [CHR 0x27] @ '' at the '' @ what)), s')
          else k s')"

definition skip_comma :: "scanner \<Rightarrow> scanner" where
  "skip_comma s = (case read s of (r, s') \<Rightarrow> if r \<noteq> ch CHR '','' then UnreadRune s' else s')"

definition wrap_text :: "string \<Rightarrow> go_error \<Rightarrow> go_error" where
  "wrap_text what e = EMsg (what @ '': '' @ error_text e)"

definition out_of_fuel :: string where "out_of_fuel = ''out of fuel''"

text \<open>Elements of a tuple.\<close>

fun tuple_loop :: "(scanner \<Rightarrow> pvalue parse_result) list \<Rightarrow> bool \<Rightarrow> scanner \<Rightarrow> pvalue list parse_result" where
  "tuple_loop [] first s = (Ok [], s)"
| "tuple_loop (p # ps) first s =
     (let element = (\<lambda>s. p_bind (p s) (wrap_text ''failed to parse tuple element'') (\<lambda>v s.
            if v = PNil then (Panic zero_value, s)
            else p_bind (tuple_loop ps False s) id (\<lambda>vs s. (Ok (v # vs), s))))
      in if first then element s
         else case read s of
           (r, s') \<Rightarrow>
             if r \<noteq> ch CHR '','' then
               (Err (unexpected_char r ([CHR 0x27] @ '','' @ [CHR 0x27] @ '' between tuple elements'')), s')
             else element s')"

text \<open>Elements of an array up to the closing bracket, which is left; \<open>null_ok\<close> says that the element
  parser is a \<open>nullParser\<close>.\<close>

fun array_loop :: "bool \<Rightarrow> (scanner \<Rightarrow> pvalue parse_result) \<Rightarrow> nat \<Rightarrow> pvalue list \<Rightarrow> scanner \<Rightarrow> pvalue list parse_result" where
  "array_loop null_ok p 0 vs s = (Panic out_of_fuel, s)"
| "array_loop null_ok p (Suc n) vs s =
     (case read s of
        (r, s1) \<Rightarrow>
          let s2 = UnreadRune s1 in
          if r = ch CHR '']'' then (Ok vs, s2)
          else p_bind (p s2) (wrap_text ''failed to parse array element'') (\<lambda>v s3.
            if v = PNil \<and> \<not> null_ok then (Err (EMsg ''unexpected nil element''), s3)
            else array_loop null_ok p n (if v = PNil then vs else vs @ [v]) (skip_comma s3)))"

text \<open>Entries of a map up to the closing brace.\<close>

fun map_loop ::
  "(scanner \<Rightarrow> pvalue parse_result) \<Rightarrow> (scanner \<Rightarrow> pvalue parse_result) \<Rightarrow> nat \<Rightarrow> (pvalue \<times> pvalue) list \<Rightarrow> scanner
    \<Rightarrow> (pvalue \<times> pvalue) list parse_result" where
  "map_loop pk pv 0 m s = (Panic out_of_fuel, s)"
| "map_loop pk pv (Suc n) m s =
     (case read s of
        (r, s1) \<Rightarrow>
          let s2 = UnreadRune s1 in
          if r = ch CHR ''}'' then (Ok m, s2)
          else p_bind (pk s2) (wrap_text ''failed to parse map key'') (\<lambda>k s3.
            expect CHR '':'' ''middle of map'' s3 (\<lambda>s4.
            p_bind (pv s4) (wrap_text ''failed to parse map value'') (\<lambda>v s5.
            p_bind (SetMapIndex k v m, s5) id (\<lambda>m' s6.
              map_loop pk pv n m' (skip_comma s6))))))"

text \<open>The integer and float parsers; a value that comes with an error is dropped by every caller.\<close>

definition parse_float_text :: "parse_env \<Rightarrow> nat \<Rightarrow> rune list \<Rightarrow> float_value go" where
  "parse_float_text E bits repr =
     (case ParseFloat bits (utf8 repr) of
        (f, None) \<Rightarrow> Ok f
      | (f, Some e) \<Rightarrow> Err (num_error_text (pe_quoted E) ''ParseFloat'' (utf8 repr) e))"

definition parse_int_value :: "parse_env \<Rightarrow> bool \<Rightarrow> nat \<Rightarrow> scanner \<Rightarrow> pvalue parse_result" where
  "parse_int_value E sg bits s =
     (case readNumber s of
        (repr, s') \<Rightarrow>
          (if bits \<in> {8, 16, 32, 64} then
             go_bind (parse_float_text E 64 repr) (\<lambda>f. Ok (PInt sg bits (float_to_int (pe_outside E) sg bits f)))
           else Panic unsupported_bits, s'))"

definition parse_float_value :: "parse_env \<Rightarrow> nat \<Rightarrow> scanner \<Rightarrow> pvalue parse_result" where
  "parse_float_value E bits s =
     (case readNumber s of
        (repr, s') \<Rightarrow>
          (if bits \<in> {32, 64} then go_bind (parse_float_text E bits repr) (\<lambda>f. Ok (PFloat bits f))
           else Panic unsupported_bits, s'))"

definition parse_bool_value :: "parse_env \<Rightarrow> int \<Rightarrow> scanner \<Rightarrow> pvalue parse_result" where
  "parse_bool_value E len s =
     p_bind (readUnquoted s len) (wrap_text ''failed to read the string representation of boolean'') (\<lambda>str s'.
       (case parse_bool (utf8 str) of
          Ok b \<Rightarrow> (Ok (PBool b), s')
        | Err e \<Rightarrow> (Err (num_error_text (pe_quoted E) ''ParseBool'' (utf8 str) e), s')
        | Panic p \<Rightarrow> (Panic p, s')))"

text \<open>The layout text of a format, whose length is the length of the values.\<close>

fun chunk_text :: "chunk \<Rightarrow> string" where
  "chunk_text (Lit c) = [c]"
| "chunk_text LongYear = ''2006''"
| "chunk_text ZeroMonth = ''01''"
| "chunk_text ZeroDay = ''02''"
| "chunk_text Hour = ''15''"
| "chunk_text ZeroMinute = ''04''"
| "chunk_text ZeroSecond = ''05''"
| "chunk_text FracSecond9 = ''.999999999''"
| "chunk_text (FracSecond0 n) = CHR ''.'' # replicate n CHR ''0''"
| "chunk_text NumTZ = ''-0700''"
| "chunk_text NumColonTZ = ''-07:00''"
| "chunk_text ISO8601TZ = ''Z0700''"
| "chunk_text ISO8601ColonTZ = ''Z07:00''"

definition layout_text :: "chunk list \<Rightarrow> string" where
  "layout_text f = concat (map chunk_text f)"

definition date_length :: "chunk list \<Rightarrow> int \<Rightarrow> int" where
  "date_length f precision =
     (if 0 < precision then
        (case str_index (layout_text f) ''.'' of
           Some i \<Rightarrow> int i + precision + 1
         | None \<Rightarrow> int (length (layout_text f)))
      else int (length (layout_text f)))"

definition parse_date_value ::
  "parse_env \<Rightarrow> bool \<Rightarrow> chunk list \<Rightarrow> location \<Rightarrow> int \<Rightarrow> scanner \<Rightarrow> pvalue parse_result" where
  "parse_date_value E unquote f loc precision s =
     p_bind (readString s (date_length f precision) unquote)
       (wrap_text ''failed to read the string representation of date or datetime'') (\<lambda>rs s'.
       let str = utf8 rs; test = (case str_index str '' '' of Some i \<Rightarrow> take i str | None \<Rightarrow> str) in
       if test = ''0000-00-00'' then (Ok (PTime zero_time), s')
       else (go_bind (ParseInLocation (pe_tz E) f str loc) (\<lambda>t. Ok (PTime t)), s'))"

subsection \<open>\<open>nullParser\<close>\<close>

text \<open>A quoted text with its quotes, an escaped quote keeping its backslash; a text that starts
  otherwise is read raw.  The result says which (\<open>Inr\<close> for raw).\<close>

function quoted_loop :: "rune list \<Rightarrow> bool \<Rightarrow> scanner \<Rightarrow> (rune list + rune list) parse_result" where
  "quoted_loop runes first s =
     (case ReadRune s of
        (None, s') \<Rightarrow> (Ok (Inl runes), s')
      | (Some r, s') \<Rightarrow>
          if r \<noteq> quote_mark \<and> first then
            (case readRaw (UnreadRune s') of (d, s'') \<Rightarrow> (Ok (Inr d), s''))
          else if r = ch CHR 0x5C then
            (case readEscaped s' of
               (Ok e, s'') \<Rightarrow>
                 quoted_loop (runes @ (if e = quote_mark then [ch CHR 0x5C] else []) @ [e]) False s''
             | (Err e, s'') \<Rightarrow> (Err (EMsg (''incorrect escaping in string: '' @ error_text e)), s'')
             | (Panic p, s'') \<Rightarrow> (Panic p, s''))
          else if r = quote_mark \<and> \<not> first then (Ok (Inl (runes @ [r])), s')
          else quoted_loop (runes @ [r]) False s')"
  by pat_completeness auto
termination
  by (relation "measure (\<lambda>(runes, first, s). left s)")
    (auto simp: ReadRune_def split: list.splits dest: left_readEscaped_le [OF sym])

declare quoted_loop.simps [simp del]

text \<open>A time up to its second quote, or to the end.\<close>

fun time_loop :: "rune list \<Rightarrow> bool \<Rightarrow> rune list \<Rightarrow> rune list \<times> scanner" where
  "time_loop runes first [] = (runes, (None, []))"
| "time_loop runes first (r # rs) =
     (if r = quote_mark \<and> \<not> first then (runes @ [r], (Some r, rs)) else time_loop (runes @ [r]) False rs)"

definition runes :: "string \<Rightarrow> rune list" where "runes = map ch"

text \<open>The text that is handed to the inner parser, or the value found already.\<close>

definition null_text :: "rtype \<Rightarrow> scanner \<Rightarrow> (pvalue + rune list) parse_result" where
  "null_text t s =
     (case t of
        RInt _ _ \<Rightarrow> (case readNumber s of (d, s') \<Rightarrow> (Ok (Inr d), s'))
      | RFloat _ \<Rightarrow> (case readNumber s of (d, s') \<Rightarrow> (Ok (Inr d), s'))
      | RString \<Rightarrow>
          p_bind (quoted_loop [] True s) id (\<lambda>r s'.
            (case r of
               Inl str \<Rightarrow>
                 if str = runes (CHR 0x27 # ''N'' @ [CHR 0x27]) then (Ok (Inl PNil), s') else (Ok (Inr str), s')
             | Inr d \<Rightarrow> (Ok (Inr d), s')))
      | RTime \<Rightarrow>
          (case time_loop [] True (snd s) of
             (str, s') \<Rightarrow>
               if str = runes ''0000-00-00'' \<or> str = runes ''0000-00-00 00:00:00'' then
                 (Ok (Inl (PTime zero_time)), s')
               else if str = runes ([CHR 0x27, CHR 0x5C, CHR ''N'', CHR 0x27]) then (Ok (Inl PNil), s')
               else (Ok (Inr str), s'))
      | _ \<Rightarrow> (case readRaw s of (d, s') \<Rightarrow> (Ok (Inr d), s')))"

definition is_null_parser :: "data_parser \<Rightarrow> bool" where
  "is_null_parser p = (case p of NullParser _ \<Rightarrow> True | _ \<Rightarrow> False)"

subsection \<open>\<open>Parse\<close>\<close>

text \<open>The \<open>Parse\<close> methods of the parsers with parsers inside: their type, and what the inner ones do, are
  arguments.\<close>

definition null_Parse :: "rtype go \<Rightarrow> (scanner \<Rightarrow> pvalue parse_result) \<Rightarrow> scanner \<Rightarrow> pvalue parse_result" where
  "null_Parse typ p = (\<lambda>s.
     p_bind (p_go typ s) id (\<lambda>t s.
     p_bind (null_text t s) id (\<lambda>r s'.
       (case r of
          Inl v \<Rightarrow> (Ok v, s')
        | Inr d \<Rightarrow>
            if d = runes [CHR 0x5C, CHR ''N''] then (Ok PNil, s') else (fst (p (new_scanner d)), s')))))"

definition string_Parse :: "bool \<Rightarrow> int \<Rightarrow> scanner \<Rightarrow> pvalue parse_result" where
  "string_Parse unquote len = (\<lambda>s.
     p_bind (readString s len unquote) id (\<lambda>str s'. (Ok (PString (utf8 str)), s')))"

definition tuple_Parse :: "rtype go \<Rightarrow> (scanner \<Rightarrow> pvalue parse_result) list \<Rightarrow> scanner \<Rightarrow> pvalue parse_result" where
  "tuple_Parse typ ps = (\<lambda>s.
     expect CHR ''('' ''beginning of tuple'' s (\<lambda>s.
     p_bind (p_go typ s) id (\<lambda>_ s.
     p_bind (tuple_loop ps True s) id (\<lambda>vs s.
     expect CHR '')'' ''end of tuple'' s (\<lambda>s. (Ok (PStruct vs), s))))))"

definition array_Parse :: "rtype go \<Rightarrow> bool \<Rightarrow> (scanner \<Rightarrow> pvalue parse_result) \<Rightarrow> scanner \<Rightarrow> pvalue parse_result" where
  "array_Parse typ null_ok p = (\<lambda>s.
     expect CHR ''['' ''beginning of array'' s (\<lambda>s.
     p_bind (p_go typ s) id (\<lambda>_ s.
     p_bind (array_loop null_ok p (Suc (left s)) [] s) id (\<lambda>vs s.
     expect CHR '']'' ''end of array'' s (\<lambda>s. (Ok (PSlice vs), s))))))"

definition map_Parse ::
  "rtype go \<Rightarrow> (scanner \<Rightarrow> pvalue parse_result) \<Rightarrow> (scanner \<Rightarrow> pvalue parse_result) \<Rightarrow> scanner \<Rightarrow> pvalue parse_result" where
  "map_Parse typ k v = (\<lambda>s.
     expect CHR ''{'' ''beginning of map'' s (\<lambda>s.
     p_bind (p_go typ s) id (\<lambda>_ s.
     p_bind (map_loop k v (Suc (left s)) [] s) id (\<lambda>m s.
     expect CHR ''}'' ''end of map'' s (\<lambda>s. (Ok (PMap m), s))))))"

definition nullable_Parse :: "string \<Rightarrow> (scanner \<Rightarrow> pvalue parse_result) \<Rightarrow> scanner \<Rightarrow> pvalue parse_result" where
  "nullable_Parse inner p = (\<lambda>s.
     if inner = ''String'' then p s
     else case peakNull s of (isnull, s') \<Rightarrow> if isnull then (Ok PNil, s') else p s')"

fun Parse :: "parse_env \<Rightarrow> data_parser \<Rightarrow> scanner \<Rightarrow> pvalue parse_result" where
  "Parse E (NullParser p) = null_Parse (parser_type p) (Parse E p)"
| "Parse E (StringParser unquote len) = string_Parse unquote len"
| "Parse E (BooleanParser len) = parse_bool_value E len"
| "Parse E (DateTimeParser unquote f loc precision) = parse_date_value E unquote f loc precision"
| "Parse E (TupleParser ps) = tuple_Parse (parser_type (TupleParser ps)) (map (Parse E) ps)"
| "Parse E (ArrayParser p) = array_Parse (parser_type (ArrayParser p)) (is_null_parser p) (Parse E p)"
| "Parse E (MapParser k v) = map_Parse (parser_type (MapParser k v)) (Parse E k) (Parse E v)"
| "Parse E (IntParser sg bits) = parse_int_value E sg bits"
| "Parse E (FloatParser bits) = parse_float_value E bits"
| "Parse E NothingParser = (\<lambda>s. (Ok PNil, s))"
| "Parse E (NullableParser p inner) = nullable_Parse inner (Parse E p)"

lemmas Parse_methods = null_Parse_def string_Parse_def tuple_Parse_def array_Parse_def map_Parse_def nullable_Parse_def

subsection \<open>\<open>NewDataParser\<close>\<close>

record parser_options =
  po_Location :: "location option"
  po_UseDBLocation :: bool

definition option_location :: "parser_options option \<Rightarrow> location" where
  "option_location opt =
     (case opt of None \<Rightarrow> UTC | Some op \<Rightarrow> (case po_Location op of None \<Rightarrow> UTC | Some l \<Rightarrow> l))"

text \<open>The location of a column: its argument \<open>i\<close>, unless the options fix one.\<close>

definition column_location :: "tzdb \<Rightarrow> parser_options option \<Rightarrow> type_desc list \<Rightarrow> nat \<Rightarrow> location go" where
  "column_location tz opt args i =
     (if (case opt of None \<Rightarrow> True | Some op \<Rightarrow> po_Location op = None \<or> po_UseDBLocation op) \<and> i < length args
      then LoadLocation tz (Name (args ! i)) else Ok (option_location opt))"

definition atoi :: "parse_env \<Rightarrow> string \<Rightarrow> int go" where
  "atoi E v =
     (case parse_int64 v of
        Ok i \<Rightarrow> Ok i
      | Err e \<Rightarrow> Err (num_error_text (pe_quoted E) ''Atoi'' v e)
      | Panic p \<Rightarrow> Panic p)"

text \<open>The parser of a type that has no parser of its own inside.\<close>

definition scalar_parser :: "string \<rightharpoonup> data_parser" where
  "scalar_parser =
     [''Nothing'' \<mapsto> NothingParser, ''Boolean'' \<mapsto> BooleanParser 0,
      ''UInt8'' \<mapsto> IntParser False 8, ''UInt16'' \<mapsto> IntParser False 16,
      ''UInt32'' \<mapsto> IntParser False 32, ''UInt64'' \<mapsto> IntParser False 64,
      ''Int8'' \<mapsto> IntParser True 8, ''Int16'' \<mapsto> IntParser True 16,
      ''Int32'' \<mapsto> IntParser True 32, ''Int64'' \<mapsto> IntParser True 64,
      ''Float32'' \<mapsto> FloatParser 32, ''Float64'' \<mapsto> FloatParser 64]"

definition string_types :: "string list" where
  "string_types = [''Decimal'', ''String'', ''Enum8'', ''Bitmap'', ''Enum16'', ''UUID'', ''IPv4'', ''IPv6'',
     ''Variant'', ''VariantObject'']"

definition leaf_parser ::
  "parse_env \<Rightarrow> string \<Rightarrow> type_desc list \<Rightarrow> bool \<Rightarrow> parser_options option \<Rightarrow> data_parser go" where
  "leaf_parser E name args unquote opt =
     (case scalar_parser name of
        Some p \<Rightarrow> Ok p
      | None \<Rightarrow>
          if name = ''NULL'' then Ok (NullableParser (StringParser unquote 0) ''String'')
          else if name = ''Date'' then Ok (DateTimeParser unquote dateFormat (option_location opt) 0)
          else if name = ''DateTime'' then
            go_bind (column_location (pe_tz E) opt args 0) (\<lambda>loc. Ok (DateTimeParser unquote timeFormat loc 0))
          else if name = ''DateTime64'' then
            (if args = [] then Err (EMsg ''tick size not specified for DateTime64'')
             else
               go_bind (column_location (pe_tz E) opt args 1) (\<lambda>loc.
               go_bind (atoi E (Name (hd args))) (\<lambda>precision.
               if precision < 0 then Err (EMsg ''malformed tick size specified for DateTime64'')
               else Ok (DateTimeParser unquote dateTime64Format loc precision))))
          else if name = ''Timestamp'' then
            Ok (DateTimeParser unquote dateTime64Format (option_location opt) 1)
          else if name \<in> set string_types then Ok (StringParser unquote 0)
          else if name = ''FixedString'' then
            (if length args \<noteq> 1 then Err (EMsg ''length not specified for FixedString'')
             else
               map_err (wrap_text ''malformed length specified for FixedString'')
                 (go_bind (atoi E (Name (hd args))) (\<lambda>len. Ok (StringParser unquote len))))
          else Err (EMsg (''type '' @ name @ '' is not supported'')))"

text \<open>\<open>newDataParser\<close> clears the \<open>Nullable\<close> flags it meets in the descriptor of its caller, so it returns
  the descriptor as it leaves it.\<close>

function newDataParser ::
    "parse_env \<Rightarrow> bool \<Rightarrow> parser_options option \<Rightarrow> type_desc \<Rightarrow> data_parser go \<times> type_desc"
  and newDataParsers ::
    "parse_env \<Rightarrow> parser_options option \<Rightarrow> type_desc list \<Rightarrow> data_parser list go \<times> type_desc list"
where
  "newDataParser E unquote opt (TypeDesc name nullable args) =
     (if nullable then
        (case newDataParser E unquote opt (TypeDesc name False args) of
           (r, t) \<Rightarrow> (go_bind r (\<lambda>p. Ok (NullableParser p name)), t))
      else if name = ''Nullable'' then
        (case args of
           [] \<Rightarrow> (Panic ''index out of range'', TypeDesc name False args)
         | a # as \<Rightarrow>
             (case newDataParser E unquote opt a of
                (r, a') \<Rightarrow> (go_bind r (\<lambda>p. Ok (NullableParser p (Name a))), TypeDesc name False (a' # as))))
      else if name = ''Array'' then
        (case args of
           [a] \<Rightarrow>
             (case newDataParser E True opt a of
                (r, a') \<Rightarrow>
                  (map_err (wrap_text ''failed to create parser for array elements'') (go_bind r (\<lambda>p. Ok (ArrayParser p))),
                   TypeDesc name False [a']))
         | _ \<Rightarrow> (Err (EMsg ''element type not specified for Array''), TypeDesc name False args))
      else if name = ''Tuple'' then
        (if args = [] then (Err (EMsg ''element types not specified for Tuple''), TypeDesc name False args)
         else
           (case newDataParsers E opt args of
              (r, as') \<Rightarrow>
                (map_err (wrap_text ''failed to create parser for tuple element'') (go_bind r (\<lambda>ps. Ok (TupleParser ps))),
                 TypeDesc name False as')))
      else if name = ''Map'' then
        (case args of
           [k, v] \<Rightarrow>
             (case newDataParser E True opt k of
                (Ok pk, k') \<Rightarrow>
                  (case newDataParser E True opt v of
                     (r, v') \<Rightarrow>
                       (map_err (wrap_text ''failed to create parser for map values'') (go_bind r (\<lambda>pv. Ok (MapParser pk pv))),
                        TypeDesc name False [k', v']))
              | (r, k') \<Rightarrow>
                  (map_err (wrap_text ''failed to create parser for map keys'') r, TypeDesc name False [k', v]))
         | _ \<Rightarrow> (Err (EMsg ''incorrect number of arguments for Map''), TypeDesc name False args))
      else (leaf_parser E name args unquote opt, TypeDesc name False args))"
| "newDataParsers E opt [] = (Ok [], [])"
| "newDataParsers E opt (a # as) =
     (case newDataParser E True opt a of
        (Ok p, a') \<Rightarrow>
          (case newDataParsers E opt as of
             (r, as') \<Rightarrow> (go_bind r (\<lambda>ps. Ok (p # ps)), a' # as'))
      | (Err e, a') \<Rightarrow> (Err e, a' # as)
      | (Panic q, a') \<Rightarrow> (Panic q, a' # as))"
  by pat_completeness auto
termination
  by (relation "measure (\<lambda>x. case x of Inl (E, u, opt, t) \<Rightarrow> 2 * size t + (if type_desc.Nullable t then 1 else 0)
                          | Inr (E, opt, ts) \<Rightarrow> 2 * size_list size ts + 1)") auto

definition NewDataParser ::
  "parse_env \<Rightarrow> type_desc \<Rightarrow> parser_options option \<Rightarrow> data_parser go \<times> type_desc" where
  "NewDataParser E t opt = newDataParser E False opt t"

end
