(* ===== verification/Value_Parser_Facts.thy ===== *)
theory Value_Parser_Facts
  imports Value_Parser
begin

text \<open>
  Facts about the value parsers: what each step does to the scanner, the values that a parser of a
  given type yields, enough fuel for the loops, and exact integers up to 53 bits.
\<close>

subsection \<open>Exact integers\<close>

lemma bit_length_0 [simp]: "bit_length 0 = 0"
  by (simp add: bit_length.simps)

lemma bit_length_1 [simp]: "bit_length (Suc 0) = Suc 0"
  by (subst bit_length.simps) simp

lemma bit_length_bounds: "0 < n \<Longrightarrow> 2 ^ (bit_length n - 1) \<le> n \<and> n < 2 ^ bit_length n \<and> 0 < bit_length n"
proof (induction n rule: bit_length.induct)
  case (1 n)
  show ?case
  proof (cases "n div 2 = 0")
    case True
    with 1 have "n = 1" by simp
    then show ?thesis by simp
  next
    case False
    define k where "k = bit_length (n div 2)"
    have ih: "2 ^ (k - 1) \<le> n div 2" "n div 2 < 2 ^ k" "0 < k"
      using 1 False by (auto simp: k_def)
    then obtain j where j: "k = Suc j" by (cases k) auto
    have "bit_length n = Suc k" using 1 by (subst bit_length.simps) (simp add: k_def)
    moreover have "2 * 2 ^ j \<le> n" "n < 2 * 2 ^ k" using ih(1,2) by (auto simp: j)
    ultimately show ?thesis by (simp add: j)
  qed
qed

lemma bit_length_le: "n < 2 ^ k \<Longrightarrow> bit_length n \<le> k"
proof (cases "n = 0")
  case False
  assume "n < 2 ^ k"
  then have "(2::nat) ^ (bit_length n - 1) < 2 ^ k"
    using bit_length_bounds [of n] False by (meson le_less_trans neq0_conv)
  then have "bit_length n - 1 < k" by (simp only: power_strict_increasing_iff)
  then show ?thesis by simp
qed simp

lemma round_even_exact: "0 < d \<Longrightarrow> round_even (m * d) d = m"
  by (simp add: round_even_def)

lemma round_floatI:
  assumes "n \<noteq> 0" "exponent_for p n d = e" "lo \<le> e" "e \<le> hi"
    and "round_even (n * 2 ^ nat (- e)) (d * 2 ^ nat e) = m" "m \<noteq> 2 ^ p" "m \<noteq> 0"
  shows "round_float p lo hi s n d = (FFin s m e, False)"
  using assms by (simp add: round_float_def Let_def)

text \<open>An integer of fewer than 53 bits is a float of its own.\<close>

lemma to_float_exact:
  assumes "n < 2 ^ 53"
  shows "\<exists>m e. to_float 64 s n 1 = (FFin s m e, False) \<and> f_trunc s m e = (if s then - int n else int n)"
proof (cases "n = 0")
  case True
  then show ?thesis by (simp add: to_float_def round_float_def f_trunc_def)
next
  case False
  define k where "k = bit_length n"
  have k: "2 ^ (k - 1) \<le> n" "n < 2 ^ k" "0 < k" "k \<le> 53"
    using False bit_length_bounds [of n] bit_length_le [OF assms] by (simp_all add: k_def)
  have e: "exponent_for 53 n 1 = int k - 53"
    using k by (simp add: exponent_for_def k_def [symmetric] nat_diff_distrib)
  have "n * 2 ^ (53 - k) < 2 ^ k * 2 ^ (53 - k)" using k(2) by simp
  also have "\<dots> = 2 ^ 53" using k(4) by (simp flip: power_add)
  finally have lt: "n * 2 ^ (53 - k) < 2 ^ 53" .
  have nk: "nat (- (int k - 53)) = 53 - k" "nat (int k - 53) = 0" using k(4) by auto
  have "round_float 53 (- 1074) 971 s n 1 = (FFin s (n * 2 ^ (53 - k)) (int k - 53), False)"
  proof (rule round_floatI [OF False e])
    show "round_even (n * 2 ^ nat (- (int k - 53))) (1 * 2 ^ nat (int k - 53)) = n * 2 ^ (53 - k)"
      using round_even_exact [of 1 "n * 2 ^ (53 - k)"] by (simp only: nk) simp
    show "n * 2 ^ (53 - k) \<noteq> 2 ^ 53" using lt by (rule less_imp_neq)
  qed (use k(4) False in simp_all)
  moreover have "f_trunc s (n * 2 ^ (53 - k)) (int k - 53) = (if s then - int n else int n)"
    using nk(1) by (simp add: f_trunc_def nk(2))
  ultimately show ?thesis by (auto simp: to_float_def)
qed

lemma read_digits_number:
  "list_all is_digit ds \<Longrightarrow>
   read_digits False ds (n, 0, b, False, False) = ((foldl (\<lambda>n c. n * 10 + digit_val c) n ds, 0, b \<or> ds \<noteq> [], False, False), [])"
proof (induction ds arbitrary: n b)
  case (Cons c ds)
  then have "c \<noteq> CHR ''_''" "c \<noteq> CHR ''.''" by (auto simp: is_digit_def)
  with Cons show ?case by (simp add: hex_digit_def)
qed simp

lemma read_unsigned_int: "read_unsigned (format_uint n) = Some (n, 1)"
proof -
  note d = format_uint_digits [of n]
  have x: "(2 < length (format_uint n) \<and> format_uint n ! 0 = CHR ''0'' \<and> lower_byte (format_uint n ! 1) = CHR ''x'') = False"
  proof (rule eq_False [THEN iffD2], rule notI)
    assume a: "2 < length (format_uint n) \<and> format_uint n ! 0 = CHR ''0'' \<and> lower_byte (format_uint n ! 1) = CHR ''x''"
    then have "is_digit (format_uint n ! 1)" using d by (simp add: list_all_length)
    then show False using a by (auto simp: lower_byte_def is_digit_def is_upper_def)
  qed
  have "read_digits False (format_uint n) (0, 0, False, False, False) = ((n, 0, True, False, False), [])"
    using read_digits_number [OF d, of 0 False] digits_val_format_uint [of n] by (simp add: digits_val_def)
  then show ?thesis unfolding read_unsigned_def Let_def x if_False by simp
qed

lemma no_word: "list_all is_digit ds \<Longrightarrow> ds \<noteq> [] \<Longrightarrow> map lower_byte (p @ ds) = w \<Longrightarrow> \<exists>c \<in> set w. is_digit c"
proof -
  assume d: "list_all is_digit ds" "ds \<noteq> []" and w: "map lower_byte (p @ ds) = w"
  then obtain c where c: "c \<in> set ds" "is_digit c" by (cases ds) auto
  then have "lower_byte c = c" by (auto simp: lower_byte_def is_digit_def is_upper_def)
  with c w show ?thesis by force
qed

text \<open>An integer is read as its exact value, and then rounded.\<close>

lemma ParseFloat_format_int:
  "ParseFloat 64 (format_int i) =
     (case to_float 64 (i < 0) (nat \<bar>i\<bar>) 1 of (f, over) \<Rightarrow> (f, if over then Some ErrRange else None))"
proof -
  define n where "n = nat \<bar>i\<bar>"
  note ds = format_uint_digits [of n] format_uint_not_Nil [of n]
  have f: "format_int i = (if i < 0 then ''-'' else []) @ format_uint n" by (simp add: format_int_def n_def)
  obtain c cs where c: "format_uint n = c # cs" "is_digit c" using format_uint_hd by blast
  have sp: "split_sign (format_int i) = (i < 0, format_uint n)"
    using c by (auto simp: split_sign_def f dest: is_digit_neq)
  have w: "map lower_byte (format_uint n) \<notin> {''inf'', ''infinity''}" "map lower_byte (format_int i) \<noteq> ''nan''"
    using no_word [OF ds, of "[]"] no_word [OF ds, of "if i < 0 then ''-'' else []"] by (auto simp: f is_digit_def)
  then show ?thesis by (simp add: ParseFloat_def sp read_unsigned_int n_def [symmetric])
qed

lemma ParseFloat_int:
  assumes "\<bar>i\<bar> < 2 ^ 53"
  shows "\<exists>s m e. ParseFloat 64 (format_int i) = (FFin s m e, None) \<and> f_trunc s m e = i"
proof -
  have "nat \<bar>i\<bar> < 2 ^ 53" using assms by (simp add: nat_less_iff)
  from to_float_exact [OF this, of "i < 0"] show ?thesis by (auto simp: ParseFloat_format_int)
qed

declare Parse_methods [simp]

subsection \<open>Steps of the scanner\<close>

lemma read_left: "read s = (r, s') \<Longrightarrow> left s' \<le> left s \<and> (r \<noteq> eof \<longrightarrow> left s' < left s)"
  by (auto simp: read_def ReadRune_def split: list.splits)

lemma read_Unread: "read s = (r, s') \<Longrightarrow> left (UnreadRune s') = left s"
  by (auto simp: read_def ReadRune_def UnreadRune_def split: list.splits)

lemma expect_left:
  "expect c what s k = (r, s') \<Longrightarrow> ch c \<noteq> eof \<Longrightarrow>
     (\<exists>s1. left s1 < left s \<and> k s1 = (r, s')) \<or> (\<exists>e. r = Err e) \<and> left s' \<le> left s"
  by (auto simp: expect_def split: prod.splits if_splits dest: read_left)

lemma skip_comma_left: "left (skip_comma s) \<le> left s"
  by (auto simp: skip_comma_def split: prod.splits dest: read_left read_Unread)

lemma number_loop_left: "number_loop b rs = (b', s') \<Longrightarrow> length b' + left s' \<le> length b + length rs"
  by (induction b rs rule: number_loop.induct) (auto simp: UnreadRune_def split: if_splits)

lemma unquoted_loop_left:
  "unquoted_loop len b n s = (r, s') \<Longrightarrow>
     left s' \<le> left s \<and> (\<forall>p. r \<noteq> Panic p) \<and> (\<forall>b'. r = Ok b' \<longrightarrow> length b' + left s' \<le> length b + left s)"
proof (induction len b n s arbitrary: r s' rule: unquoted_loop.induct)
  case (1 len b n s)
  have e: "readEscaped t \<noteq> (Panic p, t')" for t p t' by (auto simp: readEscaped_def split: prod.splits)
  show ?case
  proof (cases "(len = 0 \<or> n < len) \<and> snd s \<noteq> []")
    case False
    with "1.prems" show ?thesis
      by (subst (asm) unquoted_loop.simps) (auto simp: unquoted_result_def ReadRune_def split: if_splits list.splits)
  next
    case True
    then obtain c rs where s: "snd s = c # rs" by (cases "snd s") auto
    then have rd: "ReadRune s = (Some c, (Some c, rs))" by (simp add: ReadRune_def)
    consider "c = eof" | "c \<noteq> eof" "c = ch CHR 0x5C" | "c \<noteq> eof" "c \<noteq> ch CHR 0x5C" by blast
    then show ?thesis
    proof cases
      case 1
      with "1.prems" True s rd show ?thesis
        by (subst (asm) unquoted_loop.simps) (auto simp: unquoted_result_def split: if_splits)
    next
      case 2
      obtain x t where x: "readEscaped (Some c, rs) = (x, t)" using surj_pair [of "readEscaped (Some c, rs)"] by blast
      then have t: "left t \<le> length rs" using left_readEscaped_le [of "(Some c, rs)"] by simp
      show ?thesis
      proof (cases x)
        case (Ok y)
        with "1.prems" 2 True rd x have "unquoted_loop len (b @ [y]) (n + 1) t = (r, s')"
          by (subst (asm) unquoted_loop.simps) simp
        then have "left s' \<le> left t \<and> (\<forall>p. r \<noteq> Panic p) \<and> (\<forall>b'. r = Ok b' \<longrightarrow> length b' + left s' \<le> Suc (length b) + left t)"
          using "1.IH"(1) [of "Some c" "(Some c, rs)" c x t y r s'] 2 True rd x Ok by simp
        with t s show ?thesis by auto
      next
        case (Err e)
        with "1.prems" 2 True rd x t s show ?thesis by (subst (asm) unquoted_loop.simps) auto
      next
        case (Panic p)
        with e x show ?thesis by blast
      qed
    next
      case 3
      with "1.prems" True rd have "unquoted_loop len (b @ [c]) (n + 1) (Some c, rs) = (r, s')"
        by (subst (asm) unquoted_loop.simps) simp
      then have "left s' \<le> length rs \<and> (\<forall>p. r \<noteq> Panic p) \<and> (\<forall>b'. r = Ok b' \<longrightarrow> length b' + left s' \<le> Suc (length b) + length rs)"
        using "1.IH"(2) [of "Some c" "(Some c, rs)" c r s'] 3 True rd by simp
      with s show ?thesis by auto
    qed
  qed
qed

lemma readUnquoted_left:
  "readUnquoted s len = (r, s') \<Longrightarrow>
     left s' \<le> left s \<and> (\<forall>p. r \<noteq> Panic p) \<and> (\<forall>b. r = Ok b \<longrightarrow> b \<noteq> [] \<longrightarrow> left s' < left s)"
  using unquoted_loop_left [of len "[]" 0 s r s'] by (auto simp: readUnquoted_def neq_Nil_conv)

lemma quote_not_eof [simp]: "quote_mark \<noteq> eof"
  by (simp add: quote_mark_def eof_def ch_def)

lemma readString_left:
  "readString s len u = (r, s') \<Longrightarrow>
     left s' \<le> left s \<and> (\<forall>p. r \<noteq> Panic p) \<and> (u \<longrightarrow> (\<forall>b. r = Ok b \<longrightarrow> left s' < left s))"
  by (auto simp: readString_def Let_def split: if_splits prod.splits outcome.splits
      dest!: read_left readUnquoted_left)

lemma unread_times_left: "read s = (r, s') \<Longrightarrow> left (unread_times n s') \<le> left s"
proof -
  assume r: "read s = (r, s')"
  have "unread_times n s' = (if n = 0 then s' else UnreadRune s')"
  proof (cases n)
    case (Suc m)
    have "(UnreadRune ^^ m) (UnreadRune s') = UnreadRune s'"
      by (induction m) (auto simp: UnreadRune_def split: option.splits)
    with Suc show ?thesis by (simp add: unread_times_def funpow_Suc_right del: funpow.simps)
  qed (simp add: unread_times_def)
  with read_left [OF r] read_Unread [OF r] show ?thesis by auto
qed

lemma peakNull_left: "peakNull s = (b, s') \<Longrightarrow> left s' \<le> left s"
proof -
  have undo: "left (unread_times n (snd (read t))) \<le> k" if "left t \<le> k" for n t k
    using unread_times_left [of t "fst (read t)" "snd (read t)" n] that by simp
  have on: "left (snd (read t)) \<le> k" if "left t \<le> k" for t k
    using left_read [of t] that by simp
  have "left (snd (peakNull s)) \<le> left s"
    by (simp add: peakNull_def case_prod_beta) (auto intro!: undo on)
  then show "peakNull s = (b, s') \<Longrightarrow> left s' \<le> left s" by simp
qed

subsection \<open>Fuel\<close>

text \<open>A steady parser never runs out of fuel and never moves the scanner back; under \<open>u\<close> it takes
  something for every value but \<open>nil\<close>.\<close>

definition steady :: "bool \<Rightarrow> (scanner \<Rightarrow> 'a parse_result) \<Rightarrow> ('a \<Rightarrow> bool) \<Rightarrow> bool" where
  "steady u f skip \<longleftrightarrow>
     (\<forall>s r s'. f s = (r, s') \<longrightarrow>
        left s' \<le> left s \<and> r \<noteq> Panic out_of_fuel \<and> (\<forall>v. u \<and> r = Ok v \<and> \<not> skip v \<longrightarrow> left s' < left s))"

lemma steadyI:
  "(\<And>s r s'. f s = (r, s') \<Longrightarrow> left s' \<le> left s \<and> r \<noteq> Panic out_of_fuel \<and> (\<forall>v. u \<and> r = Ok v \<and> \<not> skip v \<longrightarrow> left s' < left s))
    \<Longrightarrow> steady u f skip"
  by (simp add: steady_def)

lemma steadyD:
  "steady u f skip \<Longrightarrow> f s = (r, s') \<Longrightarrow> left s' \<le> left s \<and> r \<noteq> Panic out_of_fuel"
  "steady True f skip \<Longrightarrow> f s = (Ok v, s') \<Longrightarrow> \<not> skip v \<Longrightarrow> left s' < left s"
  unfolding steady_def by blast+

lemma p_bind_cases:
  assumes "p_bind m w k = (r, s')"
  obtains v s1 where "m = (Ok v, s1)" "k v s1 = (r, s')"
  | e where "m = (Err e, s')" "r = Err (w e)"
  | p where "m = (Panic p, s')" "r = Panic p"
  using assms by (auto simp: p_bind_def split: prod.splits outcome.splits)

lemma tuple_loop_steady:
  "(\<And>p. p \<in> set ps \<Longrightarrow> steady True p (\<lambda>v. v = PNil)) \<Longrightarrow> tuple_loop ps first s = (r, s') \<Longrightarrow>
     left s' \<le> left s \<and> r \<noteq> Panic out_of_fuel"
proof (induction ps arbitrary: first s r s')
  case (Cons p ps)
  note p = steadyD(1) [OF Cons.prems(1), OF list.set_intros(1)]
  have el: "left t' \<le> left t \<and> q \<noteq> Panic out_of_fuel"
    if "p_bind (p t) w (\<lambda>v s. if v = PNil then (Panic zero_value, s)
          else p_bind (tuple_loop ps False s) id (\<lambda>vs s. (Ok (v # vs), s))) = (q, t')" for t q t' w
    using that
  proof (rule p_bind_cases, goal_cases)
    case (1 v s1)
    show ?case
    proof (cases "v = PNil")
      case True
      with 1(2) p [OF 1(1)] show ?thesis by (auto simp: zero_value_def out_of_fuel_def)
    next
      case False
      with 1(2) have "p_bind (tuple_loop ps False s1) id (\<lambda>vs s. (Ok (v # vs), s)) = (q, t')" by simp
      then obtain r2 where r2: "tuple_loop ps False s1 = (r2, t')" "q = Panic out_of_fuel \<Longrightarrow> r2 = Panic out_of_fuel"
        by (rule p_bind_cases) auto
      from Cons.IH [OF _ r2(1)] Cons.prems(1) have "left t' \<le> left s1 \<and> r2 \<noteq> Panic out_of_fuel" by simp
      with r2(2) p [OF 1(1)] show ?thesis by auto
    qed
  next
    case (2 e)
    with p [OF 2(1)] show ?case by simp
  next
    case (3 x)
    with p [OF 3(1)] show ?case by simp
  qed
  show ?case
  proof (cases first)
    case True
    with Cons.prems(2) have "p_bind (p s) (wrap_text ''failed to parse tuple element'') (\<lambda>v s.
        if v = PNil then (Panic zero_value, s)
        else p_bind (tuple_loop ps False s) id (\<lambda>vs s. (Ok (v # vs), s))) = (r, s')"
      by (simp add: Let_def)
    then show ?thesis by (rule el)
  next
    case False
    obtain c s1 where c: "read s = (c, s1)" by (cases "read s")
    with read_left [OF c] Cons.prems(2) False el [of s1 "wrap_text ''failed to parse tuple element''" r s'] show ?thesis
      by (auto simp: Let_def split: if_splits)
  qed
qed auto

lemma array_loop_steady:
  assumes p: "steady True p (\<lambda>v. v = PNil)"
  shows "array_loop False p n vs s = (r, s') \<Longrightarrow> left s < n \<Longrightarrow> left s' \<le> left s \<and> r \<noteq> Panic out_of_fuel"
proof (induction n arbitrary: vs s)
  case (Suc n)
  obtain c s1 where c: "read s = (c, s1)" by (cases "read s")
  note l = read_Unread [OF c]
  show ?case
  proof (cases "c = ch CHR '']''")
    case True
    with Suc.prems(1) c l show ?thesis by auto
  next
    case False
    with Suc.prems(1) c have "p_bind (p (UnreadRune s1)) (wrap_text ''failed to parse array element'') (\<lambda>v s3.
        if v = PNil \<and> \<not> False then (Err (EMsg ''unexpected nil element''), s3)
        else array_loop False p n (if v = PNil then vs else vs @ [v]) (skip_comma s3)) = (r, s')"
      by (simp add: Let_def)
    then show ?thesis
    proof (rule p_bind_cases, goal_cases)
      case (1 v s3)
      show ?case
      proof (cases "v = PNil")
        case True
        with 1(2) steadyD(1) [OF p 1(1)] l show ?thesis by auto
      next
        case False
        have "left (skip_comma s3) < left s"
          using steadyD(2) [OF p 1(1)] False l skip_comma_left [of s3] by simp
        with Suc.IH [of "vs @ [v]" "skip_comma s3"] 1(2) False Suc.prems(2) show ?thesis by auto
      qed
    next
      case (2 e)
      with steadyD(1) [OF p 2(1)] l show ?case by simp
    next
      case (3 x)
      with steadyD(1) [OF p 3(1)] l show ?case by simp
    qed
  qed
qed simp

lemma SetMapIndex_fuel: "SetMapIndex k v m \<noteq> Panic out_of_fuel"
  by (simp add: SetMapIndex_def zero_value_def out_of_fuel_def)

lemma colon_not_eof [simp]: "ch CHR '':'' \<noteq> eof" "ch CHR ''('' \<noteq> eof" "ch CHR '')'' \<noteq> eof"
    "ch CHR ''['' \<noteq> eof" "ch CHR '']'' \<noteq> eof" "ch CHR ''{'' \<noteq> eof" "ch CHR ''}'' \<noteq> eof"
  by (simp_all add: ch_def eof_def)

lemma map_loop_steady:
  assumes k: "steady True pk (\<lambda>v. v = PNil)" and v: "steady True pv (\<lambda>v. v = PNil)"
  shows "map_loop pk pv n m s = (r, s') \<Longrightarrow> left s < n \<Longrightarrow> left s' \<le> left s \<and> r \<noteq> Panic out_of_fuel"
proof (induction n arbitrary: m s)
  case (Suc n)
  obtain c s1 where c: "read s = (c, s1)" by (cases "read s")
  note l = read_Unread [OF c]
  show ?case
  proof (cases "c = ch CHR ''}''")
    case True
    with Suc.prems(1) c l show ?thesis by auto
  next
    case False
    with Suc.prems(1) c have "p_bind (pk (UnreadRune s1)) (wrap_text ''failed to parse map key'') (\<lambda>k s3.
        expect CHR '':'' ''middle of map'' s3 (\<lambda>s4.
        p_bind (pv s4) (wrap_text ''failed to parse map value'') (\<lambda>v s5.
        p_bind (SetMapIndex k v m, s5) id (\<lambda>m' s6. map_loop pk pv n m' (skip_comma s6))))) = (r, s')"
      by (simp add: Let_def)
    then show ?thesis
    proof (rule p_bind_cases, goal_cases)
      case (1 kv s3)
      have s3: "left s3 \<le> left s" using steadyD(1) [OF k 1(1)] l by simp
      from expect_left [OF 1(2) colon_not_eof(1)] show ?case
      proof (elim disjE exE conjE)
        fix s4 assume s4: "left s4 < left s3"
          "p_bind (pv s4) (wrap_text ''failed to parse map value'') (\<lambda>v s5.
             p_bind (SetMapIndex kv v m, s5) id (\<lambda>m' s6. map_loop pk pv n m' (skip_comma s6))) = (r, s')"
        show ?thesis
        proof (rule p_bind_cases [OF s4(2)], goal_cases)
          case (1 w s5)
          have s5: "left s5 < left s" using steadyD(1) [OF v 1(1)] s3 s4(1) by simp
          show ?case
          proof (rule p_bind_cases [OF 1(2)], goal_cases)
            case (1 m' s6)
            with s5 have "left (skip_comma s6) < left s" using skip_comma_left [of s6] by auto
            with Suc.IH [OF 1(2)] Suc.prems(2) show ?case by simp
          qed (use s5 SetMapIndex_fuel [of kv w m] in auto)
        next
          case (2 e)
          with steadyD(1) [OF v 2(1)] s3 s4(1) show ?case by simp
        next
          case (3 x)
          with steadyD(1) [OF v 3(1)] s3 s4(1) show ?case by simp
        qed
      qed (use s3 in auto)
    next
      case (2 e)
      with steadyD(1) [OF k 2(1)] l show ?case by simp
    next
      case (3 x)
      with steadyD(1) [OF k 3(1)] l show ?case by simp
    qed
  qed
qed simp

text \<open>The parsers that \<open>newDataParser\<close> makes; \<open>u\<close> is its \<open>unquote\<close>.\<close>

fun made :: "bool \<Rightarrow> data_parser \<Rightarrow> bool" where
  "made u (NullParser p) = False"
| "made u (StringParser u' len) = (u' = u)"
| "made u (BooleanParser len) = (len = 0)"
| "made u (DateTimeParser u' f loc precision) = (u' = u)"
| "made u (TupleParser ps) = list_all (made True) ps"
| "made u (ArrayParser p) = made True p"
| "made u (MapParser k v) = (made True k \<and> made True v)"
| "made u (IntParser sg bits) = (bits \<in> {8, 16, 32, 64})"
| "made u (FloatParser bits) = (bits \<in> {32, 64})"
| "made u NothingParser = True"
| "made u (NullableParser p n) = made u p"

lemma parser_type_fuel: "parser_type p \<noteq> Panic out_of_fuel"
proof (induction p)
  case (TupleParser ps)
  have "go_mapM parser_type ps \<noteq> Panic out_of_fuel" using TupleParser
  proof (induction ps)
    case (Cons p ps)
    then show ?case by (cases "parser_type p"; cases "go_mapM parser_type ps") auto
  qed simp
  then show ?case by (cases "go_mapM parser_type ps") auto
next
  case (ArrayParser p)
  then show ?case by (cases "parser_type p") auto
next
  case (MapParser k v)
  then show ?case by (cases "parser_type k"; cases "parser_type v") (auto simp: out_of_fuel_def)
qed (auto simp: int_type_def float_type_def unsupported_bits_def out_of_fuel_def)

lemma ParseFloat_empty: "snd (ParseFloat bits []) \<noteq> None"
  by code_simp

lemma readNumber_left:
  "readNumber s = (b, s') \<Longrightarrow> left s' \<le> left s \<and> (b \<noteq> [] \<longrightarrow> left s' < left s)"
  using number_loop_left [of "[]" "snd s" b s'] by (auto simp: readNumber_def neq_Nil_conv)

lemma utf8_Nil [simp]: "utf8 [] = []"
  by (simp add: utf8_def)

lemma parse_float_text_cases:
  "parse_float_text E bits repr = Ok f \<Longrightarrow> repr \<noteq> []"
  "\<exists>x. parse_float_text E bits repr = Ok x \<or> (\<exists>e. parse_float_text E bits repr = Err e)"
  using ParseFloat_empty [of bits] by (auto simp: parse_float_text_def split: prod.splits option.splits)

lemma container_steady:
  assumes r: "expect c what s (\<lambda>s. p_bind (p_go (parser_type q) s) id (\<lambda>_ s.
        p_bind (f s) id (\<lambda>vs s. expect d what' s (\<lambda>s. (Ok (g vs), s))))) = (r, s')"
    and c: "ch c \<noteq> eof" "ch d \<noteq> eof"
    and f: "\<And>s r s'. f s = (r, s') \<Longrightarrow> left s' \<le> left s \<and> r \<noteq> Panic out_of_fuel"
  shows "left s' \<le> left s \<and> r \<noteq> Panic out_of_fuel \<and> (\<forall>v. r = Ok v \<longrightarrow> left s' < left s)"
  using expect_left [OF r c(1)]
proof (elim disjE exE conjE)
  fix s1 assume s1: "left s1 < left s" "p_bind (p_go (parser_type q) s1) id (\<lambda>_ s.
        p_bind (f s) id (\<lambda>vs s. expect d what' s (\<lambda>s. (Ok (g vs), s)))) = (r, s')"
  show ?thesis
  proof (rule p_bind_cases [OF s1(2)], goal_cases)
    case (1 t s2)
    then have "s2 = s1" by (simp add: p_go_def)
    with 1(2) have b: "p_bind (f s1) id (\<lambda>vs s. expect d what' s (\<lambda>s. (Ok (g vs), s))) = (r, s')" by simp
    show ?case
    proof (rule p_bind_cases [OF b], goal_cases)
      case (1 vs s3)
      from expect_left [OF 1(2) c(2)] f [OF 1(1)] s1(1) show ?case by auto
    next
      case (2 e)
      with f [OF 2(1)] s1(1) show ?case by auto
    next
      case (3 x)
      with f [OF 3(1)] s1(1) show ?case by auto
    qed
  qed (use s1(1) parser_type_fuel [of q] in \<open>auto simp: p_go_def\<close>)
qed auto

lemma parse_bool_value_steady: "steady u (parse_bool_value E 0) (\<lambda>v. v = PNil)"
proof (rule steadyI, unfold parse_bool_value_def, erule p_bind_cases, goal_cases)
  case (1 s r s' str s1)
  have "parse_bool [] = Err ErrSyntax" by (simp add: parse_bool_def)
  with 1 readUnquoted_left [OF 1(1)] parse_bool_no_panic [of "utf8 str"] show ?case
    by (cases "parse_bool (utf8 str)"; cases "str = []") auto
next
  case (2 s r s' e)
  with readUnquoted_left [OF 2(1)] show ?case by simp
next
  case (3 s r s' p)
  with readUnquoted_left [OF 3(1)] show ?case by simp
qed

lemma parse_date_value_steady: "steady u (parse_date_value E u f loc precision) (\<lambda>v. v = PNil)"
proof (rule steadyI, unfold parse_date_value_def, erule p_bind_cases, goal_cases)
  case (1 s r s' str s1)
  have "r \<noteq> Panic p" for p
    using 1(2) time_parse_no_panic [of "pe_tz E" f "utf8 str" loc loc]
    by (cases "time_parse (pe_tz E) f (utf8 str) loc loc") (auto simp: Let_def ParseInLocation_def split: if_splits)
  with 1 readString_left [OF 1(1)] show ?case by (auto simp: Let_def split: if_splits)
next
  case (2 s r s' e)
  with readString_left [OF 2(1)] show ?case by simp
next
  case (3 s r s' p)
  with readString_left [OF 3(1)] show ?case by simp
qed

lemma Parse_steady: "made u p \<Longrightarrow> steady u (Parse E p) (\<lambda>v. v = PNil)"
proof (induction p arbitrary: u)
  case (StringParser u' len)
  show ?case
  proof (rule steadyI, unfold Parse.simps Parse_methods, erule p_bind_cases, goal_cases)
    case (1 s r s' v s1)
    with StringParser readString_left [OF 1(1)] show ?case by auto
  next
    case (2 s r s' e)
    with readString_left [OF 2(1)] show ?case by simp
  next
    case (3 s r s' p)
    with readString_left [OF 3(1)] show ?case by simp
  qed
next
  case (BooleanParser len)
  then show ?case using parse_bool_value_steady by simp
next
  case (DateTimeParser u' f loc precision)
  then show ?case using parse_date_value_steady by simp
next
  case (TupleParser ps)
  have s: "steady True q (\<lambda>v. v = PNil)" if "q \<in> set (map (Parse E) ps)" for q
    using that TupleParser by (auto simp: list_all_iff)
  have t: "left s' \<le> left s \<and> r \<noteq> Panic out_of_fuel" if "tuple_loop (map (Parse E) ps) True s = (r, s')" for s r s'
    by (rule tuple_loop_steady [OF s that])
  show ?case
    by (rule steadyI, unfold Parse.simps Parse_methods, drule container_steady [OF _ colon_not_eof(2) colon_not_eof(3)])
      (erule t, blast)
next
  case (ArrayParser p)
  have s: "steady True (Parse E p) (\<lambda>v. v = PNil)" using ArrayParser by simp
  have n: "is_null_parser p = False" using ArrayParser.prems by (cases p) (auto simp: is_null_parser_def)
  show ?case
    by (rule steadyI, unfold Parse.simps Parse_methods n, drule container_steady [OF _ colon_not_eof(4) colon_not_eof(5)])
      (erule array_loop_steady [OF s], rule lessI, blast)
next
  case (MapParser k v)
  have s: "steady True (Parse E k) (\<lambda>v. v = PNil)" "steady True (Parse E v) (\<lambda>v. v = PNil)"
    using MapParser by simp_all
  show ?case
    by (rule steadyI, unfold Parse.simps Parse_methods, drule container_steady [OF _ colon_not_eof(6) colon_not_eof(7)])
      (erule map_loop_steady [OF s], rule lessI, blast)
next
  case (IntParser sg bits)
  show ?case
  proof (rule steadyI)
    fix s r s' assume p: "Parse E (IntParser sg bits) s = (r, s')"
    obtain b where b: "readNumber s = (b, s')"
      "r = go_bind (parse_float_text E 64 b) (\<lambda>f. Ok (PInt sg bits (float_to_int (pe_outside E) sg bits f)))"
      using p IntParser by (auto simp: parse_int_value_def split: prod.splits)
    with readNumber_left [OF b(1)] parse_float_text_cases [of E 64 b]
    show "left s' \<le> left s \<and> r \<noteq> Panic out_of_fuel \<and> (\<forall>v. u \<and> r = Ok v \<and> \<not> v = PNil \<longrightarrow> left s' < left s)"
      by auto
  qed
next
  case (FloatParser bits)
  show ?case
  proof (rule steadyI)
    fix s r s' assume p: "Parse E (FloatParser bits) s = (r, s')"
    obtain b where b: "readNumber s = (b, s')" "r = go_bind (parse_float_text E bits b) (\<lambda>f. Ok (PFloat bits f))"
      using p FloatParser by (auto simp: parse_float_value_def split: prod.splits)
    with readNumber_left [OF b(1)] parse_float_text_cases [of E bits b]
    show "left s' \<le> left s \<and> r \<noteq> Panic out_of_fuel \<and> (\<forall>v. u \<and> r = Ok v \<and> \<not> v = PNil \<longrightarrow> left s' < left s)"
      by auto
  qed
next
  case (NullableParser p inner)
  then have s: "steady u (Parse E p) (\<lambda>v. v = PNil)" by simp
  show ?case
  proof (rule steadyI)
    fix s r s' assume p: "Parse E (NullableParser p inner) s = (r, s')"
    obtain b s1 where b: "peakNull s = (b, s1)" by (cases "peakNull s")
    consider "r = Ok PNil" "s' = s1" | t where "Parse E p t = (r, s')" "left t \<le> left s"
      using p b peakNull_left [OF b] by (cases "inner = ''String''"; cases b) auto
    then show "left s' \<le> left s \<and> r \<noteq> Panic out_of_fuel \<and> (\<forall>v. u \<and> r = Ok v \<and> \<not> v = PNil \<longrightarrow> left s' < left s)"
    proof cases
      case 1
      with peakNull_left [OF b] show ?thesis by simp
    next
      case (2 t)
      then have "left s' \<le> left t \<and> r \<noteq> Panic out_of_fuel \<and> (\<forall>v. u \<and> r = Ok v \<and> \<not> v = PNil \<longrightarrow> left s' < left t)"
        using s unfolding steady_def by blast
      with 2(2) show ?thesis by auto
    qed
  qed
qed (auto simp: steady_def)

lemma leaf_parser_made: "leaf_parser E name args u opt = Ok p \<Longrightarrow> made u p"
  by (auto simp: leaf_parser_def scalar_parser_def go_bind_eq_Ok split: if_splits option.splits)

lemma newDataParser_made:
  "newDataParser E u opt t = (Ok p, t') \<Longrightarrow> made u p"
  "newDataParsers E opt ts = (Ok ps, ts') \<Longrightarrow> list_all (made True) ps"
proof (induction E u opt t and E opt ts arbitrary: p t' and ps ts' rule: newDataParser_newDataParsers.induct)
  case (1 E unquote opt name nullable args)
  have m: "made True k'" "made True v'" if "\<not> nullable" "name = ''Map''" "args = [k, v]"
    "newDataParser E True opt k = (Ok k', k2)" "newDataParser E True opt v = (Ok v', v2)" for k v k' v' k2 v2
    using "1.IH"(5) [of k "[v]" v "[]" k' k2] "1.IH"(6) [of k "[v]" v "[]" "Ok k'" k2 k' v' v2] that by simp_all
  from "1.prems" show ?case
    by (auto split: if_splits list.splits prod.splits outcome.splits simp: go_bind_eq_Ok leaf_parser_made
        dest: "1.IH"(1-4) m)
next
  case (3 E opt a as)
  from "3.prems" obtain q a' qs as' where "newDataParser E True opt a = (Ok q, a')"
    "newDataParsers E opt as = (Ok qs, as')" "ps = q # qs"
    by (auto split: prod.splits outcome.splits simp: go_bind_eq_Ok)
  with "3.IH"(1) [of q a'] "3.IH"(2) [of "Ok q" a' q qs as'] show ?case by simp
qed auto

subsection \<open>Types\<close>

fun has_type :: "rtype \<Rightarrow> pvalue \<Rightarrow> bool" where
  "has_type RString v = (\<exists>s. v = PString s)"
| "has_type RBool v = (\<exists>b. v = PBool b)"
| "has_type RTime v = (\<exists>t. v = PTime t)"
| "has_type REmptyStruct v = (v = PStruct [])"
| "has_type (RInt sg bits) v = (\<exists>i. v = PInt sg bits i \<and> int_range sg bits i)"
| "has_type (RFloat bits) v = (\<exists>f. v = PFloat bits f)"
| "has_type (RStruct ts) v = (\<exists>vs. v = PStruct vs \<and> list_all2 has_type ts vs)"
| "has_type (RSlice t) v = (\<exists>vs. v = PSlice vs \<and> list_all (has_type t) vs)"
| "has_type (RMap kt vt) v = (\<exists>m. v = PMap m \<and> list_all (\<lambda>(k, v). has_type kt k \<and> has_type vt v) m)"

text \<open>A result of a parser: \<open>nil\<close> from a nullable parser only, and otherwise a value of its type.\<close>

definition typed :: "data_parser \<Rightarrow> pvalue \<Rightarrow> bool" where
  "typed p v \<longleftrightarrow> (if v = PNil then parser_nullable p else \<exists>t. parser_type p = Ok t \<and> has_type t v)"

definition typed_loop :: "data_parser \<Rightarrow> (scanner \<Rightarrow> pvalue parse_result) \<Rightarrow> bool" where
  "typed_loop p f \<longleftrightarrow> (\<forall>s v s'. f s = (Ok v, s') \<longrightarrow> typed p v)"

lemma p_bind_Ok: "p_bind m w k = (Ok v, s') \<longleftrightarrow> (\<exists>x s. m = (Ok x, s) \<and> k x s = (Ok v, s'))"
  by (auto simp: p_bind_def split: prod.splits outcome.splits)

lemma expect_Ok: "expect c what s k = (Ok v, s') \<longleftrightarrow> (\<exists>s1. read s = (ch c, s1) \<and> k s1 = (Ok v, s'))"
  by (auto simp: expect_def split: prod.splits)

lemma tuple_loop_typed:
  "list_all2 typed_loop ps fs \<Longrightarrow> tuple_loop fs first s = (Ok vs, s') \<Longrightarrow>
     \<exists>ts. go_mapM parser_type ps = Ok ts \<and> list_all2 has_type ts vs"
proof (induction ps fs arbitrary: first s vs s' rule: list_all2_induct)
  case (Cons p ps f fs)
  obtain c t where c: "read s = (c, t)" by (cases "read s")
  from Cons.prems c obtain v s2 ws s3 where *: "f (if first then s else t) = (Ok v, s2)" "v \<noteq> PNil"
    "tuple_loop fs False s2 = (Ok ws, s3)" "vs = v # ws"
    by (auto simp: Let_def p_bind_Ok split: if_splits)
  with Cons.hyps(1) obtain t where "parser_type p = Ok t" "has_type t v"
    unfolding typed_loop_def typed_def by metis
  moreover from Cons.IH [OF *(3)] obtain ts where "go_mapM parser_type ps = Ok ts" "list_all2 has_type ts ws" by blast
  ultimately show ?case using *(4) by simp
qed simp

lemma array_loop_typed:
  "typed_loop p f \<Longrightarrow> parser_type p = Ok t \<Longrightarrow> list_all (has_type t) vs \<Longrightarrow>
   array_loop False f n vs s = (Ok vs', s') \<Longrightarrow> list_all (has_type t) vs'"
proof (induction n arbitrary: vs s)
  case (Suc n)
  obtain c t1 where c: "read s = (c, t1)" by (cases "read s")
  from Suc.prems(4) c consider "vs' = vs"
    | v s3 where "f (UnreadRune t1) = (Ok v, s3)" "v \<noteq> PNil"
      "array_loop False f n (vs @ [v]) (skip_comma s3) = (Ok vs', s')"
    by (auto simp: Let_def p_bind_Ok split: if_splits)
  then show ?case
  proof cases
    case (2 v s3)
    then have "has_type t v" using Suc.prems(1,2) unfolding typed_loop_def typed_def by fastforce
    with Suc.IH [OF Suc.prems(1,2) _ 2(3)] Suc.prems(3) show ?thesis by simp
  qed (use Suc.prems in simp)
qed simp

lemma map_store_all: "list_all P m \<Longrightarrow> P (k, v) \<Longrightarrow> list_all P (map_store k v m)"
  by (induction k v m rule: map_store.induct) auto

lemma map_delete_all: "list_all P m \<Longrightarrow> list_all P (map_delete k m)"
  by (induction k m rule: map_delete.induct) auto

lemma map_loop_typed:
  "typed_loop pk f \<Longrightarrow> typed_loop pv g \<Longrightarrow> parser_type pk = Ok kt \<Longrightarrow> parser_type pv = Ok vt \<Longrightarrow>
   list_all (\<lambda>(k, v). has_type kt k \<and> has_type vt v) m \<Longrightarrow> map_loop f g n m s = (Ok m', s') \<Longrightarrow>
   list_all (\<lambda>(k, v). has_type kt k \<and> has_type vt v) m'"
proof (induction n arbitrary: m s)
  case (Suc n)
  obtain c t1 where c: "read s = (c, t1)" by (cases "read s")
  from Suc.prems(6) c consider "m' = m"
    | k s2 s4 v s5 m1 where "f (UnreadRune t1) = (Ok k, s2)" "g s4 = (Ok v, s5)" "SetMapIndex k v m = Ok m1"
      "map_loop f g n m1 (skip_comma s5) = (Ok m', s')"
    by (auto simp: Let_def p_bind_Ok expect_Ok split: if_splits)
  then show ?case
  proof cases
    case (2 k s2 s4 v s5 m1)
    then have "typed pk k" "typed pv v" using Suc.prems(1,2) unfolding typed_loop_def by blast+
    with 2(3) Suc.prems(3-5) have "list_all (\<lambda>(k, v). has_type kt k \<and> has_type vt v) m1"
      by (auto simp: SetMapIndex_def typed_def intro: map_store_all map_delete_all split: if_splits)
    from Suc.IH [OF Suc.prems(1-4) this 2(4)] show ?thesis .
  qed (use Suc.prems in simp)
qed simp

text \<open>What Go leaves to the implementation still has to be a value of the integer type.\<close>

definition conversion_fits :: "int_conversion \<Rightarrow> bool" where
  "conversion_fits outside \<longleftrightarrow> (\<forall>sg bits f. int_range sg bits (outside sg bits f))"

lemma float_to_int_range: "conversion_fits outside \<Longrightarrow> int_range sg bits (float_to_int outside sg bits f)"
  by (simp add: float_to_int_def conversion_fits_def split: float_value.split)

lemma Parse_typed:
  "conversion_fits (pe_outside E) \<Longrightarrow> made u p \<Longrightarrow> typed_loop p (Parse E p)"
proof (induction p arbitrary: u)
  case (StringParser u' len)
  then show ?case by (auto simp: typed_loop_def typed_def p_bind_Ok)
next
  case (BooleanParser len)
  then show ?case
    by (auto simp: typed_loop_def typed_def parse_bool_value_def p_bind_Ok split: outcome.split_asm)
next
  case (DateTimeParser u' f loc precision)
  then show ?case
    by (auto simp: typed_loop_def typed_def parse_date_value_def p_bind_Ok Let_def go_bind_eq_Ok split: if_splits)
next
  case (TupleParser ps)
  have all: "list_all2 typed_loop ps (map (Parse E) ps)"
    using TupleParser by (auto simp: list_all2_conv_all_nth list_all_length)
  show ?case
    by (auto simp: typed_loop_def typed_def p_bind_Ok expect_Ok go_bind_eq_Ok dest!: tuple_loop_typed [OF all])
next
  case (ArrayParser p)
  have n: "is_null_parser p = False" using ArrayParser.prems by (cases p) (auto simp: is_null_parser_def)
  have s: "typed_loop p (Parse E p)" using ArrayParser by simp
  show ?case
    unfolding typed_loop_def
  proof (intro allI impI)
    fix s v s' assume "Parse E (ArrayParser p) s = (Ok v, s')"
    then obtain t s1 vs s2 where *: "parser_type p = Ok t"
      "array_loop False (Parse E p) (Suc (left s1)) [] s1 = (Ok vs, s2)" "v = PSlice vs"
      by (auto simp: p_bind_Ok expect_Ok go_bind_eq_Ok n p_go_def simp del: array_loop.simps)
    with array_loop_typed [OF s *(1) _ *(2)] show "typed (ArrayParser p) v" by (simp add: typed_def)
  qed
next
  case (MapParser k v)
  have s: "typed_loop k (Parse E k)" "typed_loop v (Parse E v)" using MapParser by auto
  show ?case
    unfolding typed_loop_def
  proof (intro allI impI)
    fix s w s' assume "Parse E (MapParser k v) s = (Ok w, s')"
    then obtain kt vt s1 m s2 where *: "parser_type k = Ok kt" "parser_type v = Ok vt" "comparable kt"
      "map_loop (Parse E k) (Parse E v) (Suc (left s1)) [] s1 = (Ok m, s2)" "w = PMap m"
      by (auto simp: p_bind_Ok expect_Ok go_bind_eq_Ok p_go_def split: if_splits simp del: map_loop.simps)
    with map_loop_typed [OF s *(1,2) _ *(4)] show "typed (MapParser k v) w" by (simp add: typed_def)
  qed
next
  case (IntParser sg bits)
  then show ?case
    by (auto simp: typed_loop_def typed_def parse_int_value_def int_type_def go_bind_eq_Ok float_to_int_range
        split: prod.splits)
next
  case (FloatParser bits)
  then show ?case
    by (auto simp: typed_loop_def typed_def parse_float_value_def float_type_def go_bind_eq_Ok split: prod.splits)
next
  case (NullableParser p inner)
  then have s: "typed_loop p (Parse E p)" by simp
  show ?case
    using s by (auto simp: typed_loop_def typed_def split: prod.splits if_splits)
qed (auto simp: typed_loop_def typed_def)

end
