(* ===== verification/Value_Text.thy ===== *)
theory Value_Text
  imports Value_Parser_Facts
begin

text \<open>
  The text form of values, as a relation \<open>text_of p v t\<close>: \<open>t\<close> is a text of the value \<open>v\<close> for the parser
  \<open>p\<close>.  It covers integers of up to 53 bits, quoted strings of a known length, and arrays, tuples and
  maps of them to any depth, nullable or not; \<open>Parse_text\<close> says that parsing inverts it.
\<close>

definition escaped :: "rune list \<Rightarrow> rune list" where
  "escaped rs = concat (map (\<lambda>r. if r = ch CHR 0x5C \<or> r = quote_mark then [ch CHR 0x5C, r] else [r]) rs)"

text \<open>Texts that end by themselves: whatever follows them, no more is read.\<close>

fun delimited :: "data_parser \<Rightarrow> bool" where
  "delimited (StringParser u len) = u"
| "delimited (TupleParser ps) = True"
| "delimited (ArrayParser p) = True"
| "delimited (MapParser k v) = True"
| "delimited (NullableParser p n) = delimited p"
| "delimited p = False"

definition plain_escape :: "rune \<Rightarrow> bool" where
  "plain_escape r \<longleftrightarrow> r \<noteq> eof"

text \<open>Entries of a map: a key and a value, with their texts.\<close>

definition entry_text :: "(pvalue \<times> pvalue) \<times> (rune list \<times> rune list) \<Rightarrow> rune list" where
  "entry_text x = fst (snd x) @ ch CHR '':'' # snd (snd x)"

text \<open>Keys that are different for Go.\<close>

fun new_keys :: "pvalue list \<Rightarrow> bool" where
  "new_keys [] = True"
| "new_keys (k # ks) = (list_all (\<lambda>k'. \<not> key_eq k k') ks \<and> new_keys ks)"

inductive text_of :: "data_parser \<Rightarrow> pvalue \<Rightarrow> rune list \<Rightarrow> bool" where
  Int: "bits \<in> {8, 16, 32, 64} \<Longrightarrow> int_range sg bits i \<Longrightarrow> \<bar>i\<bar> < 2 ^ 53 \<Longrightarrow>
    text_of (IntParser sg bits) (PInt sg bits i) (runes (format_int i))"
| Str: "list_all plain_escape rs \<Longrightarrow> int (length rs) = len \<Longrightarrow> 0 < len \<Longrightarrow>
    text_of (StringParser True len) (PString (utf8 rs)) (quote_mark # escaped rs @ [quote_mark])"
| Nullable: "text_of p v t \<Longrightarrow> text_of (NullableParser p inner) v t"
| Tuple: "list_all2 (\<lambda>p x. text_of p (fst x) (snd x)) ps xs \<Longrightarrow> parser_type (TupleParser ps) = Ok T \<Longrightarrow>
    text_of (TupleParser ps) (PStruct (map fst xs)) (ch CHR ''('' # join [ch CHR '',''] (map snd xs) @ [ch CHR '')''])"
| Array: "list_all (\<lambda>x. text_of p (fst x) (snd x)) xs \<Longrightarrow> parser_type (ArrayParser p) = Ok T \<Longrightarrow> \<not> is_null_parser p \<Longrightarrow>
    text_of (ArrayParser p) (PSlice (map fst xs)) (ch CHR ''['' # join [ch CHR '',''] (map snd xs) @ [ch CHR '']''])"
| Map: "list_all (\<lambda>x. text_of k (fst (fst x)) (fst (snd x)) \<and> text_of v (snd (fst x)) (snd (snd x))) xs \<Longrightarrow>
    parser_type (MapParser k v) = Ok T \<Longrightarrow> delimited k \<Longrightarrow> delimited v \<Longrightarrow> new_keys (map (fst \<circ> fst) xs) \<Longrightarrow>
    text_of (MapParser k v) (PMap (map fst xs))
      (ch CHR ''{'' # join [ch CHR '',''] (map entry_text xs) @ [ch CHR ''}''])"

definition rest_ok :: "data_parser \<Rightarrow> rune list \<Rightarrow> bool" where
  "rest_ok p rest \<longleftrightarrow> delimited p \<or> rest = [] \<or> hd rest \<in> set number_ends"

text \<open>Parsing \<open>t\<close> gives \<open>v\<close> and stops behind \<open>t\<close>.\<close>

definition reads :: "parse_env \<Rightarrow> data_parser \<Rightarrow> pvalue \<Rightarrow> rune list \<Rightarrow> bool" where
  "reads E p v t \<longleftrightarrow>
     (\<forall>l rest. rest_ok p rest \<longrightarrow> (\<exists>l'. Parse E p (l, t @ rest) = (Ok v, (l', rest))))"

text \<open>How a text may start: not as the end of what contains it, and not as \<open>NULL\<close>.\<close>

definition starts :: "rune list \<Rightarrow> bool" where
  "starts t \<longleftrightarrow> (\<exists>c rs. t = c # rs \<and> c \<noteq> eof \<and> c \<noteq> ch CHR '']'' \<and> c \<noteq> ch CHR ''}'' \<and> c \<noteq> ch CHR ''N'')"

lemma ch_eq [simp]: "ch a = ch b \<longleftrightarrow> a = b"
  by (simp add: ch_def)

lemma ch_eof [simp]: "ch c = eof \<longleftrightarrow> c = CHR 0x00"
proof -
  have "(of_char c = (0::nat)) = (c = char_of (0::nat))" by (metis char_of_char of_char_of mod_less zero_less_numeral mod_0)
  moreover have "char_of (0::nat) = CHR 0x00" by code_simp
  ultimately show ?thesis by (simp add: ch_def eof_def)
qed

lemma eof_ch [simp]: "eof = ch c \<longleftrightarrow> c = CHR 0x00"
  using ch_eof [of c] by (auto simp del: ch_eof)

lemma text_of_starts: "text_of p v t \<Longrightarrow> starts t \<and> v \<noteq> PNil"
proof (induction rule: text_of.induct)
  case (Int bits sg i)
  obtain c cs where c: "format_uint (nat \<bar>i\<bar>) = c # cs" "is_digit c" using format_uint_hd by blast
  then have "c \<noteq> CHR '']''" "c \<noteq> CHR ''}''" "c \<noteq> CHR ''N''" "c \<noteq> CHR 0x00" by (auto simp: is_digit_def)
  with c(1) show ?case by (auto simp: starts_def format_int_def runes_def)
qed (auto simp: starts_def quote_mark_def)

subsection \<open>Numbers and strings\<close>

lemma read_Cons [simp]: "read (l, r # rs) = (r, (Some r, rs))"
  by (simp add: read_def ReadRune_def)

lemma Unread_Some [simp]: "UnreadRune (Some r, rs) = (None, r # rs)"
  by (simp add: UnreadRune_def)

lemma number_loop_rest:
  "list_all (\<lambda>r. r \<noteq> eof \<and> r \<notin> set number_ends) ds \<Longrightarrow> rest = [] \<or> hd rest \<in> set number_ends \<Longrightarrow>
   \<exists>l'. number_loop b (ds @ rest) = (b @ ds, (l', rest))"
proof (induction ds arbitrary: b)
  case Nil
  then show ?case by (cases rest) (auto simp: number_ends_def)
next
  case (Cons d ds)
  from Cons.IH [of "b @ [d]"] Cons.prems show ?case by simp
qed

lemma format_int_runes:
  "list_all (\<lambda>r. r \<noteq> eof \<and> r \<notin> set number_ends) (runes (format_int i))" "utf8 (runes (format_int i)) = format_int i"
proof -
  have d: "is_digit c \<Longrightarrow> ch c < 128 \<and> ch c \<noteq> eof \<and> ch c \<notin> set number_ends" for c
    by (auto simp: is_digit_def ch_def eof_def number_ends_def)
  have m: "ch CHR ''-'' < 128 \<and> ch CHR ''-'' \<noteq> eof \<and> ch CHR ''-'' \<notin> set number_ends"
    by (simp add: ch_def eof_def number_ends_def)
  have "list_all (\<lambda>c. is_digit c \<or> c = CHR ''-'') (format_int i)"
    using format_uint_digits by (auto simp: format_int_def list_all_iff)
  then have "list_all (\<lambda>c. ch c < 128 \<and> ch c \<noteq> eof \<and> ch c \<notin> set number_ends) (format_int i)"
    unfolding list_all_iff using d m by blast
  then show "utf8 (runes (format_int i)) = format_int i"
    "list_all (\<lambda>r. r \<noteq> eof \<and> r \<notin> set number_ends) (runes (format_int i))"
    unfolding runes_def by (simp_all add: utf8_ascii list_all_iff)
qed

lemma reads_Int:
  assumes "bits \<in> {8, 16, 32, 64}" "int_range sg bits i" "\<bar>i\<bar> < 2 ^ 53"
  shows "reads E (IntParser sg bits) (PInt sg bits i) (runes (format_int i))"
  unfolding reads_def
proof (intro allI impI)
  fix l rest assume r: "rest_ok (IntParser sg bits) rest"
  obtain l' where n: "readNumber (l, runes (format_int i) @ rest) = (runes (format_int i), (l', rest))"
    using number_loop_rest [OF format_int_runes(1), of rest "[]" i] r by (auto simp: readNumber_def rest_ok_def)
  obtain s m e where p: "ParseFloat 64 (format_int i) = (FFin s m e, None)" "f_trunc s m e = i"
    using ParseFloat_int [OF assms(3)] by blast
  have "Parse E (IntParser sg bits) (l, runes (format_int i) @ rest) = (Ok (PInt sg bits i), (l', rest))"
    using assms(1,2) by (simp add: parse_int_value_def n parse_float_text_def format_int_runes(2) p float_to_int_def)
  then show "\<exists>l'. Parse E (IntParser sg bits) (l, runes (format_int i) @ rest) = (Ok (PInt sg bits i), (l', rest))" by blast
qed

lemma unquoted_escaped:
  "list_all plain_escape rs \<Longrightarrow> n + int (length rs) = len \<Longrightarrow> 0 \<le> n \<Longrightarrow> 0 < len \<Longrightarrow>
   \<exists>l'. unquoted_loop len b n (l, escaped rs @ rest) = (Ok (b @ rs), (l', rest))"
proof (induction rs arbitrary: b n l)
  case Nil
  then show ?case by (subst unquoted_loop.simps) (auto simp: unquoted_result_def escaped_def)
next
  case (Cons r rs)
  have q: "quote_mark \<noteq> ch CHR 0x5C" by (simp add: quote_mark_def)
  have e: "escaped (r # rs) = (if r = ch CHR 0x5C \<or> r = quote_mark then [ch CHR 0x5C, r] else [r]) @ escaped rs"
    by (simp add: escaped_def)
  from Cons.prems(1) have r0: "plain_escape r" "list_all plain_escape rs" by simp_all
  with Cons.prems have r: "r \<noteq> eof" "n < len" "list_all plain_escape rs" "n + 1 + int (length rs) = len"
    by (simp_all add: plain_escape_def)
  show ?case
  proof (cases "r = ch CHR 0x5C \<or> r = quote_mark")
    case True
    then have "unquoted_loop len b n (l, escaped (r # rs) @ rest) = unquoted_loop len (b @ [r]) (n + 1) (Some r, escaped rs @ rest)"
      using r by (subst unquoted_loop.simps) (auto simp: e ReadRune_def readEscaped_def quote_mark_def)
    with Cons.IH [OF r(3,4), of "b @ [r]" "Some r"] Cons.prems(3,4) show ?thesis by simp
  next
    case False
    then have "unquoted_loop len b n (l, escaped (r # rs) @ rest) = unquoted_loop len (b @ [r]) (n + 1) (Some r, escaped rs @ rest)"
      using r by (subst unquoted_loop.simps) (auto simp: e ReadRune_def)
    with Cons.IH [OF r(3,4), of "b @ [r]" "Some r"] Cons.prems(3,4) show ?thesis by simp
  qed
qed

lemma reads_Str:
  assumes "list_all plain_escape rs" "int (length rs) = len" "0 < len"
  shows "reads E (StringParser True len) (PString (utf8 rs)) (quote_mark # escaped rs @ [quote_mark])"
  unfolding reads_def
proof (intro allI impI)
  fix l rest
  obtain l' where "unquoted_loop len [] 0 (Some quote_mark, escaped rs @ quote_mark # rest) = (Ok rs, (l', quote_mark # rest))"
    using unquoted_escaped [OF assms(1), of 0 len "[]" "Some quote_mark" "quote_mark # rest"] assms(2,3) by auto
  then show "\<exists>l'. Parse E (StringParser True len) (l, (quote_mark # escaped rs @ [quote_mark]) @ rest) = (Ok (PString (utf8 rs)), (l', rest))"
    by (simp add: readString_def readUnquoted_def Let_def p_bind_def)
qed

subsection \<open>Containers\<close>

definition follow :: "rune list list \<Rightarrow> rune list" where
  "follow ts = concat (map (\<lambda>t. ch CHR '','' # t) ts)"

lemma follow_simps [simp]: "follow [] = []" "follow (t # ts) = ch CHR '','' # t @ follow ts"
  by (simp_all add: follow_def)

lemma join_follow: "join [ch CHR '',''] (t # ts) = t @ follow ts"
  by (induction ts arbitrary: t) auto

lemma ends_simps [simp]: "ch CHR '','' \<in> set number_ends" "ch CHR '']'' \<in> set number_ends" "ch CHR '')'' \<in> set number_ends"
  by (simp_all add: number_ends_def)

lemma rest_ok_follow: "c \<in> set number_ends \<Longrightarrow> rest_ok p (follow ts @ c # rest)"
  by (cases ts) (auto simp: rest_ok_def)

lemma readsD: "reads E p v t \<Longrightarrow> rest_ok p rest \<Longrightarrow> \<exists>l'. Parse E p (l, t @ rest) = (Ok v, (l', rest))"
  by (simp add: reads_def)

text \<open>What every element has.\<close>

definition element :: "parse_env \<Rightarrow> data_parser \<Rightarrow> pvalue \<times> rune list \<Rightarrow> bool" where
  "element E p x \<longleftrightarrow> reads E p (fst x) (snd x) \<and> starts (snd x) \<and> fst x \<noteq> PNil"

lemma tuple_loop_follow:
  "list_all2 (element E) ps xs \<Longrightarrow>
   \<exists>l'. tuple_loop (map (Parse E) ps) False (l, follow (map snd xs) @ ch CHR '')'' # rest)
      = (Ok (map fst xs), (if xs = [] then l else l', ch CHR '')'' # rest))"
proof (induction ps xs arbitrary: l rule: list_all2_induct)
  case (Cons p ps x xs)
  obtain l1 where "Parse E p (Some (ch CHR '',''), snd x @ follow (map snd xs) @ ch CHR '')'' # rest)
      = (Ok (fst x), (l1, follow (map snd xs) @ ch CHR '')'' # rest))"
    using readsD [OF _ rest_ok_follow] Cons.hyps(1) unfolding element_def by (metis ends_simps(3))
  moreover obtain l2 where "tuple_loop (map (Parse E) ps) False (l1, follow (map snd xs) @ ch CHR '')'' # rest)
      = (Ok (map fst xs), (l2, ch CHR '')'' # rest))"
    using Cons.IH [of l1] by auto
  ultimately show ?case using Cons.hyps(1) by (auto simp: p_bind_def element_def)
qed simp

lemma container_reads:
  assumes "Parse E q = (\<lambda>s. expect c what s (\<lambda>s. p_bind (p_go (parser_type q) s) id (\<lambda>_ s.
      p_bind (f s) id (\<lambda>vs s. expect d what' s (\<lambda>s. (Ok (g vs), s))))))"
    and "parser_type q = Ok T"
    and "\<And>l rest. \<exists>l'. f (l, body @ ch d # rest) = (Ok vs, (l', ch d # rest))"
  shows "reads E q (g vs) (ch c # body @ [ch d])"
  unfolding reads_def
proof (intro allI impI)
  fix l rest
  obtain l' where "f (Some (ch c), body @ ch d # rest) = (Ok vs, (l', ch d # rest))" using assms(3) by blast
  with assms(1,2) have "Parse E q (l, (ch c # body @ [ch d]) @ rest) = (Ok (g vs), (Some (ch d), rest))"
    by (simp add: expect_def p_bind_def p_go_def)
  then show "\<exists>l'. Parse E q (l, (ch c # body @ [ch d]) @ rest) = (Ok (g vs), (l', rest))" by blast
qed

lemma reads_Tuple:
  assumes "list_all2 (element E) ps xs" "parser_type (TupleParser ps) = Ok T"
  shows "reads E (TupleParser ps) (PStruct (map fst xs)) (ch CHR ''('' # join [ch CHR '',''] (map snd xs) @ [ch CHR '')''])"
proof -
  have "\<exists>l'. tuple_loop (map (Parse E) ps) True (l, join [ch CHR '',''] (map snd xs) @ ch CHR '')'' # rest)
      = (Ok (map fst xs), (l', ch CHR '')'' # rest))" for l rest
  proof (cases xs)
    case Nil
    then show ?thesis using assms(1) by auto
  next
    case (Cons x xs')
    with assms(1) obtain p ps' where ps: "ps = p # ps'" "element E p x" "list_all2 (element E) ps' xs'"
      by (auto simp: list_all2_Cons2)
    obtain l1 where "Parse E p (l, snd x @ follow (map snd xs') @ ch CHR '')'' # rest)
        = (Ok (fst x), (l1, follow (map snd xs') @ ch CHR '')'' # rest))"
      using readsD [OF _ rest_ok_follow] ps(2) unfolding element_def by (metis ends_simps(3))
    moreover obtain l2 where "tuple_loop (map (Parse E) ps') False (l1, follow (map snd xs') @ ch CHR '')'' # rest)
        = (Ok (map fst xs'), (l2, ch CHR '')'' # rest))"
      using tuple_loop_follow [OF ps(3), of l1 rest] by auto
    ultimately show ?thesis using ps Cons by (auto simp: p_bind_def join_follow element_def)
  qed
  then show ?thesis by (rule container_reads [OF Parse.simps(5) [unfolded Parse_methods] assms(2)])
qed

lemma array_loop_join:
  "list_all (element E p) xs \<Longrightarrow> length xs \<le> n \<Longrightarrow>
   \<exists>l'. array_loop False (Parse E p) (Suc n) vs (l, join [ch CHR '',''] (map snd xs) @ ch CHR '']'' # rest)
      = (Ok (vs @ map fst xs), (l', ch CHR '']'' # rest))"
proof (induction xs arbitrary: n vs l)
  case Nil
  then show ?case by simp
next
  case (Cons x xs)
  then obtain m where m: "n = Suc m" "length xs \<le> m" by (cases n) auto
  from Cons.prems(1) have x: "reads E p (fst x) (snd x)" "starts (snd x)" "fst x \<noteq> PNil" "list_all (element E p) xs"
    by (simp_all add: element_def [of E p x])
  let ?after = "follow (map snd xs) @ ch CHR '']'' # rest"
  obtain l1 where l1: "Parse E p (None, snd x @ ?after) = (Ok (fst x), (l1, ?after))"
    using readsD [OF x(1) rest_ok_follow [OF ends_simps(2)]] by blast
  obtain c cs where c: "snd x = c # cs" "c \<noteq> ch CHR '']''" using x(2) by (auto simp: starts_def)
  have t: "join [ch CHR '',''] (map snd (x # xs)) @ ch CHR '']'' # rest = snd x @ ?after"
    by (simp add: join_follow)
  have skip: "\<exists>l2. skip_comma (l1, ?after) = (l2, join [ch CHR '',''] (map snd xs) @ ch CHR '']'' # rest)"
    by (cases xs) (auto simp: skip_comma_def join_follow simp del: join.simps(3))
  then obtain l2 where l2: "skip_comma (l1, ?after) = (l2, join [ch CHR '',''] (map snd xs) @ ch CHR '']'' # rest)" ..
  have "array_loop False (Parse E p) (Suc n) vs (l, snd x @ ?after)
      = array_loop False (Parse E p) n (vs @ [fst x]) (l2, join [ch CHR '',''] (map snd xs) @ ch CHR '']'' # rest)"
    using l1 l2 c x(3) by (simp add: p_bind_def)
  with Cons.IH [OF x(4) m(2), of "vs @ [fst x]" l2] m(1) show ?case unfolding t by simp
qed

lemma starts_length: "list_all (\<lambda>x. starts (snd x)) xs \<Longrightarrow> length xs \<le> length (join [ch CHR '',''] (map snd xs))"
proof (induction xs)
  case (Cons x xs)
  then have "1 \<le> length (snd x)" by (auto simp: starts_def)
  with Cons show ?case by (cases xs) (auto simp: starts_def)
qed simp

lemma reads_Array:
  assumes "list_all (element E p) xs" "parser_type (ArrayParser p) = Ok T" "\<not> is_null_parser p"
  shows "reads E (ArrayParser p) (PSlice (map fst xs)) (ch CHR ''['' # join [ch CHR '',''] (map snd xs) @ [ch CHR '']''])"
proof (rule container_reads [OF Parse.simps(6) [unfolded Parse_methods] assms(2)])
  fix l rest
  have n: "is_null_parser p = False" using assms(3) by simp
  have "length xs \<le> length (join [ch CHR '',''] (map snd xs) @ ch CHR '']'' # rest)"
    using starts_length [of xs] assms(1) by (simp add: list_all_iff element_def)
  from array_loop_join [OF assms(1) this, of "[]" l rest]
  show "\<exists>l'. array_loop (is_null_parser p) (Parse E p) (Suc (left (l, join [ch CHR '',''] (map snd xs) @ ch CHR '']'' # rest))) []
      (l, join [ch CHR '',''] (map snd xs) @ ch CHR '']'' # rest) = (Ok (map fst xs), (l', ch CHR '']'' # rest))"
    unfolding n by (simp del: array_loop.simps)
qed

definition entry :: "parse_env \<Rightarrow> data_parser \<Rightarrow> data_parser \<Rightarrow> (pvalue \<times> pvalue) \<times> (rune list \<times> rune list) \<Rightarrow> bool" where
  "entry E k v x \<longleftrightarrow> element E k (fst (fst x), fst (snd x)) \<and> element E v (snd (fst x), snd (snd x))"

lemma map_store_new: "list_all (\<lambda>x. \<not> key_eq (fst x) k) m \<Longrightarrow> map_store k v m = m @ [(k, v)]"
  by (induction k v m rule: map_store.induct) auto

lemma new_keys_append:
  "new_keys (ks @ k # ks') \<Longrightarrow> list_all (\<lambda>k'. \<not> key_eq k' k) ks"
  by (induction ks) auto

lemma map_loop_join:
  assumes d: "delimited k" "delimited v"
  shows "list_all (entry E k v) xs \<Longrightarrow> length xs \<le> n \<Longrightarrow> new_keys (map fst m @ map (fst \<circ> fst) xs) \<Longrightarrow>
   \<exists>l'. map_loop (Parse E k) (Parse E v) (Suc n) m (l, join [ch CHR '',''] (map entry_text xs) @ ch CHR ''}'' # rest)
      = (Ok (m @ map fst xs), (l', ch CHR ''}'' # rest))"
proof (induction xs arbitrary: n m l)
  case Nil
  then show ?case by simp
next
  case (Cons x xs)
  obtain kx vx kt vt where x: "x = ((kx, vx), (kt, vt))" by (cases x) auto
  from Cons.prems(2) obtain j where j: "n = Suc j" "length xs \<le> j" by (cases n) auto
  from Cons.prems(1) have e: "reads E k kx kt" "starts kt" "kx \<noteq> PNil" "reads E v vx vt" "vx \<noteq> PNil"
    "list_all (entry E k v) xs"
    by (simp_all add: x entry_def [of E k v x, unfolded x] element_def)
  let ?after = "follow (map entry_text xs) @ ch CHR ''}'' # rest"
  have ok: "rest_ok k r" "rest_ok v r" for r using d by (simp_all add: rest_ok_def)
  obtain l1 where l1: "Parse E k (None, kt @ ch CHR '':'' # vt @ ?after) = (Ok kx, (l1, ch CHR '':'' # vt @ ?after))"
    using readsD [OF e(1) ok(1)] by blast
  obtain l2 where l2: "Parse E v (Some (ch CHR '':''), vt @ ?after) = (Ok vx, (l2, ?after))"
    using readsD [OF e(4) ok(2)] by blast
  obtain c cs where c: "kt = c # cs" "c \<noteq> ch CHR ''}''" using e(2) by (auto simp: starts_def)
  have t: "join [ch CHR '',''] (map entry_text (x # xs)) @ ch CHR ''}'' # rest = kt @ ch CHR '':'' # vt @ ?after"
    by (simp add: join_follow x entry_text_def)
  have "\<exists>l3. skip_comma (l2, ?after) = (l3, join [ch CHR '',''] (map entry_text xs) @ ch CHR ''}'' # rest)"
    by (cases xs) (auto simp: skip_comma_def join_follow simp del: join.simps(3))
  then obtain l3 where l3: "skip_comma (l2, ?after) = (l3, join [ch CHR '',''] (map entry_text xs) @ ch CHR ''}'' # rest)" ..
  have "list_all (\<lambda>y. \<not> key_eq (fst y) kx) m"
    using new_keys_append [of "map fst m" kx] Cons.prems(3) by (auto simp: x list_all_iff)
  then have st: "SetMapIndex kx vx m = Ok (m @ [(kx, vx)])"
    using e(3,5) by (simp add: SetMapIndex_def map_store_new)
  have "map_loop (Parse E k) (Parse E v) (Suc n) m (l, kt @ ch CHR '':'' # vt @ ?after)
      = map_loop (Parse E k) (Parse E v) n (m @ [(kx, vx)]) (l3, join [ch CHR '',''] (map entry_text xs) @ ch CHR ''}'' # rest)"
    using l1 l2 l3 c st by (simp add: p_bind_def expect_def)
  with Cons.IH [OF e(6) j(2), of "m @ [(kx, vx)]" l3] j(1) Cons.prems(3) show ?case unfolding t by (simp add: x)
qed

lemma reads_Map:
  assumes "list_all (entry E k v) xs" "parser_type (MapParser k v) = Ok T" "delimited k" "delimited v"
    and "new_keys (map (fst \<circ> fst) xs)"
  shows "reads E (MapParser k v) (PMap (map fst xs)) (ch CHR ''{'' # join [ch CHR '',''] (map entry_text xs) @ [ch CHR ''}''])"
proof (rule container_reads [OF Parse.simps(7) [unfolded Parse_methods] assms(2)])
  fix l rest
  have s: "list_all (\<lambda>y. starts (snd y)) (map (\<lambda>x. ((), entry_text x)) xs)"
    using assms(1) by (auto simp: list_all_iff entry_def element_def starts_def entry_text_def)
  have "length xs \<le> length (join [ch CHR '',''] (map entry_text xs) @ ch CHR ''}'' # rest)"
    using starts_length [OF s] by (simp add: comp_def)
  from map_loop_join [OF assms(3,4,1) this, of "[]" l rest] assms(5)
  show "\<exists>l'. map_loop (Parse E k) (Parse E v) (Suc (left (l, join [ch CHR '',''] (map entry_text xs) @ ch CHR ''}'' # rest))) []
      (l, join [ch CHR '',''] (map entry_text xs) @ ch CHR ''}'' # rest) = (Ok (map fst xs), (l', ch CHR ''}'' # rest))"
    by (simp del: map_loop.simps)
qed

subsection \<open>Parsing inverts printing\<close>

lemma reads_Nullable: "reads E p v t \<Longrightarrow> starts t \<Longrightarrow> reads E (NullableParser p inner) v t"
  by (auto simp: reads_def rest_ok_def starts_def peakNull_def unread_times_def)

lemma Parse_text: "text_of p v t \<Longrightarrow> reads E p v t"
proof (induction rule: text_of.induct)
  case (Nullable p v t inner)
  then show ?case by (intro reads_Nullable) (auto dest: text_of_starts)
next
  case (Tuple ps xs T)
  have "list_all2 (element E) ps xs"
    using Tuple.IH by (rule list_all2_mono) (auto simp: element_def dest: text_of_starts)
  then show ?case using Tuple.hyps by (intro reads_Tuple)
next
  case (Array p xs T)
  then have "list_all (element E p) xs" by (auto simp: list_all_iff element_def dest: text_of_starts)
  then show ?case using Array.hyps by (intro reads_Array)
next
  case (Map k v xs T)
  then have "list_all (entry E k v) xs" by (auto simp: list_all_iff entry_def element_def dest: text_of_starts)
  then show ?case using Map.hyps by (intro reads_Map)
qed (simp_all add: reads_Int reads_Str)

end
