(* ===== verification/Value_Parser_Props.thy ===== *)
theory Value_Parser_Props
  imports Value_Text
begin

text \<open>
  Properties of the value parsers: that they end, that what they yield has the type they report, the
  round trip of printed values, and the shapes of values that no parser of the library reads.
\<close>

definition demo_parse :: parse_env where
  "demo_parse = \<lparr>pe_tz = (\<lambda>_. None), pe_quoted = (\<lambda>s. s), pe_outside = (\<lambda>_ _ _. 0)\<rparr>"

definition demo_text :: "rune list" where
  "demo_text = ch CHR ''['' # join [ch CHR '',''] [runes (format_int 1), runes (format_int 2)] @ [ch CHR '']'']"

lemma demo_text_of:
  "text_of (ArrayParser (NullableParser (IntParser True 8) ''Int8'')) (PSlice [PInt True 8 1, PInt True 8 2]) demo_text"
proof -
  have "text_of (NullableParser (IntParser True 8) ''Int8'') (PInt True 8 i) (runes (format_int i))"
    if "i \<in> {1, 2}" for i
    using that by (intro text_of.Nullable text_of.Int) (auto simp: int_range_def)
  then have "list_all (\<lambda>x. text_of (NullableParser (IntParser True 8) ''Int8'') (fst x) (snd x))
      [(PInt True 8 1, runes (format_int 1)), (PInt True 8 2, runes (format_int 2))]"
    by simp
  from text_of.Array [OF this] show ?thesis
    by (simp add: demo_text_def int_type_def is_null_parser_def)
qed

text \<open>C21: (termination) The loops over the elements of an array or a map have no bound of their own. For
  every parser that \<open>NewDataParser\<close> makes, on every scanner, they end within the bound that the runes
  still to be read give, and no parser moves the scanner back behind where it started.\<close>

theorem Parse_terminates:
  assumes "NewDataParser E t opt = (Ok p, t')"
  shows "fst (Parse E' p s) \<noteq> Panic out_of_fuel \<and> left (snd (Parse E' p s)) \<le> left s"
proof -
  have "made False p" using assms newDataParser_made(1) by (simp add: NewDataParser_def)
  from Parse_steady [OF this, of E'] show ?thesis
    unfolding steady_def by (metis prod.collapse)
qed

definition nested_desc :: type_desc where
  "nested_desc = TypeDesc ''Array'' False [TypeDesc ''Int8'' True []]"

lemma nested_parser:
  "NewDataParser demo_parse nested_desc None =
     (Ok (ArrayParser (NullableParser (IntParser True 8) ''Int8'')), TypeDesc ''Array'' False [TypeDesc ''Int8'' False []])"
  by (simp add: NewDataParser_def nested_desc_def leaf_parser_def scalar_parser_def)

lemma Parse_terminates_witness:
  "fst (Parse demo_parse (ArrayParser (NullableParser (IntParser True 8) ''Int8'')) (None, runes ''[1,2'')) \<noteq> Panic out_of_fuel
    \<and> left (snd (Parse demo_parse (ArrayParser (NullableParser (IntParser True 8) ''Int8'')) (None, runes ''[1,2'')))
        \<le> left (None, runes ''[1,2'')"
  by (rule Parse_terminates [OF nested_parser])

text \<open>C20: (types) \<open>Type()\<close> tells the truth: what a parser of \<open>NewDataParser\<close> yields is \<open>nil\<close>, and then the
  parser reports itself as nullable, or it is a value of the type that the parser reports, with every
  integer in its range and every element of a tuple, array or map of its own type.\<close>

theorem Parse_has_type:
  assumes "NewDataParser E t opt = (Ok p, t')" "conversion_fits (pe_outside E')"
    and "fst (Parse E' p s) = Ok v"
  shows "v = PNil \<and> parser_nullable p \<or> (\<exists>T. parser_type p = Ok T \<and> has_type T v)"
proof -
  have "made False p" using assms(1) newDataParser_made(1) by (simp add: NewDataParser_def)
  from Parse_typed [OF assms(2) this] assms(3) have "typed p v"
    unfolding typed_loop_def by (metis prod.collapse)
  then show ?thesis by (auto simp: typed_def split: if_splits)
qed

lemma Parse_has_type_witness:
  "PSlice [PInt True 8 1, PInt True 8 2] = PNil
      \<and> parser_nullable (ArrayParser (NullableParser (IntParser True 8) ''Int8''))
    \<or> (\<exists>T. parser_type (ArrayParser (NullableParser (IntParser True 8) ''Int8'')) = Ok T
        \<and> has_type T (PSlice [PInt True 8 1, PInt True 8 2]))"
proof (rule Parse_has_type [OF nested_parser])
  show "conversion_fits (pe_outside demo_parse)"
    by (simp add: conversion_fits_def demo_parse_def int_range_def)
  show "fst (Parse demo_parse (ArrayParser (NullableParser (IntParser True 8) ''Int8'')) (None, demo_text @ []))
      = Ok (PSlice [PInt True 8 1, PInt True 8 2])"
    using readsD [OF Parse_text [OF demo_text_of], of "[]" demo_parse None] by (auto simp: rest_ok_def)
qed

text \<open>C11: (round trip) Parsing inverts printing: a text of a value, as \<open>text_of\<close> gives it, integers of up to
  53 bits, quoted strings of a fixed length with their quotes and backslashes escaped, and arrays,
  tuples and maps of them to any depth, is read as that value, and the scanner is left right behind it.\<close>

theorem Parse_inverts_text:
  assumes "text_of p v t" "rest_ok p rest"
  shows "\<exists>l'. Parse E p (l, t @ rest) = (Ok v, (l', rest))"
  using Parse_text [OF assms(1), of E] assms(2) by (rule readsD)

lemma Parse_inverts_text_witness:
  "\<exists>l'. Parse demo_parse (ArrayParser (NullableParser (IntParser True 8) ''Int8'')) (None, demo_text @ [ch CHR ''x''])
      = (Ok (PSlice [PInt True 8 1, PInt True 8 2]), (l', [ch CHR ''x'']))"
  by (rule Parse_inverts_text [OF demo_text_of]) (simp add: rest_ok_def)

subsection \<open>Values that are not read\<close>

lemma unquoted_to_end:
  "eof \<notin> set (snd s) \<Longrightarrow> unquoted_loop 0 b n s = (r, s') \<Longrightarrow> (\<exists>e. r = Err e) \<or> snd s' = []"
proof (induction "0 :: int" b n s arbitrary: r s' rule: unquoted_loop.induct)
  case (1 b n s)
  show ?case
  proof (cases "snd s")
    case Nil
    with "1.prems" show ?thesis by (subst (asm) unquoted_loop.simps) (auto simp: ReadRune_def unquoted_result_def)
  next
    case (Cons c rs)
    then have rd: "ReadRune s = (Some c, (Some c, rs))" by (simp add: ReadRune_def)
    have nc: "c \<noteq> eof" "eof \<notin> set rs" using "1.prems"(1) Cons by auto
    show ?thesis
    proof (cases "c = ch CHR 0x5C")
      case False
      with "1.prems"(2) rd nc have "unquoted_loop 0 (b @ [c]) (n + 1) (Some c, rs) = (r, s')"
        by (subst (asm) unquoted_loop.simps) simp
      with "1.hyps"(2) [of "Some c" "(Some c, rs)" c r s'] rd nc False show ?thesis by simp
    next
      case True
      obtain x t where x: "readEscaped (Some c, rs) = (x, t)" by (cases "readEscaped (Some c, rs)")
      then have t: "set (snd t) \<subseteq> set rs"
        by (auto simp: readEscaped_def read_def ReadRune_def split: list.splits)
      show ?thesis
      proof (cases x)
        case (Ok y)
        with "1.prems"(2) rd nc True x have "unquoted_loop 0 (b @ [y]) (n + 1) t = (r, s')"
          by (subst (asm) unquoted_loop.simps) simp
        with "1.hyps"(1) [of "Some c" "(Some c, rs)" c x t y r s'] rd nc True x Ok t show ?thesis by auto
      next
        case (Err e)
        with "1.prems"(2) rd nc True x show ?thesis by (subst (asm) unquoted_loop.simps) auto
      next
        case (Panic p)
        with x show ?thesis by (auto simp: readEscaped_def split: prod.splits if_splits)
      qed
    qed
  qed
qed

lemma unsized_string_fails:
  assumes "eof \<notin> set (snd s)"
  shows "\<exists>e. fst (Parse E (StringParser True 0) s) = Err e"
proof -
  obtain c s1 where c: "read s = (c, s1)" by (cases "read s")
  then have "eof \<notin> set (snd s1)" using assms by (auto simp: read_def ReadRune_def split: list.splits)
  moreover obtain r s2 where r: "readUnquoted s1 0 = (r, s2)" by (cases "readUnquoted s1 0")
  ultimately have "(\<exists>e. r = Err e) \<or> snd s2 = []" using unquoted_to_end by (simp add: readUnquoted_def)
  moreover have "snd s2 = [] \<Longrightarrow> fst (read s2) \<noteq> quote_mark" by (simp add: read_def ReadRune_def eof_def quote_mark_def ch_def)
  ultimately show ?thesis
    using c r readUnquoted_left [OF r]
    by (cases r) (auto simp: readString_def Let_def p_bind_def split: prod.splits)
qed

lemma number_loop_stop:
  "eof \<notin> set rs \<Longrightarrow> number_loop b rs = (d, s') \<Longrightarrow> snd s' = [] \<or> (fst s' = None \<and> hd (snd s') \<in> set number_ends)"
  by (induction b rs rule: number_loop.induct) (auto split: if_splits)

text \<open>A loop that fails at its first element fails, or ends at once.\<close>

lemma array_loop_stuck:
  assumes "\<And>t. eof \<notin> set (snd t) \<Longrightarrow> \<exists>e. fst (p t) = Err e" "eof \<notin> set (snd s)"
  shows "(\<exists>e. fst (array_loop False p (Suc n) vs s) = Err e) \<or> fst (array_loop False p (Suc n) vs s) = Ok vs"
proof -
  obtain c s1 where c: "read s = (c, s1)" by (cases "read s")
  then have "eof \<notin> set (snd (UnreadRune s1))"
    using assms(2) by (auto simp: read_def ReadRune_def UnreadRune_def split: list.splits)
  then obtain e t where "p (UnreadRune s1) = (Err e, t)" using assms(1) by (metis prod.collapse)
  then show ?thesis using c by (auto simp: p_bind_def Let_def)
qed

lemma map_loop_stuck:
  assumes "eof \<notin> set (snd s)"
  shows "(\<exists>e. fst (map_loop (Parse E (IntParser sg bits)) pv (Suc n) m s) = Err e)
    \<or> (\<exists>e. fst (map_loop (Parse E (IntParser sg bits)) pv (Suc n) m s) = Panic e \<and> bits \<notin> {8, 16, 32, 64})
    \<or> fst (map_loop (Parse E (IntParser sg bits)) pv (Suc n) m s) = Ok m"
proof -
  obtain c s1 where c: "read s = (c, s1)" by (cases "read s")
  have no: "eof \<notin> set (snd (UnreadRune s1))"
    using assms c by (auto simp: read_def ReadRune_def UnreadRune_def split: list.splits)
  obtain d s2 where d: "readNumber (UnreadRune s1) = (d, s2)" by (cases "readNumber (UnreadRune s1)")
  with number_loop_stop [OF no, of "[]" d s2] have "snd s2 = [] \<or> hd (snd s2) \<in> set number_ends"
    by (auto simp: readNumber_def)
  then have "fst (read s2) \<noteq> ch CHR '':''"
    by (cases "snd s2") (auto simp: read_def ReadRune_def number_ends_def)
  then have x: "\<exists>e. fst (expect CHR '':'' w s2 k) = Err e" for w k by (auto simp: expect_def split: prod.splits)
  show ?thesis
  proof (cases "c = ch CHR ''}'' \<or> bits \<notin> {8, 16, 32, 64}")
    case True
    with c d show ?thesis by (auto simp: p_bind_def parse_int_value_def Let_def)
  next
    case False
    with c d x parse_float_text_cases(2) [of E 64 d] show ?thesis by (auto simp: p_bind_def parse_int_value_def Let_def)
  qed
qed




text \<open>\<open>NewDataParser\<close> clears the flags of the descriptor it is given, so a second parser made from the same
  descriptor no longer takes \<open>NULL\<close>.\<close>

lemma NewDataParser_forgets_null:
  "NewDataParser demo_parse (snd (NewDataParser demo_parse nested_desc None)) None =
     (Ok (ArrayParser (IntParser True 8)), TypeDesc ''Array'' False [TypeDesc ''Int8'' False []])"
  by (simp add: nested_parser) (simp add: NewDataParser_def leaf_parser_def scalar_parser_def)

end
