(* ===== verification/Presign_Facts.thy ===== *)
theory Presign_Facts
  imports Presign
begin

text \<open>
  Facts about presigned uploads: the addresses that \<open>publicPresignIP\<close> accepts, as intervals of numbers,
  and what every dial and every request of an upload satisfies.
\<close>

subsection \<open>The reserved ranges\<close>

text \<open>The first and the last address of every range of the special-purpose registries that is refused.\<close>

definition dotted :: "nat \<Rightarrow> nat \<Rightarrow> nat \<Rightarrow> nat \<Rightarrow> nat" where
  "dotted a b c d = ((a * 256 + b) * 256 + c) * 256 + d"

definition special_v4 :: "(nat \<times> nat) list" where
  "special_v4 =
     [(dotted 0 0 0 0, dotted 0 255 255 255), (dotted 10 0 0 0, dotted 10 255 255 255),
      (dotted 100 64 0 0, dotted 100 127 255 255), (dotted 127 0 0 0, dotted 127 255 255 255),
      (dotted 169 254 0 0, dotted 169 254 255 255), (dotted 172 16 0 0, dotted 172 31 255 255),
      (dotted 192 0 0 0, dotted 192 0 0 255), (dotted 192 0 2 0, dotted 192 0 2 255),
      (dotted 192 168 0 0, dotted 192 168 255 255), (dotted 198 18 0 0, dotted 198 19 255 255),
      (dotted 198 51 100 0, dotted 198 51 100 255), (dotted 203 0 113 0, dotted 203 0 113 255),
      (dotted 224 0 0 0, dotted 255 255 255 255)]"

definition special_v6 :: "(nat \<times> nat) list" where
  "special_v6 =
     [(0x0, 0x1),
      (0x20010DB8000000000000000000000000, 0x20010DB8FFFFFFFFFFFFFFFFFFFFFFFF),
      (0xFC000000000000000000000000000000, 0xFDFFFFFFFFFFFFFFFFFFFFFFFFFFFFFF),
      (0xFE800000000000000000000000000000, 0xFEBFFFFFFFFFFFFFFFFFFFFFFFFFFFFF),
      (0xFF000000000000000000000000000000, 0xFFFFFFFFFFFFFFFFFFFFFFFFFFFFFFFF)]"

definition outside :: "(nat \<times> nat) list \<Rightarrow> nat \<Rightarrow> bool" where
  "outside ranges n \<longleftrightarrow> list_all (\<lambda>(first, last). n < first \<or> last < n) ranges"

subsection \<open>Bits as divisions\<close>

definition number :: "ip \<Rightarrow> nat" where
  "number bs = foldl (\<lambda>n b. n * 256 + unat b) 0 bs"

lemma number_snoc: "number (bs @ [b]) = number bs * 256 + unat b"
  by (simp add: number_def)

lemma number_bound: "number bs < 256 ^ length bs"
proof (induction bs rule: rev_induct)
  case (snoc b bs)
  have "unat b < 256" using unsigned_less [of b] by simp
  with snoc show ?case by (simp add: number_snoc)
qed (simp add: number_def)

lemma horner_number: "horner_sum uint 256 (rev bs) = int (number bs)"
  by (induction bs rule: rev_induct) (simp_all add: number_snoc, simp add: number_def)

lemma unat_rcat:
  "256 ^ length bs = (2 :: nat) ^ LENGTH('a) \<Longrightarrow> unat (word_rcat bs :: 'a :: len word) = number bs"
  using number_bound [of bs]
  by (simp add: word_rcat_def horner_number unat_of_nat)

lemma unat_drop: "unat (drop_bit k w) = unat w div 2 ^ k" for w :: "'a :: len word"
  by (simp only: unat_drop_bit_eq) (simp only: drop_bit_eq_div)

lemma xor_high: "drop_bit k (w XOR v) = 0 \<longleftrightarrow> unat w div 2 ^ k = unat v div 2 ^ k"
  for w v :: "'a :: len word"
proof -
  have "drop_bit k (w XOR v) = 0 \<longleftrightarrow> drop_bit k w = drop_bit k v"
    by (auto simp: bit_eq_iff bit_xor_iff bit_drop_bit_eq)
  also have "\<dots> \<longleftrightarrow> unat (drop_bit k w) = unat (drop_bit k v)" by (rule word_unat_eq_iff)
  finally show ?thesis by (simp only: unat_drop)
qed

lemma and_high: "x AND push_bit k (mask m) = push_bit k (x div 2 ^ k mod 2 ^ m)" for x :: nat
proof -
  have "x AND push_bit k (mask m) = push_bit k (take_bit m (drop_bit k x))"
    by (rule bit_eqI) (auto simp: bit_and_iff bit_push_bit_iff bit_mask_iff bit_take_bit_iff bit_drop_bit_eq)
  then show ?thesis by (simp add: take_bit_eq_mod drop_bit_eq_div)
qed

lemma div_interval: "0 < d \<Longrightarrow> x div d = c \<longleftrightarrow> c * d \<le> x \<and> x < (c + 1) * d" for x :: nat
  by (metis add.commute div_nat_eqI dividend_less_div_times div_times_less_eq_dividend mult.commute mult_Suc plus_1_eq_Suc times_div_less_eq_dividend)


lemma word_number: "w = v \<longleftrightarrow> unat w = unat v" for w v :: "'a :: len word"
  by (rule word_unat_eq_iff)

lemma below_32 [simp]: "unat (w :: 32 word) < 4294967296"
  using unsigned_less [of w] by simp

lemma below_128 [simp]: "unat (w :: 128 word) < 340282366920938463463374607431768211456"
  using unsigned_less [of w] by simp

lemmas high_masks =
  and_high [of _ 4 4, simplified mask_eq_exp_minus_1 push_bit_eq_mult, simplified]
  and_high [of _ 4 12, simplified mask_eq_exp_minus_1 push_bit_eq_mult, simplified]
  and_high [of _ 6 10, simplified mask_eq_exp_minus_1 push_bit_eq_mult, simplified]
  and_high [of _ 1 7, simplified mask_eq_exp_minus_1 push_bit_eq_mult, simplified]

lemma high_bits:
  "n < 4294967296 \<Longrightarrow> n div 16777216 div 16 mod 16 = n div 268435456"
  "n < 4294967296 \<Longrightarrow> n div 65536 div 16 mod 4096 = n div 1048576"
  "n < 2 ^ 128 \<Longrightarrow> n div 2 ^ 112 div 64 mod 1024 = n div 2 ^ 118"
  "n < 2 ^ 128 \<Longrightarrow> n div 2 ^ 120 div 2 mod 128 = n div 2 ^ 121" for n :: nat
  by (simp_all add: div_mult2_eq [symmetric] less_mult_imp_div_less)

lemmas addr_tests = IsLoopback_def IsMulticast_def IsLinkLocalUnicast_def IsPrivate_def

lemma v4_tests:
  fixes w :: "32 word"
  defines "n \<equiv> unat w"
  shows "IsLoopback (V4 w) \<longleftrightarrow> n div 16777216 = 127"
    "IsMulticast (V4 w) \<longleftrightarrow> n div 268435456 = 14"
    "IsLinkLocalUnicast (V4 w) \<longleftrightarrow> n div 65536 = 43518"
    "IsPrivate (V4 w) \<longleftrightarrow> n div 16777216 = 10 \<or> n div 1048576 = 2753 \<or> n div 65536 = 49320"
  by (auto simp: n_def addr_tests word_number unat_drop unsigned_and_eq high_masks high_bits)

lemma v6_tests:
  fixes w :: "128 word"
  defines "n \<equiv> unat w"
  shows "IsLoopback (V6 w) \<longleftrightarrow> n = 1"
    "IsMulticast (V6 w) \<longleftrightarrow> n div 2 ^ 120 = 255"
    "IsLinkLocalUnicast (V6 w) \<longleftrightarrow> n div 2 ^ 118 = 1018"
    "IsPrivate (V6 w) \<longleftrightarrow> n div 2 ^ 121 = 126"
  using high_bits(3,4) [of n] unsigned_less [of w]
  by (auto simp: n_def addr_tests word_number unat_drop unsigned_and_eq high_masks simp del: power_numeral)

definition miss :: "nat \<Rightarrow> nat \<Rightarrow> nat \<Rightarrow> bool" where
  "miss a b n \<longleftrightarrow> n < a \<or> b < n"

lemma div_miss: "0 < d \<Longrightarrow> n div d \<noteq> c \<longleftrightarrow> miss (c * d) (c * d + (d - 1)) n"
  by (auto simp: div_interval miss_def)

lemma prefix_numbers:
  "in_prefix (V4 v) k (V4 w) \<longleftrightarrow> unat w div 2 ^ (32 - k) = unat v div 2 ^ (32 - k)"
  "in_prefix (V6 v') k (V6 w') \<longleftrightarrow> unat w' div 2 ^ (128 - k) = unat v' div 2 ^ (128 - k)"
  "\<not> in_prefix (V6 v') k (V4 w)" "\<not> in_prefix (V4 v) k (V6 w')"
  by (simp_all only: in_prefix_def addr.case xor_high prod.case simp_thms)

lemma outside_simps:
  "outside [] n" "outside ((a, b) # rs) n \<longleftrightarrow> miss a b n \<and> outside rs n"
  by (simp_all add: outside_def miss_def)

lemma public_V4: "public_addr (V4 w) \<longleftrightarrow> outside special_v4 (unat w)"
proof -
  have e: "0 < unat w" if "miss 0 16777215 (unat w)" using that by (simp add: miss_def)
  have t: "miss 3758096384 4294967295 n \<longleftrightarrow> miss 3758096384 4026531839 n \<and> miss 4026531840 4294967295 n \<and> n \<noteq> 4294967295" for n
    by (auto simp: miss_def)
  have z: "0 < n div 16777216 \<longleftrightarrow> miss 0 16777215 n" for n :: nat
    using div_miss [of 16777216 n 0] by simp
  show ?thesis
    using e
    by (simp add: public_addr_def presign_blocks_def IsGlobalUnicast_def v4_tests prefix_numbers ipv4_def
        div_miss outside_simps special_v4_def dotted_def word_number t z) blast
qed

lemma public_V6: "public_addr (V6 w) \<longleftrightarrow> outside special_v6 (unat w)"
proof -
  have t: "miss 0 (Suc 0) n \<longleftrightarrow> 0 < n \<and> n \<noteq> Suc 0" for n by (auto simp: miss_def)
  show ?thesis
    by (simp add: public_addr_def presign_blocks_def IsGlobalUnicast_def v6_tests prefix_numbers ipv4_def
        div_miss outside_simps special_v6_def word_number t) blast
qed

subsection \<open>IPv4 addresses in their IPv6 form\<close>

lemma number_append: "number (as @ bs) = number as * 256 ^ length bs + number bs"
proof (induction bs rule: rev_induct)
  case (snoc b bs)
  have "number (as @ bs @ [b]) = number (as @ bs) * 256 + unat b" using number_snoc [of "as @ bs" b] by simp
  with snoc show ?case by (simp add: number_snoc algebra_simps)
qed (simp add: number_def)

lemma digit_unique: "a * 256 + x = b * 256 + y \<Longrightarrow> x < 256 \<Longrightarrow> y < 256 \<Longrightarrow> a = b \<and> x = y" for a x :: nat
  by (cases a b rule: linorder_cases) linarith+

lemma number_inj: "length as = length bs \<Longrightarrow> number as = number bs \<Longrightarrow> as = bs"
proof (induction as arbitrary: bs rule: rev_induct)
  case (snoc a as)
  then obtain b bs' where bs: "bs = bs' @ [b]" by (cases bs rule: rev_cases) auto
  have "unat a < 256" "unat b < 256" using unsigned_less [of a] unsigned_less [of b] by simp_all
  with snoc.prems bs have "number as = number bs' \<and> unat a = unat b"
    using digit_unique [of "number as" "unat a" "number bs'" "unat b"] by (simp only: number_snoc)
  with snoc.IH [of bs'] snoc.prems(1) bs word_number [of a b] show ?case by simp
qed simp

definition mapped_prefix :: ip where
  "mapped_prefix = [0, 0, 0, 0, 0, 0, 0, 0, 0, 0, 255, 255]"

lemma mapped_word:
  assumes "length bs = 16"
  defines "w \<equiv> word_rcat bs :: 128 word"
  shows "drop_bit 32 w = 0xFFFF \<longleftrightarrow> take 12 bs = mapped_prefix"
    and "unat (ucast w :: 32 word) = number (drop 12 bs)"
proof -
  have w: "unat w = number (take 12 bs) * 4294967296 + number (drop 12 bs)"
    using unat_rcat [of bs, where ?'a = 128] number_append [of "take 12 bs" "drop 12 bs"] assms(1) by (simp add: w_def)
  have b: "number (drop 12 bs) < 4294967296" using number_bound [of "drop 12 bs"] assms(1) by simp
  have "number mapped_prefix = 65535" by (simp add: mapped_prefix_def number_def)
  then have "number (take 12 bs) = 65535 \<longleftrightarrow> take 12 bs = mapped_prefix"
    using number_inj [of "take 12 bs" mapped_prefix] assms(1) by (auto simp: mapped_prefix_def)
  with w b show "drop_bit 32 w = 0xFFFF \<longleftrightarrow> take 12 bs = mapped_prefix"
    by (simp add: word_number unat_drop)
  from w b show "unat (ucast w :: 32 word) = number (drop 12 bs)"
    by (simp add: unsigned_ucast_eq take_bit_eq_mod)
qed

text \<open>C22: (public addresses) \<open>publicPresignIP\<close> accepts an address exactly when its number lies outside the
  refused ranges of its family: an IPv4 address, or one in the form \<open>::ffff:a.b.c.d\<close>, outside the IPv4
  ranges, any other IPv6 address outside the IPv6 ranges, and nothing that is not 4 or 16 bytes long. The
  bit tests and prefix matches of the code are thus the interval tests of the tables \<open>special_v4\<close> and
  \<open>special_v6\<close>.\<close>

theorem publicPresignIP_ranges:
  "publicPresignIP bs \<longleftrightarrow>
     length bs = 4 \<and> outside special_v4 (number bs)
     \<or> length bs = 16 \<and>
         (if take 12 bs = mapped_prefix then outside special_v4 (number (drop 12 bs))
          else outside special_v6 (number bs))"
proof -
  have "unat (word_rcat bs :: 32 word) = number bs" if "length bs = 4" 
    using unat_rcat [of bs, where ?'a = 32] that by simp
  moreover have "unat (word_rcat bs :: 128 word) = number bs" if "length bs = 16" 
    using unat_rcat [of bs, where ?'a = 128] that by simp
  ultimately show ?thesis
    by (auto simp: publicPresignIP_def AddrFromSlice_def Unmap_def public_V4 public_V6 mapped_word)
qed

text \<open>NAT64 and 6to4 addresses that embed the loopback address are public for the code.\<close>

lemma embedded_loopback_is_public:
  "publicPresignIP [0, 0x64, 0xFF, 0x9B, 0, 0, 0, 0, 0, 0, 0, 0, 127, 0, 0, 1]"
  "publicPresignIP [0x20, 2, 127, 0, 0, 1, 0, 0, 0, 0, 0, 0, 0, 0, 0, 0]"
  by (simp_all add: publicPresignIP_def AddrFromSlice_def Unmap_def public_V6 public_V4 mapped_word mapped_prefix_def
      unat_rcat number_def outside_def special_v6_def special_v4_def)

end
