(* ===== verification/Stage_Props.thy ===== *)
theory Stage_Props
  imports Stage_Invariant Presign_Facts Client_Props
begin

text \<open>
  Properties of uploads to a stage: where a presigned upload may go and what it may send, and that an
  upload through the API stays on the endpoint with the client's credentials.
\<close>

subsection \<open>What a presigned upload does to the outside\<close>

lemma dial_first_trace:
  "dial_first S port ips l = (r, l') \<Longrightarrow>
     \<exists>k \<le> length ips. l' = l @ map (\<lambda>ip. Dial ip port) (take k ips)
       \<and> (case r of Ok ip \<Rightarrow> 0 < k \<and> ip = ips ! (k - 1) | _ \<Rightarrow> True)"
proof (induction ips arbitrary: l)
  case (Cons ip ips)
  show ?case
  proof (cases "sg_connect S (l @ [Dial ip port])")
    case True
    with Cons.prems show ?thesis by (intro exI [of _ 1]) (auto simp: Let_def)
  next
    case False
    with Cons.prems have "dial_first S port ips (l @ [Dial ip port]) = (r, l')" by simp
    from Cons.IH [OF this] obtain k where "k \<le> length ips"
      "l' = l @ [Dial ip port] @ map (\<lambda>ip. Dial ip port) (take k ips)"
      "case r of Ok ip \<Rightarrow> 0 < k \<and> ip = ips ! (k - 1) | _ \<Rightarrow> True" by auto
    then show ?thesis
      by (intro exI [of _ "Suc k"]) (auto simp: nth_Cons' split: outcome.splits)
  qed
qed auto

text \<open>One lookup, then connection attempts to its answers in their order, then at most one request, to the
  answer that was dialled last; nothing is dialled unless every answer is admitted.\<close>

definition upload_trace :: "storage \<Rightarrow> bool \<Rightarrow> storage_log \<Rightarrow> request \<Rightarrow> int \<Rightarrow> storage_log \<Rightarrow> bool" where
  "upload_trace S allow l req len new \<longleftrightarrow>
     new = []
     \<or> (\<exists>host port ips k ups.
          new = Lookup host # map (\<lambda>ip. Dial ip port) (take k ips) @ ups \<and> k \<le> length ips
          \<and> (k = 0 \<or> sg_lookup S (l @ [Lookup host]) = Some ips
                \<and> (allow \<or> list_all (\<lambda>ip. publicPresignIP (ia_IP ip)) ips))
          \<and> (ups = [] \<or> 0 < k \<and> ups = [Upload (ips ! (k - 1)) req len]))"

lemma presign_dial_trace:
  assumes "presign_dial S allow address l = (r, l')"
  shows "\<exists>new. l' = l @ new \<and>
    (case r of
       Ok ip \<Rightarrow> upload_trace S allow l req len (new @ [Upload ip req len])
     | _ \<Rightarrow> upload_trace S allow l req len new)"
proof (cases "SplitHostPort address")
  case None
  with assms show ?thesis by (auto simp: presign_dial_def upload_trace_def)
next
  case (Some hp)
  obtain host port where hp: "hp = (host, port)" by (cases hp)
  have none: "upload_trace S allow l req len [Lookup host]"
    unfolding upload_trace_def by (intro disjI2 exI [of _ host] exI [of _ 0] exI [of _ "[]"] exI) auto
  show ?thesis
  proof (cases "\<exists>ips. sg_lookup S (l @ [Lookup host]) = Some ips \<and> ips \<noteq> []
      \<and> \<not> list_ex (\<lambda>ip. \<not> allow \<and> \<not> publicPresignIP (ia_IP ip)) ips")
    case True
    then obtain ips where ips: "sg_lookup S (l @ [Lookup host]) = Some ips" "ips \<noteq> []"
      "\<not> list_ex (\<lambda>ip. \<not> allow \<and> \<not> publicPresignIP (ia_IP ip)) ips" by blast
    with assms Some hp have d: "dial_first S port ips (l @ [Lookup host]) = (r, l')"
      by (simp add: presign_dial_def)
    from dial_first_trace [OF d] obtain k where k: "k \<le> length ips"
      "l' = l @ Lookup host # map (\<lambda>ip. Dial ip port) (take k ips)"
      "case r of Ok ip \<Rightarrow> 0 < k \<and> ip = ips ! (k - 1) | _ \<Rightarrow> True" by auto
    have a: "allow \<or> list_all (\<lambda>ip. publicPresignIP (ia_IP ip)) ips"
      using ips(3) by (auto simp: list_ex_iff list_all_iff)
    have t: "upload_trace S allow l req len (Lookup host # map (\<lambda>ip. Dial ip port) (take k ips) @ ups)"
      if "ups = [] \<or> 0 < k \<and> ups = [Upload (ips ! (k - 1)) req len]" for ups
      using that k(1) ips(1) a unfolding upload_trace_def
      by (intro disjI2 exI [of _ host] exI [of _ port] exI [of _ ips] exI [of _ k] exI [of _ ups]) auto
    from k(2,3) t [of "[]"] t [of "[Upload (ips ! (k - 1)) req len]"] show ?thesis by (auto split: outcome.splits)
  next
    case False
    with assms Some hp have "l' = l @ [Lookup host]" "\<not> is_ok r"
      by (auto simp: presign_dial_def Let_def split: option.splits if_splits)
    with none show ?thesis by (cases r) auto
  qed
qed

lemma presign_do_trace:
  assumes "presign_do S allow cancelled req len l = (status, l')"
  shows "\<exists>new. l' = l @ new \<and> upload_trace S allow l req len new
    \<and> (case status of Some c \<Rightarrow> (\<exists>ip. new \<noteq> [] \<and> last new = Upload ip req len) \<and> sg_answer S l' = Some c | None \<Rightarrow> True)"
proof (cases "\<not> list_all valid_field (rq_Header req) \<or> cancelled")
  case True
  with assms show ?thesis by (auto simp: presign_do_def upload_trace_def)
next
  case False
  obtain r l1 where d: "presign_dial S allow (dial_address S (rq_URL req)) l = (r, l1)" by fastforce
  from presign_dial_trace [OF d, of req len] obtain new where new: "l1 = l @ new"
    "case r of Ok ip \<Rightarrow> upload_trace S allow l req len (new @ [Upload ip req len])
       | _ \<Rightarrow> upload_trace S allow l req len new" by blast
  with False d assms show ?thesis
    by (cases r) (auto simp: presign_do_def Let_def split: option.splits)
qed

lemma foldl_headers:
  "set (foldl (\<lambda>h (k, v). header_set k v h) h kvs) \<subseteq> set h \<union> (\<lambda>(k, v). (canonical_key k, v)) ` set kvs"
proof (induction kvs arbitrary: h)
  case (Cons kv kvs)
  obtain k v where "kv = (k, v)" by (cases kv)
  with Cons [of "header_set k v h"] show ?case by (auto simp: header_set_def)
qed simp

text \<open>The request of a presigned upload.\<close>

definition presigned_request :: "storage \<Rightarrow> bool \<Rightarrow> presigned_response \<Rightarrow> string \<Rightarrow> request \<Rightarrow> bool" where
  "presigned_request S allow presigned input req \<longleftrightarrow>
     rq_Method req = ''PUT'' \<and> rq_Body req = UploadBody input \<and> rq_Cookies req = []
     \<and> (Scheme (rq_URL req) = ''https'' \<or> allow \<and> Scheme (rq_URL req) = ''http'')
     \<and> hostname (Host (rq_URL req)) \<noteq> [] \<and> User (rq_URL req) = None
     \<and> set (rq_Header req) \<subseteq> (\<lambda>(k, v). (canonical_key k, v)) ` set (sg_order S (pr_Headers presigned))"

lemma presignRequest_ok:
  assumes "presignRequest S p input = Some req" "validatePresignURL (rq_URL req) allow = None"
  shows "presigned_request S allow p input req"
  using assms foldl_headers [of "[]" "sg_order S (pr_Headers p)"]
  by (cases "User (rq_URL req)") (auto simp: presignRequest_def presigned_request_def validatePresignURL_def split: outcome.splits if_splits)

text \<open>C7: (presigned uploads) Whatever URL, headers and name service a presigned upload meets: it asks the
  resolver at most once, dials only addresses of that one answer, and none at all unless every address
  of it is public or the client allows private ones; it sends at most one request (redirects are not
  followed), to the address dialled last, over HTTPS unless private storage is allowed, with the input
  as its body and with no header that the server did not presign: no credentials of the client and no
  cookies. It succeeds only if that request was sent and answered with a 2xx status.\<close>

theorem presigned_upload_guarded:
  "case UploadToStageByPresignURL E S ctx stage input len (s, l) of
     (r, s', l') \<Rightarrow>
       \<exists>new. l' = l @ new
         \<and> (new = [] \<or>
            (\<exists>p req. GetPresignedURL E ctx stage s = (Ok p, s')
               \<and> presigned_request S (PresignAllowPrivate (cl s')) p input req
               \<and> upload_trace S (PresignAllowPrivate (cl s')) l req len new))
         \<and> (case r of
              Ok _ \<Rightarrow> (\<exists>ip req status. last new = Upload ip req len \<and> new \<noteq> []
                        \<and> sg_answer S l' = Some status \<and> 200 \<le> status \<and> status < 300)
            | _ \<Rightarrow> True)"
proof -
  obtain pr s1 where g: "GetPresignedURL E ctx stage s = (pr, s1)" by fastforce
  show ?thesis
  proof (cases "\<exists>p req. pr = Ok p \<and> presignRequest S p input = Some req
      \<and> validatePresignURL (rq_URL req) (PresignAllowPrivate (cl s1)) = None")
    case True
    then obtain p req where p: "pr = Ok p" "presignRequest S p input = Some req"
      "validatePresignURL (rq_URL req) (PresignAllowPrivate (cl s1)) = None" by blast
    obtain st l1 where d: "presign_do S (PresignAllowPrivate (cl s1)) (cx_Done ctx (now s1) \<noteq> None) req len l = (st, l1)"
      by fastforce
    from presign_do_trace [OF d] obtain new where new: "l1 = l @ new"
      "upload_trace S (PresignAllowPrivate (cl s1)) l req len new"
      "case st of Some c \<Rightarrow> (\<exists>ip. new \<noteq> [] \<and> last new = Upload ip req len) \<and> sg_answer S l1 = Some c | None \<Rightarrow> True" by blast
    from presignRequest_ok [OF p(2,3)] new g p d show ?thesis
      by (auto simp: UploadToStageByPresignURL_def split: option.splits)
  next
    case False
    with g show ?thesis
      by (auto simp: UploadToStageByPresignURL_def split: outcome.splits option.splits)
  qed
qed

subsection \<open>Uploads through the API\<close>

definition upload_header :: "string \<Rightarrow> stage_location \<Rightarrow> header \<Rightarrow> bool" where
  "upload_header bd stage h \<longleftrightarrow>
     header_lookup h ''stage_name'' = Some (sl_Name stage)
     \<and> header_lookup h contentType = Some (''multipart/form-data; boundary='' @ bd)"

text \<open>Such an upload changes nothing but the log, and the number of token loads.\<close>

lemma UploadToStageByAPI_state:
  obtains "snd (UploadToStageByAPI E bd ctx stage input s) = s"
  | s1 where "snd (UploadToStageByAPI E bd ctx stage input s) = s1" "silent s s1" "cl s1 = cl s" "net s1 = net s"
  | req s1 where "snd (UploadToStageByAPI E bd ctx stage input s) = snd (client_do E False req s1)"
      "silent s s1" "cl s1 = cl s" "net s1 = net s" "authorized (cl s) (rq_Header req)" "upload_header bd stage (rq_Header req)"
proof (cases "\<exists>url req. makeURL (e_quoted E) (apiEndpoint (cl s)) ''/v1/upload_to_stage'' = Ok url
    \<and> newRequest E (cl s) ''PUT'' url (UploadBody (multipart_file bd (sl_Path stage) input)) [] = Ok req")
  case False
  then have "snd (UploadToStageByAPI E bd ctx stage input s) = s"
    by (auto simp: UploadToStageByAPI_def split: outcome.splits)
  then show thesis by (rule that(1))
next
  case True
  then obtain url req where u: "makeURL (e_quoted E) (apiEndpoint (cl s)) ''/v1/upload_to_stage'' = Ok url"
    "newRequest E (cl s) ''PUT'' url (UploadBody (multipart_file bd (sl_Path stage) input)) [] = Ok req" by blast
  obtain hr s1 where h: "makeHeaders E ctx s = (hr, s1)" by fastforce
  have k: "silent s s1" "cl s1 = cl s" "net s1 = net s"
    using silent_makeHeaders [of s E ctx] makeHeaders_keeps [of E ctx s] h
    by (auto simp: makeHeaders_def Let_def LoadAccessToken_def split: auth_method.splits option.splits prod.splits outcome.splits)
  show thesis
  proof (cases hr)
    case (Ok h0)
    let ?req = "uploadRequest bd stage h0 req"
    have "snd (UploadToStageByAPI E bd ctx stage input s) = snd (client_do E False ?req s1)"
      using u h Ok by (auto simp: UploadToStageByAPI_def split: prod.split outcome.split)
    moreover have "authorized (cl s) (rq_Header ?req)"
      using authorized_makeHeaders [of E ctx s h0 s1] h Ok by (simp add: uploadRequest_def authorized_def)
    moreover have "upload_header bd stage (rq_Header ?req)" by (simp add: uploadRequest_def upload_header_def)
    ultimately show thesis using that(3) k by blast
  next
    case (Err e)
    then show thesis using u h k by (intro that(2) [of s1]) (simp_all add: UploadToStageByAPI_def)
  next
    case (Panic e)
    then show thesis using u h k by (intro that(2) [of s1]) (simp_all add: UploadToStageByAPI_def)
  qed
qed

lemma http_do_jar: "ns_Jar (snd (http_do q N policy False n via req ns)) = ns_Jar ns"
proof (induction n arbitrary: via req ns)
  case (Suc n)
  then show ?case by (auto simp: Let_def split: reply.split option.split)
qed simp

lemma client_do_jar: "ns_Jar (net (snd (client_do E False req s))) = ns_Jar (net s)"
  by (simp add: client_do_def case_prod_beta Let_def http_do_jar)


text \<open>An upload through the API does not look at its context: with a
  context that is cancelled it does all that it does with one that is not, token load, request and
  answer alike, while every other call of the client stops with \<open>context done\<close> before it sends.\<close>

lemma api_upload_ignores_cancellation:
  "UploadToStageByAPI E bd (ctx\<lparr>cx_Done := \<lambda>_. Some CtxCanceled\<rparr>) stage input s
     = UploadToStageByAPI E bd ctx stage input s
   \<and> exchange E (ctx\<lparr>cx_Done := \<lambda>_. Some CtxCanceled\<rparr>) m url b h s
     = (Err (EWrap ''context done'' (ESentinel CtxCanceled)), s)"
proof -
  have h: "makeHeaders E (ctx\<lparr>cx_Done := d\<rparr>) s = makeHeaders E ctx s" for d
    by (simp add: makeHeaders_def baseHeaders_def)
  show ?thesis unfolding UploadToStageByAPI_def h by (simp add: exchange_def)
qed


end
