(* ===== verification/Batch_Facts.thy ===== *)
theory Batch_Facts
  imports Batch Stage_Props
begin

text \<open>
  Facts about batches: a reader for CSV that inverts the writer, and what the temporary file holds while
  rows are appended to it.
\<close>

subsection \<open>Reading CSV\<close>

text \<open>A reader after RFC 4180 for texts whose lines end in a newline: the state, the field and the recordord
  read so far.\<close>

datatype csv_state = FieldStart | Plain | Quoted | QuoteInQuoted

fun csv_read :: "csv_state \<Rightarrow> string \<Rightarrow> string list \<Rightarrow> string \<Rightarrow> string list list option" where
  "csv_read st f rec [] = (if st = FieldStart \<and> rec = [] then Some [] else None)"
| "csv_read st f rec (c # s) =
     (let separate = (\<lambda>f. if c = CHR '','' then csv_read FieldStart [] (rec @ [f]) s
                          else map_option ((#) (rec @ [f])) (csv_read FieldStart [] [] s));
          ends = (c = CHR '','' \<or> c = CHR 0x0A)
      in case st of
           FieldStart \<Rightarrow>
             if c = CHR 0x22 then csv_read Quoted [] rec s
             else if ends then separate [] else csv_read Plain [c] rec s
         | Plain \<Rightarrow> if ends then separate f else csv_read Plain (f @ [c]) rec s
         | Quoted \<Rightarrow> if c = CHR 0x22 then csv_read QuoteInQuoted f rec s else csv_read Quoted (f @ [c]) rec s
         | QuoteInQuoted \<Rightarrow>
             if c = CHR 0x22 then csv_read Quoted (f @ [c]) rec s
             else if ends then separate f else None)"

lemma read_quoted:
  "csv_read Quoted f rec (csv_escape t @ CHR 0x22 # s) = csv_read QuoteInQuoted (f @ t) rec s"
  by (induction t arbitrary: f) (auto simp: Let_def)

lemma read_plain:
  "list_all (\<lambda>c. c \<notin> {CHR '','', CHR 0x0A}) t \<Longrightarrow> csv_read Plain f rec (t @ s) = csv_read Plain (f @ t) rec s"
  by (induction t arbitrary: f) (auto simp: Let_def)

lemma read_field:
  assumes "c \<in> {CHR '','', CHR 0x0A}"
  shows "csv_read FieldStart [] rec (csv_field t @ c # s) =
    (if c = CHR '','' then csv_read FieldStart [] (rec @ [t]) s
     else map_option ((#) (rec @ [t])) (csv_read FieldStart [] [] s))"
proof (cases "fieldNeedsQuotes t")
  case True
  with assms show ?thesis by (auto simp: csv_field_def read_quoted Let_def)
next
  case q: False
  show ?thesis
  proof (cases t)
    case Nil
    with q assms show ?thesis by (auto simp: csv_field_def Let_def)
  next
    case (Cons x t')
    with q have "list_all (\<lambda>c. c \<notin> {CHR '','', CHR 0x0A}) t'" "x \<noteq> CHR '',''" "x \<noteq> CHR 0x0A" "x \<noteq> CHR 0x22"
      by (auto simp: fieldNeedsQuotes_def list_ex_iff list_all_iff)
    with Cons q assms read_plain [of t' "[x]" rec "c # s"] show ?thesis
      by (auto simp: csv_field_def Let_def)
  qed
qed

lemma read_fields:
  "fs \<noteq> [] \<Longrightarrow>
     csv_read FieldStart [] rec (join '','' (map csv_field fs) @ CHR 0x0A # s) =
       map_option ((#) (rec @ fs)) (csv_read FieldStart [] [] s)"
proof (induction fs arbitrary: rec)
  case (Cons t fs)
  show ?case
  proof (cases "fs = []")
    case True
    then show ?thesis by (simp add: read_field)
  next
    case False
    with Cons.IH [OF False, of "rec @ [t]"] show ?thesis by (simp add: join_Cons read_field)
  qed
qed simp

definition csv_text :: "string list list \<Rightarrow> string" where
  "csv_text records = concat (map csv_line records)"

lemma csv_text_simps [simp]:
  "csv_text [] = []" "csv_text (r # rs) = csv_line r @ csv_text rs" "csv_text (rs @ [r]) = csv_text rs @ csv_line r"
  by (simp_all add: csv_text_def)

lemma csv_read_text:
  "list_all (\<lambda>r. r \<noteq> []) records \<Longrightarrow> csv_read FieldStart [] [] (csv_text records) = Some records"
  by (induction records) (simp_all add: csv_line_def read_fields)

subsection \<open>The temporary file\<close>

definition batch_file :: "env \<Rightarrow> batch_env \<Rightarrow> batch_state \<Rightarrow> string" where
  "batch_file E B bs = de_TempDir (be_disk B) @ ''/'' @ e_uuid E (dc_uuids (bs_conn bs)) @ ''.csv''"

lemma disk_op_files [simp]: "dk_Files (disk_op d) = dk_Files d"
  by (simp add: disk_op_def)

lemma OpenFile_ok:
  assumes "OpenFile D name d = (Ok x, d')"
  shows "dk_Files d' = (dk_Files d)(name \<mapsto> (case dk_Files d name of Some t \<Rightarrow> t | None \<Rightarrow> []))"
  using assms by (auto simp: OpenFile_def fun_upd_idem_iff split: option.splits)

lemma WriteLine_written:
  "de_Write D (dk_Ops d) = Written \<Longrightarrow> WriteLine D name line d = (Ok (), disk_op (append_file name line d))"
  by (simp add: WriteLine_def)

lemma append_rows_ok:
  assumes "append_rows F D b rows d = (Ok x, d')" "\<And>n. de_Write D n = Written" "dk_Files d (hb_batchFile b) = Some t"
  shows "\<exists>records. go_mapM (go_mapM (csv_value F)) rows = Ok records
    \<and> dk_Files d' = (dk_Files d)(hb_batchFile b \<mapsto> t @ csv_text records)"
  using assms(1,3)
proof (induction rows arbitrary: d t)
  case Nil
  then show ?case by (auto simp: csv_text_def fun_upd_idem_iff)
next
  case (Cons row rows)
  obtain y d1 where a: "AppendToFile F D b row d = (Ok y, d1)" "append_rows F D b rows d1 = (Ok x, d')"
    using Cons.prems(1) by (auto split: prod.splits outcome.splits)
  then obtain u d0 fs where o: "OpenFile D (hb_batchFile b) d = (Ok u, d0)"
    "go_mapM (csv_value F) row = Ok fs" "d1 = disk_op (append_file (hb_batchFile b) (csv_line fs) d0)"
    using assms(2) by (auto simp: AppendToFile_def WriteLine_def split: prod.splits outcome.splits)
  from OpenFile_ok [OF o(1)] Cons.prems(2) have "dk_Files d0 = dk_Files d" by (simp add: fun_upd_idem_iff)
  with o(3) Cons.prems(2) have d1: "dk_Files d1 = (dk_Files d)(hb_batchFile b \<mapsto> t @ csv_line fs)"
    by (simp add: append_file_def)
  then have p: "dk_Files d1 (hb_batchFile b) = Some (t @ csv_line fs)" by simp
  from Cons.IH [OF a(2) p] obtain records where r: "go_mapM (go_mapM (csv_value F)) rows = Ok records"
    "dk_Files d' = (dk_Files d1)(hb_batchFile b \<mapsto> (t @ csv_line fs) @ csv_text records)" by blast
  have "dk_Files d' = (dk_Files d)(hb_batchFile b \<mapsto> t @ csv_text (fs # records))"
    unfolding r(2) d1 fun_upd_upd by simp
  with r(1) o(2) show ?case by (intro exI [of _ "fs # records"]) simp
qed

lemma append_rows_keeps:
  "dk_Files d name \<noteq> None \<Longrightarrow> dk_Files (snd (append_rows F D b rows d)) name \<noteq> None"
proof (induction rows arbitrary: d)
  case (Cons row rows)
  obtain r d1 where a: "AppendToFile F D b row d = (r, d1)" by fastforce
  have "dk_Files d1 name \<noteq> None"
    using a Cons.prems
    by (auto simp: AppendToFile_def OpenFile_def WriteLine_def append_file_def
        split: prod.splits outcome.splits option.splits write_result.splits if_splits)
  with Cons.IH [OF this] a show ?case by (auto split: outcome.split)
qed simp

lemma prepareBatch_ok:
  assumes "prepareBatch E B ctx sql bs = (Ok b, bs1)"
  shows "hb_batchFile b = batch_file E B bs" "hb_query b = sql" "hb_ctx b = ctx" "bs_log bs1 = bs_log bs"
    "bs_conn bs1 = (bs_conn bs)\<lparr>dc_uuids := Suc (dc_uuids (bs_conn bs))\<rparr>"
    "dk_Files (bs_disk bs1) = (dk_Files (bs_disk bs))(batch_file E B bs \<mapsto>
       (case dk_Files (bs_disk bs) (batch_file E B bs) of Some t \<Rightarrow> t | None \<Rightarrow> []))"
  using assms OpenFile_ok [of "be_disk B" "batch_file E B bs" "bs_disk bs"]
  by (auto simp: prepareBatch_def batch_file_def Let_def go_bind_eq_Ok split: if_splits prod.splits)

subsection \<open>What an upload delivers\<close>

lemma http_do_first:
  "0 < n \<Longrightarrow> \<exists>r. r \<in> set (ns_Sent (snd (http_do q N policy usejar n via req ns))) \<and> rq_Body r = rq_Body req"
proof (cases n)
  case (Suc m)
  let ?r = "req\<lparr>rq_Cookies := (if usejar then Cookies (ns_Jar ns) else [])\<rparr>"
  have "?r \<in> set (ns_Sent (snd (http_do q N policy usejar m via' req' \<lparr>ns_Jar = j, ns_Sent = ns_Sent ns @ [?r]\<rparr>)))"
    for via' req' j
    using http_do_prefix [of "\<lparr>ns_Jar = j, ns_Sent = ns_Sent ns @ [?r]\<rparr>" q N policy usejar m via' req']
    by (auto dest: set_mono_prefix)
  with Suc show ?thesis
    by (intro exI [of _ ?r]) (auto simp: Let_def split: reply.split option.split)
qed simp

lemma client_do_first:
  "\<exists>r. r \<in> set (ns_Sent (net (snd (client_do E usejar req s)))) \<and> rq_Body r = rq_Body req"
  using http_do_first [of redirect_fuel "e_quoted E" "e_net E" _ usejar "[]" req "net s"]
  by (simp add: client_do_def case_prod_beta Let_def redirect_fuel_def)

definition delivered :: "string \<Rightarrow> storage_log \<Rightarrow> st \<Rightarrow> bool" where
  "delivered text l s \<longleftrightarrow>
     (\<exists>l0 ip req. l = l0 @ [Upload ip req (int (length text))] \<and> rq_Body req = UploadBody text)
     \<or> (\<exists>bd path req. req \<in> set (ns_Sent (net s)) \<and> rq_Body req = UploadBody (multipart_file bd path text))"

lemma delivered_later: "delivered text l s \<Longrightarrow> prefix (ns_Sent (net s)) (ns_Sent (net s')) \<Longrightarrow> delivered text l s'"
  unfolding delivered_def using set_mono_prefix [of "ns_Sent (net s)" "ns_Sent (net s')"] by blast

lemma api_delivers:
  assumes "UploadToStageByAPI E bd ctx stage text s = (Ok u, s')"
  shows "delivered text l s'"
proof -
  from assms obtain url req h s1 where r: "newRequest E (cl s) ''PUT'' url (UploadBody (multipart_file bd (sl_Path stage) text)) [] = Ok req"
    "s' = snd (client_do E False (uploadRequest bd stage h req) s1)"
    by (auto simp: UploadToStageByAPI_def split: outcome.splits prod.splits) (metis snd_conv)+
  have "rq_Body (uploadRequest bd stage h req) = UploadBody (multipart_file bd (sl_Path stage) text)"
    using r(1) by (auto simp: newRequest_def uploadRequest_def split: outcome.splits)
  with client_do_first [of E False "uploadRequest bd stage h req" s1] r(2) show ?thesis
    unfolding delivered_def by metis
qed

lemma upload_delivers:
  assumes "UploadToStage E S bd ctx stage text (int (length text)) (s, l) = (Ok u, s', l')"
  shows "delivered text l' s'"
proof (cases "PresignedURLDisabled (cl s)")
  case True
  with assms show ?thesis by (auto simp: UploadToStage_def split: prod.splits dest: api_delivers)
next
  case False
  with assms have "UploadToStageByPresignURL E S ctx stage text (int (length text)) (s, l) = (Ok u, s', l')"
    by (simp add: UploadToStage_def)
  then obtain req status cancelled p where d:
    "presign_do S (PresignAllowPrivate (cl s')) cancelled req (int (length text)) l = (Some status, l')"
    "presignRequest S p text = Some req"
    by (auto simp: UploadToStageByPresignURL_def split: outcome.splits prod.splits option.splits if_splits)
  from presign_do_trace [OF d(1)] obtain new ip where "l' = l @ new" "new \<noteq> []" "last new = Upload ip req (int (length text))"
    by auto
  then have "l' = (l @ butlast new) @ [Upload ip req (int (length text))]" by (metis append_assoc append_butlast_last_id)
  moreover have "rq_Body req = UploadBody text" using d(2) by (auto simp: presignRequest_def split: outcome.splits)
  ultimately show ?thesis unfolding delivered_def by blast
qed

lemma ReadFile_files: "ReadFile D what name d = (r, d') \<Longrightarrow> dk_Files d' = dk_Files d"
  by (auto simp: ReadFile_def split: option.splits)

lemma ReadFile_text: "ReadFile D what name d = (Ok t, d') \<Longrightarrow> dk_Files d name = Some t"
  by (auto simp: ReadFile_def split: option.splits)

lemma batch_Upload_ok:
  assumes "batch_Upload E B b ctx0 bs = (Ok stage, bs1)" "dk_Files (bs_disk bs) (hb_batchFile b) = Some text"
  shows "\<exists>ctx bd s. UploadToStage E (be_storage B) bd ctx stage text (int (length text)) (s, bs_log bs)
      = (Ok (), dc_st (bs_conn bs1), bs_log bs1)"
    and "dc_rest (bs_conn bs1)"
proof -
  obtain ctx dc where c: "checkQueryID E ctx0 (bs_conn bs) = (ctx, dc)" by fastforce
  obtain t1 d1 where f1: "ReadFile (be_disk B) ''stat'' (hb_batchFile b) (bs_disk bs) = (Ok t1, d1)"
    using assms(1) c by (auto simp: batch_Upload_def Let_def split: outcome.splits prod.splits)
  obtain t2 d2 where f2: "ReadFile (be_disk B) ''open'' (hb_batchFile b) d1 = (Ok t2, d2)"
    using assms(1) c f1 by (auto simp: batch_Upload_def Let_def split: outcome.splits prod.splits)
  have t: "t1 = text" "t2 = text"
    using ReadFile_text [OF f1] ReadFile_text [OF f2] ReadFile_files [OF f1] assms(2) by auto
  have rest: "dc_rest dc" using assms(1) c f1 f2 by (auto simp: batch_Upload_def Let_def split: if_splits)
  obtain r s' l' where u: "UploadToStage E (be_storage B) (be_boundary B (dk_Ops d2)) ctx
      (batch_stage B b (dk_Ops d2)) text (int (length text)) (dc_st dc, bs_log bs) = (r, s', l')"
    using prod_cases3 by blast
  from assms(1) c f1 f2 t rest u have
    "go_bind r (\<lambda>_. Ok (batch_stage B b (dk_Ops d2))) = Ok stage"
    "bs1 = bs\<lparr>bs_disk := d2, bs_conn := dc\<lparr>dc_st := s'\<rparr>, bs_log := l'\<rparr>"
    by (auto simp: batch_Upload_def Let_def)
  with u rest show "\<exists>ctx bd s. UploadToStage E (be_storage B) bd ctx stage text (int (length text)) (s, bs_log bs)
      = (Ok (), dc_st (bs_conn bs1), bs_log bs1)" "dc_rest (bs_conn bs1)"
    by (auto simp: go_bind_eq_Ok)
qed

end
