(* ===== verification/Batch_Props.thy ===== *)
theory Batch_Props
  imports Batch_Facts Connection_Props
begin

text \<open>
  Properties of batches: the rows of a successful batch reach the stage as CSV, in order, and are inserted
  from there; what is lost when a write or an encoding fails.
\<close>

lemma RemoveAll_files:
  "de_Fails D (dk_Ops d) = None \<Longrightarrow> dk_Files (RemoveAll D name d) = (dk_Files d)(name := None)"
  by (simp add: RemoveAll_def)

lemma batch_Upload_files: "batch_Upload E B b ctx bs = (r, bs1) \<Longrightarrow> dk_Files (bs_disk bs1) = dk_Files (bs_disk bs)"
  by (auto simp: batch_Upload_def Let_def split: prod.splits outcome.splits if_splits dest!: ReadFile_files)

lemma BatchInsert_ok:
  assumes "BatchInsert E B b bs = (Ok u, bs')" "dk_Files (bs_disk bs) (hb_batchFile b) = Some text"
    and "\<And>n. de_Fails (be_disk B) n = None"
  obtains ctx bd stage s s1 resp where
    "UploadToStage E (be_storage B) bd ctx stage text (int (length text)) (s, bs_log bs) = (Ok (), s1, bs_log bs')"
    "InsertWithStage E (hb_ctx b) (hb_query b) (Some stage) None None s1 = (Ok resp, dc_st (bs_conn bs'))"
    "dk_Files (bs_disk bs') = (dk_Files (bs_disk bs))(hb_batchFile b := None)"
proof -
  obtain stage bs1 where up: "batch_Upload E B b Background bs = (Ok stage, bs1)"
    using assms(1) by (auto simp: BatchInsert_def Let_def split: prod.splits outcome.splits)
  note u = batch_Upload_ok [OF up assms(2)]
  obtain ir s2 where i: "InsertWithStage E (hb_ctx b) (hb_query b) (Some stage) None None (dc_st (bs_conn bs1)) = (ir, s2)"
    by fastforce
  from assms(1) up u(2) i have "is_ok ir" and bs': "bs' = bs1\<lparr>bs_conn := (bs_conn bs1)\<lparr>dc_st := s2\<rparr>,
      bs_disk := RemoveAll (be_disk B) (hb_batchFile b) (bs_disk bs1)\<rparr>"
    by (auto simp: BatchInsert_def Let_def with_rest_def split: outcome.splits)
  then obtain resp where "ir = Ok resp" by (auto simp: is_ok_iff)
  with i u(1) bs' batch_Upload_files [OF up] RemoveAll_files [OF assms(3)] that show thesis by auto
qed

text \<open>C8: (batches) When \<open>ExecBatch\<close> returns without an error, on a disk that works, all rows have been
  handed over: each value was turned into a field, the temporary file with one CSV line per row, in order,
  was what the upload sent to the stage (over a presigned URL or through the API), and the statement was run
  on that very stage location. A CSV reader gets exactly the fields of the rows back from the text that
  was sent. The result counts all rows, and the temporary file is gone.\<close>

theorem ExecBatch_delivers_rows:
  assumes "retry_documented (e_retry E)" "ExecBatch E F B ctx sql rows bs = (Ok r, bs')"
    and "\<And>n. de_Write (be_disk B) n = Written" "\<And>n. de_Fails (be_disk B) n = None"
    and "dk_Files (bs_disk bs) (batch_file E B bs) = None" "list_all (\<lambda>row. row \<noteq> []) rows"
  shows "\<exists>records uctx bd stage s0 s1 resp.
     go_mapM (go_mapM (csv_value F)) rows = Ok records
     \<and> csv_read FieldStart [] [] (csv_text records) = Some records
     \<and> UploadToStage E (be_storage B) bd uctx stage (csv_text records) (int (length (csv_text records)))
         (s0, bs_log bs) = (Ok (), s1, bs_log bs')
     \<and> InsertWithStage E ctx sql (Some stage) None None s1 = (Ok resp, dc_st (bs_conn bs'))
     \<and> delivered (csv_text records) (bs_log bs') (dc_st (bs_conn bs'))
     \<and> RowsAffected r = (int (length rows), None)
     \<and> dk_Files (bs_disk bs') = dk_Files (bs_disk bs)"
proof -
  obtain b bs1 where p: "prepareBatch E B ctx sql bs = (Ok b, bs1)"
    using assms(2) by (auto simp: ExecBatch_def split: prod.splits outcome.splits)
  note p' = prepareBatch_ok [OF p]
  obtain u d where a: "append_rows F (be_disk B) b rows (bs_disk bs1) = (Ok u, d)"
    using assms(2) p by (auto simp: ExecBatch_def split: prod.splits outcome.splits)
  have e: "dk_Files (bs_disk bs1) (hb_batchFile b) = Some []" using p' assms(5) by simp
  from append_rows_ok [OF a assms(3) e] obtain records where r: "go_mapM (go_mapM (csv_value F)) rows = Ok records"
    "dk_Files d = (dk_Files (bs_disk bs1))(hb_batchFile b \<mapsto> csv_text records)" by auto
  obtain v where i: "BatchInsert E B b (bs1\<lparr>bs_disk := d\<rparr>) = (Ok v, bs')" "r = newLakeResult (int (length rows)) 0"
    using assms(2) p a by (auto simp: ExecBatch_def go_bind_eq_Ok split: prod.splits)
  have t: "dk_Files (bs_disk (bs1\<lparr>bs_disk := d\<rparr>)) (hb_batchFile b) = Some (csv_text records)" using r(2) by simp
  obtain uctx bd stage s0 s1 resp where n:
    "UploadToStage E (be_storage B) bd uctx stage (csv_text records) (int (length (csv_text records))) (s0, bs_log bs)
       = (Ok (), s1, bs_log bs')"
    "InsertWithStage E ctx sql (Some stage) None None s1 = (Ok resp, dc_st (bs_conn bs'))"
    "dk_Files (bs_disk bs') = (dk_Files d)(hb_batchFile b := None)"
    by (rule BatchInsert_ok [OF i(1) t assms(4)]) (rule that, simp_all add: p')
  have "prefix (ns_Sent (net s1)) (ns_Sent (net (dc_st (bs_conn bs'))))"
    using log.InsertWithStage_inv [OF assms(1), of "ns_Sent (net s1)" s1 ctx sql "Some stage" None None] n(2) by simp
  with upload_delivers [OF n(1)] have "delivered (csv_text records) (bs_log bs') (dc_st (bs_conn bs'))"
    by (rule delivered_later)
  moreover have "list_all (\<lambda>r. r \<noteq> []) records"
    using assms(6) go_mapM_Ok_nth [OF r(1)] go_mapM_Ok_length [OF r(1)] go_mapM_Ok_length [of "csv_value F"]
    by (fastforce simp: list_all_length)
  then have "csv_read FieldStart [] [] (csv_text records) = Some records" by (rule csv_read_text)
  moreover have "dk_Files (bs_disk bs') = dk_Files (bs_disk bs)"
    using n(3) r(2) p'(1,6) assms(5) by (auto simp: fun_upd_idem_iff)
  moreover have "RowsAffected r = (int (length rows), None)" using i(2) by (simp add: RowsAffected_def newLakeResult_def)
  ultimately show ?thesis using r(1) n(1,2) by blast
qed

text \<open>A server that answers every request with an empty document.\<close>

definition batch_server :: env where
  "batch_server = demo\<lparr>e_net := (\<lambda>_. NetReply 200 [(''Content-Type'', ''application/json'')] [] (Ok ''{}'')),
     e_json := (\<lambda>_. Some (JObj []))\<rparr>"

definition batch_host :: batch_env where
  "batch_host =
     \<lparr>be_disk = \<lparr>de_TempDir = ''/tmp'', de_Fails = (\<lambda>_. None), de_Write = (\<lambda>_. Written)\<rparr>,
      be_storage = \<lparr>sg_ascii = id, sg_lookup = (\<lambda>_. None), sg_connect = (\<lambda>_. False), sg_answer = (\<lambda>_. None),
        sg_order = id\<rparr>,
      be_unix = (\<lambda>_. 7), be_boundary = (\<lambda>_. ''b'')\<rparr>"

definition batch_start :: batch_state where
  "batch_start =
     \<lparr>bs_conn = \<lparr>dc_cfg = None, dc_closed = False, dc_rest = True,
        dc_st = demo_st\<lparr>cl := demo_client\<lparr>PresignedURLDisabled := True\<rparr>\<rparr>, dc_uuids = 0\<rparr>,
      bs_disk = \<lparr>dk_Files = Map.empty, dk_Ops = 0\<rparr>, bs_log = []\<rparr>"

definition batch_rows :: "gval list list" where
  "batch_rows = [[GString ''a'', GInt 1], [GString '','', GNil]]"

definition batch_run :: "sql_result go \<times> batch_state" where
  "batch_run = ExecBatch batch_server demo_fmt batch_host Background ''insert into t values'' batch_rows batch_start"

lemma batch_run_ok: "batch_run = (Ok (LakeResult 2 0), snd batch_run)"
proof -
  have "case fst batch_run of Ok r \<Rightarrow> r = LakeResult 2 0 | _ \<Rightarrow> False" by code_simp
  then have "fst batch_run = Ok (LakeResult 2 0)" by (simp split: outcome.split_asm)
  then show ?thesis by (metis prod.collapse)
qed

lemma batch_run_exec:
  "ExecBatch batch_server demo_fmt batch_host Background ''insert into t values'' batch_rows batch_start
    = (Ok (LakeResult 2 0), snd batch_run)"
  by (metis batch_run_def batch_run_ok)

lemma ExecBatch_delivers_rows_witness:
  "\<exists>records uctx bd stage s0 s1 resp.
     go_mapM (go_mapM (csv_value demo_fmt)) batch_rows = Ok records
     \<and> csv_read FieldStart [] [] (csv_text records) = Some records
     \<and> UploadToStage batch_server (be_storage batch_host) bd uctx stage (csv_text records)
         (int (length (csv_text records))) (s0, bs_log batch_start) = (Ok (), s1, bs_log (snd batch_run))
     \<and> InsertWithStage batch_server Background ''insert into t values'' (Some stage) None None s1
         = (Ok resp, dc_st (bs_conn (snd batch_run)))
     \<and> delivered (csv_text records) (bs_log (snd batch_run)) (dc_st (bs_conn (snd batch_run)))
     \<and> RowsAffected (LakeResult 2 0) = (int (length batch_rows), None)
     \<and> dk_Files (bs_disk (snd batch_run)) = dk_Files (bs_disk batch_start)"
  by (rule ExecBatch_delivers_rows [OF _ batch_run_exec])
    (simp_all add: batch_server_def batch_host_def batch_start_def batch_rows_def)

subsection \<open>What is lost\<close>

text \<open>C40: (failed batches) When a value cannot be encoded, \<open>ExecBatch\<close> fails without an upload or a request,
  and the temporary file stays on the disk: only \<open>BatchInsert\<close> removes it, and it is not reached.\<close>

theorem ExecBatch_leaks_file:
  assumes "matches_insert sql" "\<And>n. de_Fails (be_disk B) n = None" "\<And>n. de_Write (be_disk B) n = Written"
    and "go_mapM (go_mapM (csv_value F)) rows = Err e"
  shows "case ExecBatch E F B ctx sql rows bs of
     (r, bs') \<Rightarrow>
       \<not> is_ok r \<and> dk_Files (bs_disk bs') (batch_file E B bs) \<noteq> None
       \<and> bs_log bs' = bs_log bs \<and> dc_st (bs_conn bs') = dc_st (bs_conn bs)"
proof -
  obtain pr bs1 where p: "prepareBatch E B ctx sql bs = (pr, bs1)" by fastforce
  with assms(1,2) obtain b where b: "pr = Ok b"
    by (auto simp: prepareBatch_def OpenFile_def Let_def split: option.splits)
  note p' = prepareBatch_ok [OF p [unfolded b]]
  then have f: "dk_Files (bs_disk bs1) (hb_batchFile b) \<noteq> None" by simp
  then obtain t where t: "dk_Files (bs_disk bs1) (hb_batchFile b) = Some t" by blast
  obtain r d where a: "append_rows F (be_disk B) b rows (bs_disk bs1) = (r, d)" by fastforce
  have "\<not> is_ok r"
    using append_rows_ok [OF _ assms(3) t, of F rows] a assms(4) by (auto simp: is_ok_iff)
  moreover have "dk_Files d (batch_file E B bs) \<noteq> None"
    using append_rows_keeps [OF f, of F "be_disk B" b rows] a p'(1) by simp
  ultimately show ?thesis using p b a p'(4,5) by (cases r) (auto simp: ExecBatch_def)
qed

definition bad_row :: "gval list" where
  "bad_row = [GTupleW (GInt 1)]"

lemma ExecBatch_leaks_file_witness:
  "case ExecBatch batch_server demo_fmt batch_host Background ''insert into t values'' [bad_row] batch_start of
     (r, bs') \<Rightarrow>
       \<not> is_ok r \<and> dk_Files (bs_disk bs') (batch_file batch_server batch_host batch_start) \<noteq> None
       \<and> bs_log bs' = bs_log batch_start \<and> dc_st (bs_conn bs') = dc_st (bs_conn batch_start)"
proof (rule ExecBatch_leaks_file)
  show "matches_insert ''insert into t values''" by code_simp
  show "go_mapM (go_mapM (csv_value demo_fmt)) [bad_row] = Err (EMsg ''expected struct, got int'')"
    by (simp add: bad_row_def csv_value_def Encode.simps encodeTuple.simps encodeTuplePart.simps)
qed (simp_all add: batch_host_def)

text \<open>A row of at most 4096 bytes of CSV only leaves the buffer with the last flush, whose
  error nobody asks for: when the disk is full, \<open>AppendToFile\<close> reports success although the file got a
  part of the line, or nothing of it. Of a longer line the error may be reported.\<close>

lemma AppendToFile_loses_write_error:
  assumes "de_Fails D (dk_Ops d) = None" "dk_Files d (hb_batchFile b) = Some old"
    and "go_mapM (csv_value F) row = Ok fs" "de_Write D (Suc (dk_Ops d)) = WriteFailed n e early"
    and "length (csv_line fs) \<le> csv_buffer"
  shows "case AppendToFile F D b row d of
     (r, d') \<Rightarrow> r = Ok () \<and> dk_Files d' (hb_batchFile b) = Some (old @ take n (csv_line fs))"
  using assms
  by (auto simp: AppendToFile_def OpenFile_def WriteLine_def append_file_def disk_op_def)

definition full_disk :: disk_env where
  "full_disk = \<lparr>de_TempDir = ''/tmp'', de_Fails = (\<lambda>_. None),
     de_Write = (\<lambda>_. WriteFailed 0 (EMsg ''no space left on device'') True)\<rparr>"

lemma AppendToFile_loses_write_error_witness:
  "case AppendToFile demo_fmt full_disk \<lparr>hb_query = [], hb_ctx = Background, hb_batchFile = ''f''\<rparr> [GString ''a'']
       \<lparr>dk_Files = [''f'' \<mapsto> ''old''], dk_Ops = 0\<rparr> of
     (r, d') \<Rightarrow> r = Ok () \<and> dk_Files d' ''f'' = Some (''old'' @ take 0 (csv_line [''a'']))"
  using AppendToFile_loses_write_error [of full_disk "\<lparr>dk_Files = [''f'' \<mapsto> ''old''], dk_Ops = 0\<rparr>"
      "\<lparr>hb_query = [], hb_ctx = Background, hb_batchFile = ''f''\<rparr>" "''old''" demo_fmt "[GString ''a'']" "[''a'']" 0
      "EMsg ''no space left on device''" True]
  by (simp add: full_disk_def csv_value_def csv_line_def csv_field_def fieldNeedsQuotes_def space_len_def
      ascii_space_def wide_spaces_def csv_buffer_def)

text \<open>A nil value at the head of a row is appended as the text \<open>NULL\<close> is: the file, the batch and the
  error are the same, whatever the file holds and whichever operation on the disk fails, so the server
  cannot tell the two.\<close>

lemma nil_is_text:
  "AppendToFile F D b (GNil # row) d = AppendToFile F D b (GString ''NULL'' # row) d"
proof -
  have v: "csv_value F GNil = csv_value F (GString ''NULL'')"
    by (simp add: csv_value_def Encode.simps encode_scalar_def)
  show ?thesis unfolding AppendToFile_def go_mapM.simps v by (rule refl)
qed

end
