(* ===== verification/Logging.thy ===== *)
theory Logging
  imports Sql_Encoder
begin

text \<open>
  \<open>log.go\<close> and \<open>tls_config.go\<close>: the logger of the driver, and the registry of TLS configurations.

  A logger writes records; how \<open>log/slog\<close> prints a record is not modelled, so a record is the writer it
  goes to, its level, its attributes and its message.  A writer is a number.  The level is one variable
  that a logger shares with every context logger made from it, the writer is not.  \<open>fmt.Sprint\<close> of one
  operand is \<open>fe_sprint\<close>; \<open>fmt.Sprintf\<close> is an argument.
\<close>

subsection \<open>Levels\<close>

definition LevelDebug :: int where "LevelDebug = - 4"
definition LevelInfo :: int where "LevelInfo = 0"
definition LevelWarn :: int where "LevelWarn = 4"
definition LevelError :: int where "LevelError = 8"

lemmas log_levels = LevelDebug_def LevelInfo_def LevelWarn_def LevelError_def

definition parseLevel :: "string \<Rightarrow> int go" where
  "parseLevel level =
     (let l = to_lower level in
      if l \<in> {''trace'', ''debug''} then Ok LevelDebug
      else if l = ''info'' then Ok LevelInfo
      else if l \<in> {''warn'', ''warning''} then Ok LevelWarn
      else if l = ''error'' then Ok LevelError
      else if l \<in> {''dpanic'', ''panic'', ''fatal''} then Ok LevelError
      else Err (EMsg (''unknown log level: '' @ level)))"

subsection \<open>Loggers\<close>

type_synonym log_attr = "string \<times> gval"

text \<open>A \<open>slog.Logger\<close>: its writer and the attributes it carries.\<close>

record slog_logger =
  sl_Writer :: nat
  sl_Attrs :: "log_attr list"

record default_logger =
  lg_Level :: int
  lg_Inner :: slog_logger
  lg_Output :: nat

record log_line =
  ln_Writer :: nat
  ln_Level :: int
  ln_Attrs :: "log_attr list"
  ln_Message :: string

definition stdout :: nat where "stdout = 1"

definition new_slog :: "nat \<Rightarrow> slog_logger" where
  "new_slog w = \<lparr>sl_Writer = w, sl_Attrs = []\<rparr>"

definition CreateDefaultLogger :: default_logger where
  "CreateDefaultLogger = \<lparr>lg_Level = LevelInfo, lg_Inner = new_slog stdout, lg_Output = stdout\<rparr>"

text \<open>\<open>DBCallerPrettyfier\<close>, and the source attribute it gives.\<close>

definition DBCallerPrettyfier :: "string \<Rightarrow> string \<Rightarrow> int \<Rightarrow> string \<times> string" where
  "DBCallerPrettyfier function file line = (path_Base function, path_Base file @ '':'' @ format_int line)"

definition replaceSource :: "string \<Rightarrow> string \<Rightarrow> int \<Rightarrow> string" where
  "replaceSource function file line =
     (case DBCallerPrettyfier function file line of (f, location) \<Rightarrow> trim_space (f @ '' '' @ location))"

definition getLogger :: "default_logger \<Rightarrow> slog_logger" where
  "getLogger lg = lg_Inner lg"

definition SetLogLevel :: "string \<Rightarrow> default_logger \<Rightarrow> unit go \<times> default_logger" where
  "SetLogLevel level lg =
     (case parseLevel level of
        Ok lvl \<Rightarrow> (Ok (), lg\<lparr>lg_Level := lvl\<rparr>)
      | Err e \<Rightarrow> (Err e, lg)
      | Panic p \<Rightarrow> (Panic p, lg))"

definition SetOutput :: "nat option \<Rightarrow> default_logger \<Rightarrow> default_logger" where
  "SetOutput output lg =
     (case output of None \<Rightarrow> lg | Some w \<Rightarrow> lg\<lparr>lg_Output := w, lg_Inner := new_slog w\<rparr>)"

text \<open>A record is written when its level reaches the level of the logger.\<close>

definition write_record :: "default_logger \<Rightarrow> slog_logger \<Rightarrow> int \<Rightarrow> string \<Rightarrow> log_line list" where
  "write_record lg sl level msg =
     (if lg_Level lg \<le> level
      then [\<lparr>ln_Writer = sl_Writer sl, ln_Level = level, ln_Attrs = sl_Attrs sl, ln_Message = msg\<rparr>] else [])"

text \<open>\<open>fmt.Sprint\<close> puts a space between two operands when neither is a string, \<open>fmt.Sprintln\<close> always.\<close>

fun sprint :: "fmt_env \<Rightarrow> gval list \<Rightarrow> string" where
  "sprint F [] = []"
| "sprint F [a] = fe_sprint F a"
| "sprint F (a # b # as) =
     fe_sprint F a
     @ (case (a, b) of (GString _, _) \<Rightarrow> [] | (_, GString _) \<Rightarrow> [] | _ \<Rightarrow> '' '')
     @ sprint F (b # as)"

definition sprintln :: "fmt_env \<Rightarrow> gval list \<Rightarrow> string" where
  "sprintln F args = join '' '' (map (fe_sprint F) args) @ [CHR 0x0A]"

definition formatLine :: "fmt_env \<Rightarrow> gval list \<Rightarrow> string" where
  "formatLine F args = (if args = [] then [] else trim_suffix (sprintln F args) [CHR 0x0A])"

definition log_Info :: "fmt_env \<Rightarrow> gval list \<Rightarrow> default_logger \<Rightarrow> log_line list" where
  "log_Info F args lg = write_record lg (getLogger lg) LevelInfo (sprint F args)"

definition log_Error :: "fmt_env \<Rightarrow> gval list \<Rightarrow> default_logger \<Rightarrow> log_line list" where
  "log_Error F args lg = write_record lg (getLogger lg) LevelError (sprint F args)"

definition log_Debugf ::
  "(string \<Rightarrow> gval list \<Rightarrow> string) \<Rightarrow> string \<Rightarrow> gval list \<Rightarrow> default_logger \<Rightarrow> log_line list" where
  "log_Debugf sprintf format args lg = write_record lg (getLogger lg) LevelDebug (sprintf format args)"

subsection \<open>Context loggers\<close>

definition DBSessionIDKey :: string where "DBSessionIDKey = ''LOG_SESSION_ID''"
definition SFSessionUserKey :: string where "SFSessionUserKey = ''LOG_USER''"
definition LogKeys :: "string list" where "LogKeys = [DBSessionIDKey, SFSessionUserKey]"

text \<open>The values of a context under the keys of the logger; \<open>None\<close> is a nil context.\<close>

type_synonym log_context = "(string \<Rightarrow> gval option) option"

definition context2Attrs :: "log_context \<Rightarrow> log_attr list" where
  "context2Attrs ctx =
     (case ctx of
        None \<Rightarrow> []
      | Some value \<Rightarrow>
          concat (map (\<lambda>k. case value k of Some v \<Rightarrow> [(k, v)] | None \<Rightarrow> []) LogKeys))"

definition log_WithContext :: "log_context \<Rightarrow> default_logger \<Rightarrow> slog_logger" where
  "log_WithContext ctx lg =
     (let base = getLogger lg; attrs = context2Attrs ctx
      in if attrs \<noteq> [] then base\<lparr>sl_Attrs := sl_Attrs base @ attrs\<rparr> else base)"

definition Infoln :: "fmt_env \<Rightarrow> gval list \<Rightarrow> slog_logger option \<Rightarrow> default_logger \<Rightarrow> log_line list" where
  "Infoln F args c lg =
     (case c of None \<Rightarrow> [] | Some inner \<Rightarrow> write_record lg inner LevelInfo (formatLine F args))"

text \<open>The logger of the package.\<close>

definition SetLogger :: "'l option \<Rightarrow> 'l \<Rightarrow> 'l" where
  "SetLogger inLogger logger = (case inLogger of None \<Rightarrow> logger | Some l \<Rightarrow> l)"

definition GetLogger :: "'l \<Rightarrow> 'l" where
  "GetLogger logger = logger"

subsection \<open>The registry of TLS configurations (\<open>tls_config.go\<close>)\<close>

text \<open>A nil map until the first registration.\<close>

type_synonym 'c tls_registry = "(string \<rightharpoonup> 'c) option"

definition RegisterTLSConfig :: "string \<Rightarrow> 'c \<Rightarrow> 'c tls_registry \<Rightarrow> unit go \<times> 'c tls_registry" where
  "RegisterTLSConfig key config reg =
     (Ok (), Some ((case reg of None \<Rightarrow> Map.empty | Some m \<Rightarrow> m)(key \<mapsto> config)))"

definition DeregisterTLSConfig :: "string \<Rightarrow> 'c tls_registry \<Rightarrow> 'c tls_registry" where
  "DeregisterTLSConfig key reg = (case reg of None \<Rightarrow> None | Some m \<Rightarrow> Some (m(key := None)))"

subsection \<open>Facts\<close>

lemma trim_newline: "trim_suffix (s @ [CHR 0x0A]) [CHR 0x0A] = s"
  by (simp add: trim_suffix_def)

lemma formatLine_join: "formatLine F args = join '' '' (map (fe_sprint F) args)"
  by (simp add: formatLine_def sprintln_def trim_newline)

lemma write_record_level: "write_record (lg\<lparr>lg_Level := l\<rparr>) sl level msg =
    (if l \<le> level then [\<lparr>ln_Writer = sl_Writer sl, ln_Level = level, ln_Attrs = sl_Attrs sl, ln_Message = msg\<rparr>] else [])"
  by (simp add: write_record_def)

lemma context2Attrs_lookup:
  "map_of (context2Attrs (Some value)) k = (if k \<in> set LogKeys then value k else None)"
  by (auto simp: context2Attrs_def LogKeys_def DBSessionIDKey_def SFSessionUserKey_def split: option.splits)

text \<open>C34: (logging) A context logger writes, at level info, to the writer its logger had when it was made,
  with the attributes of the context's two log keys and the operands joined by spaces, whatever
  \<open>SetOutput\<close> does to the logger afterwards; the level is shared, so raising the level of the logger to
  \<open>error\<close> silences it, and an unknown level name is refused and leaves the level alone.\<close>

theorem context_logger:
  "Infoln F args (Some (log_WithContext (Some value) lg)) (SetOutput w lg) =
     (if lg_Level lg \<le> LevelInfo then
        [\<lparr>ln_Writer = sl_Writer (lg_Inner lg), ln_Level = LevelInfo,
          ln_Attrs = sl_Attrs (lg_Inner lg) @ context2Attrs (Some value),
          ln_Message = join '' '' (map (fe_sprint F) args)\<rparr>]
      else [])
   \<and> (case SetLogLevel level lg of
        (Ok _, lg') \<Rightarrow>
          Infoln F args (Some (log_WithContext (Some value) lg)) lg' \<noteq> []
            = (to_lower level \<in> {''trace'', ''debug'', ''info''})
      | (Err e, lg') \<Rightarrow> lg' = lg \<and> e = EMsg (''unknown log level: '' @ level)
      | (Panic p, lg') \<Rightarrow> False)"
proof -
  have out: "lg_Level (SetOutput w lg) = lg_Level lg" by (simp add: SetOutput_def split: option.split)
  have ctx: "sl_Writer (log_WithContext (Some value) lg) = sl_Writer (lg_Inner lg)"
    "sl_Attrs (log_WithContext (Some value) lg) = sl_Attrs (lg_Inner lg) @ context2Attrs (Some value)"
    by (simp_all add: log_WithContext_def getLogger_def Let_def)
  show ?thesis
    by (auto simp: Infoln_def write_record_def out ctx formatLine_join SetLogLevel_def parseLevel_def log_levels Let_def)
qed

end
