(* ===== verification/Net_Ip.thy ===== *)
theory Net_Ip
  imports Presign Sql_Encoder Url_Facts
begin

text \<open>
  The IP wrapper of \<open>types.go\<close>, and the text that \<open>net.IP.String\<close> gives an address.

  A \<open>net.IP\<close> is a list of bytes.  Four bytes, and sixteen bytes with the prefix of a mapped IPv4 address,
  are printed in dotted form, other sixteen bytes in the compressed form of \<open>netip\<close>, and a list of any other
  length as a question mark and its bytes in hexadecimal.  \<open>read_groups\<close> is the reading of the compressed
  form, which the round trip needs; it models nothing of the program.
\<close>

subsection \<open>\<open>net.IP.String\<close>\<close>

definition To4 :: "ip \<Rightarrow> ip option" where
  "To4 bs =
     (if length bs = 4 then Some bs
      else if length bs = 16 \<and> take 10 bs = replicate 10 0 \<and> bs ! 10 = 0xFF \<and> bs ! 11 = 0xFF
      then Some (drop 12 bs) else None)"

fun format_hex :: "nat \<Rightarrow> string" where
  "format_hex n = (if n < 16 then [hex_char n] else format_hex (n div 16) @ [hex_char (n mod 16)])"

declare format_hex.simps [simp del]

fun ip_groups :: "ip \<Rightarrow> nat list" where
  "ip_groups (a # b # bs) = (unat a * 256 + unat b) # ip_groups bs"
| "ip_groups _ = []"

text \<open>The first of the longest runs of at least two zero groups, as its start and its end.\<close>

definition zero_run :: "nat list \<Rightarrow> nat \<Rightarrow> nat" where
  "zero_run gs i = length (takeWhile (\<lambda>g. g = 0) (drop i gs))"

definition zero_range :: "nat list \<Rightarrow> nat \<times> nat" where
  "zero_range gs =
     foldl (\<lambda>(s, e) i. let l = zero_run gs i in if 2 \<le> l \<and> e - s < l then (i, i + l) else (s, e))
       (255, 255) [0..<8]"

definition format_groups :: "nat list \<Rightarrow> string" where
  "format_groups gs =
     (case zero_range gs of (s, e) \<Rightarrow>
        if s < 8 then
          join '':'' (map format_hex (take s gs)) @ ''::'' @ join '':'' (map format_hex (drop e gs))
        else join '':'' (map format_hex gs))"

definition ip_String :: "ip \<Rightarrow> string" where
  "ip_String bs =
     (if bs = [] then ''<nil>''
      else if length bs \<noteq> 4 \<and> length bs \<noteq> 16
      then ''?'' @ concat (map (\<lambda>b. [hex_char (unat b div 16), hex_char (unat b mod 16)]) bs)
      else case To4 bs of
        Some b4 \<Rightarrow> join ''.'' (map (\<lambda>b. format_uint (unat b)) b4)
      | None \<Rightarrow> format_groups (ip_groups bs))"

subsection \<open>\<open>types.go\<close>\<close>

definition ip_Value :: "ip \<Rightarrow> gval go" where
  "ip_Value i = Ok (GString (ip_String i))"

subsection \<open>The characters of an address\<close>

definition hex_digits :: string where "hex_digits = ''0123456789abcdef''"

lemma hex_char_digit: "n < 16 \<Longrightarrow> hex_char n \<in> set hex_digits"
proof -
  have "\<forall>m<16. hex_char m \<in> set hex_digits" by code_simp
  then show "n < 16 \<Longrightarrow> hex_char n \<in> set hex_digits" by blast
qed

lemma format_hex_digits: "set (format_hex n) \<subseteq> set hex_digits"
proof (induction n rule: format_hex.induct)
  case (1 n)
  then show ?case by (subst format_hex.simps) (auto intro: hex_char_digit)
qed

lemma format_hex_not_Nil [simp]: "format_hex n \<noteq> []"
  by (subst format_hex.simps) simp

lemma format_hex_free: "CHR '':'' \<notin> set (format_hex n)"
  using format_hex_digits [of n] by (auto simp: hex_digits_def)

lemma format_uint_chars: "set (format_uint n) \<subseteq> set hex_digits"
proof (induction n rule: format_uint.induct)
  case (1 n)
  have "digit_char d = hex_char d" if "d < 10" for d
    using that by (simp add: digit_char_def hex_char_def)
  with "1" show ?case by (subst format_uint.simps) (auto intro: hex_char_digit)
qed

lemma byte_less: "unat (b :: 8 word) < 256"
  using unsigned_less [of b] by simp

lemma ip_String_chars: "set (ip_String bs) \<subseteq> set (hex_digits @ '':.?<nil>'')"
proof -
  have "x \<in> set hex_digits" if "x \<in> set (format_hex n)" for x n
    using that format_hex_digits [of n] by blast
  moreover have "x \<in> set hex_digits" if "x \<in> set (format_uint n)" for x n
    using that format_uint_chars [of n] by blast
  moreover have "hex_char (unat (b :: 8 word) div 16) \<in> set hex_digits" for b
    using byte_less [of b] by (intro hex_char_digit) (simp add: less_mult_imp_div_less)
  ultimately show ?thesis
    by (auto simp: ip_String_def format_groups_def hex_char_digit split: option.splits prod.splits if_splits
        dest!: set_join)
qed

lemma escape_clean: "CHR 0x5C \<notin> set s \<Longrightarrow> CHR 0x27 \<notin> set s \<Longrightarrow> escape s = s"
  by (induction s) auto

lemma escape_ip [simp]: "escape (ip_String bs) = ip_String bs"
  using ip_String_chars [of bs] by (intro escape_clean) (auto simp: hex_digits_def)

subsection \<open>Reading the compressed form back\<close>

definition read_hex :: "string \<Rightarrow> nat" where
  "read_hex s = foldl (\<lambda>a c. a * 16 + (case hex_val c of Some d \<Rightarrow> d | None \<Rightarrow> 0)) 0 s"

lemma read_hex_format_hex [simp]: "read_hex (format_hex n) = n"
proof (induction n rule: format_hex.induct)
  case (1 n)
  then show ?case by (subst format_hex.simps) (auto simp: read_hex_def)
qed

definition read_groups :: "string \<Rightarrow> nat list" where
  "read_groups t =
     (let ws = split_on CHR '':'' t in
      if [] \<in> set ws then
        let pre = takeWhile (\<lambda>w. w \<noteq> []) ws; post = rev (takeWhile (\<lambda>w. w \<noteq> []) (rev ws)) in
        map read_hex pre @ replicate (8 - length pre - length post) 0 @ map read_hex post
      else map read_hex ws)"

lemma split_on_join_append:
  "list_all (\<lambda>x. c \<notin> set x) xs \<Longrightarrow>
   split_on c (join [c] xs @ c # t) = (if xs = [] then [[]] else xs) @ split_on c t"
  by (induction "[c]" xs rule: join.induct) (auto simp: split_on_append)

lemma takeWhile_block: "[] \<notin> set xs \<Longrightarrow> takeWhile (\<lambda>w. w \<noteq> []) ((if xs = [] then [[]] else xs) @ [] # ys) = xs"
  by (induction xs) (auto simp: takeWhile_append)

lemma read_groups_compressed:
  assumes "[] \<notin> set us" "[] \<notin> set vs"
    and "list_all (\<lambda>x. CHR '':'' \<notin> set x) us" "list_all (\<lambda>x. CHR '':'' \<notin> set x) vs"
  shows "read_groups (join '':'' us @ ''::'' @ join '':'' vs)
           = map read_hex us @ replicate (8 - length us - length vs) 0 @ map read_hex vs"
proof -
  let ?b = "\<lambda>xs :: string list. if xs = [] then [[]] else xs"
  have "split_on CHR '':'' (join '':'' vs) = ?b vs"
    using assms(4) by (cases "vs = []") (simp_all add: split_on_join)
  then have ws: "split_on CHR '':'' (join '':'' us @ ''::'' @ join '':'' vs) = ?b us @ [] # ?b vs"
    using split_on_join_append [OF assms(3), of "CHR '':'' # join '':'' vs"] by simp
  have "takeWhile (\<lambda>w. w \<noteq> []) (rev (?b us @ [] # ?b vs)) = rev vs"
    using takeWhile_block [of "rev vs" "rev (?b us)"] assms(2) by (auto simp: takeWhile_append)
  then show ?thesis
    unfolding read_groups_def ws Let_def using takeWhile_block [OF assms(1), of "?b vs"] by auto
qed

text \<open>The range is the initial one, or a range of zero groups.\<close>

definition zero_block :: "nat list \<Rightarrow> nat \<times> nat \<Rightarrow> bool" where
  "zero_block gs r =
     (case r of (s, e) \<Rightarrow>
        s = 255 \<or> (s \<le> e \<and> e \<le> length gs \<and> take (e - s) (drop s gs) = replicate (e - s) 0))"

lemma zero_block_run: "i \<le> length gs \<Longrightarrow> zero_block gs (i, i + zero_run gs i)"
proof -
  assume i: "i \<le> length gs"
  have "take (zero_run gs i) (drop i gs) = takeWhile (\<lambda>g. g = 0) (drop i gs)"
    by (simp add: zero_run_def takeWhile_eq_take [symmetric])
  also have "\<dots> = replicate (zero_run gs i) 0"
    unfolding zero_run_def by (rule replicate_eqI) (auto dest: set_takeWhileD)
  finally show ?thesis
    using i length_takeWhile_le [of "\<lambda>g. g = 0" "drop i gs"] by (auto simp: zero_block_def zero_run_def)
qed

lemma zero_block_range: "length gs = 8 \<Longrightarrow> zero_block gs (zero_range gs)"
proof -
  assume gs: "length gs = 8"
  have "zero_block gs r \<Longrightarrow> set is \<subseteq> {..<8} \<Longrightarrow>
      zero_block gs (foldl (\<lambda>(s, e) i. let l = zero_run gs i in if 2 \<le> l \<and> e - s < l then (i, i + l) else (s, e)) r is)"
    for r "is"
    using gs by (induction "is" arbitrary: r) (auto simp: Let_def zero_block_run split: prod.splits)
  from this [of "(255, 255)" "[0..<8]"] show ?thesis
    unfolding zero_range_def by (simp add: zero_block_def lessThan_atLeast0)
qed

lemma read_groups_format: "length gs = 8 \<Longrightarrow> read_groups (format_groups gs) = gs"
proof -
  assume gs: "length gs = 8"
  obtain s e where r: "zero_range gs = (s, e)" by fastforce
  have free: "list_all (\<lambda>x. CHR '':'' \<notin> set x) (map format_hex ns)" "[] \<notin> set (map format_hex ns)" for ns
    using format_hex_free by (auto simp: list_all_iff dest: sym)
  show ?thesis
  proof (cases "s < 8")
    case True
    then have "s \<le> e" "e \<le> 8" "take (e - s) (drop s gs) = replicate (e - s) 0"
      using zero_block_range [OF gs] gs r by (auto simp: zero_block_def)
    moreover from this have "gs = take s gs @ take (e - s) (drop s gs) @ drop e gs"
      using append_take_drop_id [of s gs] append_take_drop_id [of "e - s" "drop s gs"] by (simp del: append_take_drop_id)
    ultimately have "take s gs @ replicate (8 - s - (8 - e)) 0 @ drop e gs = gs"
      using True by (simp add: diff_diff_eq)
    then show ?thesis
      using True gs r read_groups_compressed [OF free(2) free(2) free(1) free(1), of "take s gs" "drop e gs"]
      by (simp add: format_groups_def comp_def)
  next
    case False
    have ne: "map format_hex gs \<noteq> []" using gs by auto
    show ?thesis
      using False r free [of gs] by (simp add: format_groups_def read_groups_def split_on_join [OF ne] comp_def)
  qed
qed

subsection \<open>The literal of an address\<close>

lemma split_dotted: "bs \<noteq> [] \<Longrightarrow>
    map digits_val (split_on CHR ''.'' (join ''.'' (map (\<lambda>b. format_uint (unat b)) bs))) = map unat bs"
proof -
  have "CHR ''.'' \<notin> set (format_uint n)" for n
    using format_uint_chars [of n] by (auto simp: hex_digits_def)
  then show "bs \<noteq> [] \<Longrightarrow> ?thesis" by (simp add: split_on_join list_all_iff comp_def)
qed

lemma To4_length: "To4 bs = Some b4 \<Longrightarrow> length b4 = 4"
  by (auto simp: To4_def split: if_splits)

lemma ip_groups_length: "length (ip_groups bs) = length bs div 2"
  by (induction bs rule: ip_groups.induct) auto

text \<open>C28: (addresses) The IP wrapper binds an address as a string whose text needs no escaping, so the
  literal is that text between quotes; and the text determines the address: read as four decimal numbers
  it gives the bytes of an IPv4 address, mapped or not, and read as groups of hexadecimal digits it gives
  the groups of an IPv6 address, the zeros that the two colons stand for included.\<close>

theorem ip_Value_literal:
  "\<exists>t. ip_Value i = Ok (GString t) \<and> Encode E (GString t) = Ok (quote t)
     \<and> (case To4 i of
          Some b4 \<Rightarrow> map digits_val (split_on CHR ''.'' t) = map unat b4
        | None \<Rightarrow> if length i = 16 then read_groups t = ip_groups i else hd t \<in> {CHR ''?'', CHR ''<''})"
proof (intro exI conjI)
  show "ip_Value i = Ok (GString (ip_String i))" by (simp add: ip_Value_def)
  show "Encode E (GString (ip_String i)) = Ok (quote (ip_String i))" by (simp add: Encode.simps)
  show "case To4 i of
      Some b4 \<Rightarrow> map digits_val (split_on CHR ''.'' (ip_String i)) = map unat b4
    | None \<Rightarrow> if length i = 16 then read_groups (ip_String i) = ip_groups i
              else hd (ip_String i) \<in> {CHR ''?'', CHR ''<''}"
  proof (cases "To4 i")
    case (Some b4)
    then have "b4 \<noteq> []" "length i = 4 \<or> length i = 16"
      using To4_length [OF Some] by (auto simp: To4_def split: if_splits)
    with Some show ?thesis by (auto simp: ip_String_def split_dotted)
  next
    case None
    then have "length i \<noteq> 4" by (auto simp: To4_def)
    with None show ?thesis by (auto simp: ip_String_def read_groups_format ip_groups_length)
  qed
qed

end
