(* ===== verification/Time_Facts.thy ===== *)
theory Time_Facts
  imports Go_Time
begin

text \<open>
  The calendar of \<open>Go_Time\<close> and its layouts: a day number and its civil date determine each other, and the
  texts that \<open>time_format\<close> prints are read back by \<open>parse_chunks\<close>.  The date and time layouts of the driver
  (columns, Arrow cells, bound values) rest on these lemmas.
\<close>

subsection \<open>Years\<close>

lemma div_step: "0 < k \<Longrightarrow> (y :: int) div k = (y - 1) div k + (if y mod k = 0 then 1 else 0)"
proof -
  assume k: "0 < k"
  show ?thesis
  proof (cases "y mod k = 0")
    case True
    then have "k dvd y" by (simp add: dvd_eq_mod_eq_0)
    then obtain q where q: "y = q * k" by (metis dvdE mult.commute)
    have "(q * k - 1) div k = q - 1"
      using k by (intro int_div_pos_eq [where r = "k - 1"]) (simp_all add: algebra_simps)
    with q k show ?thesis by simp
  next
    case False
    have "0 \<le> y mod k" "y mod k < k" using k by simp_all
    with False have "0 \<le> y mod k - 1" "y mod k - 1 < k" by linarith+
    moreover have "y - 1 = k * (y div k) + (y mod k - 1)" by simp
    ultimately have "(y - 1) div k = y div k" by (metis int_div_pos_eq)
    with False show ?thesis by simp
  qed
qed

lemma days_before_year_step:
  "days_before_year (y + 1) = days_before_year y + (if is_leap y then 366 else 365)"
proof -
  define q4 q100 q400 where "q4 = (y - 1) div 4" and "q100 = (y - 1) div 100" and "q400 = (y - 1) div 400"
  have "4 dvd (100 :: int)" "100 dvd (400 :: int)" by simp_all
  then have up: "y mod 400 = 0 \<Longrightarrow> y mod 100 = 0" "y mod 100 = 0 \<Longrightarrow> y mod 4 = 0"
    by (metis dvd_eq_mod_eq_0 dvd_trans)+
  have "days_before_year (y + 1) = 365 * y + y div 4 - y div 100 + y div 400"
    by (simp only: days_before_year_def add_diff_cancel_right')
  also have "\<dots> = 365 * y + (q4 + (if y mod 4 = 0 then 1 else 0)) - (q100 + (if y mod 100 = 0 then 1 else 0))
      + (q400 + (if y mod 400 = 0 then 1 else 0))"
    unfolding q4_def q100_def q400_def
    using div_step [of 4 y] div_step [of 100 y] div_step [of 400 y] by (simp only: zero_less_numeral simp_thms)
  also have "\<dots> = 365 * (y - 1) + q4 - q100 + q400 + (if is_leap y then 366 else 365)"
    unfolding is_leap_def using up by (cases "y mod 400 = 0"; cases "y mod 100 = 0"; cases "y mod 4 = 0") simp_all
  finally show ?thesis by (simp only: days_before_year_def q4_def q100_def q400_def)
qed

lemma days_before_year_mono: "y \<le> z \<Longrightarrow> days_before_year y \<le> days_before_year z"
proof (induction rule: int_ge_induct)
  case (step z)
  then show ?case using days_before_year_step [of z] by (simp split: if_splits)
qed simp

lemma days_before_year_bounds:
  "400 * days_before_year (t + 1) \<le> 146097 * t + 399" "146097 * t \<le> 400 * days_before_year (t + 1) + 800"
proof -
  have a: "4 * (t div 4) \<le> t" "t \<le> 4 * (t div 4) + 3"
    and b: "100 * (t div 100) \<le> t" "t \<le> 100 * (t div 100) + 99"
    and c: "400 * (t div 400) \<le> t" "t \<le> 400 * (t div 400) + 399"
    using pos_mod_bound [of 4 t] pos_mod_bound [of 100 t] pos_mod_bound [of 400 t]
      pos_mod_sign [of 4 t] pos_mod_sign [of 100 t] pos_mod_sign [of 400 t]
    by (simp_all add: minus_mod_eq_mult_div [symmetric])
  then show "400 * days_before_year (t + 1) \<le> 146097 * t + 399"
    "146097 * t \<le> 400 * days_before_year (t + 1) + 800"
    by (simp_all add: days_before_year_def)
qed

lemma year_of_day:
  "days_before_year (year_of_day n) \<le> n" "n < days_before_year (year_of_day n + 1)"
proof -
  define t where "t = n * 400 div 146097"
  have n: "146097 * t \<le> n * 400" "n * 400 < 146097 * t + 146097"
    unfolding t_def using pos_mod_bound [of 146097 "n * 400"] pos_mod_sign [of 146097 "n * 400"]
    by (simp_all add: minus_mod_eq_mult_div [symmetric])
  have lo: "days_before_year t \<le> n"
    using days_before_year_bounds(1) [of "t - 1"] n by simp
  have "t + 2 + 1 = t + 3" by simp
  then have "146097 * (t + 2) \<le> 400 * days_before_year (t + 3) + 800"
    using days_before_year_bounds(2) [of "t + 2"] by metis
  then have "400 * n < 400 * days_before_year (t + 3)" using n by (simp add: algebra_simps)
  then have hi: "n < days_before_year (t + 3)" by simp
  show "days_before_year (year_of_day n) \<le> n" "n < days_before_year (year_of_day n + 1)"
    using lo hi by (auto simp: year_of_day_def Let_def add.commute simp flip: t_def)
qed

subsection \<open>Months and days\<close>

lemma days_in_pos: "0 < days_in m y" by (simp add: days_in_def)

lemma month_from:
  assumes "k \<le> 11" "0 \<le> r" "r + days_before_month (12 - k) y < days_before_month 13 y"
  shows "case month_from k y r of (m, d) \<Rightarrow> 12 - int k \<le> m \<and> m \<le> 12 \<and> 1 \<le> d \<and> d \<le> days_in m y
    \<and> days_before_month (nat m) y + d - 1 = r + days_before_month (12 - k) y"
  using assms
proof (induction k arbitrary: r)
  case 0
  have "days_before_month 13 y = days_before_month 12 y + days_in 12 y" by (simp add: eval_nat_numeral)
  with 0 show ?case by simp
next
  case (Suc k)
  define j where "j = 11 - k"
  have j: "12 - Suc k = j" "12 - k = Suc j" "12 - int k - 1 = int j" "0 < j"
    using Suc.prems(1) by (auto simp: j_def)
  have step: "days_before_month (Suc j) y = days_before_month j y + days_in (int j) y"
    using j(4) by (cases j) auto
  show ?case
  proof (cases "r < days_in (int j) y")
    case True
    with Suc.prems j show ?thesis by (simp add: Let_def)
  next
    case False
    obtain m d where md: "month_from k y (r - days_in (int j) y) = (m, d)" by fastforce
    have "month_from (Suc k) y r = (m, d)"
      using False md by (simp only: month_from.simps Let_def j(3) if_False)
    moreover have "case month_from k y (r - days_in (int j) y) of (m, d) \<Rightarrow>
        12 - int k \<le> m \<and> m \<le> 12 \<and> 1 \<le> d \<and> d \<le> days_in m y
        \<and> days_before_month (nat m) y + d - 1 = (r - days_in (int j) y) + days_before_month (12 - k) y"
      using Suc.prems False j step by (intro Suc.IH) auto
    ultimately show ?thesis
      using step by (auto simp: md j(2) simp flip: j_def simp del: month_from.simps days_before_month.simps)
  qed
qed

lemma days_before_month_13: "days_before_month 13 y = (if is_leap y then 366 else 365)"
  by (simp add: eval_nat_numeral days_in_def)

lemma civil_of_days:
  assumes "civil_of_days n = (y, m, d)"
  shows "days_of_civil y m d = n" "1 \<le> m" "m \<le> 12" "1 \<le> d" "d \<le> days_in m y"
proof -
  define k where "k = n + 719162"
  have y: "y = year_of_day k" and md: "month_from 11 y (k - days_before_year y) = (m, d)"
    using assms by (auto simp: civil_of_days_def Let_def k_def split: prod.splits)
  have "0 \<le> k - days_before_year y" "k - days_before_year y < days_before_month 13 y"
    using year_of_day [of k] days_before_year_step [of y] by (auto simp: y days_before_month_13 split: if_splits)
  then have "12 - int 11 \<le> m \<and> m \<le> 12 \<and> 1 \<le> d \<and> d \<le> days_in m y
      \<and> days_before_month (nat m) y + d - 1 = k - days_before_year y"
    using month_from [of 11 "k - days_before_year y" y] md by simp
  then show "days_of_civil y m d = n" "1 \<le> m" "m \<le> 12" "1 \<le> d" "d \<le> days_in m y"
    by (auto simp: days_of_civil_def k_def)
qed

subsection \<open>Padded numbers\<close>

lemma length_format_uint: "n < 10 ^ w \<Longrightarrow> 0 < w \<Longrightarrow> length (format_uint n) \<le> w"
proof (induction w arbitrary: n)
  case (Suc w)
  show ?case
  proof (cases "n < 10")
    case True
    then show ?thesis by (subst format_uint.simps) simp
  next
    case False
    with Suc.prems have "n div 10 < 10 ^ w" "0 < w" by (cases w; simp add: less_mult_imp_div_less mult.commute)+
    with Suc.IH [of "n div 10"] False show ?thesis by (subst format_uint.simps) simp
  qed
qed simp

lemma digits_val_append: "digits_val (xs @ ys) = digits_val xs * 10 ^ length ys + digits_val ys"
proof (induction ys rule: rev_induct)
  case (snoc c ys)
  then show ?case using digits_val_snoc [of "xs @ ys" c] by (simp add: digits_val_snoc algebra_simps)
qed (simp add: digits_val_def)

lemma digits_val_zeros_left: "digits_val (replicate k CHR ''0'' @ s) = digits_val s"
proof -
  have "digits_val (replicate k CHR ''0'') = 0"
    by (induction k) (simp_all add: digits_val_def digit_val_def)
  then show ?thesis by (simp add: digits_val_append)
qed

lemma digits_val_bound: "list_all is_digit s \<Longrightarrow> digits_val s < 10 ^ length s"
proof (induction s rule: rev_induct)
  case (snoc c s)
  then have "digits_val s < 10 ^ length s" "digit_val c < 10" by (auto simp: is_digit_def digit_val_def)
  then show ?case by (simp add: digits_val_snoc)
qed (simp add: digits_val_def)

lemma append_int:
  assumes "0 \<le> x" "x < 10 ^ w" "0 < w"
  shows "length (append_int x w) = w" "list_all is_digit (append_int x w)" "digits_val (append_int x w) = nat x"
proof -
  have "nat x < 10 ^ w" using assms(1,2) by (simp add: nat_less_iff)
  then have "length (format_uint (nat x)) \<le> w" using assms(3) by (rule length_format_uint)
  moreover have "append_int x w = replicate (w - length (format_uint (nat x))) CHR ''0'' @ format_uint (nat x)"
    using assms(1) by (simp add: append_int_def pad_left_def)
  ultimately show "length (append_int x w) = w" "list_all is_digit (append_int x w)"
    "digits_val (append_int x w) = nat x"
    using format_uint_digits [of "nat x"] by (auto simp: digits_val_zeros_left list_all_iff is_digit_def)
qed

lemma append_int_2:
  assumes "0 \<le> x" "x < 100"
  shows "\<exists>a b. append_int x 2 = [a, b] \<and> is_digit a \<and> is_digit b \<and> int (digit_val a * 10 + digit_val b) = x"
proof -
  have p: "length (append_int x 2) = 2" "list_all is_digit (append_int x 2)" "digits_val (append_int x 2) = nat x"
    using append_int [of x 2] assms by auto
  then obtain a b where ab: "append_int x 2 = [a, b]" by (auto simp: length_Suc_conv numeral_2_eq_2)
  with p assms show ?thesis by (auto simp: digits_val_def)
qed

lemma get_num_append_int [simp]:
  "0 \<le> x \<Longrightarrow> x < 100 \<Longrightarrow> get_num (append_int x 2 @ r) fixed = Some (x, r)"
  using append_int_2 [of x] by (auto simp: get_num_def)

lemma frac_value_micros:
  assumes "0 \<le> ns" "ns < 1000000000"
  shows "frac_value (take 6 (append_int ns 9)) = ns - ns mod 1000"
proof -
  let ?p = "append_int ns 9"
  have p: "length ?p = 9" "list_all is_digit ?p" "digits_val ?p = nat ns" using append_int [of ns 9] assms by auto
  have "digits_val (take 6 ?p) * 1000 + digits_val (drop 6 ?p) = nat ns"
    using digits_val_append [of "take 6 ?p" "drop 6 ?p"] p by simp
  then have "int (digits_val (take 6 ?p)) * 1000 + int (digits_val (drop 6 ?p)) = ns" using assms(1) by linarith
  moreover have "digits_val (drop 6 ?p) < 1000"
    using digits_val_bound [of "drop 6 ?p"] p set_drop_subset [of 6 ?p] by (auto simp: list_all_iff)
  ultimately have "int (digits_val (drop 6 ?p)) = ns mod 1000" by (metis int_mod_pos_eq mult.commute add.commute
      of_nat_0_le_iff of_nat_less_numeral_iff mod_mult_self2 mod_pos_pos_trivial)
  with \<open>int (digits_val (take 6 ?p)) * 1000 + _ = ns\<close> show ?thesis using p(1) by (simp add: frac_value_def)
qed

lemma take_zone_format:
  assumes "off mod 60 = 0" "- 86400 \<le> off" "off \<le> 86400"
  shows "take_zone colon (format_zone colon off) = Some (off, [])"
proof -
  define z where "z = (if off < 0 then (- off) div 60 else off div 60)"
  have z: "0 \<le> z" "z \<le> 1440" "off = (if off < 0 then - (z * 60) else z * 60)"
    using assms by (auto simp: z_def zmod_zminus1_eq_if)
  have hm: "0 \<le> z div 60" "z div 60 < 100" "0 \<le> z mod 60" "z mod 60 < 100"
    using z(1,2) pos_mod_bound [of 60 z] by (simp_all del: pos_mod_bound)
  obtain a b where ab: "append_int (z div 60) 2 = [a, b]" "get_num [a, b] True = Some (z div 60, [])"
    using append_int_2 [OF hm(1,2)] get_num_append_int [OF hm(1,2), of "[]" True] by auto
  obtain c d where cd: "append_int (z mod 60) 2 = [c, d]" "get_num [c, d] True = Some (z mod 60, [])"
    using append_int_2 [OF hm(3,4)] get_num_append_int [OF hm(3,4), of "[]" True] by auto
  have "format_zone colon off = (if off < 0 then CHR ''-'' else CHR ''+'') # [a, b] @ (if colon then '':'' else []) @ [c, d]"
    using z(1) z(3) ab(1) cd(1) by (auto simp: format_zone_def Let_def z_def split: if_splits)
  moreover have "z div 60 * 60 + z mod 60 = z" by simp
  ultimately show ?thesis
    using z ab(2) cd(2) by (auto simp: take_zone_def zone_value_def substr_def split: if_splits)
qed

subsection \<open>Layouts\<close>

text \<open>A date and the second of its day, as \<open>time_format\<close> takes them from an instant.\<close>

definition civil_fields :: "int \<Rightarrow> int \<Rightarrow> int \<Rightarrow> int \<Rightarrow> bool" where
  "civil_fields y m d sod \<longleftrightarrow>
     0 \<le> y \<and> y < 10000 \<and> 1 \<le> m \<and> m \<le> 12 \<and> 1 \<le> d \<and> d \<le> days_in m y \<and> 0 \<le> sod \<and> sod < 86400"

lemma days_in_less: "days_in m y < 32" by (simp add: days_in_def)

lemma parse_year [simp]:
  "0 \<le> y \<Longrightarrow> y < 10000 \<Longrightarrow> parse_chunk LongYear cs (append_int y 4 @ r) f = Some (r, f\<lparr>f_year := y\<rparr>)"
  using append_int [of y 4] by (simp add: parse_chunk_def)

lemma parse_month [simp]:
  "1 \<le> m \<Longrightarrow> m \<le> 12 \<Longrightarrow> parse_chunk ZeroMonth cs (append_int m 2 @ r) f = Some (r, f\<lparr>f_month := Some m\<rparr>)"
  by (simp add: parse_chunk_def)

lemma parse_day [simp]:
  "0 \<le> d \<Longrightarrow> d < 100 \<Longrightarrow> parse_chunk ZeroDay cs (append_int d 2 @ r) f = Some (r, f\<lparr>f_day := Some d\<rparr>)"
  by (simp add: parse_chunk_def)

lemma parse_hour [simp]:
  "0 \<le> h \<Longrightarrow> h < 24 \<Longrightarrow> parse_chunk Hour cs (append_int h 2 @ r) f = Some (r, f\<lparr>f_hour := h\<rparr>)"
  by (simp add: parse_chunk_def)

lemma parse_minute [simp]:
  "0 \<le> k \<Longrightarrow> k < 60 \<Longrightarrow> parse_chunk ZeroMinute cs (append_int k 2 @ r) f = Some (r, f\<lparr>f_min := k\<rparr>)"
  by (simp add: parse_chunk_def)

lemma parse_second [simp]:
  "0 \<le> k \<Longrightarrow> k < 60 \<Longrightarrow> frac_next cs \<Longrightarrow>
    parse_chunk ZeroSecond cs (append_int k 2 @ r) f = Some (r, f\<lparr>f_sec := k\<rparr>)"
  by (simp add: parse_chunk_def)

lemma parse_lit [simp]: "x \<noteq> CHR '' '' \<Longrightarrow> parse_chunk (Lit x) cs (x # r) f = Some (r, f)"
  by (simp add: parse_chunk_def)

lemma parse_space [simp]: "hd r \<noteq> CHR '' '' \<or> r = [] \<Longrightarrow> parse_chunk (Lit CHR '' '') cs (CHR '' '' # r) f = Some (r, f)"
  by (cases r) (auto simp: parse_chunk_def cutspace_def)

lemma hd_append_int: "0 \<le> x \<Longrightarrow> x < 100 \<Longrightarrow> is_digit (hd (append_int x 2 @ r))"
  using append_int_2 [of x] by auto

lemma parse_micros [simp]:
  assumes "0 \<le> ns" "ns < 1000000000" "r = [] \<or> \<not> is_digit (hd r)"
  shows "parse_chunk FracSecond9 cs (CHR ''.'' # take 6 (append_int ns 9) @ r) f
      = Some (r, f\<lparr>f_nsec := ns - ns mod 1000\<rparr>)"
    "parse_chunk (FracSecond0 6) cs (CHR ''.'' # take 6 (append_int ns 9) @ r) f
      = Some (r, f\<lparr>f_nsec := ns - ns mod 1000\<rparr>)"
proof -
  let ?t = "take 6 (append_int ns 9)"
  have t: "length ?t = 6" "list_all is_digit ?t"
    using append_int [of ns 9] assms(1,2) by (auto simp: list_all_iff dest: in_set_takeD)
  then obtain c cs' where c: "?t = c # cs'" "is_digit c" by (cases ?t) auto
  have tk: "takeWhile is_digit (?t @ r) = ?t" "dropWhile is_digit (?t @ r) = r"
    using t(2) assms(3) by (cases r; auto simp: list_all_iff takeWhile_append dropWhile_append)+
  have fs: "frac_start (CHR ''.'' # ?t @ r)" using c by (simp add: frac_start_def)
  have "take_frac (CHR ''.'' # ?t @ r) = (ns - ns mod 1000, r)"
    using frac_value_micros [OF assms(1,2)] by (simp add: take_frac_def tk)
  with fs show "parse_chunk FracSecond9 cs (CHR ''.'' # ?t @ r) f = Some (r, f\<lparr>f_nsec := ns - ns mod 1000\<rparr>)"
    by (simp add: parse_chunk_def)
  show "parse_chunk (FracSecond0 6) cs (CHR ''.'' # ?t @ r) f = Some (r, f\<lparr>f_nsec := ns - ns mod 1000\<rparr>)"
    using t frac_value_micros [OF assms(1,2)] by (simp add: parse_chunk_def)
qed

lemma parse_zone [simp]:
  "off mod 60 = 0 \<Longrightarrow> - 86400 \<le> off \<Longrightarrow> off \<le> 86400 \<Longrightarrow>
    parse_chunk NumTZ cs (format_zone False off) f = Some ([], f\<lparr>f_offset := Some off\<rparr>)"
  "off mod 60 = 0 \<Longrightarrow> - 86400 \<le> off \<Longrightarrow> off \<le> 86400 \<Longrightarrow>
    parse_chunk NumColonTZ cs (format_zone True off) f = Some ([], f\<lparr>f_offset := Some off\<rparr>)"
  by (simp_all add: parse_chunk_def take_zone_format)

lemma clock_parts:
  assumes "0 \<le> (sod :: int)" "sod < 86400"
  shows "0 \<le> sod div 3600" "sod div 3600 < 24" "0 \<le> sod mod 3600 div 60" "sod mod 3600 div 60 < 60"
    "0 \<le> sod mod 60" "sod mod 60 < 60"
    "sod div 3600 * 3600 + sod mod 3600 div 60 * 60 + sod mod 60 = sod"
proof -
  show "0 \<le> sod div 3600" "sod div 3600 < 24" "0 \<le> sod mod 3600 div 60" "sod mod 3600 div 60 < 60"
    "0 \<le> sod mod 60" "sod mod 60 < 60"
    using assms zdiv_mono1 [of sod 86399 3600] pos_mod_bound [of 3600 sod]
      zdiv_mono1 [of "sod mod 3600" 3599 60] by simp_all
  have "sod mod 3600 mod 60 = sod mod 60" by (simp add: mod_mod_cancel)
  then show "sod div 3600 * 3600 + sod mod 3600 div 60 * 60 + sod mod 60 = sod"
    using div_mult_mod_eq [of "sod mod 3600" 60] div_mult_mod_eq [of sod 3600] by linarith
qed

text \<open>The fields that the parsers find in a printed text.\<close>

definition with_date :: "int \<Rightarrow> int \<Rightarrow> int \<Rightarrow> fields \<Rightarrow> fields" where
  "with_date y m d f = f\<lparr>f_year := y, f_month := Some m, f_day := Some d\<rparr>"

definition with_clock :: "int \<Rightarrow> int \<Rightarrow> fields \<Rightarrow> fields" where
  "with_clock sod ns f = f\<lparr>f_hour := sod div 3600, f_min := sod mod 3600 div 60, f_sec := sod mod 60, f_nsec := ns\<rparr>"

lemma civil_fieldsD:
  assumes "civil_fields y m d sod"
  shows "0 \<le> y" "y < 10000" "1 \<le> m" "m \<le> 12" "0 \<le> d" "d < 100" "1 \<le> d" "d \<le> days_in m y" "0 \<le> sod" "sod < 86400"
  using assms days_in_less [of m y] by (auto simp: civil_fields_def)

lemma parse_chunks_date:
  assumes "civil_fields y m d sod"
  shows "parse_chunks layout_date (concat (map (format_chunk y m d sod ns off) layout_date)) no_fields
    = Some (with_date y m d no_fields)"
proof -
  note [simp] = civil_fieldsD [OF assms]
  have "parse_chunk ZeroDay [] (append_int d 2) f = Some ([], f\<lparr>f_day := Some d\<rparr>)" for f
    using parse_day [of d "[]" "[]" f] by simp
  then show ?thesis by (simp add: layout_date_def format_chunk_def with_date_def)
qed

text \<open>The common part of the layouts with a clock, in front of any further chunks.\<close>

lemma parse_chunks_micros:
  assumes "civil_fields y m d sod" "0 \<le> ns" "ns < 1000000000" "r = [] \<or> \<not> is_digit (hd r)"
    and "c = FracSecond9 \<or> c = FracSecond0 6"
  shows "parse_chunks (layout_datetime @ c # cs)
      (concat (map (format_chunk y m d sod ns off) (layout_datetime @ [FracSecond0 6])) @ r) no_fields
    = parse_chunks cs r (with_clock sod (ns - ns mod 1000) (with_date y m d no_fields))"
proof -
  note [simp] = civil_fieldsD [OF assms(1)] clock_parts [OF civil_fieldsD(9,10) [OF assms(1)]]
  have "hd (append_int (sod div 3600) 2 @ s) \<noteq> CHR '' ''" for s
    using hd_append_int [of "sod div 3600" s] clock_parts(1,2) [OF civil_fieldsD(9,10) [OF assms(1)]]
    by (auto simp: is_digit_def)
  then show ?thesis
    using assms(2-5)
    by (elim disjE [of "c = FracSecond9"]) (simp_all add: layout_datetime_def layout_date_def layout_clock_def format_chunk_def with_date_def with_clock_def
        frac_next_def)
qed

subsection \<open>Reading printed instants\<close>

text \<open>The offset of a location at an instant, and its civil fields there.\<close>

definition offset_at :: "tzdb \<Rightarrow> gtime \<Rightarrow> int" where
  "offset_at tz t = z_offset (zone_lookup tz (t_loc t) (t_ns t div 1000000000))"

definition local_second :: "tzdb \<Rightarrow> gtime \<Rightarrow> int" where
  "local_second tz t = t_ns t div 1000000000 + offset_at tz t"

text \<open>An instant that four digits can print the year of.\<close>

definition printable :: "tzdb \<Rightarrow> gtime \<Rightarrow> bool" where
  "printable tz t = (case civil_of_days (local_second tz t div 86400) of (y, _, _) \<Rightarrow> 0 \<le> y \<and> y < 10000)"

text \<open>The clock of the location is not set back or forward around the instant.\<close>

definition settled :: "tzdb \<Rightarrow> gtime \<Rightarrow> bool" where
  "settled tz t \<longleftrightarrow> z_offset (zone_lookup tz (t_loc t) (local_second tz t)) = offset_at tz t"

lemma printable_fields:
  assumes "printable tz t" "civil_of_days (local_second tz t div 86400) = (y, m, d)"
  shows "civil_fields y m d (local_second tz t mod 86400)"
  using assms civil_of_days [OF assms(2)] by (auto simp: printable_def civil_fields_def)

lemma time_format_fields:
  "time_format tz layout t =
     (case civil_of_days (local_second tz t div 86400) of (y, m, d) \<Rightarrow>
        concat (map (format_chunk y m d (local_second tz t mod 86400) (t_ns t mod 1000000000) (offset_at tz t)) layout))"
  by (simp add: time_format_def local_second_def offset_at_def Let_def)

lemma go_date_settled:
  assumes "z_offset (zone_lookup tz loc (u + off)) = off" "z_offset (zone_lookup tz loc u) = off"
    and "days_of_civil y m d * 86400 + hh * 3600 + mm * 60 + ss = u + off"
  shows "go_date tz y m d hh mm ss ns loc = \<lparr>t_ns = u * 1000000000 + ns, t_loc = loc\<rparr>"
  using assms by (auto simp: go_date_def Let_def)

lemma go_date_fields:
  assumes "civil_of_days (ls div 86400) = (y, m, d)" "civil_fields y m d (ls mod 86400)"
  shows "days_of_civil y m d * 86400 + ls mod 86400 div 3600 * 3600 + ls mod 86400 mod 3600 div 60 * 60
      + ls mod 86400 mod 60 = ls"
  using civil_of_days(1) [OF assms(1)] clock_parts(7) [OF civil_fieldsD(9,10) [OF assms(2)]]
    div_mult_mod_eq [of ls 86400] by linarith

lemma no_fields_simps [simp]:
  "f_hour no_fields = 0" "f_min no_fields = 0" "f_sec no_fields = 0" "f_nsec no_fields = 0"
  "f_offset no_fields = None" "f_utc no_fields = False"
  by (simp_all add: no_fields_def)

lemma nanos:
  "0 \<le> t_ns t mod 1000000000" "t_ns t mod 1000000000 < 1000000000"
  "t_ns t div 1000000000 * 1000000000 + t_ns t mod 1000000000 = t_ns t"
  "t_ns t mod 1000 = 0 \<Longrightarrow> t_ns t mod 1000000000 mod 1000 = 0"
  by (simp_all add: mod_mod_cancel)

lemma TimeParse_date:
  assumes "printable tz t"
  shows "TimeParse tz layout_date (time_format tz layout_date t)
    = Ok \<lparr>t_ns = local_second tz t div 86400 * 86400 * 1000000000, t_loc = UTC\<rparr>"
proof -
  obtain y m d where c: "civil_of_days (local_second tz t div 86400) = (y, m, d)" by (metis prod_cases3)
  note cf = printable_fields [OF assms c]
  show ?thesis
    using civil_fieldsD(7,8) [OF cf] civil_of_days(1) [OF c]
    by (simp add: TimeParse_def time_parse_def time_format_fields c parse_chunks_date [OF cf] with_date_def
        Let_def go_date_def zone_lookup_def fixed_info_def)
qed

lemma ParseInLocation_micros:
  assumes "printable tz t" "settled tz t" "t_ns t mod 1000 = 0"
  shows "ParseInLocation tz (layout_datetime @ [FracSecond9])
      (time_format tz (layout_datetime @ [FracSecond0 6]) t) (t_loc t) = Ok t"
proof -
  let ?ls = "local_second tz t"
  obtain y m d where c: "civil_of_days (?ls div 86400) = (y, m, d)" by (metis prod_cases3)
  note cf = printable_fields [OF assms(1) c]
  have "go_date tz y m d (?ls mod 86400 div 3600) (?ls mod 86400 mod 3600 div 60) (?ls mod 86400 mod 60) ns (t_loc t)
      = \<lparr>t_ns = t_ns t div 1000000000 * 1000000000 + ns, t_loc = t_loc t\<rparr>" for ns
    using assms(2) go_date_fields [OF c cf]
    by (intro go_date_settled [where off = "offset_at tz t"]) (simp_all add: settled_def local_second_def offset_at_def)
  moreover have "parse_chunks (layout_datetime @ [FracSecond9]) (time_format tz (layout_datetime @ [FracSecond0 6]) t) no_fields
      = Some (with_clock (?ls mod 86400) (t_ns t mod 1000000000) (with_date y m d no_fields))"
    using parse_chunks_micros [OF cf nanos(1,2) [of t], where r = "[]" and c = FracSecond9 and cs = "[]" and off = "offset_at tz t"] nanos(4) [OF assms(3)]
    by (simp add: time_format_fields c)
  ultimately show ?thesis
    using civil_fieldsD(7,8) [OF cf] nanos(3) [of t]
    by (simp add: ParseInLocation_def time_parse_def Let_def with_clock_def with_date_def)
qed

text \<open>The layouts with a zone, as the columns print and read them and as the encoder prints them.\<close>

definition zone_layouts :: "chunk list \<Rightarrow> chunk list \<Rightarrow> bool" where
  "zone_layouts p q \<longleftrightarrow>
     (p, q) \<in> {([FracSecond0 6, Lit CHR '' '', NumTZ], [FracSecond9, Lit CHR '' '', NumTZ]),
               ([FracSecond0 6, NumColonTZ], [FracSecond0 6, NumColonTZ])}"

text \<open>The offset is one that two digits of hours and two of minutes can print.\<close>

definition in_minutes :: "tzdb \<Rightarrow> gtime \<Rightarrow> bool" where
  "in_minutes tz t \<longleftrightarrow> offset_at tz t mod 60 = 0 \<and> - 86400 \<le> offset_at tz t \<and> offset_at tz t \<le> 86400"

lemma TimeParse_micros_zone:
  assumes "printable tz t" "zone_layouts p q" "in_minutes tz t"
  shows "\<exists>l. TimeParse tz (layout_datetime @ q) (time_format tz (layout_datetime @ p) t)
      = Ok \<lparr>t_ns = t_ns t - t_ns t mod 1000, t_loc = l\<rparr>
    \<and> offset_at tz \<lparr>t_ns = t_ns t - t_ns t mod 1000, t_loc = l\<rparr> = offset_at tz t"
proof -
  let ?ls = "local_second tz t" and ?off = "offset_at tz t" and ?ns = "t_ns t mod 1000000000"
  obtain y m d where c: "civil_of_days (?ls div 86400) = (y, m, d)" by (metis prod_cases3)
  note cf = printable_fields [OF assms(1) c]
  have at: "go_date tz y m d (?ls mod 86400 div 3600) (?ls mod 86400 mod 3600 div 60) (?ls mod 86400 mod 60) ns UTC
      = \<lparr>t_ns = ?ls * 1000000000 + ns, t_loc = UTC\<rparr>" for ns
    using go_date_fields [OF c cf]
    by (intro go_date_settled [where off = 0]) (simp_all add: zone_lookup_def fixed_info_def)
  have hd: "format_zone colon ?off \<noteq> []" "hd (format_zone colon ?off) \<in> {CHR ''-'', CHR ''+''}" for colon
    by (auto simp: format_zone_def Let_def)
  have "parse_chunks (layout_datetime @ q) (time_format tz (layout_datetime @ p) t) no_fields
      = Some ((with_clock (?ls mod 86400) (?ns - ?ns mod 1000) (with_date y m d no_fields))\<lparr>f_offset := Some ?off\<rparr>)"
    using assms(2) hd [of True] hd [of False] assms(3) [unfolded in_minutes_def]
      parse_chunks_micros [OF cf nanos(1,2) [of t], where r = "CHR '' '' # format_zone False ?off" and c = FracSecond9
          and cs = "[Lit CHR '' '', NumTZ]" and off = ?off]
      parse_chunks_micros [OF cf nanos(1,2) [of t], where r = "format_zone True ?off" and c = "FracSecond0 6"
          and cs = "[NumColonTZ]" and off = ?off]
    by (auto simp: zone_layouts_def time_format_fields c format_chunk_def is_digit_def)
  moreover have "?ns mod 1000 = t_ns t mod 1000" by (simp add: mod_mod_cancel)
  then have ns: "?ls * 1000000000 + (?ns - ?ns mod 1000) - ?off * 1000000000 = t_ns t - t_ns t mod 1000"
    using nanos(3) [of t] by (simp add: local_second_def algebra_simps)
  ultimately have p: "TimeParse tz (layout_datetime @ q) (time_format tz (layout_datetime @ p) t)
      = (if z_offset (zone_lookup tz Local ((t_ns t - t_ns t mod 1000) div 1000000000)) = ?off
         then Ok \<lparr>t_ns = t_ns t - t_ns t mod 1000, t_loc = Local\<rparr>
         else Ok \<lparr>t_ns = t_ns t - t_ns t mod 1000, t_loc = FixedZone [] ?off\<rparr>)"
    using civil_fieldsD(7,8) [OF cf]
    by (simp only: TimeParse_def time_parse_def Let_def) (simp add: with_clock_def with_date_def at ns)
  have "z_offset (zone_lookup tz (FixedZone [] ?off) s) = ?off" for s by (simp add: zone_lookup_def fixed_info_def)
  then show ?thesis
    unfolding p offset_at_def [of tz "\<lparr>t_ns = _, t_loc = _\<rparr>"] gtime.simps
    by (cases "z_offset (zone_lookup tz Local ((t_ns t - t_ns t mod 1000) div 1000000000)) = ?off") auto
qed

end
