(* ===== verification/Arrow_Json.thy ===== *)
theory Arrow_Json
  imports Arrow Time_Facts Url_Facts
begin

text \<open>
  The two encodings of a result page agree: the rows that \<open>arrow.go\<close> materialises from an Arrow batch are the
  rows that \<open>result_rows.go\<close> and \<open>columntype.go\<close> parse from the texts of its cells.

  The text of a cell is what \<open>formatArrowColumnValue\<close> gives it, the text form of the JSON protocol.
  \<open>representable\<close> says that this form can express the cell: instants of microsecond precision in a year of
  four digits, outside the hours in which the clock of the session's time zone is changed, and zones of
  whole minutes.  Two instants are the same value when they and their offsets are equal; the parser of
  \<open>Timestamp_Tz\<close> answers with the local zone where that has the offset of the text.
\<close>

subsection \<open>Binary cells\<close>

lemma hex_upper: "n < 16 \<Longrightarrow> to_upper (hex_char n # s) = upper_hex n # to_upper s"
proof -
  assume n: "n < 16"
  have c: "of_char (hex_char n) = (if n < 10 then 48 + n else 87 + n)"
    using n by (simp add: hex_char_def of_char_of)
  have "upper_byte (hex_char n) = upper_hex n"
    using n c by (simp add: upper_byte_def is_lower_def upper_hex_def) (simp add: hex_char_def)
  moreover have "hex_char n \<noteq> CHR 0xC5" "hex_char n \<noteq> CHR 0xC4"
    using n c by (auto split: if_splits)
  ultimately show ?thesis by (subst to_upper.simps) (simp add: long_s_def dotless_i_def)
qed

lemma hex_decode_upper: "hex_decode (to_upper (hex_encode raw)) = Some raw"
proof (induction raw)
  case Nil
  show ?case by (simp add: to_upper.simps)
next
  case (Cons c raw)
  then show ?case by (simp add: hex_upper)
qed

subsection \<open>The text of a cell\<close>

definition arrow_text ::
  "tzdb \<Rightarrow> marshal \<Rightarrow> location \<Rightarrow> nat \<Rightarrow> type_desc \<times> arrow_column \<Rightarrow> string option go" where
  "arrow_text tz marshal loc i dc =
     (case dc of (desc, column) \<Rightarrow>
        if Name desc = ''Null'' then Ok None
        else go_bind (go_nth (ac_nulls column) i) (\<lambda>null.
          if null then Ok None
          else go_bind (formatArrowColumnValue tz marshal desc column i loc) (\<lambda>s. Ok (Some s))))"

definition in_micros :: "gtime \<Rightarrow> bool" where
  "in_micros t \<longleftrightarrow> t_ns t mod 1000 = 0"

text \<open>The condition on the instant of a cell, by the name of its type.\<close>

definition representable :: "tzdb \<Rightarrow> location \<Rightarrow> nat \<Rightarrow> type_desc \<times> arrow_column \<Rightarrow> bool" where
  "representable tz loc i dc =
     (case dc of (desc, column) \<Rightarrow>
        if Name desc = ''Date'' then
          (case cell_value column i of Ok (AVTime t) \<Rightarrow> printable tz (time_in t UTC) | _ \<Rightarrow> True)
        else if Name desc = ''Timestamp'' then
          (case materializeArrowTimestampDriverValue tz column i loc of
             Ok (DTime t) \<Rightarrow> printable tz t \<and> settled tz t \<and> in_micros t | _ \<Rightarrow> True)
        else if Name desc = ''Timestamp_Tz'' then
          (case materializeArrowTimestampTZDriverValue tz column i loc of
             Ok (DTime t) \<Rightarrow> printable tz t \<and> in_micros t \<and> in_minutes tz t | _ \<Rightarrow> True)
        else if Name desc = ''Binary'' then
          (case cell_value column i of Ok (AVString s) \<Rightarrow> False | _ \<Rightarrow> True)
        else True)"

definition same_value :: "tzdb \<Rightarrow> dvalue \<Rightarrow> dvalue \<Rightarrow> bool" where
  "same_value tz v w =
     (case (v, w) of
        (DTime t, DTime u) \<Rightarrow> t_ns t = t_ns u \<and> offset_at tz t = offset_at tz u
      | _ \<Rightarrow> v = w)"

lemma same_value_refl [simp]: "same_value tz v v"
  by (simp add: same_value_def split: dvalue.split)

lemma same_value_time [simp]:
  "same_value tz (DTime t) (DTime u) \<longleftrightarrow> t_ns t = t_ns u \<and> offset_at tz t = offset_at tz u"
  by (simp add: same_value_def)

subsection \<open>Cells\<close>

lemmas arrow_layouts = layout_timestamp_def layout_timestamp_tz_def layout_micros_def layout_micros_tz_def

lemma null_text_unparsed:
  "parse_chunks layout_date ''NULL'' f = None" "parse_chunks (layout_datetime @ cs) ''NULL'' f = None"
  by (simp_all add: layout_datetime_def layout_date_def parse_chunk_def is_digit_def)

lemma null_text_refused:
  "TimeParse tz layout_date ''NULL'' \<noteq> Ok t" "ParseInLocation tz layout_timestamp ''NULL'' loc \<noteq> Ok t"
  "TimeParse tz layout_timestamp_tz ''NULL'' \<noteq> Ok t"
  by (simp_all add: TimeParse_def ParseInLocation_def time_parse_def arrow_layouts null_text_unparsed)

lemma hex_null: "hex_decode ''NULL'' = None" by code_simp

lemma zone_lookup_fixed [simp]:
  "z_offset (zone_lookup tz UTC s) = 0" "z_offset (zone_lookup tz (FixedZone n off) s) = off"
  by (simp_all add: zone_lookup_def fixed_info_def)

lemma date_cell:
  assumes "materializeArrowDateDriverValue tz marshal column i = Ok v"
    and "case cell_value column i of Ok (AVTime t) \<Rightarrow> printable tz (time_in t UTC) | _ \<Rightarrow> True"
  shows "\<exists>s. go_bind (cell_value column i) (formatArrowDateValue tz marshal) = Ok s
    \<and> ct_Parse tz (DateColumn n) s = Ok v"
proof -
  obtain x where x: "cell_value column i = Ok x"
    using assms(1) by (auto simp: materializeArrowDateDriverValue_def go_bind_eq_Ok)
  show ?thesis
  proof (cases x)
    case (AVTime t)
    let ?t = "time_in t UTC"
    have "local_second tz ?t div 86400 * 86400 * 1000000000 = t_ns t - t_ns t mod 86400000000000"
      using zdiv_zmult2_eq [of 86400 "t_ns t" 1000000000]
      by (simp add: local_second_def offset_at_def time_in_def minus_mod_eq_div_mult)
    then have v: "TimeParse tz layout_date (time_format tz layout_date ?t) = Ok (truncate_day ?t)"
      using TimeParse_date [of tz ?t] assms(2) x AVTime by (simp add: truncate_day_def time_in_def)
    then have "time_format tz layout_date ?t \<noteq> ''NULL''" using null_text_refused(1) by metis
    with assms(1) x AVTime v show ?thesis
      by (simp add: materializeArrowDateDriverValue_def formatArrowDateValue_def checkNull_def)
  next
    case (AVString s)
    with assms(1) x null_text_refused(1) show ?thesis
      by (auto simp: materializeArrowDateDriverValue_def formatArrowDateValue_def checkNull_def go_bind_eq_Ok)
  qed (insert assms(1) x null_text_refused(1),
       simp_all add: materializeArrowDateDriverValue_def checkNull_def go_bind_eq_Ok, metis+)
qed

lemma timestamp_cell:
  assumes "materializeArrowTimestampDriverValue tz column i loc = Ok (DTime t)"
    and "printable tz t" "settled tz t" "in_micros t"
  shows "\<exists>s. go_bind (cell_value column i) (\<lambda>x. formatArrowTimestampValue tz x loc) = Ok s
    \<and> ct_Parse tz (TimestampColumn n loc) s = Ok (DTime t)"
proof -
  obtain x ts where x: "cell_value column i = Ok x" "parseArrowTimestampValue tz x loc = Ok ts" "t = time_in ts loc"
    using assms(1) by (auto simp: materializeArrowTimestampDriverValue_def go_bind_eq_Ok)
  let ?s = "time_format tz layout_micros t"
  have "ParseInLocation tz layout_timestamp ?s (t_loc t) = Ok t"
    using ParseInLocation_micros [OF assms(2,3)] assms(4) by (simp add: arrow_layouts in_micros_def)
  then have p: "ParseInLocation tz layout_timestamp ?s loc = Ok t" using x(3) by (simp add: time_in_def)
  then have "?s \<noteq> ''NULL''" using null_text_refused(2) by metis
  with x p show ?thesis by (simp add: formatArrowTimestampValue_def checkNull_def)
qed

lemma timestamp_tz_text:
  assumes "printable tz t" "in_micros t" "in_minutes tz t"
  shows "\<exists>w. ct_Parse tz (TimestampTzColumn n) (time_format tz layout_micros_tz t) = Ok w \<and> same_value tz w (DTime t)"
proof -
  let ?s = "time_format tz layout_micros_tz t"
  obtain l where p: "TimeParse tz layout_timestamp_tz ?s = Ok \<lparr>t_ns = t_ns t, t_loc = l\<rparr>"
    and l: "offset_at tz \<lparr>t_ns = t_ns t, t_loc = l\<rparr> = offset_at tz t"
    using TimeParse_micros_zone [OF assms(1), of "[FracSecond0 6, Lit CHR '' '', NumTZ]" "[FracSecond9, Lit CHR '' '', NumTZ]"]
      assms(2,3)
    by (auto simp: arrow_layouts zone_layouts_def in_micros_def)
  then have "?s \<noteq> ''NULL''" using null_text_refused(3) by metis
  with p l show ?thesis by (simp add: checkNull_def)
qed

text \<open>The options under which a binary cell of a JSON page is read as hexadecimal digits.\<close>

definition reads_hex :: "ColumnTypeOptions \<Rightarrow> bool" where
  "reads_hex opts \<longleftrightarrow> opt_httpJSONResultMode opts \<noteq> ModeDisplay \<or> opt_binaryOutputFormat opts = FormatHex"

lemma binary_cell:
  assumes "materializeArrowBinaryDriverValue column i = Ok v" "\<And>s. cell_value column i \<noteq> Ok (AVString s)"
    and "mode \<noteq> ModeDisplay \<or> format = FormatHex" "Name desc = ''Binary''"
  shows "\<exists>s. go_bind (cell_value column i) (\<lambda>x. formatArrowValue tz marshal desc x loc) = Ok s
    \<and> ct_Parse tz (BinaryColumn n format mode) s = Ok v"
proof -
  obtain raw where x: "cell_value column i = Ok (AVBytes raw)" and v: "v = DBytes raw"
  proof -
    obtain x where "cell_value column i = Ok x" using assms(1)
      by (auto simp: materializeArrowBinaryDriverValue_def go_bind_eq_Ok)
    with that assms(1,2) show thesis
      by (cases x) (auto simp: materializeArrowBinaryDriverValue_def materializeBinaryFromBinary_def)
  qed
  have "to_upper (hex_encode raw) \<noteq> ''NULL''" using hex_decode_upper [of raw] hex_null by auto
  with x v assms(3,4) show ?thesis
    by (auto simp: formatArrowValue_def checkNull_def materializeBinaryFromString_def hex_decode_upper Let_def
        split: binaryOutputFormat.splits)
qed

text \<open>The columns that keep the text of a cell.\<close>

lemma text_column:
  assumes "column_of_desc db opts desc = Ok ct" "formatNullAsStr opts = False"
    and "Name desc \<notin> {''Date'', ''Timestamp'', ''Timestamp_Tz'', ''Binary''}"
  shows "ct_Parse tz ct s = Ok (DString s)"
  using assms by (auto simp: column_of_desc_def Let_def split: option.splits if_splits list.splits outcome.splits)

lemma typed_column:
  "Name desc = ''Date'' \<Longrightarrow> column_of_desc db opts desc = Ok (DateColumn (Nullable desc))"
  "Name desc = ''Timestamp'' \<Longrightarrow> column_of_desc db opts desc = Ok (TimestampColumn (Nullable desc) (timezone opts))"
  "Name desc = ''Timestamp_Tz'' \<Longrightarrow> column_of_desc db opts desc = Ok (TimestampTzColumn (Nullable desc))"
  "Name desc = ''Binary'' \<Longrightarrow> column_of_desc db opts desc
     = Ok (BinaryColumn (Nullable desc) (opt_binaryOutputFormat opts) (opt_httpJSONResultMode opts))"
  by (simp_all add: column_of_desc_def simple_scan_type_def Let_def)

lemma timestamp_tz_cell:
  assumes "materializeArrowTimestampTZDriverValue tz column i loc = Ok v" "Name desc = ''Timestamp_Tz''"
    and "representable tz loc i (desc, column)"
  shows "\<exists>s w. formatArrowColumnValue tz marshal desc column i loc = Ok s
    \<and> ct_Parse tz (TimestampTzColumn n) s = Ok w \<and> same_value tz w v"
proof -
  obtain t where v: "v = DTime t"
    using assms(1) by (auto simp: materializeArrowTimestampTZDriverValue_def go_bind_eq_Ok split: option.splits prod.splits)
  then have t: "printable tz t" "in_micros t" "in_minutes tz t"
    using assms by (simp_all add: representable_def)
  have "formatArrowColumnValue tz marshal desc column i loc = Ok (time_format tz layout_micros_tz t)"
  proof (cases "ac_decimals column")
    case (Some ds)
    then obtain low high where d: "go_nth ds i = Ok (low, high)" "t = arrowTimestampTZDecimalToTime low high"
      using assms(1) v by (auto simp: materializeArrowTimestampTZDriverValue_def go_bind_eq_Ok)
    have "time_in t (FixedZone [] (offset_at tz t)) = t"
      by (simp add: d(2) arrowTimestampTZDecimalToTime_def time_in_def offset_at_def)
    then have "formatArrowTimestampTZDecimalValue tz low high = time_format tz layout_micros_tz t"
      by (simp add: formatArrowTimestampTZDecimalValue_def Let_def flip: d(2) offset_at_def)
    with Some d(1) assms(2) show ?thesis by (simp add: formatArrowColumnValue_def)
  next
    case None
    then obtain x where x: "cell_value column i = Ok x" "parseArrowTimestampValue tz x loc = Ok t"
      using assms(1) v by (auto simp: materializeArrowTimestampTZDriverValue_def go_bind_eq_Ok)
    with None assms(2) show ?thesis
      by (auto simp: formatArrowColumnValue_def formatArrowValue_def formatArrowTimestampTZValue_def
          parseArrowTimestampValue_def split: arrow_val.splits)
  qed
  then show ?thesis using timestamp_tz_text [OF t, of n] v by auto
qed

lemma arrow_cell_text:
  assumes "arrow_cell tz marshal loc i (desc, column) = Ok v" "representable tz loc i (desc, column)"
    and "column_of_desc db opts desc = Ok ct" "formatNullAsStr opts = False" "timezone opts = loc" "reads_hex opts"
  shows "(arrow_text tz marshal loc i (desc, column) = Ok None \<and> v = DNil)
    \<or> (\<exists>s w. arrow_text tz marshal loc i (desc, column) = Ok (Some s)
         \<and> ct_Parse tz ct s = Ok w \<and> same_value tz w v)"
proof -
  consider "Name desc = ''Null''" | "Name desc \<noteq> ''Null''" "go_nth (ac_nulls column) i = Ok True"
    | "Name desc \<noteq> ''Null''" "go_nth (ac_nulls column) i = Ok False"
        "materializeArrowDriverValue tz marshal desc column i loc = Ok v"
    using assms(1) by (auto simp: arrow_cell_def go_bind_eq_Ok split: if_splits)
  then show ?thesis
  proof cases
    case 3
    have "\<exists>s w. formatArrowColumnValue tz marshal desc column i loc = Ok s \<and> ct_Parse tz ct s = Ok w \<and> same_value tz w v"
    proof (cases "Name desc \<in> {''Date'', ''Timestamp'', ''Timestamp_Tz'', ''Binary''}")
      case False
      with 3 assms(3,4) show ?thesis
        by (auto simp: materializeArrowDriverValue_def go_bind_eq_Ok text_column)
    next
      case True
      then consider (d) "Name desc = ''Date''" | (t) "Name desc = ''Timestamp''"
        | (z) "Name desc = ''Timestamp_Tz''" | (b) "Name desc = ''Binary''" by blast
      then show ?thesis
      proof cases
        case d
        have f: "formatArrowColumnValue tz marshal desc column i loc
            = go_bind (cell_value column i) (formatArrowDateValue tz marshal)"
          by (simp add: formatArrowColumnValue_def formatArrowValue_def d cong: go_bind_cong)
        have ct: "ct = DateColumn (Nullable desc)" using assms(3) typed_column(1) [OF d] by simp
        have "materializeArrowDateDriverValue tz marshal column i = Ok v"
          using 3(3) d by (simp add: materializeArrowDriverValue_def)
        then obtain s where "formatArrowColumnValue tz marshal desc column i loc = Ok s" "ct_Parse tz ct s = Ok v"
          using date_cell [of tz marshal column i v "Nullable desc"] assms(2) d unfolding f ct
          by (auto simp: representable_def simp del: ct_Parse.simps)
        then show ?thesis by (intro exI conjI) auto
      next
        case t
        have f: "formatArrowColumnValue tz marshal desc column i loc
            = go_bind (cell_value column i) (\<lambda>x. formatArrowTimestampValue tz x loc)"
          by (simp add: formatArrowColumnValue_def formatArrowValue_def t cong: go_bind_cong)
        have m: "materializeArrowTimestampDriverValue tz column i loc = Ok v"
          using 3(3) t by (simp add: materializeArrowDriverValue_def)
        then obtain u where u: "v = DTime u" by (auto simp: materializeArrowTimestampDriverValue_def go_bind_eq_Ok)
        have "ct = TimestampColumn (Nullable desc) loc" using assms(3,5) typed_column(2) [OF t] by simp
        with timestamp_cell [of tz column i loc u "Nullable desc"] m u assms(2) t same_value_refl [of tz v] show ?thesis
          unfolding f by (auto simp: representable_def simp del: ct_Parse.simps)
      next
        case z
        have "ct = TimestampTzColumn (Nullable desc)" using assms(3) typed_column(3) [OF z] by simp
        with timestamp_tz_cell [OF _ z assms(2)] 3(3) z show ?thesis
          by (simp add: materializeArrowDriverValue_def del: ct_Parse.simps)
      next
        case b
        have f: "formatArrowColumnValue tz marshal desc column i loc
            = go_bind (cell_value column i) (\<lambda>x. formatArrowValue tz marshal desc x loc)"
          by (simp add: formatArrowColumnValue_def b)
        have ct: "ct = BinaryColumn (Nullable desc) (opt_binaryOutputFormat opts) (opt_httpJSONResultMode opts)"
          using assms(3) typed_column(4) [OF b] by simp
        have "materializeArrowBinaryDriverValue column i = Ok v"
          using 3(3) b by (simp add: materializeArrowDriverValue_def)
        moreover have "cell_value column i \<noteq> Ok (AVString s)" for s
          using assms(2) b by (auto simp: representable_def)
        ultimately obtain s where "formatArrowColumnValue tz marshal desc column i loc = Ok s" "ct_Parse tz ct s = Ok v"
          using binary_cell [OF _ _ assms(6) [unfolded reads_hex_def] b] unfolding f ct by blast
        then show ?thesis by (intro exI conjI) auto
      qed
    qed
    with 3 show ?thesis by (auto simp: arrow_text_def simp del: ct_Parse.simps)
  qed (use assms(1) in \<open>auto simp: arrow_text_def arrow_cell_def\<close>)
qed

subsection \<open>Pages\<close>

text \<open>The texts of a batch, row by row, as the JSON protocol carries them.\<close>

definition arrow_page ::
  "tzdb \<Rightarrow> marshal \<Rightarrow> data_field list \<Rightarrow> settings option \<Rightarrow> arrow_batch \<Rightarrow> string option list list go" where
  "arrow_page tz marshal flds st rec =
     go_bind (settings_location tz st) (\<lambda>loc.
     go_bind (go_mapM field_desc flds) (\<lambda>descs.
     go_mapM (\<lambda>i. go_mapM (arrow_text tz marshal loc i) (zip descs (ab_Columns rec))) [0..<ab_NumRows rec]))"

lemma options_location:
  assumes "queryResponseColumnTypeOptions tz st = Ok opts"
  shows "settings_location tz st = Ok (timezone opts)" "formatNullAsStr opts = False"
  using assms
  by (auto simp: queryResponseColumnTypeOptions_def settings_location_def defaultColumnTypeOptions_def
      SetHTTPJSONResultMode_def SetBinaryOutputFormat_def SetTimezone_def go_bind_eq_Ok Let_def
      split: option.splits if_splits)

text \<open>Both decoders see the same descriptor of a column.\<close>

definition column_for :: "ColumnTypeOptions \<Rightarrow> column_type \<Rightarrow> type_desc \<Rightarrow> bool" where
  "column_for opts ct desc \<longleftrightarrow> (\<exists>db. column_of_desc db opts desc = Ok ct)"

lemma column_parser_desc:
  "column_parser opts f = Ok ct \<Longrightarrow> field_desc f = Ok desc \<Longrightarrow> column_for opts ct desc"
  by (auto simp: column_parser_def field_desc_def NewColumnType_def column_for_def go_bind_eq_Ok map_err_def
      split: outcome.splits)

lemma schema_columns:
  "go_mapM (column_parser opts) flds = Ok cts \<Longrightarrow> go_mapM field_desc flds = Ok descs \<Longrightarrow>
    list_all2 (column_for opts) cts descs"
  by (induction flds arbitrary: cts descs) (auto simp: go_bind_eq_Ok column_parser_desc)

lemma arrow_row_text:
  assumes "go_mapM (arrow_cell tz marshal (timezone opts) i) (zip descs cols) = Ok vs"
    and "list_all (representable tz (timezone opts) i) (zip descs cols)"
    and "list_all2 (column_for opts) cts descs" "length cols = length descs"
    and "formatNullAsStr opts = False" "reads_hex opts"
  shows "\<exists>texts ws. go_mapM (arrow_text tz marshal (timezone opts) i) (zip descs cols) = Ok texts
    \<and> length texts = length descs \<and> materialize_row tz cts texts = Ok ws \<and> list_all2 (same_value tz) ws vs"
  using assms(3,4,1,2)
proof (induction cts descs arbitrary: cols vs rule: list_all2_induct)
  case (Cons ct cts desc descs)
  obtain col cols' where cols: "cols = col # cols'" using Cons.prems(1) by (cases cols) auto
  obtain v vs' where v: "vs = v # vs'" "arrow_cell tz marshal (timezone opts) i (desc, col) = Ok v"
      "go_mapM (arrow_cell tz marshal (timezone opts) i) (zip descs cols') = Ok vs'"
    using Cons.prems(2) by (auto simp: cols go_bind_eq_Ok)
  obtain texts ws where IH: "go_mapM (arrow_text tz marshal (timezone opts) i) (zip descs cols') = Ok texts"
      "length texts = length descs" "materialize_row tz cts texts = Ok ws" "list_all2 (same_value tz) ws vs'"
    using Cons.IH [of cols' vs'] Cons.prems(1,3) v(3) by (auto simp: cols)
  obtain db where "column_of_desc db opts desc = Ok ct" using Cons.hyps(1) by (auto simp: column_for_def)
  from arrow_cell_text [OF v(2) _ this assms(5) refl assms(6)] Cons.prems(3)
  show ?case
    by (auto simp: cols v(1) IH simp del: ct_Parse.simps intro: exI)
qed simp

lemma page_rows:
  assumes "\<And>i. i \<in> set is \<Longrightarrow> \<exists>t w. f i = Ok t \<and> length t = k \<and> m t = Ok w \<and> list_all2 R w (g i)"
  shows "\<exists>ts ws. go_mapM f is = Ok ts \<and> (\<forall>t \<in> set ts. length t = k) \<and> go_mapM m ts = Ok ws
    \<and> list_all2 (list_all2 R) ws (map g is)"
  using assms
proof (induction "is")
  case (Cons i "is")
  then obtain ts ws t w where "go_mapM f is = Ok ts" "\<forall>t \<in> set ts. length t = k" "go_mapM m ts = Ok ws"
      "list_all2 (list_all2 R) ws (map g is)" "f i = Ok t" "length t = k" "m t = Ok w" "list_all2 R w (g i)"
    by (metis list.set_intros)
  then show ?case by (intro exI [of _ "t # ts"] exI [of _ "w # ws"]) simp
qed simp

lemma go_mapM_map: "go_mapM f xs = Ok ys \<Longrightarrow> ys = map (\<lambda>x. case f x of Ok y \<Rightarrow> y) xs"
  by (induction xs arbitrary: ys) (auto simp: go_bind_eq_Ok)

text \<open>C6: (encodings) An Arrow batch and the JSON page with the texts of its cells decode to the same rows.
  When the batch fits the schema, its column types are known, every cell is representable as text, and binary
  cells are exchanged as hexadecimal digits, its cells have texts, the JSON decoder reads them, and the two
  lists of rows have the same values cell by cell: null, instants with their offsets, bytes, and strings.\<close>

theorem arrow_json_agree:
  assumes "arrowRecordToRows tz marshal flds st rec = Ok rows" "length flds = length (ab_Columns rec)"
    and "queryResponseColumnTypeOptions tz st = Ok opts" "parse_schema (Some flds) opts = Ok schema"
    and "go_mapM field_desc flds = Ok descs" "reads_hex opts"
    and "list_all (\<lambda>i. list_all (representable tz (timezone opts) i) (zip descs (ab_Columns rec))) [0..<ab_NumRows rec]"
  shows "\<exists>data r'. arrow_page tz marshal flds st rec = Ok data
    \<and> materializeJSONQueryRows tz (r\<lparr>qr_Schema := Some flds, qr_Settings := st, qr_Data := data, qr_typedRows := None\<rparr>) = Ok r'
    \<and> list_all2 (list_all2 (same_value tz)) (rows_of r') rows"
proof -
  let ?row = "\<lambda>i. go_mapM (arrow_cell tz marshal (timezone opts) i) (zip descs (ab_Columns rec))"
  obtain cts where cts: "go_mapM (column_parser opts) flds = Ok cts" "types schema = cts"
    using assms(4) by (auto simp: parse_schema_def go_bind_eq_Ok)
  have fit: "list_all2 (column_for opts) cts descs" by (rule schema_columns [OF cts(1) assms(5)])
  have len: "length descs = length flds" by (rule go_mapM_Ok_length [OF assms(5)])
  have rows: "go_mapM ?row [0..<ab_NumRows rec] = Ok rows"
    using assms(1,2,5) options_location(1) [OF assms(3)] by (simp add: arrowRecordToRows_def)
  let ?g = "\<lambda>i. case ?row i of Ok vs \<Rightarrow> vs"
  have row: "?row i = Ok (?g i)" if "i < ab_NumRows rec" for i
    using go_mapM_Ok_nth [OF rows, of i] that by simp
  have each: "\<exists>t w. go_mapM (arrow_text tz marshal (timezone opts) i) (zip descs (ab_Columns rec)) = Ok t
      \<and> length t = length flds \<and> materialize_row tz (types schema) t = Ok w \<and> list_all2 (same_value tz) w (?g i)"
    if "i \<in> set [0..<ab_NumRows rec]" for i
    using arrow_row_text [OF row _ fit _ options_location(2) [OF assms(3)] assms(6)] assms(2,7) that len
    by (simp add: list_all_iff cts(2))
  obtain data ws
    where data: "go_mapM (\<lambda>i. go_mapM (arrow_text tz marshal (timezone opts) i) (zip descs (ab_Columns rec))) [0..<ab_NumRows rec] = Ok data"
      "\<forall>t \<in> set data. length t = length flds" "go_mapM (materialize_row tz (types schema)) data = Ok ws"
      "list_all2 (list_all2 (same_value tz)) ws (map ?g [0..<ab_NumRows rec])"
    using page_rows [of "[0..<ab_NumRows rec]" "\<lambda>i. go_mapM (arrow_text tz marshal (timezone opts) i) (zip descs (ab_Columns rec))"
        "length flds" "materialize_row tz (types schema)" "same_value tz" ?g, OF each] by blast
  have "map ?g [0..<ab_NumRows rec] = rows" by (rule go_mapM_map [OF rows, symmetric])
  moreover have "arrow_page tz marshal flds st rec = Ok data"
    using data(1) assms(5) options_location(1) [OF assms(3)] by (simp add: arrow_page_def)
  ultimately show ?thesis
    using data assms(3,4) by (cases data) (auto simp: materializeJSONQueryRows_def rows_of_def)
qed

text \<open>A page of two rows with every type that the decoders treat on its own.\<close>

definition page_fields :: "data_field list" where
  "page_fields = map (\<lambda>(n, t). \<lparr>df_Name = n, df_Type = t\<rparr>)
     [(''d'', ''Date''), (''t'', ''Nullable(Timestamp)''), (''z'', ''Timestamp_Tz''), (''b'', ''Binary''), (''i'', ''Int32'')]"

definition page_column :: "arrow_val list \<Rightarrow> arrow_column" where
  "page_column vs = \<lparr>ac_nulls = map (\<lambda>v. v = AVNil) vs, ac_values = Some vs, ac_decimals = None\<rparr>"

definition page_batch :: arrow_batch where
  "page_batch = \<lparr>ab_Schema = [],
     ab_Columns =
      [page_column [AVTime \<lparr>t_ns = 1709164800 * 1000000000, t_loc = UTC\<rparr>, AVNil],
       page_column [AVTime \<lparr>t_ns = 1709251199123456 * 1000, t_loc = UTC\<rparr>, AVNil],
       (page_column [AVOther 0, AVNil])\<lparr>ac_decimals := Some [(- 1000000, ucast (word_of_int (- 5400) :: 32 word)), (0, 0)]\<rparr>,
       page_column [AVBytes ''J:'', AVNil],
       page_column [AVInt (- 42), AVInt 7]],
     ab_NumRows = 2\<rparr>"

definition page_settings :: settings where
  "page_settings = \<lparr>TimeZone = ''UTC'', GeometryOutputFormat = [], BinaryOutputFormat = [], HTTPJSONResultMode = []\<rparr>"

definition page_values :: "dvalue list list" where
  "page_values =
     [[DTime \<lparr>t_ns = 1709164800000000000, t_loc = UTC\<rparr>, DTime \<lparr>t_ns = 1709251199123456000, t_loc = UTC\<rparr>,
       DTime \<lparr>t_ns = - 1000000000, t_loc = FixedZone [] (- 5400)\<rparr>, DBytes ''J:'', DString ''-42''],
      [DNil, DNil, DNil, DNil, DString ''7'']]"

definition page_descs :: "type_desc list" where
  "page_descs =
     [TypeDesc ''Date'' False [], TypeDesc ''Timestamp'' True [], TypeDesc ''Timestamp_Tz'' False [],
      TypeDesc ''Binary'' False [], TypeDesc ''Int32'' False []]"

lemma arrow_json_agree_witness:
  "\<exists>data r'. arrow_page (\<lambda>_. None) (\<lambda>_. None) page_fields (Some page_settings) page_batch = Ok data
    \<and> materializeJSONQueryRows (\<lambda>_. None) (empty_response\<lparr>qr_Schema := Some page_fields,
        qr_Settings := Some page_settings, qr_Data := data, qr_typedRows := None\<rparr>) = Ok r'
    \<and> list_all2 (list_all2 (same_value (\<lambda>_. None))) (rows_of r') page_values"
proof (rule arrow_json_agree)
  show "arrowRecordToRows (\<lambda>_. None) (\<lambda>_. None) page_fields (Some page_settings) page_batch = Ok page_values"
    by code_simp
  show "length page_fields = length (ab_Columns page_batch)" by code_simp
  show "queryResponseColumnTypeOptions (\<lambda>_. None) (Some page_settings) = Ok defaultColumnTypeOptions" by code_simp
  show "parse_schema (Some page_fields) defaultColumnTypeOptions
      = Ok \<lparr>columns = [''d'', ''t'', ''z'', ''b'', ''i''],
            types = [DateColumn False, TimestampColumn True UTC, TimestampTzColumn False,
                     BinaryColumn False FormatHex ModeDriver, SimpleColumn ''Int32'' ScanInt32 False False]\<rparr>"
    by code_simp
  show "go_mapM field_desc page_fields = Ok page_descs" by code_simp
  show "reads_hex defaultColumnTypeOptions" by code_simp
  show "list_all (\<lambda>i. list_all (representable (\<lambda>_. None) (timezone defaultColumnTypeOptions) i)
      (zip page_descs (ab_Columns page_batch))) [0..<ab_NumRows page_batch]" by code_simp
qed

end
