(* ===== verification/Encoder_Props.thy ===== *)
theory Encoder_Props
  imports Sql_Encoder Column_Types Time_Facts
begin

text \<open>
  What the time literals of \<open>encoder.go\<close> and \<open>types.go\<close> denote.  The reader of a literal is the parser of Go's
  own \<open>time\<close> package with the layout of the encoder, and the date column of \<open>columntype.go\<close>.
\<close>

text \<open>C18: (time literals) A bound time is a quoted literal that denotes the same instant to the microsecond,
  with its offset, when its year has four digits and its offset is a number of minutes; and a bound date is a
  quoted literal that a \<open>Date\<close> column reads as midnight of the day that the time has in its own location.\<close>

theorem bound_time_roundtrip:
  assumes "printable (fe_tz E) t" "in_minutes (fe_tz E) t"
  shows "(\<exists>s u. Encode E (GTime t) = Ok (quote s) \<and> TimeParse (fe_tz E) timeFormat s = Ok u
       \<and> t_ns u = t_ns t - t_ns t mod 1000 \<and> offset_at (fe_tz E) u = offset_at (fe_tz E) t)
    \<and> (\<exists>s. date_Value E t = Ok (GBytes (quote s)) \<and> Encode E (GBytes (quote s)) = Ok (quote s)
       \<and> ct_Parse (fe_tz E) (DateColumn n) s
           = Ok (DTime \<lparr>t_ns = local_second (fe_tz E) t div 86400 * 86400 * 1000000000, t_loc = UTC\<rparr>))"
proof
  let ?tz = "fe_tz E"
  obtain l where "TimeParse ?tz timeFormat (time_format ?tz timeFormat t)
        = Ok \<lparr>t_ns = t_ns t - t_ns t mod 1000, t_loc = l\<rparr>"
      "offset_at ?tz \<lparr>t_ns = t_ns t - t_ns t mod 1000, t_loc = l\<rparr> = offset_at ?tz t"
    using TimeParse_micros_zone [OF assms(1), of "[FracSecond0 6, NumColonTZ]" "[FracSecond0 6, NumColonTZ]"] assms(2)
    by (auto simp: timeFormat_def zone_layouts_def)
  then show "\<exists>s u. Encode E (GTime t) = Ok (quote s) \<and> TimeParse ?tz timeFormat s = Ok u
       \<and> t_ns u = t_ns t - t_ns t mod 1000 \<and> offset_at ?tz u = offset_at ?tz t"
    by (intro exI [of _ "time_format ?tz timeFormat t"] exI)
      (auto simp: Encode.simps encode_scalar_def formatTime_def)
  have p: "TimeParse ?tz layout_date (time_format ?tz layout_date t)
      = Ok \<lparr>t_ns = local_second ?tz t div 86400 * 86400 * 1000000000, t_loc = UTC\<rparr>"
    by (rule TimeParse_date [OF assms(1)])
  have "TimeParse ?tz layout_date ''NULL'' \<noteq> Ok u" for u
    by (simp add: TimeParse_def time_parse_def layout_date_def parse_chunk_def is_digit_def)
  with p have "time_format ?tz layout_date t \<noteq> ''NULL''" by metis
  with p show "\<exists>s. date_Value E t = Ok (GBytes (quote s)) \<and> Encode E (GBytes (quote s)) = Ok (quote s)
       \<and> ct_Parse ?tz (DateColumn n) s
           = Ok (DTime \<lparr>t_ns = local_second ?tz t div 86400 * 86400 * 1000000000, t_loc = UTC\<rparr>)"
    by (intro exI [of _ "time_format ?tz layout_date t"])
      (simp add: date_Value_def formatDate_def dateFormat_def Encode.simps checkNull_def)
qed

text \<open>New Year in Kolkata is still the old year in UTC.\<close>

definition demo_time :: gtime where
  "demo_time = \<lparr>t_ns = 1704048300123456789, t_loc = FixedZone ''IST'' 19800\<rparr>"

definition plain_fmt :: fmt_env where
  "plain_fmt = \<lparr>fe_tz = (\<lambda>_. None), fe_sprint = (\<lambda>_. [])\<rparr>"

lemma bound_time_roundtrip_witness:
  "(\<exists>s u. Encode plain_fmt (GTime demo_time) = Ok (quote s) \<and> TimeParse (fe_tz plain_fmt) timeFormat s = Ok u
       \<and> t_ns u = t_ns demo_time - t_ns demo_time mod 1000 \<and> offset_at (fe_tz plain_fmt) u = offset_at (fe_tz plain_fmt) demo_time)
    \<and> (\<exists>s. date_Value plain_fmt demo_time = Ok (GBytes (quote s)) \<and> Encode plain_fmt (GBytes (quote s)) = Ok (quote s)
       \<and> ct_Parse (fe_tz plain_fmt) (DateColumn True) s
           = Ok (DTime \<lparr>t_ns = local_second (fe_tz plain_fmt) demo_time div 86400 * 86400 * 1000000000, t_loc = UTC\<rparr>))"
  by (rule bound_time_roundtrip) code_simp+

end
