(* ===== verification/Session_Props.thy ===== *)
theory Session_Props
  imports Client_Props Url_Facts
begin

text \<open>
  The session document of \<open>query.go\<close>: what a decoder makes of the document that the encoder writes, into an
  empty session and into one that already holds values, and what a client makes of an echoed session.
\<close>

subsection \<open>The members of the document\<close>

text \<open>One member stored into the struct, with the verdict so far.\<close>

definition store :: "session_state \<times> bool \<Rightarrow> string \<times> json \<Rightarrow> session_state \<times> bool" where
  "store = (\<lambda>(x, ok) (k, v). let (y, ok') = session_member k v x in (y, ok \<and> ok'))"

lemma dec_session_store: "dec_session (JObj kvs) old = foldl store (old, True) kvs"
  by (simp add: dec_session_def dec_struct_def store_def)

lemma folded_keys:
  "fold_case ''database'' = ''database''" "fold_case ''role'' = ''role''"
  "fold_case ''secondary_roles'' = ''secondary_roles''" "fold_case ''settings'' = ''settings''"
  "fold_case ''txn_state'' = ''txn_state''" "fold_case ''need_sticky'' = ''need_sticky''"
  "fold_case ''need_keep_alive'' = ''need_keep_alive''"
  by code_simp+

lemmas store_simps = store_def session_member_def equal_fold_def folded_keys member_def dec_string_def dec_bool_def
  opt_string_def opt_bool_def opt_json_def

lemma store_strings:
  "foldl store (x, ok) (opt_string ''database'' d)
     = (x\<lparr>ss_Database := if d = [] then ss_Database x else d\<rparr>, ok)"
  "foldl store (x, ok) (opt_string ''role'' d) = (x\<lparr>ss_Role := if d = [] then ss_Role x else d\<rparr>, ok)"
  "foldl store (x, ok) (opt_string ''txn_state'' d) = (x\<lparr>ss_TxnState := if d = [] then ss_TxnState x else d\<rparr>, ok)"
  by (simp_all add: store_simps)

lemma store_flags:
  "foldl store (x, ok) (opt_bool ''need_sticky'' b) = (x\<lparr>ss_NeedSticky := b \<or> ss_NeedSticky x\<rparr>, ok)"
  "foldl store (x, ok) (opt_bool ''need_keep_alive'' b) = (x\<lparr>ss_NeedKeepAlive := b \<or> ss_NeedKeepAlive x\<rparr>, ok)"
  by (simp_all add: store_simps)

lemma store_roles:
  "foldl store (x, ok) (opt_json ''secondary_roles'' (map_option (\<lambda>rs. JArr (map JStr rs)) r))
     = (x\<lparr>ss_SecondaryRoles := case r of None \<Rightarrow> ss_SecondaryRoles x | Some rs \<Rightarrow> Some rs\<rparr>, ok)"
  by (cases r) (simp_all add: store_simps dec_ptr_def dec_list_def comp_def list_all_iff)

text \<open>The settings are written into the map that is there.\<close>

definition update_settings :: "strmap option \<Rightarrow> strmap \<Rightarrow> strmap" where
  "update_settings old kvs =
     foldl (\<lambda>m (k, v). AList.update k v m) (case old of None \<Rightarrow> [] | Some m \<Rightarrow> m) (sort_entries kvs)"

definition merged_settings :: "strmap option \<Rightarrow> strmap option \<Rightarrow> strmap option" where
  "merged_settings old new =
     (case new of Some (e # es) \<Rightarrow> Some (update_settings old (e # es)) | _ \<Rightarrow> old)"

lemma store_settings:
  "foldl store (x, ok) (opt_map ''settings'' m) = (x\<lparr>ss_Settings := merged_settings (ss_Settings x) m\<rparr>, ok)"
proof (cases "m = None \<or> m = Some []")
  case False
  then obtain e es where m: "m = Some (e # es)" by (cases m) (auto simp: neq_Nil_conv)
  have "foldl (\<lambda>m (k, v). AList.update k (fst (dec_string v [])) m) a (map (\<lambda>(k, v). (k, JStr v)) kvs)
      = foldl (\<lambda>m (k, v). AList.update k v m) a kvs" for a and kvs :: strmap
    by (induction kvs arbitrary: a) (auto simp: dec_string_def)
  moreover have "list_all (\<lambda>(k, v). snd (dec_string v [])) (map (\<lambda>(k, v). (k, JStr v)) kvs)" for kvs :: strmap
    by (induction kvs) (auto simp: dec_string_def)
  ultimately show ?thesis
    by (simp add: m store_def session_member_def equal_fold_def folded_keys member_def opt_map_def map_json_def
        dec_map_def merged_settings_def update_settings_def)
qed (auto simp: opt_map_def merged_settings_def)

subsection \<open>The document\<close>

text \<open>What is stored where: a member that the encoder leaves out keeps the old value.\<close>

definition merge_session :: "session_state \<Rightarrow> session_state \<Rightarrow> session_state" where
  "merge_session old s =
     \<lparr>ss_Database = (if ss_Database s = [] then ss_Database old else ss_Database s),
      ss_Role = (if ss_Role s = [] then ss_Role old else ss_Role s),
      ss_SecondaryRoles = (case ss_SecondaryRoles s of None \<Rightarrow> ss_SecondaryRoles old | Some rs \<Rightarrow> Some rs),
      ss_Settings = merged_settings (ss_Settings old) (ss_Settings s),
      ss_TxnState = (if ss_TxnState s = [] then ss_TxnState old else ss_TxnState s),
      ss_NeedSticky = (ss_NeedSticky s \<or> ss_NeedSticky old),
      ss_NeedKeepAlive = (ss_NeedKeepAlive s \<or> ss_NeedKeepAlive old)\<rparr>"

lemma dec_session_json: "dec_session (session_json s) old = (merge_session old s, True)"
  unfolding session_json_def dec_session_store foldl_append store_strings store_flags store_roles store_settings
  by (intro prod_eqI session_state.equality) (simp_all add: merge_session_def split: option.split)

lemma map_of_update_settings:
  "distinct (map fst kvs) \<Longrightarrow>
    map_of (update_settings old kvs) = map_of (case old of None \<Rightarrow> [] | Some m \<Rightarrow> m) ++ map_of kvs"
proof -
  have fold: "map_of (foldl (\<lambda>m (k, v). AList.update k v m) a kvs) = map_of a ++ map_of (rev kvs)" for a kvs
    by (induction kvs arbitrary: a) (auto simp: AList.update_conv' map_add_def fun_eq_iff split: option.splits)
  assume d: "distinct (map fst kvs)"
  have s: "distinct (map fst (sort_entries kvs))"
    using d mset_eq_imp_distinct_iff [of "map fst (sort_entries kvs)" "map fst kvs"] by simp
  have "map_of (rev (sort_entries kvs)) = map_of kvs"
    using d s by (intro map_of_inject_set [THEN iffD2]) (simp_all add: rev_map [symmetric])
  then show ?thesis by (simp add: update_settings_def fold)
qed

definition settings_of :: "session_state \<Rightarrow> string \<rightharpoonup> string" where
  "settings_of s = map_of (case ss_Settings s of None \<Rightarrow> [] | Some m \<Rightarrow> m)"

lemma settings_merge_session:
  "distinct (map fst (case ss_Settings s of None \<Rightarrow> [] | Some m \<Rightarrow> m)) \<Longrightarrow>
    settings_of (merge_session old s) = settings_of old ++ settings_of s"
  by (cases "ss_Settings s"; cases "the (ss_Settings s)")
    (auto simp: settings_of_def merge_session_def merged_settings_def map_of_update_settings)

lemma merge_empty: "(merge_session empty_session s)\<lparr>ss_Settings := ss_Settings s\<rparr> = s"
  by (rule session_state.equality) (simp_all add: merge_session_def empty_session_def split: option.split)

text \<open>C17: (sessions) The document of a session that the server echoes is decoded without an error. Into an empty
  session it gives back the session, its settings as a map; a client adopts it member by member over the
  session it has: what the document leaves out keeps its old value, the two flags can only be raised, and the
  settings are overwritten key by key.\<close>

theorem session_roundtrip:
  assumes "distinct (map fst (case ss_Settings s of None \<Rightarrow> [] | Some m \<Rightarrow> m))"
    and "qr_Session r = Some (session_json s)" "sessionState c = Some old"
  shows "(\<exists>e. dec_session (session_json s) empty_session = (e, True)
      \<and> e\<lparr>ss_Settings := ss_Settings s\<rparr> = s \<and> settings_of e = settings_of s)
    \<and> sessionStateRaw (applySessionState (Some r) c) = Some (session_json s)
    \<and> sessionState (applySessionState (Some r) c) = Some (merge_session old s)
    \<and> settings_of (merge_session old s) = settings_of old ++ settings_of s"
proof -
  have "settings_of (merge_session empty_session s) = settings_of s"
    using settings_merge_session [OF assms(1), of empty_session] by (simp add: settings_of_def empty_session_def)
  then show ?thesis
    using assms(2,3) settings_merge_session [OF assms(1)]
    by (simp add: dec_session_json merge_empty applySessionState_def)
qed

definition demo_session :: session_state where
  "demo_session = empty_session\<lparr>ss_Database := ''books'', ss_SecondaryRoles := Some [''r''],
     ss_Settings := Some [(''z'', ''1''), (''a'', ''2'')], ss_TxnState := TxnStateActive\<rparr>"

lemma session_roundtrip_witness:
  "(\<exists>e. dec_session (session_json demo_session) empty_session = (e, True)
      \<and> e\<lparr>ss_Settings := ss_Settings demo_session\<rparr> = demo_session \<and> settings_of e = settings_of demo_session)
    \<and> sessionStateRaw (applySessionState (Some (empty_response\<lparr>qr_Session := Some (session_json demo_session)\<rparr>))
         (demo_client\<lparr>sessionState := Some (empty_session\<lparr>ss_NeedSticky := True\<rparr>)\<rparr>)) = Some (session_json demo_session)
    \<and> sessionState (applySessionState (Some (empty_response\<lparr>qr_Session := Some (session_json demo_session)\<rparr>))
         (demo_client\<lparr>sessionState := Some (empty_session\<lparr>ss_NeedSticky := True\<rparr>)\<rparr>))
        = Some (merge_session (empty_session\<lparr>ss_NeedSticky := True\<rparr>) demo_session)
    \<and> settings_of (merge_session (empty_session\<lparr>ss_NeedSticky := True\<rparr>) demo_session)
        = settings_of (empty_session\<lparr>ss_NeedSticky := True\<rparr>) ++ settings_of demo_session"
  by (rule session_roundtrip) (simp_all add: demo_session_def empty_response_def)

end
