(* ===== verification/Select_Query.thy ===== *)
theory Select_Query
  imports Dsn
begin

text \<open>
  \<open>cmd/select_query.go\<close>: the data source name that the program takes from its environment, and the report it
  writes about an error; with them \<open>APIError.Format\<close> of \<open>apierrors.go\<close>.

  The environment is a function that answers with the empty string for a variable that is not set, as
  \<open>os.Getenv\<close> does.  \<open>fatalf\<close> logs a message and ends the program; here it is the error with that message.
  The dynamic type that \<open>%T\<close> prints is an argument, and so is the quoting of \<open>%q\<close>.  The rest of the program
  calls \<open>database/sql\<close> and prints.
\<close>

subsection \<open>The data source name\<close>

definition required :: "(string \<Rightarrow> string) \<Rightarrow> string \<Rightarrow> string go" where
  "required getenv k =
     (if getenv k \<noteq> [] then Ok (getenv k) else Err (EMsg (k @ '' environment variable is not set.'')))"

definition getDSN :: "(strmap \<Rightarrow> strmap) \<Rightarrow> (string \<Rightarrow> string) \<Rightarrow> (string \<times> config) go" where
  "getDSN order getenv =
     go_bind (required getenv ''LAKE_TEST_USER'') (\<lambda>user.
     go_bind (required getenv ''LAKE_TEST_PASSWORD'') (\<lambda>password.
     go_bind (required getenv ''LAKE_TEST_WAREHOUSE'') (\<lambda>warehouse.
     let host = getenv ''LAKE_TEST_HOST'';
         accessToken = getenv ''LAKE_TEST_ACCESSTOKEN'';
         cfg = NewConfig\<lparr>cfg_Warehouse := warehouse, cfg_User := user, cfg_Password := password,
           cfg_Host := host, cfg_Database := ''books'', cfg_AccessToken := accessToken, cfg_Debug := True\<rparr>
     in Ok (FormatDSN order cfg, cfg))))"

subsection \<open>Reports\<close>

fun errors_as_query :: "go_error \<Rightarrow> query_error option" where
  "errors_as_query (EQuery e) = Some e"
| "errors_as_query (EWrap m e) = errors_as_query e"
| "errors_as_query (ERejectedURI m) = None"
| "errors_as_query (ESentinel s) = None"
| "errors_as_query (EMsg m) = None"
| "errors_as_query (EApi e) = None"

definition reportError :: "(go_error \<Rightarrow> string) \<Rightarrow> string \<Rightarrow> go_error \<Rightarrow> string \<times> (string \<times> log_value) list" where
  "reportError type_name operation err =
     (operation,
      [(''error_type'', LogString (type_name err))]
      @ (case errors_as_api err of None \<Rightarrow> [] | Some apiErr \<Rightarrow> [(''status_code'', LogInt (StatusCode apiErr))])
      @ (case errors_as_query err of None \<Rightarrow> [] | Some queryErr \<Rightarrow> [(''query_error_code'', LogInt (qe_code queryErr))]))"

text \<open>\<open>APIError.Format\<close>.\<close>

definition api_error_Format :: "(string \<Rightarrow> string) \<Rightarrow> char \<Rightarrow> api_error \<Rightarrow> string" where
  "api_error_Format quoted verb e = (if verb = CHR ''q'' then quoted (api_error_text e) else api_error_text e)"

subsection \<open>What a report shows\<close>

text \<open>An error without the texts that came from a server, a statement or an argument: the response of an API
  error, everything but the code of a query error, and the messages around and beside them.\<close>

fun scrub :: "go_error \<Rightarrow> go_error" where
  "scrub (ESentinel s) = ESentinel s"
| "scrub (EMsg m) = EMsg []"
| "scrub (EWrap m e) = EWrap [] (scrub e)"
| "scrub (EApi e) = EApi (e\<lparr>RespBody := empty_api_body, RespText := []\<rparr>)"
| "scrub (EQuery e) = EQuery (e\<lparr>qe_message := [], qe_kind := [], qe_detail := []\<rparr>)"
| "scrub (ERejectedURI m) = ERejectedURI []"

lemma as_scrub:
  "errors_as_api (scrub err) = map_option (\<lambda>e. e\<lparr>RespBody := empty_api_body, RespText := []\<rparr>) (errors_as_api err)"
  "errors_as_query (scrub err)
     = map_option (\<lambda>e. e\<lparr>qe_message := [], qe_kind := [], qe_detail := []\<rparr>) (errors_as_query err)"
  by (induction err) simp_all

text \<open>C32: (reports) Diagnostics do not show what a server answered or what a statement said. Two errors that
  are equal once these texts are removed, and have the same dynamic type, give the same report, whatever
  they are wrapped in; and an API error prints, in every verb and for the structured logger, without its
  response.\<close>

theorem reports_hide_texts:
  assumes "scrub err = scrub err'" "type_name err = type_name err'"
  shows "reportError type_name operation err = reportError type_name operation err'
    \<and> (case errors_as_api err of
         Some a \<Rightarrow>
           (case errors_as_api err' of
              Some b \<Rightarrow> api_error_Format quoted verb a = api_error_Format quoted verb b
                \<and> api_error_log_value a = api_error_log_value b
            | None \<Rightarrow> False)
       | None \<Rightarrow> errors_as_api err' = None)"
proof -
  have api: "map_option (\<lambda>e. (StatusCode e, Hint e)) (errors_as_api err)
      = map_option (\<lambda>e. (StatusCode e, Hint e)) (errors_as_api err')"
    and query: "map_option qe_code (errors_as_query err) = map_option qe_code (errors_as_query err')"
  proof -
    have "map_option (\<lambda>e. (StatusCode e, Hint e)) (errors_as_api (scrub e))
          = map_option (\<lambda>e. (StatusCode e, Hint e)) (errors_as_api e)"
      "map_option qe_code (errors_as_query (scrub e)) = map_option qe_code (errors_as_query e)" for e
      by (simp_all add: as_scrub option.map_comp comp_def)
    with assms(1) show "map_option (\<lambda>e. (StatusCode e, Hint e)) (errors_as_api err)
        = map_option (\<lambda>e. (StatusCode e, Hint e)) (errors_as_api err')"
      "map_option qe_code (errors_as_query err) = map_option qe_code (errors_as_query err')" by metis+
  qed
  from api query assms(2) show ?thesis
    by (auto simp: reportError_def api_error_Format_def api_error_text_def api_error_log_value_def
        map_option_case split: option.splits)
qed

lemma reports_hide_texts_witness:
  "reportError (\<lambda>_. ''*errors.withStack'') ''exec''
      (EWrap ''query error'' (EApi \<lparr>RespBody = empty_api_body, RespText = ''secret'', StatusCode = 401, Hint = ''login''\<rparr>))
    = reportError (\<lambda>_. ''*errors.withStack'') ''exec''
      (EWrap ''sql text'' (EApi \<lparr>RespBody = empty_api_body, RespText = [], StatusCode = 401, Hint = ''login''\<rparr>))
   \<and> (case errors_as_api (EWrap ''query error'' (EApi \<lparr>RespBody = empty_api_body, RespText = ''secret'', StatusCode = 401, Hint = ''login''\<rparr>)) of
         Some a \<Rightarrow>
           (case errors_as_api (EWrap ''sql text'' (EApi \<lparr>RespBody = empty_api_body, RespText = [], StatusCode = 401, Hint = ''login''\<rparr>)) of
              Some b \<Rightarrow> api_error_Format id CHR ''v'' a = api_error_Format id CHR ''v'' b
                \<and> api_error_log_value a = api_error_log_value b
            | None \<Rightarrow> False)
       | None \<Rightarrow> errors_as_api (EWrap ''sql text'' (EApi \<lparr>RespBody = empty_api_body, RespText = [], StatusCode = 401, Hint = ''login''\<rparr>)) = None)"
  by (rule reports_hide_texts) simp_all

end
