(* ===== verification/Exec_Props.thy ===== *)
theory Exec_Props
  imports Connection_Invariant Batch_Facts
begin

text \<open>
  What reaches the server.  The statement of \<open>exec\<close> and \<open>query\<close> passes through the interpolation, the
  login, the retries, the authentication rounds, the redirects and the pages; the property at the end
  says that of all that is sent on the way the only statement is the interpolated one, and that it
  has been sent when the call succeeds.
\<close>

subsection \<open>The statements on the wire\<close>

definition sql_of :: "body \<Rightarrow> string option" where
  "sql_of b =
     (case b of
        JsonBody (JObj members) \<Rightarrow> (case map_of members ''sql'' of Some (JStr q) \<Rightarrow> Some q | _ \<Rightarrow> None)
      | _ \<Rightarrow> None)"

text \<open>The texts that a list of requests asks the server to run.\<close>

definition statements :: "request list \<Rightarrow> string list" where
  "statements rs = List.map_filter (\<lambda>r. sql_of (rq_Body r)) rs"

lemma statements_simps [simp]:
  "statements [] = []" "statements (rs @ rs') = statements rs @ statements rs'"
  by (simp_all add: statements_def map_filter_def)

lemma set_statements: "q \<in> set (statements rs) \<longleftrightarrow> (\<exists>r\<in>set rs. sql_of (rq_Body r) = Some q)"
  by (force simp: statements_def map_filter_def)

lemma sql_of_bodies [simp]:
  "sql_of NoBody = None" "sql_of (UploadBody u) = None"
  "sql_of (JsonBody (login_request_json l)) = None"
  "sql_of (JsonBody (query_request_json q)) = Some (rq_SQL q)"
  by (auto simp: sql_of_def login_request_json_def query_request_json_def opt_string_def opt_map_def
      opt_json_def map_add_def split: option.splits list.splits)

subsection \<open>Nothing but the statement\<close>

definition only_sends :: "request list \<Rightarrow> string \<Rightarrow> st \<Rightarrow> bool" where
  "only_sends sent0 q s \<longleftrightarrow> (\<exists>rs. ns_Sent (net s) = sent0 @ rs \<and> set (statements rs) \<subseteq> {q})"

text \<open>A chain of redirects starts with the request itself, and goes on with its body or with none.\<close>

lemma http_do_bodies:
  "\<exists>rs. ns_Sent (snd (http_do q N policy usejar n via req ns)) = ns_Sent ns @ rs
     \<and> list_all (\<lambda>r. rq_Body r = rq_Body req \<or> rq_Body r = NoBody) rs
     \<and> (0 < n \<longrightarrow> (\<exists>r\<in>set rs. rq_Body r = rq_Body req))"
proof (induction n arbitrary: via req ns)
  case (Suc n)
  let ?goal = "\<lambda>sent. \<exists>rs. sent = ns_Sent ns @ rs
     \<and> list_all (\<lambda>r. rq_Body r = rq_Body req \<or> rq_Body r = NoBody) rs \<and> (\<exists>r\<in>set rs. rq_Body r = rq_Body req)"
  have one: "?goal (ns_Sent ns @ [req\<lparr>rq_Cookies := c\<rparr>])" for c by simp
  have "?goal (ns_Sent (snd (http_do q N policy usejar n via' (redirect_request req st loc rel)
        \<lparr>ns_Jar = j, ns_Sent = ns_Sent ns @ [req\<lparr>rq_Cookies := c\<rparr>]\<rparr>)))" for via' st loc rel j c
  proof -
    obtain rs where "ns_Sent (snd (http_do q N policy usejar n via' (redirect_request req st loc rel)
        \<lparr>ns_Jar = j, ns_Sent = ns_Sent ns @ [req\<lparr>rq_Cookies := c\<rparr>]\<rparr>))
          = (ns_Sent ns @ [req\<lparr>rq_Cookies := c\<rparr>]) @ rs"
      "list_all (\<lambda>r. rq_Body r = rq_Body (redirect_request req st loc rel) \<or> rq_Body r = NoBody) rs"
      using Suc [of via' "redirect_request req st loc rel"
          "\<lparr>ns_Jar = j, ns_Sent = ns_Sent ns @ [req\<lparr>rq_Cookies := c\<rparr>]\<rparr>"] by auto
    then show ?thesis
      by (intro exI [of _ "req\<lparr>rq_Cookies := c\<rparr> # rs"])
        (auto simp: redirect_request_def Let_def list_all_iff split: if_splits)
  qed
  with one show ?case by (cases usejar) (auto simp: Let_def split: reply.split option.split)
qed simp

lemma client_do_bodies:
  obtains rs where "ns_Sent (net (snd (client_do E usejar req s))) = ns_Sent (net s) @ rs"
    "list_all (\<lambda>r. rq_Body r = rq_Body req \<or> rq_Body r = NoBody) rs" "\<exists>r\<in>set rs. rq_Body r = rq_Body req"
proof -
  have "snd (http_do (e_quoted E) (e_net E) (checkAPIRedirect (e_quoted E)) usejar redirect_fuel [] req (net s))
      = net (snd (client_do E usejar req s))"
    by (simp add: client_do_def case_prod_beta Let_def)
  with http_do_bodies [of "e_quoted E" "e_net E" "checkAPIRedirect (e_quoted E)" usejar redirect_fuel "[]" req "net s"]
  show thesis by (auto simp: redirect_fuel_def intro: that)
qed

lemma newRequest_body: "newRequest E c m url b h = Ok req \<Longrightarrow> rq_Body req = b"
  by (auto simp: newRequest_def split: outcome.splits)

interpretation conn_statement: conn_invariant
  "only_sends sent0 q" "\<lambda>_. True" "\<lambda>_. True" "\<lambda>b. sql_of b \<in> {None, Some q}" "\<lambda>s. s = q"
proof (unfold_locales, goal_cases)
  case (1 s s')
  then show ?case by (simp add: silent_def only_sends_def)
next
  case (2 s E path reqURL ctx h b m req usejar)
  obtain rs where rs: "ns_Sent (net (snd (client_do E usejar req s))) = ns_Sent (net s) @ rs"
    "list_all (\<lambda>r. rq_Body r = rq_Body req \<or> rq_Body r = NoBody) rs"
    using client_do_bodies [of E usejar req s] by blast
  have "sql_of (rq_Body req) \<in> {None, Some q}" using 2 newRequest_body by simp
  with rs(2) have "set (statements rs) \<subseteq> {q}" by (fastforce simp: set_statements list_all_iff)
  with 2(1) rs(1) show ?case by (auto simp: only_sends_def)
qed simp_all

subsection \<open>A call that succeeds has sent it\<close>

definition has_sent :: "request list \<Rightarrow> string \<Rightarrow> st \<Rightarrow> bool" where
  "has_sent sent0 q s \<longleftrightarrow> (\<exists>rs. ns_Sent (net s) = sent0 @ rs \<and> q \<in> set (statements rs))"

abbreviation grown :: "request list \<Rightarrow> st \<Rightarrow> bool" where
  "grown sent0 s \<equiv> prefix sent0 (ns_Sent (net s))"

lemma has_sent_later: "has_sent sent0 q s \<Longrightarrow> prefix (ns_Sent (net s)) (ns_Sent (net s')) \<Longrightarrow> has_sent sent0 q s'"
  by (force simp: has_sent_def elim: prefixE)

lemma has_sent_net: "has_sent sent0 q s \<Longrightarrow> ns_Sent (net s') = ns_Sent (net s) \<Longrightarrow> has_sent sent0 q s'"
  by (simp add: has_sent_def)

lemma exchange_sends:
  assumes "exchange E ctx m url b h s = (Ok r, s')" "sql_of b = Some q" "grown sent0 s"
  shows "has_sent sent0 q s'"
proof -
  obtain req where req: "newRequest E (cl s) m url b h = Ok req" "s' = snd (client_do E True req s)"
    using assms(1) by (auto simp: exchange_def split: option.splits outcome.splits prod.splits)
  obtain rs where rs: "ns_Sent (net s') = ns_Sent (net s) @ rs" "\<exists>r\<in>set rs. rq_Body r = rq_Body req"
    unfolding req(2) by (rule client_do_bodies)
  with assms(2) newRequest_body [OF req(1)] have "q \<in> set (statements rs)"
    unfolding set_statements by metis
  with assms(3) rs(1) show ?thesis by (auto simp: has_sent_def elim!: prefixE)
qed

lemma rotateToken_sent [simp]: "ns_Sent (net (rotateToken E s)) = ns_Sent (net s)"
  using silent_steps(4) [of s E] by (simp add: silent_def)

lemma grown_exchange: "exchange E ctx m url b h s = (r, s') \<Longrightarrow> grown sent0 s \<Longrightarrow> grown sent0 s'"
  using exchange_prefix [of s E ctx m url b h] prefix_order.trans by auto

lemma doRequest_loop_sends:
  "doRequest_loop E ctx m url b h k dec resp rh s = (Ok u, x, y, s') \<Longrightarrow> sql_of b = Some q \<Longrightarrow> grown sent0 s
    \<Longrightarrow> has_sent sent0 q s'"
proof (induction k arbitrary: dec resp rh s)
  case (Suc k)
  obtain r s1 where e: "exchange E ctx m url b h s = (r, s1)" by fastforce
  have "grown sent0 (rotateToken E s1)" using grown_exchange [OF e Suc.prems(3)] by simp
  with Suc.IH Suc.prems(2) have
    "doRequest_loop E ctx m url b h k dec' resp' rh' (rotateToken E s1) = (Ok u, x, y, s') \<Longrightarrow> has_sent sent0 q s'"
    for dec' resp' rh' by blast
  with Suc.prems e exchange_sends [of E ctx m url b h s _ s1 q sent0] show ?case
    by (auto simp: Let_def split: outcome.splits option.splits prod.splits if_splits)
qed simp

lemma doRequestRaw_loop_sends:
  "doRequestRaw_loop E ctx m url b h k s = (Ok u, s') \<Longrightarrow> sql_of b = Some q \<Longrightarrow> grown sent0 s
    \<Longrightarrow> has_sent sent0 q s'"
proof (induction k arbitrary: s)
  case (Suc k)
  obtain r s1 where e: "exchange E ctx m url b h s = (r, s1)" by fastforce
  have "grown sent0 (rotateToken E s1)" using grown_exchange [OF e Suc.prems(3)] by simp
  with Suc.IH Suc.prems(2) have
    "doRequestRaw_loop E ctx m url b h k (rotateToken E s1) = (Ok u, s') \<Longrightarrow> has_sent sent0 q s'" by blast
  with Suc.prems e exchange_sends [of E ctx m url b h s _ s1 q sent0] show ?case
    by (auto simp: Let_def split: outcome.splits option.splits prod.splits if_splits)
qed simp

lemma makeHeaders_sent: "makeHeaders E ctx s = (r, s') \<Longrightarrow> ns_Sent (net s') = ns_Sent (net s)"
  using silent_makeHeaders [of s E ctx] by (simp add: silent_def)

lemma attempts_send:
  "jsonAttempt E ctx m path b sticky wh (cap, s) = (Ok u, cap', s') \<Longrightarrow> sql_of b = Some q \<Longrightarrow> grown sent0 s
    \<Longrightarrow> has_sent sent0 q s'"
  "arrowAttempt E ctx m path b sticky wh (cap, s) = (Ok u, cap', s') \<Longrightarrow> sql_of b = Some q \<Longrightarrow> grown sent0 s
    \<Longrightarrow> has_sent sent0 q s'"
  by (auto simp: jsonAttempt_def arrowAttempt_def doRequest_def doRequestRaw_def Let_def
      split: prod.splits outcome.splits
      dest!: makeHeaders_sent intro: doRequest_loop_sends doRequestRaw_loop_sends)

text \<open>If the retried function succeeds, its last run did.\<close>

lemma retry_spec_Ok:
  "retry_spec n p f cs = (Ok u, cs') \<Longrightarrow> 0 < n \<Longrightarrow> J cs \<Longrightarrow> (\<And>cs. J cs \<Longrightarrow> J (snd (f cs)))
    \<Longrightarrow> \<exists>cs0. J cs0 \<and> f cs0 = (Ok u, cs')"
proof (induction n arbitrary: cs)
  case (Suc n)
  obtain r cs1 where e: "f cs = (r, cs1)" by fastforce
  have "J cs1" using Suc.prems(3,4) e by (metis snd_conv)
  with Suc.IH [of cs1] Suc.prems e show ?case by (auto split: outcome.splits if_splits)
qed simp

lemma start_attempt_sends:
  assumes "retry_documented (e_retry E)" "sql_of b = Some q" "grown sent0 s"
    and "doRetry E t (if arrow then arrowAttempt E ctx m ''/v1/query'' b' sticky wh
           else jsonAttempt E ctx m ''/v1/query'' b sticky wh) (cap, s) = (Ok u, cap', s')"
    and "sql_of b' = Some q"
  shows "has_sent sent0 q s'"
proof -
  let ?f = "if arrow then arrowAttempt E ctx m ''/v1/query'' b' sticky wh
    else jsonAttempt E ctx m ''/v1/query'' b sticky wh"
  have "retry_spec (attempts t) (retryIf t) ?f (cap, s) = (Ok u, cap', s')"
    using assms(4) by (simp add: doRetry_spec [OF assms(1)])
  moreover have "grown sent0 (snd (snd (?f cs)))" if "grown sent0 (snd cs)" for cs
    using that log.jsonAttempt_inv log.arrowAttempt_inv by (cases cs) simp
  moreover have "0 < attempts t" by (simp add: attempts_def)
  ultimately obtain cs0 where "grown sent0 (snd cs0)" "?f cs0 = (Ok u, cap', s')"
    using retry_spec_Ok [of "attempts t" "retryIf t" ?f "(cap, s)" u "(cap', s')" "\<lambda>cs. grown sent0 (snd cs)"] assms(3)
    by auto
  with attempts_send [where s = "snd cs0" and cap = "fst cs0"] assms(2,5) show ?thesis
    by (auto split: if_splits)
qed

lemma queryOutcome_Ok: "queryOutcome what resp res = Ok r \<Longrightarrow> \<exists>u. res = Ok u"
  by (auto simp: queryOutcome_def split: option.splits outcome.splits prod.splits)

lemma finalize_sent: "ns_Sent (net (snd (finalizeQueryResponse E resp h res s))) = ns_Sent (net s)"
  by (auto simp: finalizeQueryResponse_def upd_client_def trackStats_def split: outcome.split option.split)

lemma finalize_Ok: "finalizeQueryResponse E resp h res s = (Ok r, s') \<Longrightarrow> \<exists>u. res = Ok u"
  by (auto simp: finalizeQueryResponse_def dest: queryOutcome_Ok split: outcome.splits)

lemma startQuery_sends:
  assumes "retry_documented (e_retry E)" "startQuery E ctx q transport s = (Ok r, s')" "grown sent0 s"
  shows "has_sent sent0 q s'"
proof -
  let ?request = "queryRequest (cl s) q"
  let ?s1 = "upd_client (\<lambda>c. c\<lparr>QuerySeq := QuerySeq c + 1\<rparr>) s"
  let ?s2 = "if inActiveTransaction (cl ?s1) then ?s1 else newRouteHint E ?s1"
  let ?arrow = "chooseArrow (cl ?s2) transport"
  have g: "grown sent0 ?s2" using assms(3) silent_steps(1) [of ?s1 E] by (auto simp: silent_def upd_client_def)
  obtain res cap' s3 where d: "doRetry E QueryRequest
      (if ?arrow then arrowAttempt E ctx ''POST'' ''/v1/query''
          (JsonBody (query_request_json (?request\<lparr>rq_ArrowResultVersionMax := Some httpArrowResultVersionMax\<rparr>)))
          NeedSticky True
       else jsonAttempt E ctx ''POST'' ''/v1/query'' (JsonBody (query_request_json ?request)) NeedSticky True)
      (if ?arrow then no_capture else no_capture\<lparr>cp_Resp := Some empty_response\<rparr>, ?s2) = (res, cap', s3)"
    using prod_cases3 by blast
  have f: "finalizeQueryResponse E (cp_Resp cap') (cp_Headers cap') res s3 = (Ok r, s')"
    using assms(2) d unfolding startQuery_def startQueryRequestWithTransport_def Let_def by simp
  then obtain u where u: "res = Ok u" using finalize_Ok by blast
  have "has_sent sent0 q s3"
    by (rule start_attempt_sends [OF assms(1) _ g d [unfolded u]]) (simp_all add: queryRequest_def)
  then show ?thesis by (rule has_sent_net) (use f finalize_sent in \<open>metis snd_conv\<close>)
qed

lemma StartQuery_sends:
  assumes "retry_documented (e_retry E)" "StartQuery E ctx q s = (Ok r, s')" "grown sent0 s"
  shows "has_sent sent0 q s'"
proof -
  obtain s1 where "initializeConnectionInfo E ctx s = (Ok (), s1)" "startQuery E ctx q TransportAuto s1 = (Ok r, s')"
    using assms(2) by (auto simp: StartQuery_def st_bind_def split: prod.splits outcome.splits)
  with log.initializeConnectionInfo_inv [OF assms(3), of E ctx] startQuery_sends [OF assms(1)] show ?thesis by simp
qed

lemma QuerySync_sends:
  assumes "retry_documented (e_retry E)" "QuerySync E ctx q s = (Ok r, s')" "grown sent0 s"
  shows "has_sent sent0 q s'"
proof -
  obtain s1 s2 x transport mk where s:
    "initializeConnectionInfo E ctx s = (Ok (), s1)" "startQuery E ctx q transport s1 = (Ok x, s2)"
    "finishQuery E ctx transport mk x s2 = (Ok r, s')"
    using assms(2)
    by (auto simp: QuerySync_def querySyncWithTransport_def st_bind_def Let_def split: prod.splits outcome.splits)
  have "has_sent sent0 q s2"
    using log.initializeConnectionInfo_inv [OF assms(3), of E ctx] startQuery_sends [OF assms(1) s(2)] s(1) by simp
  moreover have "prefix (ns_Sent (net s2)) (ns_Sent (net s'))"
    using log.finishQuery_inv [OF assms(1), of "ns_Sent (net s2)" s2 ctx transport mk x] s(3) by simp
  ultimately show ?thesis by (rule has_sent_later)
qed

subsection \<open>The contract of a call\<close>

text \<open>What a call that was to run the outcome \<open>built\<close> of the interpolation did on the wire: after a failed
  interpolation nothing at all; otherwise it sent no statement but the text, and did send it if the call
  succeeded.\<close>

definition runs_only :: "string go \<Rightarrow> conn \<Rightarrow> 'r go \<Rightarrow> conn \<Rightarrow> bool" where
  "runs_only built dc r dc' \<longleftrightarrow>
     (case built of
        Ok sql \<Rightarrow>
          (\<exists>rs. ns_Sent (net (dc_st dc')) = ns_Sent (net (dc_st dc)) @ rs
             \<and> set (statements rs) \<subseteq> {sql} \<and> (is_ok r \<longrightarrow> statements rs \<noteq> []))
      | _ \<Rightarrow> dc_st dc' = dc_st dc \<and> \<not> is_ok r)"

lemma runs_onlyI:
  assumes "built = Ok sql" "only_sends (ns_Sent (net (dc_st dc))) sql (dc_st dc')"
    and "is_ok r \<Longrightarrow> has_sent (ns_Sent (net (dc_st dc))) sql (dc_st dc')"
  shows "runs_only built dc r dc'"
  using assms by (fastforce simp: runs_only_def only_sends_def has_sent_def)

lemma only_sends_start: "only_sends (ns_Sent (net s)) q s"
  by (simp add: only_sends_def)

lemma check_st: "checkQueryID E ctx dc = (ctx', dc') \<Longrightarrow> dc_st dc' = dc_st dc"
  by (auto simp: checkQueryID_def split: option.splits)

lemma rest_sends:
  assumes "with_rest f dc = (Ok r, dc')" "\<And>s s' r. f s = (Ok r, s') \<Longrightarrow> grown sent0 s \<Longrightarrow> has_sent sent0 q s'"
    and "grown sent0 (dc_st dc)"
  shows "has_sent sent0 q (dc_st dc')"
  using assms by (auto simp: with_rest_def split: if_splits prod.splits)

lemma exec_runs_only:
  assumes "retry_documented (e_retry E)" "exec E F ctx q phs args dc = (r, dc')"
  shows "runs_only (buildQuery F q args phs) dc r dc'"
proof -
  obtain ctx1 dc1 where c: "checkQueryID E ctx dc = (ctx1, dc1)" by fastforce
  show ?thesis
  proof (cases "buildQuery F q args phs")
    case (Ok sql)
    have "only_sends (ns_Sent (net (dc_st dc))) sql (dc_st dc')"
      by (rule conn_statement.exec_inv [OF assms(1,2)]) (simp_all add: only_sends_start Ok)
    moreover have "has_sent (ns_Sent (net (dc_st dc))) sql (dc_st dc')" if ok: "is_ok r"
    proof -
      obtain resp where "with_rest (QuerySync E ctx1 sql) dc1 = (Ok resp, dc')"
        using assms(2) c Ok ok by (auto simp: exec_def is_ok_iff split: outcome.splits prod.splits)
      then show ?thesis
        by (rule rest_sends) (use check_st [OF c] QuerySync_sends [OF assms(1)] in auto)
    qed
    ultimately show ?thesis by (rule runs_onlyI [OF Ok])
  qed (use assms(2) c check_st [OF c] in \<open>auto simp: exec_def runs_only_def\<close>)
qed

lemma query_runs_only:
  assumes "retry_documented (e_retry E)" "query E F ctx q phs args dc = (r, dc')"
  shows "runs_only (buildQuery F q args phs) dc r dc'"
proof -
  obtain ctx1 dc1 where c: "checkQueryID E ctx dc = (ctx1, dc1)" by fastforce
  show ?thesis
  proof (cases "buildQuery F q args phs")
    case (Ok sql)
    have "only_sends (ns_Sent (net (dc_st dc))) sql (dc_st dc')"
      by (rule conn_statement.query_inv [OF assms(1,2)]) (simp_all add: only_sends_start Ok)
    moreover have "has_sent (ns_Sent (net (dc_st dc))) sql (dc_st dc')" if ok: "is_ok r"
    proof -
      obtain r0 dc2 p where s: "with_rest (StartQuery E ctx1 sql) dc1 = (Ok (Some r0), dc2)"
        "waitForData E ctx1 r0 dc2 = (Ok p, dc')"
        using assms(2) c Ok ok
        by (auto simp: query_def is_ok_iff split: outcome.splits prod.splits option.splits)
      have "has_sent (ns_Sent (net (dc_st dc))) sql (dc_st dc2)"
        by (rule rest_sends [OF s(1)]) (use check_st [OF c] StartQuery_sends [OF assms(1)] in auto)
      moreover have "prefix (ns_Sent (net (dc_st dc2))) (ns_Sent (net (dc_st dc')))"
        using conn_log.waitForData_inv [OF assms(1) _ s(2)] by simp
      ultimately show ?thesis by (rule has_sent_later)
    qed
    ultimately show ?thesis by (rule runs_onlyI [OF Ok])
  qed (use assms(2) c check_st [OF c] in \<open>auto simp: query_def runs_only_def\<close>)
qed

text \<open>C5: (statements on the wire) \<open>exec\<close> and \<open>query\<close> run what the interpolation made of their
  arguments and nothing else. If it fails, no request is sent and the call does not succeed.
  Otherwise, of all the requests that the call sends (login, retries, rounds of authentication, redirects,
  pages, kill and final) those that carry a statement carry the interpolated text, and if the call
  succeeds at least one did.\<close>

theorem statements_on_the_wire:
  assumes "retry_documented (e_retry E)"
  shows "(case exec E F ctx q phs args dc of (r, dc') \<Rightarrow> runs_only (buildQuery F q args phs) dc r dc')
    \<and> (case query E F ctx q phs args dc of (r, dc') \<Rightarrow> runs_only (buildQuery F q args phs) dc r dc')"
  using exec_runs_only [OF assms] query_runs_only [OF assms] by (simp split: prod.split)

text \<open>A server that answers every request with an empty document, and a statement with an argument.\<close>

definition wire_server :: env where
  "wire_server = demo\<lparr>e_net := (\<lambda>_. NetReply 200 [(''Content-Type'', ''application/json'')] [] (Ok ''{}'')),
     e_json := (\<lambda>_. Some (JObj []))\<rparr>"

definition wire_conn :: conn where
  "wire_conn = new_conn wire_server (NewConfig\<lparr>cfg_User := ''u'', cfg_Password := ''p'', cfg_LoginEnabled := False\<rparr>)
     \<lparr>w_sent = [], w_loads = 0, w_draws = 0, w_stats = [], w_uuids = 0\<rparr>"

definition wire_run :: "sql_result go \<times> conn" where
  "wire_run = exec wire_server demo_env Background ''select ? , 1'' None [GString demo_evil] wire_conn"

lemma statements_on_the_wire_witness:
  "(case wire_run of (r, dc') \<Rightarrow>
      runs_only (buildQuery demo_env ''select ? , 1'' [GString demo_evil] None) wire_conn r dc'
      \<and> is_ok r \<and> map Ok (statements (ns_Sent (net (dc_st dc')))) = [buildQuery demo_env ''select ? , 1'' [GString demo_evil] None])"
proof -
  have "case wire_run of (r, dc') \<Rightarrow>
      is_ok r \<and> map Ok (statements (ns_Sent (net (dc_st dc')))) = [buildQuery demo_env ''select ? , 1'' [GString demo_evil] None]"
    by code_simp
  moreover have "retry_documented (e_retry wire_server)" by (simp add: wire_server_def)
  ultimately show ?thesis
    using statements_on_the_wire [where E = wire_server and F = demo_env and ctx = Background
        and q = "''select ? , 1''" and phs = None and args = "[GString demo_evil]" and dc = wire_conn]
    by (auto simp: wire_run_def split: prod.splits)
qed

end
